(* ===== verification/Prelude.thy ===== *)
theory Prelude
  imports Main "HOL-Library.Word" "HOL-Library.List_Lexorder" "HOL-Library.Char_ord"
begin

text \<open>
  What the components share: Go's error values and outcomes, the sequencing combinators of
  the effectful programs, and the lemma collections the component proofs draw on.

  A Go function that returns \<open>(T, error)\<close> is a program \<open>'s \<Rightarrow> 'a outcome \<times> 's\<close> over
  some state: \<open>Ret\<close> is a return with a nil error, \<open>Err\<close> a return with an error, and \<open>Panic\<close>
  a run-time panic (a nil pointer read, an index out of range), which no code of the
  repository recovers from.
\<close>

named_theorems prog_simps \<open>unfolding of the program combinators\<close>
named_theorems emits_intros \<open>how the writes of a program follow from those of its parts\<close>

subsection \<open>Errors and outcomes\<close>

text \<open>
  \<open>StatusErr\<close> is an API \<open>StatusError\<close> with its reason, \<open>NoKindMatchErr\<close> is
  \<open>meta.NoKindMatchError\<close>, \<open>Plain\<close> an \<open>errors.New\<close>/\<open>errors.Errorf\<close>, and \<open>Wrapped\<close> is
  \<open>errors.Wrap\<close>; \<open>errors.WithStack\<close> adds only a stack trace and is left out.
\<close>

datatype reason = NotFound | Conflict | OtherReason string

datatype gerr =
    StatusErr reason
  | NoKindMatchErr
  | Plain string
  | Wrapped string gerr

datatype panic = NilDeref | IndexOutOfRange | Raised gerr  \<comment> \<open>\<open>panic(err)\<close>\<close>

datatype 'a outcome = Ret 'a | Err gerr | Panic panic

text \<open>\<open>errors.Cause\<close> and the two tests the code makes on it.\<close>

fun Cause :: "gerr \<Rightarrow> gerr" where
  "Cause (Wrapped msg e) = Cause e"
| "Cause e = e"

definition IsNotFound :: "gerr \<Rightarrow> bool" where
  "IsNotFound e \<longleftrightarrow> Cause e = StatusErr NotFound"

definition IsConflict :: "gerr \<Rightarrow> bool" where
  "IsConflict e \<longleftrightarrow> Cause e = StatusErr Conflict"

definition IsNoKindMatch :: "gerr \<Rightarrow> bool" where
  "IsNoKindMatch e \<longleftrightarrow> Cause e = NoKindMatchErr"

lemma Cause_idem [simp]: "Cause (Cause e) = Cause e"
  by (induction e) simp_all

lemma IsConflict_Wrapped [simp]: "IsConflict (Wrapped m e) = IsConflict e"
  by (simp add: IsConflict_def)

lemma IsNotFound_simps [simp]:
  "IsNotFound (StatusErr NotFound)"
  "\<not> IsNotFound (StatusErr Conflict)"
  "\<not> IsNotFound (StatusErr (OtherReason r))"
  "\<not> IsNotFound NoKindMatchErr"
  "\<not> IsNotFound (Plain m)"
  "IsNotFound (Wrapped m e) = IsNotFound e"
  by (simp_all add: IsNotFound_def)

lemma IsConflict_simps [simp]:
  "IsConflict (StatusErr Conflict)"
  "\<not> IsConflict (StatusErr NotFound)"
  "\<not> IsConflict (Plain m)"
  by (simp_all add: IsConflict_def)

subsection \<open>Pure computations that may fail\<close>

fun obind :: "'a outcome \<Rightarrow> ('a \<Rightarrow> 'b outcome) \<Rightarrow> 'b outcome" where
  "obind (Ret a) f = f a"
| "obind (Err e) f = Err e"
| "obind (Panic p) f = Panic p"

text \<open>Reading through a pointer: nil panics.\<close>

fun oderef :: "'a option \<Rightarrow> 'a outcome" where
  "oderef None = Panic NilDeref"
| "oderef (Some a) = Ret a"

lemma obind_eq_Ret: "obind m f = Ret b \<longleftrightarrow> (\<exists>a. m = Ret a \<and> f a = Ret b)"
  by (cases m) simp_all

lemma obind_eq_Panic:
  "obind m f = Panic p \<longleftrightarrow> m = Panic p \<or> (\<exists>a. m = Ret a \<and> f a = Panic p)"
  by (cases m) simp_all

lemma oderef_eq_Ret [simp]: "oderef x = Ret a \<longleftrightarrow> x = Some a"
  by (cases x) simp_all

lemma oderef_eq_Panic [simp]: "oderef x = Panic p \<longleftrightarrow> x = None \<and> p = NilDeref"
  by (cases x) auto

lemma oderef_neq_Err [simp]: "oderef x \<noteq> Err e"
  by (cases x) simp_all

subsection \<open>Programs with a state\<close>

type_synonym ('s, 'a) prog = "'s \<Rightarrow> 'a outcome \<times> 's"

definition ret :: "'a \<Rightarrow> ('s, 'a) prog" where
  "ret a = (\<lambda>s. (Ret a, s))"

definition fail :: "gerr \<Rightarrow> ('s, 'a) prog" where
  "fail e = (\<lambda>s. (Err e, s))"

definition lift :: "'a outcome \<Rightarrow> ('s, 'a) prog" where
  "lift r = (\<lambda>s. (r, s))"

text \<open>
  \<open>bnd m f\<close> runs \<open>m\<close> and returns early with its error, Go's
  \<open>x, err := m(); if err != nil { return err }\<close>; \<open>attempt m f\<close> hands the error to the code
  that follows, for the calls whose error is examined.
\<close>

definition bnd :: "('s, 'a) prog \<Rightarrow> ('a \<Rightarrow> ('s, 'b) prog) \<Rightarrow> ('s, 'b) prog" where
  "bnd m f = (\<lambda>s. case m s of
      (Ret a, s') \<Rightarrow> f a s'
    | (Err e, s') \<Rightarrow> (Err e, s')
    | (Panic p, s') \<Rightarrow> (Panic p, s'))"

definition attempt :: "('s, 'a) prog \<Rightarrow> (gerr + 'a \<Rightarrow> ('s, 'b) prog) \<Rightarrow> ('s, 'b) prog" where
  "attempt m f = (\<lambda>s. case m s of
      (Ret a, s') \<Rightarrow> f (Inr a) s'
    | (Err e, s') \<Rightarrow> f (Inl e) s'
    | (Panic p, s') \<Rightarrow> (Panic p, s'))"

definition seq :: "('s, 'a) prog \<Rightarrow> ('s, 'b) prog \<Rightarrow> ('s, 'b) prog" where
  "seq m k = bnd m (\<lambda>_. k)"

text \<open>\<open>errors.Wrap(err, msg)\<close> on the error of a call.\<close>

definition wrap :: "string \<Rightarrow> ('s, 'a) prog \<Rightarrow> ('s, 'a) prog" where
  "wrap msg m = attempt m (\<lambda>r. case r of Inl e \<Rightarrow> fail (Wrapped msg e) | Inr a \<Rightarrow> ret a)"

text \<open>A \<open>for\<close> loop over a slice whose body may return early with an error.\<close>

fun for_each :: "'x list \<Rightarrow> ('x \<Rightarrow> ('s, unit) prog) \<Rightarrow> ('s, unit) prog" where
  "for_each [] f = ret ()"
| "for_each (x # xs) f = seq (f x) (for_each xs f)"

lemma ret_apply [simp, prog_simps]: "ret a s = (Ret a, s)"
  by (simp add: ret_def)

lemma fail_apply [simp, prog_simps]: "fail e s = (Err e, s)"
  by (simp add: fail_def)

lemma lift_apply [simp, prog_simps]: "lift r s = (r, s)"
  by (simp add: lift_def)

lemma bnd_apply [prog_simps]:
  "bnd m f s = (case m s of (Ret a, s') \<Rightarrow> f a s' | (Err e, s') \<Rightarrow> (Err e, s') | (Panic p, s') \<Rightarrow> (Panic p, s'))"
  by (simp add: bnd_def)

lemma attempt_apply [prog_simps]:
  "attempt m f s = (case m s of (Ret a, s') \<Rightarrow> f (Inr a) s' | (Err e, s') \<Rightarrow> f (Inl e) s' | (Panic p, s') \<Rightarrow> (Panic p, s'))"
  by (simp add: attempt_def)

lemma bnd_ret_left [simp]: "bnd (ret a) f = f a"
  by (simp add: bnd_def fun_eq_iff)

lemma bnd_lift_Ret [simp]: "bnd (lift (Ret a)) f = f a"
  by (simp add: bnd_def fun_eq_iff)

lemma bnd_ret_right [simp]: "bnd m ret = m"
  by (auto simp: bnd_def fun_eq_iff split: prod.split outcome.split)

lemma bnd_assoc: "bnd (bnd m f) g = bnd m (\<lambda>a. bnd (f a) g)"
  by (auto simp: bnd_def fun_eq_iff split: prod.split outcome.split)

lemma wrap_Ret: "fst (m s) = Ret a \<Longrightarrow> wrap msg m s = m s"
  by (cases "m s") (simp add: wrap_def attempt_def)

lemma wrap_Err: "m s = (Err e, s') \<Longrightarrow> wrap msg m s = (Err (Wrapped msg e), s')"
  by (simp add: wrap_def attempt_def)

lemma wrap_apply [prog_simps]:
  "wrap msg m s = (case m s of (Ret a, s') \<Rightarrow> (Ret a, s') | (Err e, s') \<Rightarrow> (Err (Wrapped msg e), s')
     | (Panic p, s') \<Rightarrow> (Panic p, s'))"
  by (simp add: wrap_def attempt_def split: prod.split outcome.split)

lemma seq_apply [prog_simps]:
  "seq m k s = (case m s of (Ret a, s') \<Rightarrow> k s' | (Err e, s') \<Rightarrow> (Err e, s') | (Panic p, s') \<Rightarrow> (Panic p, s'))"
  by (simp add: seq_def bnd_def)

lemma bnd_Ret_iff:
  "bnd m f s = (Ret b, s'') \<longleftrightarrow> (\<exists>a s'. m s = (Ret a, s') \<and> f a s' = (Ret b, s''))"
  by (cases "m s") (auto simp: bnd_def split: outcome.splits)

lemma seq_Ret_iff:
  "seq m k s = (Ret b, s'') \<longleftrightarrow> (\<exists>a s'. m s = (Ret a, s') \<and> k s' = (Ret b, s''))"
  by (simp add: seq_def bnd_Ret_iff)

lemma wrap_Ret_iff: "wrap msg m s = (Ret a, s') \<longleftrightarrow> m s = (Ret a, s')"
  by (cases "m s") (auto simp: wrap_def attempt_def split: outcome.splits)

lemmas prog_Ret_iff = bnd_Ret_iff seq_Ret_iff wrap_Ret_iff

end
