(* ===== verification/GoStrings.thy ===== *)
theory GoStrings
  imports Prelude "HOL-Library.Sublist"
begin

text \<open>
  The functions of Go's \<open>strings\<close> and \<open>fmt\<close> packages the source uses, on byte strings
  (\<open>string\<close> is a list of 8-bit characters, as a Go string is a sequence of bytes), and the
  string maps \<open>map[string]string\<close>. Reading a key a Go map lacks gives the empty string;
  a nil map and an empty map hold the same keys and are one value here.
\<close>

type_synonym strmap = "string \<Rightarrow> string option"

definition lookup :: "strmap \<Rightarrow> string \<Rightarrow> string" where
  "lookup m k = (case m k of None \<Rightarrow> [] | Some v \<Rightarrow> v)"

lemma lookup_simps [simp]:
  "lookup Map.empty k = []"
  "lookup (m(k \<mapsto> v)) k = v"
  "k' \<noteq> k \<Longrightarrow> lookup (m(k \<mapsto> v)) k' = lookup m k'"
  "lookup (m(k := None)) k = []"
  by (simp_all add: lookup_def)

text \<open>\<open>if s == "" { s = d }\<close> and \<open>if p == nil { p = &d }\<close>.\<close>

definition if_empty :: "string \<Rightarrow> string \<Rightarrow> string" where
  "if_empty s d = (if s = [] then d else s)"

definition if_nil :: "'a option \<Rightarrow> 'a \<Rightarrow> 'a" where
  "if_nil p d = (case p of None \<Rightarrow> d | Some x \<Rightarrow> x)"

lemma if_empty_idem [simp]: "d \<noteq> [] \<Longrightarrow> if_empty (if_empty s d) d = if_empty s d"
  by (simp add: if_empty_def)

lemma if_empty_neq_Nil [simp]: "d \<noteq> [] \<Longrightarrow> if_empty s d \<noteq> []"
  by (simp add: if_empty_def)

lemma if_nil_simps [simp]: "if_nil None d = d" "if_nil (Some x) d = x"
  by (simp_all add: if_nil_def)

subsection \<open>Prefixes, suffixes, substrings\<close>

definition HasPrefix :: "string \<Rightarrow> string \<Rightarrow> bool" where
  "HasPrefix s p = prefix p s"

definition HasSuffix :: "string \<Rightarrow> string \<Rightarrow> bool" where
  "HasSuffix s p = suffix p s"

definition TrimSuffix :: "string \<Rightarrow> string \<Rightarrow> string" where
  "TrimSuffix s p = (if suffix p s then take (length s - length p) s else s)"

definition Contains :: "string \<Rightarrow> string \<Rightarrow> bool" where
  "Contains s p = sublist p s"

lemma HasPrefix_append [simp]: "HasPrefix (p @ s) p"
  by (simp add: HasPrefix_def)

lemma HasSuffix_append [simp]: "HasSuffix (s @ p) p"
  by (simp add: HasSuffix_def suffix_def)

lemma TrimSuffix_append [simp]: "TrimSuffix (s @ p) p = s"
  by (simp add: TrimSuffix_def suffix_def)

lemma HasSuffix_iff: "HasSuffix s p \<longleftrightarrow> (\<exists>b. s = b @ p)"
  by (auto simp: HasSuffix_def suffix_def)

subsection \<open>Split and Join\<close>

text \<open>\<open>strings.Split\<close> by a separator of one byte: never the empty list.\<close>

fun Split :: "string \<Rightarrow> char \<Rightarrow> string list" where
  "Split [] c = [[]]"
| "Split (x # xs) c =
     (if x = c then [] # Split xs c
      else case Split xs c of [] \<Rightarrow> [[x]] | w # ws \<Rightarrow> (x # w) # ws)"

fun Join :: "string list \<Rightarrow> string \<Rightarrow> string" where
  "Join [] sep = []"
| "Join [w] sep = w"
| "Join (w # ws) sep = w @ sep @ Join ws sep"

lemma Split_neq_Nil [simp]: "Split s c \<noteq> []"
  by (induction s) (auto split: list.splits)

lemma Split_no_sep: "c \<notin> set s \<Longrightarrow> Split s c = [s]"
  by (induction s) auto

lemma Split_append_sep: "c \<notin> set a \<Longrightarrow> Split (a @ c # b) c = a # Split b c"
  by (induction a) auto

lemma Split_parts: "w \<in> set (Split s c) \<Longrightarrow> c \<notin> set w"
  by (induction s arbitrary: w) (auto split: if_splits list.splits)

lemma Join_Cons: "ws \<noteq> [] \<Longrightarrow> Join (w # ws) sep = w @ sep @ Join ws sep"
  by (cases ws) simp_all

lemma Join_Split: "Join (Split s c) [c] = s"
proof (induction s)
  case (Cons x xs)
  then show ?case
    by (cases "Split xs c"; cases "tl (Split xs c)") (auto simp: Join_Cons)
qed simp

subsection \<open>Fields\<close>

text \<open>\<open>unicode.IsSpace\<close> on ASCII bytes, and \<open>strings.Fields\<close>.\<close>

definition IsSpace :: "char \<Rightarrow> bool" where
  "IsSpace c \<longleftrightarrow> c = CHR 0x20 \<or> (9 \<le> (of_char c :: nat) \<and> (of_char c :: nat) \<le> 13)"

fun fields_aux :: "string \<Rightarrow> string \<Rightarrow> string list" where
  "fields_aux w [] = (if w = [] then [] else [w])"
| "fields_aux w (x # xs) =
     (if IsSpace x then (if w = [] then fields_aux [] xs else w # fields_aux [] xs)
      else fields_aux (w @ [x]) xs)"

definition Fields :: "string \<Rightarrow> string list" where
  "Fields s = fields_aux [] s"

lemma fields_aux_word:
  "list_all (\<lambda>c. \<not> IsSpace c) v \<Longrightarrow> fields_aux w (v @ xs) = fields_aux (w @ v) xs"
  by (induction v arbitrary: w) auto

definition space_free :: "string \<Rightarrow> bool" where
  "space_free w \<longleftrightarrow> list_all (\<lambda>c. \<not> IsSpace c) w"

lemma space_free_simps [simp]:
  "space_free []"
  "space_free (c # w) \<longleftrightarrow> \<not> IsSpace c \<and> space_free w"
  "space_free (v @ w) \<longleftrightarrow> space_free v \<and> space_free w"
  by (simp_all add: space_free_def)

lemma fields_aux_words:
  "space_free w \<Longrightarrow> list_all (\<lambda>v. v \<noteq> [] \<and> space_free v) (fields_aux w s)"
  by (induction w s rule: fields_aux.induct) simp_all

lemma Fields_words: "w \<in> set (Fields s) \<Longrightarrow> w \<noteq> [] \<and> space_free w"
  using fields_aux_words [of "[]" s] by (simp add: Fields_def list_all_iff)

lemma Fields_Cons:
  assumes "w \<noteq> []" "space_free w" "IsSpace d"
  shows "Fields (w @ d # s) = w # Fields s"
  using assms fields_aux_word [of w "[]" "d # s"] by (simp add: Fields_def space_free_def)

lemma Fields_single:
  assumes "w \<noteq> []" "space_free w"
  shows "Fields w = [w]"
  using assms fields_aux_word [of w "[]" "[]"] by (simp add: Fields_def space_free_def)

lemma Fields_leading_space: "IsSpace d \<Longrightarrow> Fields (d # s) = Fields s"
  by (simp add: Fields_def)

lemma Fields_Nil [simp]: "Fields [] = []"
  by (simp add: Fields_def)

subsection \<open>Decimal numbers\<close>

text \<open>\<open>fmt\<close>'s \<open>%d\<close>.\<close>

definition digit :: "nat \<Rightarrow> char" where
  "digit n = char_of (48 + n)"

fun show_nat :: "nat \<Rightarrow> string" where
  "show_nat n = (if n < 10 then [digit n] else show_nat (n div 10) @ [digit (n mod 10)])"

declare show_nat.simps [simp del]

definition show_int :: "int \<Rightarrow> string" where
  "show_int i = (if i < 0 then CHR ''-'' # show_nat (nat (- i)) else show_nat (nat i))"

lemma of_char_digit: "n < 10 \<Longrightarrow> (of_char (digit n) :: nat) = 48 + n"
  by (simp add: digit_def)

lemma digit_neq_minus:
  assumes n: "n < 10"
  shows "digit n \<noteq> CHR ''-''"
proof
  assume "digit n = CHR ''-''"
  then have "(of_char (CHR ''-'') :: nat) = 48 + n" using of_char_digit [OF n] by simp
  then show False by simp
qed

lemma show_nat_no_minus: "CHR ''-'' \<notin> set (show_nat n)"
proof (induction n rule: show_nat.induct)
  case (1 n)
  then show ?case
    using digit_neq_minus [of n] digit_neq_minus [of "n mod 10"]
    by (subst show_nat.simps) auto
qed

lemma show_int_no_minus: "0 \<le> i \<Longrightarrow> CHR ''-'' \<notin> set (show_int i)"
  by (simp add: show_int_def show_nat_no_minus)

subsection \<open>Quoting (\<open>fmt\<close>'s \<open>%q\<close>) for ASCII text\<close>

definition hex_digit :: "nat \<Rightarrow> char" where
  "hex_digit n = ''0123456789abcdef'' ! n"

definition quote_char :: "char \<Rightarrow> string" where
  "quote_char c =
     (let n = of_char c :: nat in
      if c = CHR 0x22 \<or> c = CHR 0x5C then [CHR 0x5C, c]
      else if 32 \<le> n \<and> n < 127 then [c]
      else if n = 7 then [CHR 0x5C, CHR ''a''] else if n = 8 then [CHR 0x5C, CHR ''b'']
      else if n = 9 then [CHR 0x5C, CHR ''t''] else if n = 10 then [CHR 0x5C, CHR ''n'']
      else if n = 11 then [CHR 0x5C, CHR ''v''] else if n = 12 then [CHR 0x5C, CHR ''f'']
      else if n = 13 then [CHR 0x5C, CHR ''r'']
      else [CHR 0x5C, CHR ''x'', hex_digit (n div 16), hex_digit (n mod 16)])"

definition go_quoted :: "string \<Rightarrow> string" where
  "go_quoted s = [CHR 0x22] @ concat (map quote_char s) @ [CHR 0x22]"

end
