(* ===== verification/GoTime.thy ===== *)
theory GoTime
  imports GoStrings
begin

text \<open>
  \<open>time.ParseDuration\<close>, which the defaulting of the scrape interval relies on. A duration is a
  number of nanoseconds; \<open>None\<close> is the error return. The library computes the fractional part of
  a term in floating point; here it is the exact quotient rounded down.
\<close>

definition is_digit :: "char \<Rightarrow> bool" where
  "is_digit c \<longleftrightarrow> 48 \<le> (of_char c :: nat) \<and> (of_char c :: nat) \<le> 57"

definition digits_val :: "string \<Rightarrow> nat" where
  "digits_val ds = foldl (\<lambda>a c. 10 * a + ((of_char c :: nat) - 48)) 0 ds"

definition unitMap :: "string \<Rightarrow> nat option" where
  "unitMap u =
     (if u = ''ns'' then Some 1
      else if u = ''us'' \<or> u = [CHR 0xC2, CHR 0xB5, CHR ''s''] \<or> u = [CHR 0xCE, CHR 0xBC, CHR ''s''] then Some 1000
      else if u = ''ms'' then Some 1000000
      else if u = ''s'' then Some 1000000000
      else if u = ''m'' then Some 60000000000
      else if u = ''h'' then Some 3600000000000
      else None)"

definition unit_char :: "char \<Rightarrow> bool" where
  "unit_char c \<longleftrightarrow> \<not> (c = CHR ''.'' \<or> is_digit c)"

text \<open>
  One term: the digits before the point, the digits after it, and what follows the number (the
  unit first).
\<close>

definition after_int :: "string \<Rightarrow> string" where
  "after_int s = dropWhile is_digit s"

definition has_point :: "string \<Rightarrow> bool" where
  "has_point s \<longleftrightarrow> after_int s \<noteq> [] \<and> hd (after_int s) = CHR ''.''"

definition frac_digits :: "string \<Rightarrow> string" where
  "frac_digits s = (if has_point s then takeWhile is_digit (tl (after_int s)) else [])"

definition after_number :: "string \<Rightarrow> string" where
  "after_number s = (if has_point s then dropWhile is_digit (tl (after_int s)) else after_int s)"

definition split_term :: "string \<Rightarrow> string \<times> string \<times> string \<times> string" where
  "split_term s =
     (takeWhile is_digit s, frac_digits s,
      takeWhile unit_char (after_number s), dropWhile unit_char (after_number s))"

definition term_value :: "string \<Rightarrow> string \<Rightarrow> string \<Rightarrow> nat option" where
  "term_value pre post u =
     (let v = digits_val pre in
      if v > 2 ^ 63 \<or> (pre = [] \<and> post = []) \<or> u = [] then None
      else case unitMap u of
          None \<Rightarrow> None
        | Some unit \<Rightarrow>
            if v > 2 ^ 63 div unit then None
            else let w = v * unit + digits_val post * unit div 10 ^ length post
                 in if w > 2 ^ 63 then None else Some w)"

lemma length_after_number: "length (after_number s) \<le> length s"
proof -
  have "length (after_int s) \<le> length s"
    by (simp add: after_int_def length_dropWhile_le)
  moreover have "length (dropWhile is_digit (tl (after_int s))) \<le> length (after_int s)"
    using length_dropWhile_le [of is_digit "tl (after_int s)"] by simp
  ultimately show ?thesis by (simp add: after_number_def)
qed

lemma split_term_shorter:
  assumes a: "split_term s = (pre, post, u, rest)" and u: "u \<noteq> []"
  shows "length rest < length s"
proof -
  have "length (after_number s) = length u + length rest"
    using a by (auto simp: split_term_def simp flip: length_append)
  with u length_after_number [of s] show ?thesis by (cases u) auto
qed

lemma term_value_unit: "term_value pre post u = Some w \<Longrightarrow> u \<noteq> []"
  by (auto simp: term_value_def Let_def split: if_splits)

function parse_terms :: "nat \<Rightarrow> string \<Rightarrow> nat option" where
  "parse_terms d s =
     (if s = [] then Some d
      else case split_term s of (pre, post, u, rest) \<Rightarrow>
        (case term_value pre post u of
           None \<Rightarrow> None
         | Some w \<Rightarrow> if d + w > 2 ^ 63 then None else parse_terms (d + w) rest))"
  by pat_completeness auto
termination
  by (relation "measure (\<lambda>(d, s). length s)")
     (simp_all, metis split_term_shorter term_value_unit)

declare parse_terms.simps [simp del]

definition ParseDuration :: "string \<Rightarrow> int option" where
  "ParseDuration orig =
     (let neg = (orig \<noteq> [] \<and> hd orig = CHR ''-'');
          s = (if orig \<noteq> [] \<and> (hd orig = CHR ''-'' \<or> hd orig = CHR ''+'') then tl orig else orig)
      in if s = ''0'' then Some 0
         else if s = [] then None
         else case parse_terms 0 s of
             None \<Rightarrow> None
           | Some d \<Rightarrow> if neg then Some (- int d) else if d > 2 ^ 63 - 1 then None else Some (int d))"

lemma ParseDuration_30s: "ParseDuration ''30s'' = Some 30000000000"
  by (simp add: ParseDuration_def parse_terms.simps split_term_def after_number_def after_int_def
      has_point_def frac_digits_def is_digit_def unit_char_def term_value_def digits_val_def unitMap_def)

lemma ParseDuration_empty: "ParseDuration [] = None"
  by (simp add: ParseDuration_def)

end
