(* ===== verification/ApiTypes.thy ===== *)
theory ApiTypes
  imports GoStrings
begin

text \<open>
  The data of the program: the \<open>VarnishCluster\<close> resource (\<open>api/v1alpha1\<close>) and the fields of the
  Kubernetes objects the operator and the controller read or write. A Go pointer is an \<open>option\<close>
  with nil as \<open>None\<close>; \<open>int32\<close> and \<open>int\<close> are words of 32 and 64 bits, read as signed by \<open>sint\<close>;
  a \<open>metav1.Time\<close> is the number of nanoseconds since the Unix epoch, an \<open>int\<close>. A value of
  \<open>opaque\<close> stands for a Kubernetes structure the program copies and never looks into (affinity,
  tolerations, resource requirements and the like).
\<close>

type_synonym int32 = "32 word"
type_synonym goint = "64 word"
type_synonym time = int

datatype opaque = Opaque string

datatype int_or_string = IntPort int32 | StrPort string

text \<open>\<open>intstr.IntOrString\<close> is a struct with a type tag and both fields; the field the tag does not
  select holds its zero value.\<close>

fun IntVal :: "int_or_string \<Rightarrow> int32" where
  "IntVal (IntPort i) = i"
| "IntVal (StrPort s) = 0"

fun StrVal :: "int_or_string \<Rightarrow> string" where
  "StrVal (IntPort i) = []"
| "StrVal (StrPort s) = s"

subsection \<open>Object metadata\<close>

record owner_ref =
  or_Kind :: string
  or_Name :: string
  or_UID :: string
  or_Controller :: bool

record objmeta =
  om_Name :: string
  om_Namespace :: string
  om_UID :: string
  om_ResourceVersion :: string
  om_Generation :: int
  om_CreationTimestamp :: time
  om_DeletionTimestamp :: "time option"
  om_Labels :: strmap
  om_Annotations :: strmap
  om_OwnerReferences :: "owner_ref list"
  om_Finalizers :: "string list"

definition new_meta :: "string \<Rightarrow> string \<Rightarrow> strmap \<Rightarrow> strmap \<Rightarrow> objmeta" where
  "new_meta name namespace labels annotations =
     \<lparr>om_Name = name, om_Namespace = namespace, om_UID = [], om_ResourceVersion = [],
      om_Generation = 0, om_CreationTimestamp = 0, om_DeletionTimestamp = None,
      om_Labels = labels, om_Annotations = annotations, om_OwnerReferences = [], om_Finalizers = []\<rparr>"

lemma new_meta_simps [simp]:
  "om_Name (new_meta n ns l a) = n"
  "om_Namespace (new_meta n ns l a) = ns"
  "om_Labels (new_meta n ns l a) = l"
  "om_Annotations (new_meta n ns l a) = a"
  "om_OwnerReferences (new_meta n ns l a) = []"
  "om_Finalizers (new_meta n ns l a) = []"
  by (simp_all add: new_meta_def)

subsection \<open>Constants of the API group\<close>

definition LabelVarnishOwner :: string where "LabelVarnishOwner = ''varnish-owner''"
definition LabelVarnishComponent :: string where "LabelVarnishComponent = ''varnish-component''"
definition LabelVarnishUID :: string where "LabelVarnishUID = ''varnish-uid''"

datatype component =
    VarnishComponentVarnish | VarnishComponentCacheService | VarnishComponentNoCacheService
  | VarnishComponentClusterRole | VarnishComponentClusterRoleBinding | VarnishComponentRole
  | VarnishComponentRoleBinding | VarnishComponentVCLFileConfigMap
  | VarnishComponentPodDisruptionBudget | VarnishComponentHeadlessService
  | VarnishComponentServiceAccount | VarnishComponentValidatingWebhook
  | VarnishComponentMutatingWebhook | VarnishComponentSecret
  | VarnishComponentPrometheusServiceMonitor | VarnishComponentGrafanaDashboard

fun component_string :: "component \<Rightarrow> string" where
  "component_string VarnishComponentVarnish = ''varnish''"
| "component_string VarnishComponentCacheService = ''cache-service''"
| "component_string VarnishComponentNoCacheService = ''nocache-service''"
| "component_string VarnishComponentClusterRole = ''clusterrole''"
| "component_string VarnishComponentClusterRoleBinding = ''clusterrolebinding''"
| "component_string VarnishComponentRole = ''role''"
| "component_string VarnishComponentRoleBinding = ''rolebinding''"
| "component_string VarnishComponentVCLFileConfigMap = ''vcl-file-configmap''"
| "component_string VarnishComponentPodDisruptionBudget = ''poddisruptionbudget''"
| "component_string VarnishComponentHeadlessService = ''headless-service''"
| "component_string VarnishComponentServiceAccount = ''serviceaccount''"
| "component_string VarnishComponentValidatingWebhook = ''validating-webhook''"
| "component_string VarnishComponentMutatingWebhook = ''mutating-webhook''"
| "component_string VarnishComponentSecret = ''secret''"
| "component_string VarnishComponentPrometheusServiceMonitor = ''prometheus-servicemonitor''"
| "component_string VarnishComponentGrafanaDashboard = ''grafana-dashboard''"

definition VarnishPort :: int32 where "VarnishPort = 6081"
definition VarnishAdminPort :: int32 where "VarnishAdminPort = 6082"
definition VarnishPrometheusExporterPort :: int32 where "VarnishPrometheusExporterPort = 9131"
definition VarnishControllerMetricsPort :: int32 where "VarnishControllerMetricsPort = 8235"
definition HealthCheckPort :: int32 where "HealthCheckPort = 8234"

definition VarnishContainerName :: string where "VarnishContainerName = ''varnish''"
definition VarnishMetricsExporterName :: string where "VarnishMetricsExporterName = ''metrics-exporter''"
definition VarnishMetricsExporterImage :: string where "VarnishMetricsExporterImage = ''-metrics-exporter''"
definition VarnishControllerName :: string where "VarnishControllerName = ''varnish-controller''"
definition VarnishControllerImage :: string where "VarnishControllerImage = ''-controller''"
definition VarnishControllerMetricsPortName :: string where "VarnishControllerMetricsPortName = ''ctrl-metrics''"
definition VarnishMetricsPortName :: string where "VarnishMetricsPortName = ''metrics''"
definition VarnishPortName :: string where "VarnishPortName = ''varnish''"
definition VarnishSharedVolume :: string where "VarnishSharedVolume = ''workdir''"
definition VarnishSettingsVolume :: string where "VarnishSettingsVolume = ''settings''"
definition VarnishSecretVolume :: string where "VarnishSecretVolume = ''secret''"

definition DelayedRollingUpdateStrategy :: string where "DelayedRollingUpdateStrategy = ''DelayedRollingUpdate''"
definition OnDeleteStrategy :: string where "OnDeleteStrategy = ''OnDelete''"
definition RollingUpdateStrategy :: string where "RollingUpdateStrategy = ''RollingUpdate''"

definition ZoneBalancingDisabled :: string where "ZoneBalancingDisabled = ''disabled''"
definition ZoneBalancingAuto :: string where "ZoneBalancingAuto = ''auto''"
definition ZoneBalancingThresholds :: string where "ZoneBalancingThresholds = ''thresholds''"

subsection \<open>Parts of a pod\<close>

record container_port =
  cp_Name :: string
  cp_ContainerPort :: int32
  cp_Protocol :: string

record volume_mount =
  vm_Name :: string
  vm_MountPath :: string
  vm_ReadOnly :: bool

datatype volume_source =
    EmptyDirVolume
  | SecretVolume string "(string \<times> string \<times> int32) list" int32  \<comment> \<open>name, items (key, path, mode), default mode\<close>
  | OtherVolume opaque

record volume =
  vol_Name :: string
  vol_Source :: volume_source

datatype env_value = EnvValue string | EnvFieldRef string string  \<comment> \<open>apiVersion, fieldPath\<close>

datatype probe_handler =
    ExecProbe "string list"
  | HTTPGetProbe int_or_string string string  \<comment> \<open>port, path, scheme\<close>

record probe =
  pr_Handler :: probe_handler
  pr_TimeoutSeconds :: int32
  pr_PeriodSeconds :: int32
  pr_SuccessThreshold :: int32
  pr_FailureThreshold :: int32

record container =
  ct_Name :: string
  ct_Image :: string
  ct_Args :: "string list"
  ct_Ports :: "container_port list"
  ct_Env :: "(string \<times> env_value) list"
  ct_EnvFrom :: "opaque list"
  ct_Resources :: opaque
  ct_VolumeMounts :: "volume_mount list"
  ct_ReadinessProbe :: "probe option"
  ct_TerminationMessagePath :: string
  ct_TerminationMessagePolicy :: string
  ct_ImagePullPolicy :: string

definition emptyResources :: opaque where "emptyResources = Opaque []"

end
