(* ===== verification/VarnishClusterTypes.thy ===== *)
theory VarnishClusterTypes
  imports ApiTypes
begin

text \<open>
  The \<open>VarnishCluster\<close> custom resource of \<open>api/v1alpha1/varnishcluster_types.go\<close>: one record per
  Go struct, fields in the source's order.
\<close>

record DelayedRollingUpdateSpec =
  dru_DelaySeconds :: int32

record VarnishClusterUpdateStrategy =
  us_Type :: string
  us_RollingUpdate :: "opaque option"
  us_DelayedRollingUpdate :: "DelayedRollingUpdateSpec option"

record VarnishClusterVarnishController =
  ctl_Image :: string
  ctl_ImagePullPolicy :: string
  ctl_Resources :: opaque

record VarnishClusterVarnishMetricsExporter =
  me_Image :: string
  me_ImagePullPolicy :: string
  me_Resources :: opaque

record VarnishClusterVarnishSecret =
  vs_SecretName :: "string option"
  vs_Key :: "string option"

record PVC =
  pvc_Name :: string
  pvc_Labels :: strmap
  pvc_Annotations :: strmap
  pvc_VolumeMode :: "string option"  \<comment> \<open>\<open>Spec.VolumeMode\<close>, the one field of the claim's spec the code reads\<close>
  pvc_SpecRest :: opaque

record VarnishClusterVarnish =
  vv_Image :: string
  vv_ImagePullPolicy :: string
  vv_ImagePullSecret :: string
  vv_Resources :: "opaque option"
  vv_Args :: "string list"
  vv_Controller :: "VarnishClusterVarnishController option"
  vv_MetricsExporter :: "VarnishClusterVarnishMetricsExporter option"
  vv_Secret :: "VarnishClusterVarnishSecret option"
  vv_EnvFrom :: "opaque list"
  vv_ExtraInitContainers :: "container list"
  vv_ExtraVolumeClaimTemplates :: "PVC list"
  vv_ExtraVolumes :: "volume list"
  vv_ExtraVolumeMounts :: "volume_mount list"

record VarnishClusterVCL =
  vcl_ConfigMapName :: "string option"
  vcl_EntrypointFileName :: "string option"

record Threshold =
  th_Local :: "goint option"
  th_Remote :: "goint option"
  th_Threshold :: "goint option"

record VarnishClusterBackendZoneBalancing =
  zb_Type :: string
  zb_Thresholds :: "Threshold list"

record VarnishClusterBackend =
  be_Selector :: strmap
  be_Port :: "int_or_string option"
  be_Namespaces :: "string list"
  be_OnlyReady :: bool
  be_ZoneBalancing :: "VarnishClusterBackendZoneBalancing option"

record VarnishClusterService =
  sv_Port :: "int32 option"
  sv_NodePort :: int32
  sv_MetricsPort :: "int32 option"
  sv_MetricsNodePort :: int32
  sv_ControllerMetricsNodePort :: int32
  sv_Type :: string
  sv_Annotations :: strmap

record PrometheusServiceMonitorSpec =
  psm_Enabled :: bool
  psm_Namespace :: string
  psm_Labels :: strmap
  psm_ScrapeInterval :: string

record GrafanaDashboardSpec =
  gd_Enabled :: bool
  gd_Title :: string
  gd_Namespace :: string
  gd_Labels :: strmap
  gd_DatasourceName :: "string option"

record VarnishClusterMonitoring =
  mon_PrometheusServiceMonitor :: "PrometheusServiceMonitorSpec option"
  mon_GrafanaDashboard :: "GrafanaDashboardSpec option"

text \<open>A \<open>policyv1.PodDisruptionBudgetSpec\<close>: the selector, which the operator sets, and the rest.\<close>

record PodDisruptionBudgetSpec =
  pdbs_Selector :: "strmap option"
  pdbs_Rest :: opaque

record VarnishClusterSpec =
  sp_Replicas :: "int32 option"
  sp_UpdateStrategy :: "VarnishClusterUpdateStrategy option"
  sp_Varnish :: "VarnishClusterVarnish option"
  sp_VCL :: "VarnishClusterVCL option"
  sp_Backend :: "VarnishClusterBackend option"
  sp_Service :: "VarnishClusterService option"
  sp_PodDisruptionBudget :: "PodDisruptionBudgetSpec option"
  sp_NodeSelector :: strmap
  sp_Affinity :: "opaque option"
  sp_Tolerations :: "opaque list"
  sp_Monitoring :: "VarnishClusterMonitoring option"
  sp_LogLevel :: string
  sp_LogFormat :: string
  sp_PriorityClassName :: string

record VCLStatus =
  vst_Version :: "string option"
  vst_ConfigMapVersion :: string
  vst_Availability :: string

record VarnishClusterStatus =
  st_VCL :: VCLStatus
  st_VarnishArgs :: string
  st_Replicas :: int32
  st_VarnishPodsSelector :: string

record VarnishCluster =
  vc_APIVersion :: string
  vc_Kind :: string
  vc_Meta :: objmeta
  vc_Spec :: VarnishClusterSpec
  vc_Status :: VarnishClusterStatus

abbreviation vc_Name :: "VarnishCluster \<Rightarrow> string" where "vc_Name vc \<equiv> om_Name (vc_Meta vc)"
abbreviation vc_Namespace :: "VarnishCluster \<Rightarrow> string" where "vc_Namespace vc \<equiv> om_Namespace (vc_Meta vc)"
abbreviation vc_UID :: "VarnishCluster \<Rightarrow> string" where "vc_UID vc \<equiv> om_UID (vc_Meta vc)"
abbreviation vc_Finalizers :: "VarnishCluster \<Rightarrow> string list" where
  "vc_Finalizers vc \<equiv> om_Finalizers (vc_Meta vc)"

text \<open>The zero values of the structs the code creates with an empty composite literal.\<close>

definition zero_varnish :: VarnishClusterVarnish where
  "zero_varnish = \<lparr>vv_Image = [], vv_ImagePullPolicy = [], vv_ImagePullSecret = [], vv_Resources = None,
     vv_Args = [], vv_Controller = None, vv_MetricsExporter = None, vv_Secret = None, vv_EnvFrom = [],
     vv_ExtraInitContainers = [], vv_ExtraVolumeClaimTemplates = [], vv_ExtraVolumes = [],
     vv_ExtraVolumeMounts = []\<rparr>"

definition zero_controller :: VarnishClusterVarnishController where
  "zero_controller = \<lparr>ctl_Image = [], ctl_ImagePullPolicy = [], ctl_Resources = emptyResources\<rparr>"

definition zero_exporter :: VarnishClusterVarnishMetricsExporter where
  "zero_exporter = \<lparr>me_Image = [], me_ImagePullPolicy = [], me_Resources = emptyResources\<rparr>"

definition zero_service_monitor :: PrometheusServiceMonitorSpec where
  "zero_service_monitor = \<lparr>psm_Enabled = False, psm_Namespace = [], psm_Labels = Map.empty, psm_ScrapeInterval = []\<rparr>"

end
