(* ===== verification/NamesLabels.thy ===== *)
theory NamesLabels
  imports VarnishClusterTypes
begin

text \<open>
  \<open>pkg/names\<close> and \<open>pkg/labels\<close>: the names the operator gives to the objects it owns, and the
  labels it puts on them and selects its pods by.
\<close>

named_theorems name_defs \<open>the definitions of the object names\<close>

subsection \<open>Names\<close>

definition ClusterRoleName :: "string \<Rightarrow> string \<Rightarrow> string" where
  [name_defs]: "ClusterRoleName vcName vcNamespace = vcName @ ''-varnish-clusterrole-'' @ vcNamespace"
definition ClusterRoleBindingName :: "string \<Rightarrow> string \<Rightarrow> string" where
  [name_defs]: "ClusterRoleBindingName vcName vcNamespace = vcName @ ''-varnish-clusterrolebinding-'' @ vcNamespace"
definition HeadlessServiceName :: "string \<Rightarrow> string" where
  [name_defs]: "HeadlessServiceName vcName = vcName @ ''-headless-service''"
definition PodDisruptionBudgetName :: "string \<Rightarrow> string" where
  [name_defs]: "PodDisruptionBudgetName vcName = vcName @ ''-varnish-pdb''"
definition RoleName :: "string \<Rightarrow> string" where
  [name_defs]: "RoleName vcName = vcName @ ''-varnish-role''"
definition RoleBindingName :: "string \<Rightarrow> string" where
  [name_defs]: "RoleBindingName vcName = vcName @ ''-varnish-rolebinding''"
definition NoCacheServiceName :: "string \<Rightarrow> string" where
  [name_defs]: "NoCacheServiceName vcName = vcName @ ''-no-cache''"
definition StatefulSetName :: "string \<Rightarrow> string" where
  [name_defs]: "StatefulSetName vcName = vcName @ ''-varnish''"
definition ServiceAccountName :: "string \<Rightarrow> string" where
  [name_defs]: "ServiceAccountName vcName = vcName @ ''-varnish-serviceaccount''"
definition VarnishSecretName :: "string \<Rightarrow> string" where
  [name_defs]: "VarnishSecretName vcName = vcName @ ''-varnish-secret''"
definition ServiceMonitorName :: "string \<Rightarrow> string" where
  [name_defs]: "ServiceMonitorName vcName = vcName @ ''-prometheus-servicemonitor''"
definition GrafanaDashboardName :: "string \<Rightarrow> string" where
  [name_defs]: "GrafanaDashboardName vcName = vcName @ ''-grafana-dashboard''"
definition GrafanaDashboardFileName :: "string \<Rightarrow> string" where
  [name_defs]: "GrafanaDashboardFileName vcName = vcName @ ''-dashboard.json''"

subsection \<open>Labels\<close>

definition InheritLabels :: "VarnishCluster \<Rightarrow> strmap" where
  "InheritLabels instance = om_Labels (vc_Meta instance)"

definition ComponentLabels :: "VarnishCluster \<Rightarrow> component \<Rightarrow> strmap" where
  "ComponentLabels instance componentName =
     [LabelVarnishOwner \<mapsto> vc_Name instance,
      LabelVarnishComponent \<mapsto> component_string componentName,
      LabelVarnishUID \<mapsto> vc_UID instance]"

text \<open>The inherited labels are written first and the generated ones over them.\<close>

definition CombinedComponentLabels :: "VarnishCluster \<Rightarrow> component \<Rightarrow> strmap" where
  "CombinedComponentLabels instance componentName =
     InheritLabels instance ++ ComponentLabels instance componentName"

lemma label_keys_distinct [simp]:
  "LabelVarnishOwner \<noteq> LabelVarnishComponent" "LabelVarnishComponent \<noteq> LabelVarnishOwner"
  "LabelVarnishOwner \<noteq> LabelVarnishUID" "LabelVarnishUID \<noteq> LabelVarnishOwner"
  "LabelVarnishComponent \<noteq> LabelVarnishUID" "LabelVarnishUID \<noteq> LabelVarnishComponent"
  by (simp_all add: LabelVarnishOwner_def LabelVarnishComponent_def LabelVarnishUID_def)

lemma component_string_inj [simp]: "component_string c = component_string c' \<longleftrightarrow> c = c'"
  by (cases c; cases c'; simp)

lemma ComponentLabels_lookup [simp]:
  "ComponentLabels vc c LabelVarnishOwner = Some (vc_Name vc)"
  "ComponentLabels vc c LabelVarnishComponent = Some (component_string c)"
  "ComponentLabels vc c LabelVarnishUID = Some (vc_UID vc)"
  by (simp_all add: ComponentLabels_def)

lemma CombinedComponentLabels_lookup [simp]:
  "CombinedComponentLabels vc c LabelVarnishOwner = Some (vc_Name vc)"
  "CombinedComponentLabels vc c LabelVarnishComponent = Some (component_string c)"
  "CombinedComponentLabels vc c LabelVarnishUID = Some (vc_UID vc)"
  by (simp_all add: CombinedComponentLabels_def map_add_def)

lemma CombinedComponentLabels_inherited:
  "k \<notin> {LabelVarnishOwner, LabelVarnishComponent, LabelVarnishUID} \<Longrightarrow>
   CombinedComponentLabels vc c k = om_Labels (vc_Meta vc) k"
  by (simp add: CombinedComponentLabels_def InheritLabels_def ComponentLabels_def map_add_def)

text \<open>A selector made from a set of labels matches an object that carries all of them.\<close>

definition label_match :: "strmap \<Rightarrow> strmap \<Rightarrow> bool" where
  "label_match selector labels \<longleftrightarrow> selector \<subseteq>\<^sub>m labels"

lemma CombinedComponentLabels_map_le:
  "ComponentLabels vc c \<subseteq>\<^sub>m CombinedComponentLabels vc c"
  by (simp add: CombinedComponentLabels_def)

text \<open>
  The labels the operator selects one component of one cluster by are carried by no other
  component and by no other cluster: an object of component \<open>c'\<close> of \<open>vc'\<close> matches the selector
  of component \<open>c\<close> of \<open>vc\<close> only when the components are equal and the clusters have the same
  name and UID, whatever user labels the clusters pass on.
\<close>

theorem component_selector_exact:
  assumes "label_match (CombinedComponentLabels vc c) (CombinedComponentLabels vc' c')"
  shows "c = c' \<and> vc_Name vc = vc_Name vc' \<and> vc_UID vc = vc_UID vc'"
proof -
  have le: "CombinedComponentLabels vc c k = Some v \<Longrightarrow> CombinedComponentLabels vc' c' k = Some v" for k v
    using assms unfolding label_match_def by (metis domI map_le_def)
  show ?thesis
    using le [OF CombinedComponentLabels_lookup(1)] le [OF CombinedComponentLabels_lookup(2)]
      le [OF CombinedComponentLabels_lookup(3)] by simp
qed

end
