(* ===== verification/Defaults.thy ===== *)
theory Defaults
  imports GoTime NamesLabels
begin

text \<open>
  \<open>api/v1alpha1/defaults.go\<close>: the defaulting of a \<open>VarnishCluster\<close> before it is reconciled. The Go
  functions write through a pointer; here they return the defaulted value. Reading
  \<open>in.Service\<close> or \<open>in.Backend\<close> when they are nil panics.
\<close>

definition default_container :: "container \<Rightarrow> container" where
  "default_container c =
     c\<lparr>ct_ImagePullPolicy := if_empty (ct_ImagePullPolicy c) ''IfNotPresent'',
       ct_TerminationMessagePolicy := if_empty (ct_TerminationMessagePolicy c) ''File'',
       ct_TerminationMessagePath := if_empty (ct_TerminationMessagePath c) ''/dev/termination-log''\<rparr>"

definition default_pvc :: "PVC \<Rightarrow> PVC" where
  "default_pvc t = t\<lparr>pvc_VolumeMode := Some (if_nil (pvc_VolumeMode t) ''Filesystem'')\<rparr>"

definition defaultVarnishController :: "VarnishClusterVarnishController \<Rightarrow> VarnishClusterVarnishController" where
  "defaultVarnishController c = c\<lparr>ctl_ImagePullPolicy := if_empty (ctl_ImagePullPolicy c) ''Always''\<rparr>"

definition defaultVarnishMetricsExporter ::
  "VarnishClusterVarnishMetricsExporter \<Rightarrow> VarnishClusterVarnishMetricsExporter" where
  "defaultVarnishMetricsExporter c = c\<lparr>me_ImagePullPolicy := if_empty (me_ImagePullPolicy c) ''Always''\<rparr>"

definition defaultVarnishZoneBalancingType ::
  "VarnishClusterBackendZoneBalancing \<Rightarrow> VarnishClusterBackendZoneBalancing" where
  "defaultVarnishZoneBalancingType z = z\<lparr>zb_Type := if_empty (zb_Type z) ZoneBalancingDisabled\<rparr>"

definition defaultVarnish :: "VarnishClusterVarnish \<Rightarrow> VarnishClusterVarnish" where
  "defaultVarnish v =
     v\<lparr>vv_ImagePullPolicy := if_empty (vv_ImagePullPolicy v) ''Always'',
       vv_Resources := Some (if_nil (vv_Resources v) emptyResources),
       vv_Controller := Some (defaultVarnishController (if_nil (vv_Controller v) zero_controller)),
       vv_MetricsExporter := Some (defaultVarnishMetricsExporter (if_nil (vv_MetricsExporter v) zero_exporter)),
       vv_ExtraInitContainers := map default_container (vv_ExtraInitContainers v),
       vv_ExtraVolumeClaimTemplates := map default_pvc (vv_ExtraVolumeClaimTemplates v)\<rparr>"

definition default_update_strategy ::
  "VarnishClusterUpdateStrategy option \<Rightarrow> VarnishClusterUpdateStrategy" where
  "default_update_strategy u =
     (case u of
        None \<Rightarrow> \<lparr>us_Type = OnDeleteStrategy, us_RollingUpdate = None, us_DelayedRollingUpdate = None\<rparr>
      | Some u \<Rightarrow>
          let t = if_empty (us_Type u) OnDeleteStrategy
          in if t = DelayedRollingUpdateStrategy
             then u\<lparr>us_Type := t,
                    us_DelayedRollingUpdate := Some (if_nil (us_DelayedRollingUpdate u) \<lparr>dru_DelaySeconds = 60\<rparr>)\<rparr>
             else u\<lparr>us_Type := t\<rparr>)"

text \<open>The default replaces an empty or invalid scrape interval.\<close>

definition default_service_monitor :: "PrometheusServiceMonitorSpec \<Rightarrow> PrometheusServiceMonitorSpec" where
  "default_service_monitor m =
     (case ParseDuration (psm_ScrapeInterval m) of
        None \<Rightarrow> m\<lparr>psm_ScrapeInterval := ''30s''\<rparr>
      | Some d \<Rightarrow> m)"

definition default_monitoring :: "VarnishClusterMonitoring option \<Rightarrow> VarnishClusterMonitoring" where
  "default_monitoring mp =
     (let m = if_nil mp \<lparr>mon_PrometheusServiceMonitor = None, mon_GrafanaDashboard = None\<rparr>
      in m\<lparr>mon_PrometheusServiceMonitor :=
             Some (default_service_monitor (if_nil (mon_PrometheusServiceMonitor m) zero_service_monitor))\<rparr>)"

definition default_service :: "VarnishClusterService \<Rightarrow> VarnishClusterService" where
  "default_service s =
     s\<lparr>sv_MetricsPort := Some (if_nil (sv_MetricsPort s) VarnishPrometheusExporterPort),
       sv_Type := if_empty (sv_Type s) ''ClusterIP''\<rparr>"

definition default_backend :: "VarnishClusterBackend \<Rightarrow> VarnishClusterBackend" where
  "default_backend b =
     b\<lparr>be_ZoneBalancing :=
         Some (defaultVarnishZoneBalancingType (if_nil (be_ZoneBalancing b) \<lparr>zb_Type = [], zb_Thresholds = []\<rparr>))\<rparr>"

definition defaultVarnishClusterSpec :: "VarnishClusterSpec \<Rightarrow> VarnishClusterSpec outcome" where
  "defaultVarnishClusterSpec sp =
     obind (oderef (sp_Service sp)) (\<lambda>svc.
     obind (oderef (sp_Backend sp)) (\<lambda>b.
       Ret (sp\<lparr>sp_Replicas := Some (if_nil (sp_Replicas sp) 1),
               sp_LogLevel := if_empty (sp_LogLevel sp) ''info'',
               sp_LogFormat := if_empty (sp_LogFormat sp) ''json'',
               sp_UpdateStrategy := Some (default_update_strategy (sp_UpdateStrategy sp)),
               sp_Monitoring := Some (default_monitoring (sp_Monitoring sp)),
               sp_Service := Some (default_service svc),
               sp_Backend := Some (default_backend b)\<rparr>)))"

definition defaultVarnishCluster :: "VarnishCluster \<Rightarrow> VarnishCluster outcome" where
  "defaultVarnishCluster vc =
     obind (defaultVarnishClusterSpec (vc_Spec vc)) (\<lambda>sp.
       Ret (vc\<lparr>vc_Spec := sp\<lparr>sp_Varnish := Some (defaultVarnish (if_nil (sp_Varnish sp) zero_varnish))\<rparr>\<rparr>))"

text \<open>\<open>SetVarnishClusterListDefaults\<close>: the items in order; a panic on one ends the call.\<close>

fun SetVarnishClusterListDefaults :: "VarnishCluster list \<Rightarrow> VarnishCluster list outcome" where
  "SetVarnishClusterListDefaults [] = Ret []"
| "SetVarnishClusterListDefaults (a # items) =
     obind (defaultVarnishCluster a) (\<lambda>a'.
       obind (SetVarnishClusterListDefaults items) (\<lambda>items'. Ret (a' # items')))"

lemmas default_defs =
  default_container_def default_pvc_def defaultVarnishController_def defaultVarnishMetricsExporter_def
  defaultVarnishZoneBalancingType_def defaultVarnish_def default_update_strategy_def
  default_service_monitor_def default_monitoring_def default_service_def default_backend_def

subsection \<open>Defaulting is idempotent, part by part\<close>

lemma default_container_idem [simp]: "default_container (default_container c) = default_container c"
  by (simp add: default_container_def)

lemma default_pvc_idem [simp]: "default_pvc (default_pvc t) = default_pvc t"
  by (simp add: default_pvc_def)

lemma defaultVarnishController_idem [simp]:
  "defaultVarnishController (defaultVarnishController c) = defaultVarnishController c"
  by (simp add: defaultVarnishController_def)

lemma defaultVarnishMetricsExporter_idem [simp]:
  "defaultVarnishMetricsExporter (defaultVarnishMetricsExporter c) = defaultVarnishMetricsExporter c"
  by (simp add: defaultVarnishMetricsExporter_def)

lemma defaultVarnish_idem [simp]: "defaultVarnish (defaultVarnish v) = defaultVarnish v"
  by (simp add: defaultVarnish_def comp_def)

lemma default_update_strategy_idem [simp]:
  "default_update_strategy (Some (default_update_strategy u)) = default_update_strategy u"
  by (cases u) (simp_all add: default_update_strategy_def Let_def OnDeleteStrategy_def
      DelayedRollingUpdateStrategy_def if_empty_def)

lemma default_service_monitor_idem [simp]:
  "default_service_monitor (default_service_monitor m) = default_service_monitor m"
  by (simp add: default_service_monitor_def ParseDuration_30s split: option.split)

lemma default_monitoring_idem [simp]:
  "default_monitoring (Some (default_monitoring m)) = default_monitoring m"
  by (simp add: default_monitoring_def Let_def)

lemma default_service_idem [simp]: "default_service (default_service s) = default_service s"
  by (simp add: default_service_def)

lemma default_backend_idem [simp]: "default_backend (default_backend b) = default_backend b"
  by (simp add: default_backend_def defaultVarnishZoneBalancingType_def ZoneBalancingDisabled_def)

lemma defaultVarnishCluster_Ret:
  "defaultVarnishCluster vc = Ret vc' \<longleftrightarrow>
     (\<exists>svc b. sp_Service (vc_Spec vc) = Some svc \<and> sp_Backend (vc_Spec vc) = Some b \<and>
       vc' = vc\<lparr>vc_Spec := (vc_Spec vc)
         \<lparr>sp_Replicas := Some (if_nil (sp_Replicas (vc_Spec vc)) 1),
          sp_LogLevel := if_empty (sp_LogLevel (vc_Spec vc)) ''info'',
          sp_LogFormat := if_empty (sp_LogFormat (vc_Spec vc)) ''json'',
          sp_UpdateStrategy := Some (default_update_strategy (sp_UpdateStrategy (vc_Spec vc))),
          sp_Monitoring := Some (default_monitoring (sp_Monitoring (vc_Spec vc))),
          sp_Service := Some (default_service svc),
          sp_Backend := Some (default_backend b),
          sp_Varnish := Some (defaultVarnish (if_nil (sp_Varnish (vc_Spec vc)) zero_varnish))\<rparr>\<rparr>)"
  by (auto simp: defaultVarnishCluster_def defaultVarnishClusterSpec_def obind_eq_Ret)

subsection \<open>Properties\<close>


text \<open>What the rest of the operator reads through a pointer after defaulting.\<close>

definition defaulted :: "VarnishCluster \<Rightarrow> bool" where
  "defaulted vc \<longleftrightarrow>
     sp_Replicas (vc_Spec vc) \<noteq> None \<and>
     sp_LogLevel (vc_Spec vc) \<noteq> [] \<and> sp_LogFormat (vc_Spec vc) \<noteq> [] \<and>
     (\<exists>u. sp_UpdateStrategy (vc_Spec vc) = Some u \<and> us_Type u \<noteq> [] \<and>
       (us_Type u = DelayedRollingUpdateStrategy \<longrightarrow> us_DelayedRollingUpdate u \<noteq> None)) \<and>
     (\<exists>v. sp_Varnish (vc_Spec vc) = Some v \<and> vv_ImagePullPolicy v \<noteq> [] \<and> vv_Resources v \<noteq> None \<and>
       vv_Controller v \<noteq> None \<and> vv_MetricsExporter v \<noteq> None) \<and>
     (\<exists>m p. sp_Monitoring (vc_Spec vc) = Some m \<and> mon_PrometheusServiceMonitor m = Some p \<and>
       ParseDuration (psm_ScrapeInterval p) \<noteq> None) \<and>
     (\<exists>s. sp_Service (vc_Spec vc) = Some s \<and> sv_MetricsPort s \<noteq> None \<and> sv_Type s \<noteq> []) \<and>
     (\<exists>b z. sp_Backend (vc_Spec vc) = Some b \<and> be_ZoneBalancing b = Some z \<and> zb_Type z \<noteq> [])"

lemma default_update_strategy_type:
  "us_Type (default_update_strategy u) \<noteq> []"
  "us_Type (default_update_strategy u) = DelayedRollingUpdateStrategy \<Longrightarrow>
   us_DelayedRollingUpdate (default_update_strategy u) \<noteq> None"
  by (cases u; auto simp: default_update_strategy_def Let_def if_empty_def OnDeleteStrategy_def
      DelayedRollingUpdateStrategy_def)+

lemma default_service_monitor_interval:
  "ParseDuration (psm_ScrapeInterval (default_service_monitor m)) \<noteq> None"
  by (simp add: default_service_monitor_def ParseDuration_30s split: option.split)

text \<open>
  Defaulting fails exactly on an object without a \<open>service\<close> or without a \<open>backend\<close> (a nil
  pointer panic, never an error), and otherwise returns an object in which every pointer the
  reconcile loop follows is set, every enumeration is non-empty and the scrape interval is a
  valid duration.
\<close>

theorem defaulting_total:
  "if sp_Service (vc_Spec vc) = None \<or> sp_Backend (vc_Spec vc) = None
   then defaultVarnishCluster vc = Panic NilDeref
   else (\<exists>vc'. defaultVarnishCluster vc = Ret vc' \<and> defaulted vc')"
proof (cases "sp_Service (vc_Spec vc) = None \<or> sp_Backend (vc_Spec vc) = None")
  case True
  then show ?thesis
    by (cases "sp_Service (vc_Spec vc)") (auto simp: defaultVarnishCluster_def defaultVarnishClusterSpec_def)
next
  case False
  then obtain vc' where vc': "defaultVarnishCluster vc = Ret vc'"
    by (auto simp: defaultVarnishCluster_def defaultVarnishClusterSpec_def)
  then have "defaulted vc'"
    using default_update_strategy_type [of "sp_UpdateStrategy (vc_Spec vc)"] default_service_monitor_interval
    by (auto simp: defaultVarnishCluster_Ret defaulted_def defaultVarnish_def default_monitoring_def
        default_service_def default_backend_def defaultVarnishZoneBalancingType_def
        ZoneBalancingDisabled_def Let_def)
  with vc' False show ?thesis by auto
qed

end
