(* ===== verification/KubeObjects.thy ===== *)
theory KubeObjects
  imports NamesLabels
begin

text \<open>
  The Kubernetes objects the operator and the controller exchange with the API server, with the
  fields the program reads or writes; what it only carries along is \<open>opaque\<close>.
  \<open>Role\<close> and \<open>ClusterRole\<close>, and the two bindings, have the same fields and share a record.
\<close>

record service_account =
  sa_Meta :: objmeta
  sa_Secrets :: "opaque list"
  sa_ImagePullSecrets :: "opaque list"

record policy_rule =
  rule_APIGroups :: "string list"
  rule_Resources :: "string list"
  rule_Verbs :: "string list"

record rbac_role =
  role_Meta :: objmeta
  role_Rules :: "policy_rule list"

record subject =
  sub_Kind :: string
  sub_Name :: string
  sub_Namespace :: string

record role_ref =
  ref_Kind :: string
  ref_Name :: string
  ref_APIGroup :: string

record rbac_binding =
  rb_Meta :: objmeta
  rb_Subjects :: "subject list"
  rb_RoleRef :: role_ref

record service_port =
  spt_Name :: string
  spt_Protocol :: string
  spt_Port :: int32
  spt_TargetPort :: int_or_string
  spt_NodePort :: int32

record service_spec =
  ss_Selector :: strmap
  ss_Ports :: "service_port list"
  ss_Type :: string
  ss_SessionAffinity :: string
  ss_ClusterIP :: string
  ss_ClusterIPs :: "string list"
  ss_IPFamilies :: "string list"
  ss_IPFamilyPolicy :: "string option"
  ss_InternalTrafficPolicy :: "string option"
  ss_ExternalTrafficPolicy :: string

record service =
  svc_Meta :: objmeta
  svc_Spec :: service_spec
  svc_Status :: opaque

record secret =
  sec_Meta :: objmeta
  sec_Data :: strmap

record pod_spec =
  ps_ShareProcessNamespace :: "bool option"
  ps_InitContainers :: "container list"
  ps_Volumes :: "volume list"
  ps_Containers :: "container list"
  ps_TerminationGracePeriodSeconds :: "int option"
  ps_DNSPolicy :: string
  ps_SecurityContext :: "opaque option"
  ps_ServiceAccountName :: string
  ps_NodeSelector :: strmap
  ps_Affinity :: "opaque option"
  ps_PriorityClassName :: string
  ps_Tolerations :: "opaque list"
  ps_RestartPolicy :: string
  ps_ImagePullSecrets :: "string list"
  ps_DeprecatedServiceAccount :: string
  ps_SchedulerName :: string

record pod_template =
  pt_Labels :: strmap
  pt_Annotations :: strmap
  pt_Spec :: pod_spec

record statefulset_spec =
  sts_ServiceName :: string
  sts_Replicas :: "int32 option"
  sts_Selector :: "strmap option"
  sts_PodManagementPolicy :: string
  sts_StrategyType :: string
  sts_StrategyRollingUpdate :: "opaque option"
  sts_RevisionHistoryLimit :: "int32 option"
  sts_VolumeClaimTemplates :: "PVC list"
  sts_Template :: pod_template

record statefulset_status =
  stss_Replicas :: int32
  stss_ReadyReplicas :: int32
  stss_UpdatedReplicas :: int32
  stss_UpdateRevision :: string

record statefulset =
  sts_Meta :: objmeta
  sts_Spec :: statefulset_spec
  sts_Status :: statefulset_status

record config_map =
  cm_Meta :: objmeta
  cm_Data :: strmap

record pod_disruption_budget =
  pdb_Meta :: objmeta
  pdb_Spec :: PodDisruptionBudgetSpec
  pdb_Status :: opaque

record pod =
  pod_Meta :: objmeta
  pod_NodeName :: string
  pod_Containers :: "container list"
  pod_PodIP :: string
  pod_StartTime :: "time option"
  pod_ContainerReady :: "bool list"  \<comment> \<open>\<open>Ready\<close> of each of \<open>Status.ContainerStatuses\<close>\<close>

record node =
  node_Meta :: objmeta

record namespace =
  ns_Meta :: objmeta

record service_monitor_spec =
  sms_MatchLabels :: strmap
  sms_Endpoints :: "(string \<times> string) list"  \<comment> \<open>port and interval\<close>
  sms_MatchNames :: "string list"

record service_monitor =
  sm_Meta :: objmeta
  sm_Spec :: service_monitor_spec

text \<open>An object of any kind, as a request to the API server names it.\<close>

datatype kobj =
    ObjServiceAccount service_account
  | ObjRole rbac_role
  | ObjClusterRole rbac_role
  | ObjRoleBinding rbac_binding
  | ObjClusterRoleBinding rbac_binding
  | ObjService service
  | ObjSecret secret
  | ObjStatefulSet statefulset
  | ObjConfigMap config_map
  | ObjPDB pod_disruption_budget
  | ObjPod pod
  | ObjServiceMonitor service_monitor
  | ObjVarnishCluster VarnishCluster

fun kobj_meta :: "kobj \<Rightarrow> objmeta" where
  "kobj_meta (ObjServiceAccount o') = sa_Meta o'"
| "kobj_meta (ObjRole o') = role_Meta o'"
| "kobj_meta (ObjClusterRole o') = role_Meta o'"
| "kobj_meta (ObjRoleBinding o') = rb_Meta o'"
| "kobj_meta (ObjClusterRoleBinding o') = rb_Meta o'"
| "kobj_meta (ObjService o') = svc_Meta o'"
| "kobj_meta (ObjSecret o') = sec_Meta o'"
| "kobj_meta (ObjStatefulSet o') = sts_Meta o'"
| "kobj_meta (ObjConfigMap o') = cm_Meta o'"
| "kobj_meta (ObjPDB o') = pdb_Meta o'"
| "kobj_meta (ObjPod o') = pod_Meta o'"
| "kobj_meta (ObjServiceMonitor o') = sm_Meta o'"
| "kobj_meta (ObjVarnishCluster o') = vc_Meta o'"

subsection \<open>Comparison of a found object with a desired one (\<open>pkg/varnishcluster/compare\<close>)\<close>

text \<open>
  \<open>cmp.Equal\<close> with \<open>cmpopts.IgnoreFields\<close> compares two objects field by field, leaving out the
  ignored fields: here, equality after giving those fields one value. \<open>sharedIgnoreMetadata\<close> names
  the type and the server-set metadata, \<open>sharedIgnoreStatus\<close> the status.
\<close>

definition ignore_metadata :: "objmeta \<Rightarrow> objmeta" where
  "ignore_metadata m = m\<lparr>om_UID := [], om_ResourceVersion := [], om_Generation := 0, om_CreationTimestamp := 0\<rparr>"

definition EqualServiceAccount :: "service_account \<Rightarrow> service_account \<Rightarrow> bool" where
  "EqualServiceAccount found desired \<longleftrightarrow>
     (let secrets = (if sa_Secrets desired = [] then sa_Secrets found else sa_Secrets desired)
      in ignore_metadata (sa_Meta found) = ignore_metadata (sa_Meta desired) \<and> sa_Secrets found = secrets)"

definition EqualRole :: "rbac_role \<Rightarrow> rbac_role \<Rightarrow> bool" where
  "EqualRole found desired \<longleftrightarrow>
     ignore_metadata (role_Meta found) = ignore_metadata (role_Meta desired) \<and> role_Rules found = role_Rules desired"

definition EqualClusterRole :: "rbac_role \<Rightarrow> rbac_role \<Rightarrow> bool" where
  "EqualClusterRole found desired \<longleftrightarrow>
     ignore_metadata (role_Meta found) = ignore_metadata (role_Meta desired) \<and> role_Rules found = role_Rules desired"

definition EqualRoleBinding :: "rbac_binding \<Rightarrow> rbac_binding \<Rightarrow> bool" where
  "EqualRoleBinding found desired \<longleftrightarrow>
     ignore_metadata (rb_Meta found) = ignore_metadata (rb_Meta desired) \<and>
     rb_Subjects found = rb_Subjects desired \<and> rb_RoleRef found = rb_RoleRef desired"

definition EqualClusterRoleBinding :: "rbac_binding \<Rightarrow> rbac_binding \<Rightarrow> bool" where
  "EqualClusterRoleBinding found desired \<longleftrightarrow>
     ignore_metadata (rb_Meta found) = ignore_metadata (rb_Meta desired) \<and>
     rb_Subjects found = rb_Subjects desired \<and> rb_RoleRef found = rb_RoleRef desired"

definition EqualService :: "service \<Rightarrow> service \<Rightarrow> bool" where
  "EqualService found desired \<longleftrightarrow>
     ignore_metadata (svc_Meta found) = ignore_metadata (svc_Meta desired) \<and>
     (svc_Spec found)\<lparr>ss_ExternalTrafficPolicy := []\<rparr> = (svc_Spec desired)\<lparr>ss_ExternalTrafficPolicy := []\<rparr>"

definition EqualConfigMap :: "config_map \<Rightarrow> config_map \<Rightarrow> bool" where
  "EqualConfigMap found desired \<longleftrightarrow>
     ignore_metadata (cm_Meta found) = ignore_metadata (cm_Meta desired) \<and> cm_Data found = cm_Data desired"

definition EqualPodDisruptionBudget :: "pod_disruption_budget \<Rightarrow> pod_disruption_budget \<Rightarrow> bool" where
  "EqualPodDisruptionBudget found desired \<longleftrightarrow>
     ignore_metadata (pdb_Meta found) = ignore_metadata (pdb_Meta desired) \<and> pdb_Spec found = pdb_Spec desired"

definition ignore_sts_fields :: "statefulset_spec \<Rightarrow> statefulset_spec" where
  "ignore_sts_fields sp =
     sp\<lparr>sts_Template := (sts_Template sp)\<lparr>pt_Spec :=
          (pt_Spec (sts_Template sp))\<lparr>ps_DeprecatedServiceAccount := [], ps_SchedulerName := []\<rparr>\<rparr>\<rparr>"

definition EqualStatefulSet :: "statefulset \<Rightarrow> statefulset \<Rightarrow> bool" where
  "EqualStatefulSet found desired \<longleftrightarrow>
     ignore_metadata (sts_Meta found) = ignore_metadata (sts_Meta desired) \<and>
     ignore_sts_fields (sts_Spec found) = ignore_sts_fields (sts_Spec desired)"

definition EqualServiceMonitor :: "service_monitor \<Rightarrow> service_monitor \<Rightarrow> bool" where
  "EqualServiceMonitor found desired \<longleftrightarrow>
     om_Labels (sm_Meta found) = om_Labels (sm_Meta desired) \<and> sm_Spec found = sm_Spec desired"

definition EqualVarnishClusterStatus :: "VarnishClusterStatus \<Rightarrow> VarnishClusterStatus \<Rightarrow> bool" where
  "EqualVarnishClusterStatus old current \<longleftrightarrow> old = current"

end
