(* ===== verification/ReconcileTriggerer.thy ===== *)
theory ReconcileTriggerer
  imports NamesLabels
begin

text \<open>
  \<open>pkg/varnishcluster/reconcile/reconcile_triggerer.go\<close>: timers that put a \<open>VarnishCluster\<close> back on
  the reconcile queue after a delay. The state has the \<open>timetable\<close> of the Go struct, the timers
  the Go runtime holds for it (\<open>time.AfterFunc\<close>), and what its callbacks sent to \<open>reconcileChan\<close>.
  A timer is \<open>Armed\<close> until its deadline, \<open>Firing\<close> once the runtime has started its callback,
  \<open>Done\<close> when the callback has run, \<open>Stopped\<close> when \<open>Stop\<close> came first.
\<close>

datatype timer_status = Armed | Firing | Stopped | Done

record timer =
  tm_name :: string       \<comment> \<open>the \<open>namespacedName\<close> the callback closes over\<close>
  tm_deadline :: time
  tm_status :: timer_status

record triggerer =
  tr_timetable :: "string \<Rightarrow> (string \<Rightarrow> nat option) option"
  tr_timers :: "nat \<Rightarrow> timer option"
  tr_next :: nat
  tr_chan :: "string list"

definition NewReconcileTriggerer :: triggerer where
  "NewReconcileTriggerer = \<lparr>tr_timetable = Map.empty, tr_timers = Map.empty, tr_next = 0, tr_chan = []\<rparr>"

definition namespacedName :: "VarnishCluster \<Rightarrow> string" where
  "namespacedName instance = vc_Namespace instance @ ''/'' @ vc_Name instance"

subsection \<open>The timers of the Go runtime\<close>

definition afterFunc :: "time \<Rightarrow> string \<Rightarrow> triggerer \<Rightarrow> nat \<times> triggerer" where
  "afterFunc deadline name q =
     (tr_next q,
      q\<lparr>tr_timers := (tr_timers q)(tr_next q \<mapsto> \<lparr>tm_name = name, tm_deadline = deadline, tm_status = Armed\<rparr>),
        tr_next := Suc (tr_next q)\<rparr>)"

text \<open>\<open>Timer.Stop\<close> prevents a callback that has not started; it has no effect on one that has.\<close>

definition timer_stop :: "nat \<Rightarrow> triggerer \<Rightarrow> triggerer" where
  "timer_stop i q =
     (case tr_timers q i of
        Some t \<Rightarrow> if tm_status t = Armed
                  then q\<lparr>tr_timers := (tr_timers q)(i \<mapsto> t\<lparr>tm_status := Stopped\<rparr>)\<rparr> else q
      | None \<Rightarrow> q)"

definition delete_entry :: "string \<Rightarrow> triggerer \<Rightarrow> triggerer" where
  "delete_entry name q = q\<lparr>tr_timetable := (tr_timetable q)(name := None)\<rparr>"

definition fire :: "nat \<Rightarrow> triggerer \<Rightarrow> triggerer" where
  "fire i q =
     (case tr_timers q i of
        Some t \<Rightarrow> q\<lparr>tr_timers := (tr_timers q)(i \<mapsto> t\<lparr>tm_status := Firing\<rparr>)\<rparr>
      | None \<Rightarrow> q)"

text \<open>The callback: under the lock it deletes the entry of the cluster, then it sends the event.\<close>

definition callback :: "nat \<Rightarrow> triggerer \<Rightarrow> triggerer" where
  "callback i q =
     (case tr_timers q i of
        Some t \<Rightarrow>
          (delete_entry (tm_name t) q)
            \<lparr>tr_timers := (tr_timers q)(i \<mapsto> t\<lparr>tm_status := Done\<rparr>),
             tr_chan := tr_chan q @ [tm_name t]\<rparr>
      | None \<Rightarrow> q)"

subsection \<open>The operations\<close>

text \<open>
  \<open>TriggerAfter\<close> first creates the timer, without the lock, and then registers it under the lock;
  a timer registered before under the same key is stopped, and the whole entry of the cluster is
  dropped with it.
\<close>

definition register :: "string \<Rightarrow> string \<Rightarrow> nat \<Rightarrow> triggerer \<Rightarrow> triggerer" where
  "register key name i q =
     (let q1 = (case tr_timetable q name of
            Some timers \<Rightarrow> (case timers key of
                Some old \<Rightarrow> delete_entry name (timer_stop old q)
              | None \<Rightarrow> q)
          | None \<Rightarrow> q);
          timers1 = (case tr_timetable q1 name of None \<Rightarrow> Map.empty | Some timers \<Rightarrow> timers)
      in q1\<lparr>tr_timetable := (tr_timetable q1)(name \<mapsto> timers1(key \<mapsto> i))\<rparr>)"

definition TriggerAfter :: "string \<Rightarrow> int \<Rightarrow> VarnishCluster \<Rightarrow> time \<Rightarrow> triggerer \<Rightarrow> triggerer" where
  "TriggerAfter key delay instance now q =
     (case afterFunc (now + delay) (namespacedName instance) q of
        (i, q') \<Rightarrow> register key (namespacedName instance) i q')"

definition StopTimer :: "string \<Rightarrow> VarnishCluster \<Rightarrow> triggerer \<Rightarrow> triggerer" where
  "StopTimer key instance q =
     (case tr_timetable q (namespacedName instance) of
        Some timers \<Rightarrow> (case timers key of
            Some i \<Rightarrow> delete_entry (namespacedName instance) (timer_stop i q)
          | None \<Rightarrow> q)
      | None \<Rightarrow> q)"

definition timer_exists :: "string \<Rightarrow> string \<Rightarrow> triggerer \<Rightarrow> bool" where
  "timer_exists key name q =
     (case tr_timetable q name of Some timers \<Rightarrow> timers key \<noteq> None | None \<Rightarrow> False)"

definition TimerExists :: "string \<Rightarrow> VarnishCluster \<Rightarrow> triggerer \<Rightarrow> bool" where
  "TimerExists key instance q = timer_exists key (namespacedName instance) q"

lemmas trig_defs = afterFunc_def timer_stop_def delete_entry_def fire_def callback_def register_def
  TriggerAfter_def StopTimer_def timer_exists_def TimerExists_def

lemma register_exists: "timer_exists key name (register key name i q)"
  by (simp add: trig_defs Let_def)

lemma register_other: "name' \<noteq> name \<Longrightarrow> tr_timetable (register key name i q) name' = tr_timetable q name'"
  by (auto simp: trig_defs Let_def split: option.split)

subsection \<open>The interface the rolling update relies on\<close>

locale reconcile_timers =
  fixes trigger_after :: "string \<Rightarrow> int \<Rightarrow> VarnishCluster \<Rightarrow> time \<Rightarrow> 'q \<Rightarrow> 'q"
    and stop_timer :: "string \<Rightarrow> VarnishCluster \<Rightarrow> 'q \<Rightarrow> 'q"
    and exists_timer :: "string \<Rightarrow> VarnishCluster \<Rightarrow> 'q \<Rightarrow> bool"
  assumes exists_after_trigger: "exists_timer k vc (trigger_after k d vc now q)"
    and not_exists_after_stop: "\<not> exists_timer k vc (stop_timer k vc q)"
    and trigger_frame: "namespacedName vc' \<noteq> namespacedName vc \<Longrightarrow>
          exists_timer k' vc' (trigger_after k d vc now q) = exists_timer k' vc' q"
    and stop_frame: "namespacedName vc' \<noteq> namespacedName vc \<Longrightarrow>
          exists_timer k' vc' (stop_timer k vc q) = exists_timer k' vc' q"
begin

lemma other_clusters_keep:
  "\<forall>vc' \<in> set vcs. namespacedName vc' \<noteq> namespacedName vc \<Longrightarrow>
   exists_timer k vc (foldl (\<lambda>q vc'. trigger_after k' d vc' now q) q vcs) = exists_timer k vc q"
proof (induction vcs arbitrary: q)
  case (Cons vc' vcs)
  then show ?case using trigger_frame [of vc vc'] by (metis foldl_Cons list.set_intros)
qed simp

lemma kept_until_stopped:
  assumes "\<forall>vc' \<in> set vcs. namespacedName vc' \<noteq> namespacedName vc"
  shows "exists_timer k vc (foldl (\<lambda>q vc'. trigger_after k' d' vc' now' q) (trigger_after k d vc now q) vcs)"
  using other_clusters_keep [OF assms] exists_after_trigger by simp

end

interpretation rt: reconcile_timers TriggerAfter StopTimer TimerExists
  by unfold_locales (auto simp: trig_defs Let_def split: option.split)

subsection \<open>Interleavings\<close>

text \<open>
  The runtime starts callbacks on its own goroutines, so they interleave with the reconcile loop,
  which runs one operation at a time; \<open>TriggerAfter\<close> is two steps, since it creates the timer
  before it takes the lock. With the flag \<open>quiet\<close> no timer fires between its creation and its
  registration.
\<close>

record trig_system =
  ts_q :: triggerer
  ts_now :: time
  ts_pending :: "(string \<times> string \<times> nat) option"

definition init_trig_system :: "time \<Rightarrow> trig_system" where
  "init_trig_system t = \<lparr>ts_q = NewReconcileTriggerer, ts_now = t, ts_pending = None\<rparr>"

inductive trig_step :: "bool \<Rightarrow> trig_system \<Rightarrow> trig_system \<Rightarrow> bool" for quiet where
  tick: "ts_now s \<le> t \<Longrightarrow> trig_step quiet s (s\<lparr>ts_now := t\<rparr>)"
| trigger_create: "ts_pending s = None \<Longrightarrow> afterFunc (ts_now s + d) name (ts_q s) = (i, q) \<Longrightarrow>
    trig_step quiet s (s\<lparr>ts_q := q, ts_pending := Some (key, name, i)\<rparr>)"
| trigger_register: "ts_pending s = Some (key, name, i) \<Longrightarrow>
    trig_step quiet s (s\<lparr>ts_q := register key name i (ts_q s), ts_pending := None\<rparr>)"
| stop: "ts_pending s = None \<Longrightarrow> trig_step quiet s (s\<lparr>ts_q := StopTimer key vc (ts_q s)\<rparr>)"
| timer_fires: "tr_timers (ts_q s) i = Some t \<Longrightarrow> tm_status t = Armed \<Longrightarrow> tm_deadline t \<le> ts_now s \<Longrightarrow>
    (quiet \<longrightarrow> (\<forall>key name. ts_pending s \<noteq> Some (key, name, i))) \<Longrightarrow>
    trig_step quiet s (s\<lparr>ts_q := fire i (ts_q s)\<rparr>)"
| run_callback: "tr_timers (ts_q s) i = Some t \<Longrightarrow> tm_status t = Firing \<Longrightarrow>
    trig_step quiet s (s\<lparr>ts_q := callback i (ts_q s)\<rparr>)"

inductive trig_reachable :: "bool \<Rightarrow> trig_system \<Rightarrow> bool" for quiet where
  start: "trig_reachable quiet (init_trig_system t)"
| step: "trig_reachable quiet s \<Longrightarrow> trig_step quiet s s' \<Longrightarrow> trig_reachable quiet s'"

definition live :: "triggerer \<Rightarrow> string \<Rightarrow> nat \<Rightarrow> bool" where
  "live q name i \<longleftrightarrow> (\<exists>t. tr_timers q i = Some t \<and> tm_name t = name \<and> tm_status t \<in> {Armed, Firing})"

definition entry :: "triggerer \<Rightarrow> string \<Rightarrow> string \<Rightarrow> nat \<Rightarrow> bool" where
  "entry q name key i \<longleftrightarrow> (\<exists>timers. tr_timetable q name = Some timers \<and> timers key = Some i)"

definition trig_inv :: "trig_system \<Rightarrow> bool" where
  "trig_inv s \<longleftrightarrow>
     (\<forall>name key i. entry (ts_q s) name key i \<longrightarrow> live (ts_q s) name i) \<and>
     (\<forall>i. tr_timers (ts_q s) i \<noteq> None \<longrightarrow> i < tr_next (ts_q s)) \<and>
     (\<forall>key name i. ts_pending s = Some (key, name, i) \<longrightarrow>
        (\<exists>t. tr_timers (ts_q s) i = Some t \<and> tm_name t = name \<and> tm_status t = Armed) \<and>
        (\<forall>name' key'. \<not> entry (ts_q s) name' key' i))"

lemma timer_exists_entry: "timer_exists key name q \<longleftrightarrow> (\<exists>i. entry q name key i)"
  by (auto simp: timer_exists_def entry_def split: option.splits)

lemma trig_inv_init: "trig_inv (init_trig_system t)"
  by (simp add: trig_inv_def init_trig_system_def NewReconcileTriggerer_def entry_def)

lemma entry_simps [simp]:
  "entry (q\<lparr>tr_timers := ts\<rparr>) n k j = entry q n k j"
  "entry (q\<lparr>tr_next := m\<rparr>) n k j = entry q n k j"
  "entry (q\<lparr>tr_chan := c\<rparr>) n k j = entry q n k j"
  "entry (timer_stop i q) n k j = entry q n k j"
  "entry (fire i q) n k j = entry q n k j"
  "entry (delete_entry name q) n k j \<longleftrightarrow> n \<noteq> name \<and> entry q n k j"
  by (auto simp: entry_def trig_defs split: option.split)

lemma timers_simps [simp]:
  "tr_timers (delete_entry name q) = tr_timers q"
  "tr_next (delete_entry name q) = tr_next q"
  "tr_next (timer_stop i q) = tr_next q"
  "tr_next (fire i q) = tr_next q"
  "tr_next (callback i q) = tr_next q"
  "tr_next (register key name i q) = tr_next q"
  "tr_next (StopTimer key vc q) = tr_next q"
  by (auto simp: trig_defs Let_def split: option.split)

lemma entry_register:
  assumes "entry (register key name i q) n k j"
  shows "n = name \<and> k = key \<and> j = i \<or> entry q n k j \<and> \<not> (n = name \<and> (k = key \<or> (\<exists>old. entry q name key old)))"
  using assms by (auto simp: entry_def trig_defs Let_def split: option.splits if_splits)

lemma entry_callback: "tr_timers q i = Some t \<Longrightarrow> entry (callback i q) n k j \<longleftrightarrow> n \<noteq> tm_name t \<and> entry q n k j"
  by (auto simp: callback_def entry_def delete_entry_def)

lemma entry_StopTimer: "entry (StopTimer key vc q) n k j \<Longrightarrow>
    entry q n k j \<and> \<not> (n = namespacedName vc \<and> (\<exists>old. entry q n key old))"
  by (auto simp: StopTimer_def entry_def trig_defs split: option.splits if_splits)

lemma timers_register:
  "tr_timers (register key name i q) j = tr_timers q j \<or>
   (entry q name key j \<and> (\<exists>t. tr_timers q j = Some t \<and> tr_timers (register key name i q) j = Some (t\<lparr>tm_status := Stopped\<rparr>)))"
  by (auto simp: entry_def trig_defs Let_def split: option.splits)

lemma timers_StopTimer:
  "tr_timers (StopTimer key vc q) j = tr_timers q j \<or> entry q (namespacedName vc) key j"
  by (auto simp: entry_def trig_defs split: option.splits)

lemma dom_timers_keep:
  "tr_timers (register key name i q) j \<noteq> None \<Longrightarrow> tr_timers q j \<noteq> None"
  "tr_timers (StopTimer key vc q) j \<noteq> None \<Longrightarrow> tr_timers q j \<noteq> None"
  by (auto simp: trig_defs Let_def split: option.splits if_splits)

lemma live_cong: "tr_timers q' j = tr_timers q j \<Longrightarrow> live q n j \<Longrightarrow> live q' n j"
  by (simp add: live_def)

lemma live_fire: "live q n j \<Longrightarrow> live (fire i q) n j"
  by (auto simp: live_def fire_def split: option.split)

lemma live_name: "live q n j \<Longrightarrow> live q n' j \<Longrightarrow> n = n'"
  by (auto simp: live_def)

lemma trig_invD:
  assumes "trig_inv s"
  shows "entry (ts_q s) n k i \<Longrightarrow> live (ts_q s) n i"
    and "tr_timers (ts_q s) i \<noteq> None \<Longrightarrow> i < tr_next (ts_q s)"
    and "ts_pending s = Some (k, n, i) \<Longrightarrow>
      (\<exists>t. tr_timers (ts_q s) i = Some t \<and> tm_name t = n \<and> tm_status t = Armed) \<and>
      (\<forall>n' k'. \<not> entry (ts_q s) n' k' i)"
  using assms unfolding trig_inv_def by blast+

lemma trig_inv_create:
  assumes inv: "trig_inv s" and af: "afterFunc dl name (ts_q s) = (i, q)"
  shows "trig_inv (s\<lparr>ts_q := q, ts_pending := Some (key, name, i)\<rparr>)"
proof -
  note I = trig_invD [OF inv]
  have q: "q = (ts_q s)\<lparr>tr_timers := (tr_timers (ts_q s))(i \<mapsto> \<lparr>tm_name = name, tm_deadline = dl, tm_status = Armed\<rparr>),
             tr_next := Suc i\<rparr>" and i: "i = tr_next (ts_q s)"
    using af by (auto simp: afterFunc_def)
  have fresh: "j \<noteq> i" if "entry (ts_q s) n k j" for n k j
    using I(1) [OF that] I(2) [of j] i by (auto simp: live_def)
  show ?thesis
    unfolding trig_inv_def
  proof (intro conjI allI impI)
    fix n k j
    assume "entry (ts_q (s\<lparr>ts_q := q, ts_pending := Some (key, name, i)\<rparr>)) n k j"
    then have "entry (ts_q s) n k j" by (simp add: q)
    with fresh I(1) show "live (ts_q (s\<lparr>ts_q := q, ts_pending := Some (key, name, i)\<rparr>)) n j"
      by (fastforce simp: live_def q)
  next
    fix j
    assume "tr_timers (ts_q (s\<lparr>ts_q := q, ts_pending := Some (key, name, i)\<rparr>)) j \<noteq> None"
    then show "j < tr_next (ts_q (s\<lparr>ts_q := q, ts_pending := Some (key, name, i)\<rparr>))"
      using I(2) [of j] i by (auto simp: q split: if_splits)
  qed (use fresh in \<open>auto simp: q\<close>)
qed

lemma trig_inv_register:
  assumes inv: "trig_inv s" and pend: "ts_pending s = Some (key, name, i)"
  shows "trig_inv (s\<lparr>ts_q := register key name i (ts_q s), ts_pending := None\<rparr>)"
proof -
  note I = trig_invD [OF inv]
  have keep: "live (register key name i (ts_q s)) n j"
    if "live (ts_q s) n j" "\<not> entry (ts_q s) name key j" for n j
    using that timers_register [of key name i "ts_q s" j] by (auto intro: live_cong)
  have "live (ts_q s) name i" "\<not> entry (ts_q s) name key i"
    using I(3) [OF pend] by (auto simp: live_def)
  note self = keep [OF this]
  have "live (register key name i (ts_q s)) n j"
    if e: "entry (register key name i (ts_q s)) n k j" for n k j
    using entry_register [OF e]
  proof
    assume e': "entry (ts_q s) n k j \<and> \<not> (n = name \<and> (k = key \<or> (\<exists>old. entry (ts_q s) name key old)))"
    then have "\<not> entry (ts_q s) name key j"
      using I(1) live_name by blast
    with e' I(1) keep show ?thesis by blast
  qed (use self in simp)
  then show ?thesis
    using I(2) dom_timers_keep(1) by (simp add: trig_inv_def)
qed

lemma trig_inv_stop:
  assumes inv: "trig_inv s" and pend: "ts_pending s = None"
  shows "trig_inv (s\<lparr>ts_q := StopTimer key vc (ts_q s)\<rparr>)"
proof -
  note I = trig_invD [OF inv]
  have "live (StopTimer key vc (ts_q s)) n j" if e: "entry (StopTimer key vc (ts_q s)) n k j" for n k j
  proof -
    from entry_StopTimer [OF e] have e': "entry (ts_q s) n k j"
      and no: "\<not> (n = namespacedName vc \<and> (\<exists>old. entry (ts_q s) n key old))" by auto
    then have "\<not> entry (ts_q s) (namespacedName vc) key j"
      using I(1) live_name by blast
    with timers_StopTimer [of key vc "ts_q s" j] have "tr_timers (StopTimer key vc (ts_q s)) j = tr_timers (ts_q s) j"
      by blast
    with I(1) [OF e'] show ?thesis by (rule live_cong [rotated])
  qed
  then show ?thesis
    using I(2) dom_timers_keep(2) pend by (simp add: trig_inv_def)
qed

lemma trig_inv_callback:
  assumes inv: "trig_inv s" and t: "tr_timers (ts_q s) i = Some t" "tm_status t = Firing"
  shows "trig_inv (s\<lparr>ts_q := callback i (ts_q s)\<rparr>)"
proof -
  note I = trig_invD [OF inv]
  have other: "tr_timers (callback i (ts_q s)) j = tr_timers (ts_q s) j" if "j \<noteq> i" for j
    using that t by (simp add: callback_def)
  have "live (callback i (ts_q s)) n j" if e: "entry (callback i (ts_q s)) n k j" for n k j
  proof -
    from e t(1) have e': "entry (ts_q s) n k j" and n: "n \<noteq> tm_name t"
      by (simp_all add: entry_callback)
    from I(1) [OF e'] n t(1) have "j \<noteq> i" by (auto simp: live_def)
    from live_cong [OF other [OF this] I(1) [OF e']] show ?thesis .
  qed
  moreover have "(\<exists>t. tr_timers (callback i (ts_q s)) j = Some t \<and> tm_name t = n \<and> tm_status t = Armed) \<and>
      (\<forall>n' k'. \<not> entry (callback i (ts_q s)) n' k' j)" if "ts_pending s = Some (k, n, j)" for k n j
    using I(3) [OF that] other [of j] t by (cases "j = i") (auto simp: entry_callback)
  moreover have "j < tr_next (ts_q s)" if "tr_timers (callback i (ts_q s)) j \<noteq> None" for j
    using that I(2) [of j] other [of j] t by (cases "j = i") auto
  ultimately show ?thesis by (simp add: trig_inv_def)
qed

lemma trig_inv_fire:
  assumes inv: "trig_inv s" and pend: "\<forall>key name. ts_pending s \<noteq> Some (key, name, i)"
  shows "trig_inv (s\<lparr>ts_q := fire i (ts_q s)\<rparr>)"
proof -
  note I = trig_invD [OF inv]
  have other: "tr_timers (fire i (ts_q s)) j = tr_timers (ts_q s) j" if "j \<noteq> i" for j
    using that by (simp add: fire_def split: option.split)
  have "j < tr_next (ts_q s)" if "tr_timers (fire i (ts_q s)) j \<noteq> None" for j
    using that I(2) [of j] by (auto simp: fire_def split: option.splits if_splits)
  moreover have "(\<exists>t. tr_timers (fire i (ts_q s)) j = Some t \<and> tm_name t = n \<and> tm_status t = Armed) \<and>
      (\<forall>n' k'. \<not> entry (ts_q s) n' k' j)" if "ts_pending s = Some (k, n, j)" for k n j
    using I(3) [OF that] other [of j] pend that by auto
  ultimately show ?thesis
    using I(1) live_fire by (simp add: trig_inv_def)
qed

lemma trig_step_inv: "trig_step True s s' \<Longrightarrow> trig_inv s \<Longrightarrow> trig_inv s'"
proof (induction rule: trig_step.induct)
  case (tick s t)
  then show ?case by (simp add: trig_inv_def)
qed (auto intro: trig_inv_create trig_inv_register trig_inv_stop trig_inv_fire trig_inv_callback)

lemma trig_reachable_inv: "trig_reachable True s \<Longrightarrow> trig_inv s"
  by (induction rule: trig_reachable.induct) (auto intro: trig_inv_init trig_step_inv)

subsection \<open>Properties\<close>

text \<open>
  C18: as long as no timer fires before it is registered, in every interleaving of reconciles,
  deadlines and callbacks an existing timer is a pending reconcile: whenever \<open>TimerExists\<close> answers
  true there is a timer of that very cluster which is armed or whose callback is about to run.
\<close>

theorem timer_exists_means_pending:
  assumes "trig_reachable True s" and "TimerExists key vc (ts_q s)"
  shows "\<exists>i. entry (ts_q s) (namespacedName vc) key i \<and> live (ts_q s) (namespacedName vc) i"
  using trig_reachable_inv [OF assms(1)] assms(2)
  by (auto simp: TimerExists_def timer_exists_entry trig_inv_def)

lemma trig_reachable_steps:
  "(trig_step quiet)\<^sup>*\<^sup>* s s' \<Longrightarrow> trig_reachable quiet s \<Longrightarrow> trig_reachable quiet s'"
  by (induction rule: rtranclp_induct) (auto intro: trig_reachable.step)

lemma live_can_fire:
  assumes "live (ts_q s) name i" and "ts_pending s = None"
  shows "\<exists>s'. (trig_step True)\<^sup>*\<^sup>* s s' \<and> tr_chan (ts_q s') = tr_chan (ts_q s) @ [name] \<and>
           tr_timetable (ts_q s') = (tr_timetable (ts_q s))(name := None)"
proof -
  from assms(1) obtain t where t: "tr_timers (ts_q s) i = Some t" "tm_name t = name"
    and st: "tm_status t = Armed \<or> tm_status t = Firing" by (auto simp: live_def)
  define s1 where "s1 = s\<lparr>ts_now := max (ts_now s) (tm_deadline t)\<rparr>"
  have tick: "trig_step True s s1" unfolding s1_def by (rule trig_step.tick) simp
  have cb: "\<exists>s'. trig_step True u s' \<and> tr_chan (ts_q s') = tr_chan (ts_q u) @ [name] \<and>
      tr_timetable (ts_q s') = (tr_timetable (ts_q u))(name := None)"
    if "tr_timers (ts_q u) i = Some t'" "tm_status t' = Firing" "tm_name t' = name" for u t'
    using that trig_step.run_callback [of u i t' True]
    by (intro exI [of _ "u\<lparr>ts_q := callback i (ts_q u)\<rparr>"]) (simp add: callback_def delete_entry_def)
  from st show ?thesis
  proof
    assume a: "tm_status t = Armed"
    define s2 where "s2 = s1\<lparr>ts_q := fire i (ts_q s1)\<rparr>"
    have "trig_step True s1 s2"
      unfolding s2_def using t a assms(2) by (intro trig_step.timer_fires) (auto simp: s1_def)
    moreover obtain s' where "trig_step True s2 s'" "tr_chan (ts_q s') = tr_chan (ts_q s2) @ [name]"
      "tr_timetable (ts_q s') = (tr_timetable (ts_q s2))(name := None)"
      using cb [of s2 "t\<lparr>tm_status := Firing\<rparr>"] t by (auto simp: s2_def s1_def fire_def)
    moreover have "tr_chan (ts_q s2) = tr_chan (ts_q s)" "tr_timetable (ts_q s2) = tr_timetable (ts_q s)"
      using t by (simp_all add: s2_def s1_def fire_def)
    ultimately show ?thesis using tick by (intro exI [of _ s']) (auto intro: converse_rtranclp_into_rtranclp)
  qed (use cb [of s t] t in auto)
qed

text \<open>
  An existing timer always leads to a reconcile: from every reachable state of that kind, with
  no registration in progress, time can pass so that the cluster's event is sent on the channel
  and its entry is gone, which lets the next reconcile act again.
\<close>

theorem existing_timer_can_trigger:
  assumes "trig_reachable True s" and "TimerExists key vc (ts_q s)" and "ts_pending s = None"
  shows "\<exists>s'. trig_reachable True s' \<and> tr_chan (ts_q s') = tr_chan (ts_q s) @ [namespacedName vc] \<and>
           \<not> TimerExists key vc (ts_q s')"
proof -
  obtain i where "live (ts_q s) (namespacedName vc) i"
    using trig_reachable_inv [OF assms(1)] assms(2)
    by (auto simp: TimerExists_def timer_exists_entry trig_inv_def)
  from live_can_fire [OF this assms(3)] obtain s' where
    s': "(trig_step True)\<^sup>*\<^sup>* s s'" "tr_chan (ts_q s') = tr_chan (ts_q s) @ [namespacedName vc]"
    "tr_timetable (ts_q s') = (tr_timetable (ts_q s))(namespacedName vc := None)" by blast
  from s'(3) have "\<not> TimerExists key vc (ts_q s')"
    by (simp add: TimerExists_def timer_exists_def)
  with s'(2) trig_reachable_steps [OF s'(1) assms(1)] show ?thesis by blast
qed

text \<open>
  Without that proviso the guarantee fails. A timer may fire and run its callback in the gap
  between \<open>time.AfterFunc\<close> and the locked section of \<open>TriggerAfter\<close>; the registration that follows
  leaves an entry whose timer is spent, so \<open>TimerExists\<close> stays true with nothing left to trigger a
  reconcile.
\<close>

theorem trigger_after_race:
  "\<exists>s. trig_reachable False s \<and> timer_exists key name (ts_q s) \<and> ts_pending s = None \<and>
       (\<forall>i n. \<not> live (ts_q s) n i)"
proof -
  define s0 where "s0 = init_trig_system 0"
  define q1 where "q1 = snd (afterFunc 0 name (ts_q s0))"
  define s1 where "s1 = s0\<lparr>ts_q := q1, ts_pending := Some (key, name, 0)\<rparr>"
  define s2 where "s2 = s1\<lparr>ts_q := fire 0 (ts_q s1)\<rparr>"
  define s3 where "s3 = s2\<lparr>ts_q := callback 0 (ts_q s2)\<rparr>"
  define s4 where "s4 = s3\<lparr>ts_q := register key name 0 (ts_q s3), ts_pending := None\<rparr>"
  note defs = s0_def q1_def s1_def s2_def s3_def s4_def init_trig_system_def NewReconcileTriggerer_def
    trig_defs Let_def
  have "trig_step False s0 s1"
    unfolding s1_def by (rule trig_step.trigger_create [where d = 0]) (simp_all add: defs)
  moreover have "trig_step False s1 s2"
    unfolding s2_def by (rule trig_step.timer_fires) (auto simp: defs)
  moreover have "trig_step False s2 s3"
    unfolding s3_def by (rule trig_step.run_callback) (auto simp: defs)
  moreover have "trig_step False s3 s4"
    unfolding s4_def by (rule trig_step.trigger_register) (simp add: defs)
  moreover have "trig_reachable False s0"
    unfolding s0_def by (rule trig_reachable.start)
  ultimately have "trig_reachable False s4"
    by (meson trig_reachable.step)
  moreover have "timer_exists key name (ts_q s4)" "ts_pending s4 = None" "\<forall>i n. \<not> live (ts_q s4) n i"
    by (auto simp: defs live_def)
  ultimately show ?thesis by blast
qed

end
