(* ===== verification/OperatorEnv.thy ===== *)
theory OperatorEnv
  imports KubeObjects ReconcileTriggerer
begin

text \<open>
  What the operator calls and the repository does not hold: the API client, one \<open>resource\<close> of
  operations per kind of object over a world \<open>'w\<close> of which nothing is known, the functions of
  \<open>controller-runtime\<close> and \<open>apimachinery\<close> it uses, the clock and the random source. They are the
  fields of \<open>operator_env\<close>, an argument of every reconcile function.

  The state of a reconcile has that world, the timers of the triggerer, and two logs the model
  adds to observe the code: every write sent to the API server, in order and whether it succeeded
  or not, and every event recorded.
\<close>

record ('w, 'o) resource =
  r_get :: "string \<Rightarrow> string \<Rightarrow> ('w, 'o) prog"      \<comment> \<open>namespace and name\<close>
  r_list :: "strmap \<Rightarrow> ('w, 'o list) prog"       \<comment> \<open>by label selector, in all namespaces\<close>
  r_create :: "'o \<Rightarrow> ('w, 'o) prog"               \<comment> \<open>returns the object as the server stored it\<close>
  r_update :: "'o \<Rightarrow> ('w, 'o) prog"
  r_delete :: "'o \<Rightarrow> ('w, unit) prog"

record 'w operator_env =
  e_ServiceAccounts :: "('w, service_account) resource"
  e_Roles :: "('w, rbac_role) resource"
  e_ClusterRoles :: "('w, rbac_role) resource"
  e_RoleBindings :: "('w, rbac_binding) resource"
  e_ClusterRoleBindings :: "('w, rbac_binding) resource"
  e_Services :: "('w, service) resource"
  e_Secrets :: "('w, secret) resource"
  e_StatefulSets :: "('w, statefulset) resource"
  e_ConfigMaps :: "('w, config_map) resource"
  e_PDBs :: "('w, pod_disruption_budget) resource"
  e_Pods :: "('w, pod) resource"
  e_Namespaces :: "('w, namespace) resource"
  e_ServiceMonitors :: "('w, service_monitor) resource"
  e_VarnishClusters :: "('w, VarnishCluster) resource"
  e_StatusUpdate :: "VarnishCluster \<Rightarrow> ('w, VarnishCluster) prog"
  e_SetControllerReference :: "VarnishCluster \<Rightarrow> objmeta \<Rightarrow> objmeta outcome"
  e_AddFinalizer :: "string list \<Rightarrow> string \<Rightarrow> string list"
  e_RemoveFinalizer :: "string list \<Rightarrow> string \<Rightarrow> string list"
  e_SchemeDefaultService :: "service \<Rightarrow> service"
  e_SchemeDefaultStatefulSet :: "statefulset \<Rightarrow> statefulset"
  e_FormatLabels :: "strmap \<Rightarrow> string"
  e_GroupVersionKind :: "VarnishCluster \<Rightarrow> string \<times> string \<times> string"
  e_RandRead :: "nat \<Rightarrow> ('w, string) prog"
  e_Now :: "'w \<Rightarrow> time \<times> 'w"
  e_CoupledVarnishImage :: string

datatype request =
    Create kobj
  | Update kobj
  | Delete kobj
  | UpdateStatus VarnishCluster

datatype operator_event = WarningEvent string string  \<comment> \<open>reason and message\<close>

record 'w ostate =
  os_world :: 'w
  os_timers :: triggerer
  os_requests :: "request list"
  os_events :: "operator_event list"

type_synonym ('w, 'a) operator = "('w ostate, 'a) prog"

subsection \<open>Calls of the client\<close>

definition in_world :: "('w, 'a) prog \<Rightarrow> ('w, 'a) operator" where
  "in_world m = (\<lambda>s. case m (os_world s) of (r, w) \<Rightarrow> (r, s\<lparr>os_world := w\<rparr>))"

definition log_request :: "request \<Rightarrow> ('w, 'a) operator \<Rightarrow> ('w, 'a) operator" where
  "log_request q m = (\<lambda>s. m (s\<lparr>os_requests := os_requests s @ [q]\<rparr>))"

definition api_get :: "('w, 'o) resource \<Rightarrow> string \<Rightarrow> string \<Rightarrow> ('w, 'o) operator" where
  "api_get res namespace name = in_world (r_get res namespace name)"

definition api_list :: "('w, 'o) resource \<Rightarrow> strmap \<Rightarrow> ('w, 'o list) operator" where
  "api_list res selector = in_world (r_list res selector)"

definition api_create :: "('o \<Rightarrow> kobj) \<Rightarrow> ('w, 'o) resource \<Rightarrow> 'o \<Rightarrow> ('w, 'o) operator" where
  "api_create mk res x = log_request (Create (mk x)) (in_world (r_create res x))"

definition api_update :: "('o \<Rightarrow> kobj) \<Rightarrow> ('w, 'o) resource \<Rightarrow> 'o \<Rightarrow> ('w, 'o) operator" where
  "api_update mk res x = log_request (Update (mk x)) (in_world (r_update res x))"

definition api_delete :: "('o \<Rightarrow> kobj) \<Rightarrow> ('w, 'o) resource \<Rightarrow> 'o \<Rightarrow> ('w, unit) operator" where
  "api_delete mk res x = log_request (Delete (mk x)) (in_world (r_delete res x))"

definition api_update_status :: "'w operator_env \<Rightarrow> VarnishCluster \<Rightarrow> ('w, VarnishCluster) operator" where
  "api_update_status e vc = log_request (UpdateStatus vc) (in_world (e_StatusUpdate e vc))"

definition now :: "'w operator_env \<Rightarrow> ('w, time) operator" where
  "now e = (\<lambda>s. case e_Now e (os_world s) of (t, w) \<Rightarrow> (Ret t, s\<lparr>os_world := w\<rparr>))"

text \<open>Reading through a pointer in a program.\<close>

definition deref :: "'a option \<Rightarrow> ('s, 'a) prog" where
  "deref x = lift (oderef x)"

definition with_timers :: "(triggerer \<Rightarrow> triggerer) \<Rightarrow> ('w, unit) operator" where
  "with_timers f = (\<lambda>s. (Ret (), s\<lparr>os_timers := f (os_timers s)\<rparr>))"

definition read_timers :: "(triggerer \<Rightarrow> 'a) \<Rightarrow> ('w, 'a) operator" where
  "read_timers f = (\<lambda>s. (Ret (f (os_timers s)), s))"

text \<open>\<open>EventHandler.Warning\<close> of \<open>varnishcluster_events.go\<close>: the recorder's event type is fixed.\<close>

definition event_warning :: "string \<Rightarrow> string \<Rightarrow> ('w, unit) operator" where
  "event_warning reason message = (\<lambda>s. (Ret (), s\<lparr>os_events := os_events s @ [WarningEvent reason message]\<rparr>))"

lemma deref_Some [simp]: "deref (Some a) = ret a"
  by (simp add: deref_def ret_def lift_def)

lemma deref_apply [prog_simps]: "deref x s = (case x of None \<Rightarrow> (Panic NilDeref, s) | Some a \<Rightarrow> (Ret a, s))"
  by (simp add: deref_def split: option.split)

lemma bnd_read_timers [simp]: "bnd (read_timers f) g s = g (f (os_timers s)) s"
  by (simp add: read_timers_def bnd_apply)

lemma with_timers_apply [simp]: "with_timers f s = (Ret (), s\<lparr>os_timers := f (os_timers s)\<rparr>)"
  by (simp add: with_timers_def)

lemma event_warning_apply [simp]:
  "event_warning reason message s = (Ret (), s\<lparr>os_events := os_events s @ [WarningEvent reason message]\<rparr>)"
  by (simp add: event_warning_def)

lemmas api_defs = api_get_def api_list_def api_create_def api_update_def api_delete_def api_update_status_def

subsection \<open>Which writes a program can send\<close>

text \<open>
  \<open>emits Q m\<close>: whatever the API server answers, the writes \<open>m\<close> adds to the log satisfy \<open>Q\<close> and it
  leaves the earlier ones alone. The property follows the structure of a program.
\<close>

definition emits :: "(request \<Rightarrow> bool) \<Rightarrow> ('w, 'a) operator \<Rightarrow> bool" where
  "emits Q m \<longleftrightarrow> (\<forall>s. \<exists>rs. os_requests (snd (m s)) = os_requests s @ rs \<and> (\<forall>r \<in> set rs. Q r))"

abbreviation read_only :: "('w, 'a) operator \<Rightarrow> bool" where
  "read_only m \<equiv> emits (\<lambda>_. False) m"

lemma emitsD: "emits Q m \<Longrightarrow> m s = (r, s') \<Longrightarrow> \<exists>rs. os_requests s' = os_requests s @ rs \<and> (\<forall>r \<in> set rs. Q r)"
  unfolding emits_def by (metis snd_conv)

lemma emits_mono: "emits P m \<Longrightarrow> (\<And>r. P r \<Longrightarrow> Q r) \<Longrightarrow> emits Q m"
  unfolding emits_def by meson

lemma emits_pure [emits_intros]:
  "emits Q (ret a)" "emits Q (fail e)" "emits Q (lift r)" "emits Q (now env)"
  "emits Q (with_timers f)" "emits Q (read_timers g)" "emits Q (event_warning rs m)"
  "emits Q (deref x)"
  by (simp_all add: emits_def now_def with_timers_def read_timers_def event_warning_def deref_def split: prod.split)

lemma emits_in_world [emits_intros]: "emits Q (in_world m)"
  by (simp add: emits_def in_world_def split: prod.split)

lemma emits_log: "Q r \<Longrightarrow> emits Q m \<Longrightarrow> emits Q (log_request r m)"
  unfolding emits_def log_request_def
proof
  fix s :: "'a ostate"
  assume r: "Q r" and m: "\<forall>s. \<exists>rs. os_requests (snd (m s)) = os_requests s @ rs \<and> (\<forall>r \<in> set rs. Q r)"
  obtain rs where "os_requests (snd (m (s\<lparr>os_requests := os_requests s @ [r]\<rparr>))) = os_requests s @ [r] @ rs"
    "\<forall>r \<in> set rs. Q r"
    using m [THEN spec, of "s\<lparr>os_requests := os_requests s @ [r]\<rparr>"] by auto
  with r show "\<exists>rs. os_requests (snd (m (s\<lparr>os_requests := os_requests s @ [r]\<rparr>))) = os_requests s @ rs \<and>
      (\<forall>r \<in> set rs. Q r)"
    by (intro exI [of _ "[r] @ rs"]) auto
qed

lemma emits_reads [emits_intros]: "emits Q (api_get res ns n)" "emits Q (api_list res sel)"
  by (simp_all add: api_defs emits_in_world)

lemma emits_writes [emits_intros]:
  "Q (Create (mk x)) \<Longrightarrow> emits Q (api_create mk res x)"
  "Q (Update (mk x)) \<Longrightarrow> emits Q (api_update mk res x)"
  "Q (Delete (mk x)) \<Longrightarrow> emits Q (api_delete mk res x)"
  "Q (UpdateStatus vc) \<Longrightarrow> emits Q (api_update_status e vc)"
  by (simp_all add: api_defs emits_log emits_in_world)

lemma emits_step:
  assumes "emits Q m" "m s = (r, s')" "emits Q k"
  shows "\<exists>rs. os_requests (snd (k s')) = os_requests s @ rs \<and> (\<forall>r \<in> set rs. Q r)"
proof -
  obtain rs where rs: "os_requests s' = os_requests s @ rs" "\<forall>r \<in> set rs. Q r"
    using emitsD [OF assms(1,2)] by blast
  obtain rs' where "os_requests (snd (k s')) = os_requests s' @ rs'" "\<forall>r \<in> set rs'. Q r"
    using assms(3) unfolding emits_def by blast
  with rs show ?thesis by (intro exI [of _ "rs @ rs'"]) auto
qed

lemma emits_attempt [emits_intros]:
  assumes m: "emits Q m" and f: "\<And>r. emits Q (f r)"
  shows "emits Q (attempt m f)"
  unfolding emits_def
proof
  fix s
  obtain r s' where ms: "m s = (r, s')" by (cases "m s")
  show "\<exists>rs. os_requests (snd (attempt m f s)) = os_requests s @ rs \<and> (\<forall>r \<in> set rs. Q r)"
  proof (cases r)
    case (Ret a)
    then show ?thesis using emits_step [OF m ms f [of "Inr a"]] ms by (simp add: attempt_apply)
  next
    case (Err e)
    then show ?thesis using emits_step [OF m ms f [of "Inl e"]] ms by (simp add: attempt_apply)
  next
    case (Panic p)
    then show ?thesis using emitsD [OF m ms] ms by (simp add: attempt_apply)
  qed
qed

lemma emits_bnd [emits_intros]:
  assumes "emits Q m" "\<And>a. emits Q (f a)"
  shows "emits Q (bnd m f)"
proof -
  have "bnd m f = attempt m (\<lambda>r. case r of Inl e \<Rightarrow> fail e | Inr a \<Rightarrow> f a)"
    by (auto simp: attempt_def bnd_def fun_eq_iff split: prod.split outcome.split)
  then show ?thesis using assms by (auto intro!: emits_attempt emits_pure split: sum.split)
qed

lemma emits_seq [emits_intros]: "emits Q m \<Longrightarrow> emits Q k \<Longrightarrow> emits Q (seq m k)"
  by (simp add: seq_def emits_bnd)

lemma emits_wrap [emits_intros]: "emits Q m \<Longrightarrow> emits Q (wrap msg m)"
  unfolding wrap_def by (rule emits_attempt) (auto intro: emits_pure split: sum.split)

lemma emits_for_each [emits_intros]: "(\<And>x. x \<in> set xs \<Longrightarrow> emits Q (f x)) \<Longrightarrow> emits Q (for_each xs f)"
  by (induction xs) (auto intro: emits_seq emits_pure)

lemma emits_if [emits_intros]: "(b \<Longrightarrow> emits Q m) \<Longrightarrow> (\<not> b \<Longrightarrow> emits Q k) \<Longrightarrow> emits Q (if b then m else k)"
  by simp

lemma emits_case_sum [emits_intros]:
  "(\<And>a. x = Inl a \<Longrightarrow> emits Q (f a)) \<Longrightarrow> (\<And>b. x = Inr b \<Longrightarrow> emits Q (g b)) \<Longrightarrow>
   emits Q (case x of Inl a \<Rightarrow> f a | Inr b \<Rightarrow> g b)"
  by (cases x) simp_all

lemma emits_case_option [emits_intros]:
  "(x = None \<Longrightarrow> emits Q m) \<Longrightarrow> (\<And>a. x = Some a \<Longrightarrow> emits Q (f a)) \<Longrightarrow>
   emits Q (case x of None \<Rightarrow> m | Some a \<Rightarrow> f a)"
  by (cases x) simp_all

lemma emits_case_prod [emits_intros]: "(\<And>a b. x = (a, b) \<Longrightarrow> emits Q (f a b)) \<Longrightarrow> emits Q (case x of (a, b) \<Rightarrow> f a b)"
  by (cases x) simp

end
