(* ===== verification/DelayedRollingUpdate.thy ===== *)
theory DelayedRollingUpdate
  imports OperatorEnv
begin

text \<open>
  \<open>varnishcluster_delayed_rollingupdate.go\<close>: with the update strategy \<open>DelayedRollingUpdate\<close> the
  operator itself deletes one outdated pod at a time, and waits \<open>DelaySeconds\<close> after the start of
  the newest updated pod before the next. Times are \<open>int\<close> nanoseconds: the source's
  \<open>int64\<close> holds every product and sum for start times between the years 1678 and 2262.
\<close>

definition second :: int where "second = 1000000000"

definition pod_revision :: "pod \<Rightarrow> string" where
  "pod_revision p = lookup (om_Labels (pod_Meta p)) ''controller-revision-hash''"

text \<open>
  The loop over the pods: the newest pod of the current revision, and the last one of another
  revision. Comparing two start times reads through both pointers.
\<close>

fun scan_pods :: "string \<Rightarrow> pod list \<Rightarrow> pod option \<times> pod option \<Rightarrow> (pod option \<times> pod option) outcome" where
  "scan_pods revision [] acc = Ret acc"
| "scan_pods revision (p # ps) (newest, candidate) =
     (if pod_revision p \<noteq> revision then scan_pods revision ps (newest, Some p)
      else (case newest of
          None \<Rightarrow> scan_pods revision ps (Some p, candidate)
        | Some n \<Rightarrow>
            obind (oderef (pod_StartTime n)) (\<lambda>tn.
            obind (oderef (pod_StartTime p)) (\<lambda>tp.
              scan_pods revision ps (if tn < tp then Some p else newest, candidate)))))"

definition trigger_after :: "'w operator_env \<Rightarrow> int \<Rightarrow> VarnishCluster \<Rightarrow> ('w, unit) operator" where
  "trigger_after e delay instance =
     bnd (now e) (\<lambda>t. with_timers (TriggerAfter DelayedRollingUpdateStrategy delay instance t))"

definition update_pod :: "'w operator_env \<Rightarrow> VarnishCluster \<Rightarrow> int \<Rightarrow> pod \<Rightarrow> ('w, unit) operator" where
  "update_pod e instance delay p =
     seq (api_delete ObjPod (e_Pods e) p) (trigger_after e delay instance)"

definition update_when_due ::
  "'w operator_env \<Rightarrow> VarnishCluster \<Rightarrow> int \<Rightarrow> pod \<Rightarrow> pod \<Rightarrow> ('w, unit) operator" where
  "update_when_due e instance delay newest candidate =
     bnd (deref (pod_StartTime newest)) (\<lambda>started.
       let next = started + delay in
       bnd (now e) (\<lambda>t.
         if t div second - next div second \<ge> 0 then update_pod e instance delay candidate
         else bnd (now e) (\<lambda>t'. trigger_after e (next - t') instance)))"

definition reconcileDelayedRollingUpdate ::
  "'w operator_env \<Rightarrow> VarnishCluster \<Rightarrow> statefulset \<Rightarrow> ('w, unit) operator" where
  "reconcileDelayedRollingUpdate e instance sts =
     bnd (deref (sp_UpdateStrategy (vc_Spec instance))) (\<lambda>strategy.
       if us_Type strategy \<noteq> DelayedRollingUpdateStrategy
       then with_timers (StopTimer DelayedRollingUpdateStrategy instance)
       else if stss_UpdatedReplicas (sts_Status sts) = stss_Replicas (sts_Status sts) then ret ()
       else bnd (api_list (e_Pods e) (CombinedComponentLabels instance VarnishComponentVarnish)) (\<lambda>pods.
         if pods = [] then ret ()
         else bnd (read_timers (TimerExists DelayedRollingUpdateStrategy instance)) (\<lambda>waiting.
           if waiting then ret ()
           else if sint (stss_ReadyReplicas (sts_Status sts)) < sint (stss_Replicas (sts_Status sts)) then ret ()
           else bnd (lift (scan_pods (stss_UpdateRevision (sts_Status sts)) pods (None, None))) (\<lambda>(newest, candidate).
             case candidate of
               None \<Rightarrow> ret ()
             | Some c \<Rightarrow>
                 bnd (deref (us_DelayedRollingUpdate strategy)) (\<lambda>d.
                   let delay = sint (dru_DelaySeconds d) * second in
                   case newest of
                     None \<Rightarrow> update_pod e instance delay (hd pods)
                   | Some n \<Rightarrow> update_when_due e instance delay n c)))))"

subsection \<open>What the scan finds\<close>

lemma scan_pods_Cons_Ret:
  "scan_pods rv (p # ps) (n0, c0) = Ret a \<longleftrightarrow>
     (if pod_revision p \<noteq> rv then scan_pods rv ps (n0, Some p) = Ret a
      else (case n0 of
          None \<Rightarrow> scan_pods rv ps (Some p, c0) = Ret a
        | Some n \<Rightarrow> \<exists>tn tp. pod_StartTime n = Some tn \<and> pod_StartTime p = Some tp \<and>
            scan_pods rv ps (if tn < tp then Some p else n0, c0) = Ret a))"
  by (auto simp: obind_eq_Ret split: option.split)

declare scan_pods.simps(2) [simp del] scan_pods_Cons_Ret [simp]

lemma scan_pods_candidate:
  "scan_pods rv ps (n0, c0) = Ret (n, Some c) \<Longrightarrow> c0 = Some c \<or> c \<in> set ps \<and> pod_revision c \<noteq> rv"
  by (induction ps arbitrary: n0 c0) (auto split: if_splits option.splits)

lemma scan_pods_newest:
  "scan_pods rv ps (n0, c0) = Ret (n, c) \<Longrightarrow>
   (n0 \<noteq> None \<longrightarrow> n \<noteq> None) \<and> (n = None \<longrightarrow> (\<forall>p \<in> set ps. pod_revision p \<noteq> rv))"
  by (induction ps arbitrary: n0 c0) (fastforce split: if_splits option.splits)+

text \<open>The newest pod starts no earlier than any updated pod.\<close>

lemma scan_pods_max:
  "scan_pods rv ps (n0, c0) = Ret (Some n, c) \<Longrightarrow> pod_StartTime n = Some t \<Longrightarrow>
   (\<forall>m t0. n0 = Some m \<and> pod_StartTime m = Some t0 \<longrightarrow> t0 \<le> t) \<and>
   (\<forall>p \<in> set ps. \<forall>t0. pod_revision p = rv \<and> pod_StartTime p = Some t0 \<longrightarrow> t0 \<le> t)"
  by (induction ps arbitrary: n0 c0) (fastforce split: if_splits option.splits)+

subsection \<open>When a pod is deleted\<close>

lemma trigger_after_apply:
  "trigger_after e delay vc s =
     (case e_Now e (os_world s) of (t, w) \<Rightarrow>
        (Ret (), s\<lparr>os_world := w, os_timers := TriggerAfter DelayedRollingUpdateStrategy delay vc t (os_timers s)\<rparr>))"
  by (simp add: trigger_after_def now_def with_timers_def bnd_apply split: prod.split)

lemma trigger_after_requests [simp]: "os_requests (snd (trigger_after e delay vc s)) = os_requests s"
  by (simp add: trigger_after_apply split: prod.split)

lemma update_pod_requests:
  "update_pod e vc delay p s = (r, s') \<Longrightarrow> os_requests s' = os_requests s @ [Delete (ObjPod p)]"
  by (auto simp: update_pod_def seq_apply trigger_after_apply api_delete_def log_request_def in_world_def
      split: prod.splits outcome.splits)

lemma update_pod_timer:
  "update_pod e vc delay p s = (Ret a, s') \<Longrightarrow> TimerExists DelayedRollingUpdateStrategy vc (os_timers s')"
  by (auto simp: update_pod_def seq_apply trigger_after_apply rt.exists_after_trigger
      split: prod.splits outcome.splits)

lemma update_when_due_effect:
  assumes "update_when_due e vc delay n c s = (r, s')" "os_requests s' \<noteq> os_requests s"
  shows "\<exists>started w. pod_StartTime n = Some started \<and>
           (started + delay) div second \<le> fst (e_Now e (os_world s)) div second \<and>
           update_pod e vc delay c (s\<lparr>os_world := w\<rparr>) = (r, s')"
  using assms
  by (auto simp: update_when_due_def Let_def bnd_apply deref_apply now_def trigger_after_apply
      split: prod.splits option.splits if_splits) blast

lemma api_list_frame: "api_list res sel s = (r, s') \<Longrightarrow> os_requests s' = os_requests s \<and> os_timers s' = os_timers s"
  by (auto simp: api_list_def in_world_def split: prod.splits)

text \<open>
  C8: the delayed rolling update deletes at most one pod per reconcile, and only an outdated pod of
  the cluster: the pod is one the API server listed for the cluster's Varnish selector and its
  revision is not the update revision; no timer of the strategy was pending; no replica was
  unready; and every pod of the update revision started at least the configured delay ago (to the
  second, as the code compares). After a deletion that succeeded a timer is pending again, so the
  next pod waits for it.
\<close>

theorem rolling_update_one_outdated_pod:
  assumes run: "reconcileDelayedRollingUpdate e vc sts s = (r, s')"
    and deletes: "os_requests s' \<noteq> os_requests s"
  shows "\<exists>strategy d pods s1 p.
     sp_UpdateStrategy (vc_Spec vc) = Some strategy \<and> us_DelayedRollingUpdate strategy = Some d \<and>
     api_list (e_Pods e) (CombinedComponentLabels vc VarnishComponentVarnish) s = (Ret pods, s1) \<and>
     p \<in> set pods \<and> pod_revision p \<noteq> stss_UpdateRevision (sts_Status sts) \<and>
     os_requests s' = os_requests s @ [Delete (ObjPod p)] \<and>
     \<not> TimerExists DelayedRollingUpdateStrategy vc (os_timers s) \<and>
     sint (stss_Replicas (sts_Status sts)) \<le> sint (stss_ReadyReplicas (sts_Status sts)) \<and>
     (\<forall>q \<in> set pods. \<forall>t0. pod_revision q = stss_UpdateRevision (sts_Status sts) \<and> pod_StartTime q = Some t0 \<longrightarrow>
        (t0 + sint (dru_DelaySeconds d) * second) div second \<le> fst (e_Now e (os_world s1)) div second) \<and>
     (r = Ret () \<longrightarrow> TimerExists DelayedRollingUpdateStrategy vc (os_timers s'))"
proof -
  let ?rv = "stss_UpdateRevision (sts_Status sts)"
  let ?list = "api_list (e_Pods e) (CombinedComponentLabels vc VarnishComponentVarnish)"
  obtain strategy where u: "sp_UpdateStrategy (vc_Spec vc) = Some strategy"
    using run deletes by (cases "sp_UpdateStrategy (vc_Spec vc)")
      (auto simp: reconcileDelayedRollingUpdate_def bnd_apply deref_apply)
  obtain rl s1 where ls: "?list s = (rl, s1)" by (cases "?list s")
  note frame = api_list_frame [OF ls]
  obtain pods where pods: "rl = Ret pods" "pods \<noteq> []"
      "\<not> TimerExists DelayedRollingUpdateStrategy vc (os_timers s)"
      "sint (stss_Replicas (sts_Status sts)) \<le> sint (stss_ReadyReplicas (sts_Status sts))"
    and rest: "bnd (lift (scan_pods ?rv pods (None, None))) (\<lambda>(newest, candidate).
             case candidate of
               None \<Rightarrow> ret ()
             | Some c \<Rightarrow>
                 bnd (deref (us_DelayedRollingUpdate strategy)) (\<lambda>d.
                   let delay = sint (dru_DelaySeconds d) * second in
                   case newest of
                     None \<Rightarrow> update_pod e vc delay (hd pods)
                   | Some n \<Rightarrow> update_when_due e vc delay n c)) s1 = (r, s')"
    using run deletes u ls frame
    by (cases rl) (auto simp: reconcileDelayedRollingUpdate_def bnd_apply [of _ _ s] split: if_splits)
  obtain newest c where scan: "scan_pods ?rv pods (None, None) = Ret (newest, Some c)"
    using rest deletes frame
    by (cases "scan_pods ?rv pods (None, None)") (auto simp: bnd_apply split: option.splits)
  obtain d where d: "us_DelayedRollingUpdate strategy = Some d"
    using rest deletes frame scan by (cases "us_DelayedRollingUpdate strategy") (auto simp: bnd_apply deref_apply)
  let ?delay = "sint (dru_DelaySeconds d) * second"
  have c: "c \<in> set pods" "pod_revision c \<noteq> ?rv" using scan_pods_candidate [OF scan] by auto
  show ?thesis
  proof (cases newest)
    case None
    then have "update_pod e vc ?delay (hd pods) s1 = (r, s')"
      using rest scan d by (simp add: bnd_apply Let_def)
    moreover have "\<forall>q \<in> set pods. pod_revision q \<noteq> ?rv" using scan_pods_newest [OF scan] None by simp
    ultimately show ?thesis using u d ls pods frame
      by (intro exI [of _ strategy] exI [of _ d] exI [of _ pods] exI [of _ s1] exI [of _ "hd pods"])
        (auto dest: update_pod_requests update_pod_timer)
  next
    case (Some n)
    then have "update_when_due e vc ?delay n c s1 = (r, s')"
      using rest scan d by (simp add: bnd_apply Let_def)
    from update_when_due_effect [OF this] deletes frame obtain started w where st:
      "pod_StartTime n = Some started" "(started + ?delay) div second \<le> fst (e_Now e (os_world s1)) div second"
      and up: "update_pod e vc ?delay c (s1\<lparr>os_world := w\<rparr>) = (r, s')" by auto
    have "(t0 + ?delay) div second \<le> fst (e_Now e (os_world s1)) div second"
      if "q \<in> set pods" "pod_revision q = ?rv" "pod_StartTime q = Some t0" for q t0
    proof -
      have "t0 \<le> started" using scan_pods_max [OF scan [unfolded Some] st(1)] that by blast
      then have "(t0 + ?delay) div second \<le> (started + ?delay) div second"
        by (simp add: second_def zdiv_mono1)
      with st(2) show ?thesis by simp
    qed
    with u d ls pods c st frame update_pod_requests [OF up] update_pod_timer [of e vc ?delay c _ "()" s'] up
    show ?thesis
      by (intro exI [of _ strategy] exI [of _ d] exI [of _ pods] exI [of _ s1] exI [of _ c]) auto
  qed
qed

end
