(* ===== verification/Upsert.thy ===== *)
theory Upsert
  imports OperatorEnv
begin

text \<open>
  The pattern the operator reconciles most objects by: get the object by the name of the desired
  one; create the desired one when it is not found; when the found one differs, copy the fields the
  operator manages over it and update; otherwise do nothing. What differs per kind is the
  comparison (\<open>pkg/varnishcluster/compare\<close>), the fields copied, and the error messages.

  The locale \<open>upsert\<close> is the contract between comparison and copy; its lemmas say when the second
  of two reconciles is silent, and when it writes again for ever.
\<close>

definition upsert_object ::
  "('o \<Rightarrow> kobj) \<Rightarrow> ('o \<Rightarrow> objmeta) \<Rightarrow> ('w, 'o) resource \<Rightarrow> ('o \<Rightarrow> 'o \<Rightarrow> bool) \<Rightarrow> ('o \<Rightarrow> 'o \<Rightarrow> 'o) \<Rightarrow>
   string \<times> string \<times> string \<Rightarrow> 'o \<Rightarrow> ('w, 'o) operator" where
  "upsert_object mk meta res equal merge msgs desired =
     attempt (api_get res (om_Namespace (meta desired)) (om_Name (meta desired))) (\<lambda>r.
       case r of
         Inl err \<Rightarrow>
           if IsNotFound err then wrap (fst msgs) (api_create mk res desired)
           else fail (Wrapped (fst (snd msgs)) err)
       | Inr found \<Rightarrow>
           if \<not> equal found desired
           then seq (wrap (snd (snd msgs)) (api_update mk res (merge found desired))) (ret desired)
           else ret desired)"

text \<open>
  It returns the desired object as the calls leave it: \<open>Create\<close> overwrites it with the server's
  answer. Most callers only look at the error.
\<close>

definition create_or_update ::
  "('o \<Rightarrow> kobj) \<Rightarrow> ('o \<Rightarrow> objmeta) \<Rightarrow> ('w, 'o) resource \<Rightarrow> ('o \<Rightarrow> 'o \<Rightarrow> bool) \<Rightarrow> ('o \<Rightarrow> 'o \<Rightarrow> 'o) \<Rightarrow>
   string \<times> string \<times> string \<Rightarrow> 'o \<Rightarrow> ('w, unit) operator" where
  "create_or_update mk meta res equal merge msgs desired =
     seq (upsert_object mk meta res equal merge msgs desired) (ret ())"

lemma upsert_object_emits [emits_intros]:
  "Q (Create (mk d)) \<Longrightarrow> (\<And>f. Q (Update (mk (merge f d)))) \<Longrightarrow>
   emits Q (upsert_object mk meta res equal merge msgs d)"
  unfolding upsert_object_def by (intro emits_intros)

lemma create_or_update_emits [emits_intros]:
  "Q (Create (mk d)) \<Longrightarrow> (\<And>f. Q (Update (mk (merge f d)))) \<Longrightarrow>
   emits Q (create_or_update mk meta res equal merge msgs d)"
  unfolding create_or_update_def by (intro emits_intros)

lemma snd_seq_ret [simp]: "snd (seq m (ret a) s) = snd (m s)"
  by (simp add: seq_apply split: prod.split outcome.split)

lemma snd_create_or_update [simp]:
  "snd (create_or_update mk meta res equal merge msgs d s) = snd (upsert_object mk meta res equal merge msgs d s)"
  by (simp add: create_or_update_def)

lemma create_or_update_Ret:
  "create_or_update mk meta res equal merge msgs d s = (Ret u, s1) \<Longrightarrow>
   \<exists>y. upsert_object mk meta res equal merge msgs d s = (Ret y, s1)"
  by (auto simp: create_or_update_def seq_Ret_iff)

text \<open>
  What the operator relies on of the API server for one desired object \<open>d\<close>: a write that succeeds
  is what the next read returns, as far as the comparison with \<open>d\<close> can tell, and reading does not
  change what is read.
\<close>

definition reads_back :: "('o \<Rightarrow> objmeta) \<Rightarrow> ('o \<Rightarrow> 'o \<Rightarrow> bool) \<Rightarrow> ('w, 'o) resource \<Rightarrow> 'o \<Rightarrow> bool" where
  "reads_back meta equal res d \<longleftrightarrow>
     (\<forall>x y w w'. om_Name (meta x) = om_Name (meta d) \<longrightarrow> om_Namespace (meta x) = om_Namespace (meta d) \<longrightarrow>
        r_create res x w = (Ret y, w') \<or> r_update res x w = (Ret y, w') \<longrightarrow>
        (\<exists>z. fst (r_get res (om_Namespace (meta d)) (om_Name (meta d)) w') = Ret z \<and> equal z d = equal x d)) \<and>
     (\<forall>z w w'. r_get res (om_Namespace (meta d)) (om_Name (meta d)) w = (Ret z, w') \<longrightarrow>
        om_Name (meta z) = om_Name (meta d) \<and> om_Namespace (meta z) = om_Namespace (meta d) \<and>
        fst (r_get res (om_Namespace (meta d)) (om_Name (meta d)) w') = Ret z)"

lemma reads_back_write:
  assumes "reads_back meta equal res d" "om_Name (meta x) = om_Name (meta d)"
    "om_Namespace (meta x) = om_Namespace (meta d)"
    "r_create res x w = (Ret y, w') \<or> r_update res x w = (Ret y, w')"
  obtains z w'' where "r_get res (om_Namespace (meta d)) (om_Name (meta d)) w' = (Ret z, w'')" "equal z d = equal x d"
  using assms unfolding reads_back_def by (metis prod.collapse)

lemma reads_back_read:
  assumes "reads_back meta equal res d" "r_get res (om_Namespace (meta d)) (om_Name (meta d)) w = (Ret z, w')"
  obtains w'' where "r_get res (om_Namespace (meta d)) (om_Name (meta d)) w' = (Ret z, w'')"
    "om_Name (meta z) = om_Name (meta d)" "om_Namespace (meta z) = om_Namespace (meta d)"
  using assms unfolding reads_back_def by (metis prod.collapse)

lemma api_get_apply:
  "api_get res ns n s = (case r_get res ns n (os_world s) of (r, w) \<Rightarrow> (r, s\<lparr>os_world := w\<rparr>))"
  by (simp add: api_get_def in_world_def)

lemma api_create_apply:
  "api_create mk res x s = (case r_create res x (os_world s) of (r, w) \<Rightarrow>
     (r, s\<lparr>os_world := w, os_requests := os_requests s @ [Create (mk x)]\<rparr>))"
  by (simp add: api_create_def in_world_def log_request_def split: prod.split)

lemma api_update_apply:
  "api_update mk res x s = (case r_update res x (os_world s) of (r, w) \<Rightarrow>
     (r, s\<lparr>os_world := w, os_requests := os_requests s @ [Update (mk x)]\<rparr>))"
  by (simp add: api_update_def in_world_def log_request_def split: prod.split)

lemma api_delete_apply:
  "api_delete mk res x s = (case r_delete res x (os_world s) of (r, w) \<Rightarrow>
     (r, s\<lparr>os_world := w, os_requests := os_requests s @ [Delete (mk x)]\<rparr>))"
  by (simp add: api_delete_def in_world_def log_request_def split: prod.split)

lemmas api_apply = api_get_apply api_create_apply api_update_apply api_delete_apply

subsection \<open>Owner references\<close>

definition set_controller :: "'w operator_env \<Rightarrow> string \<Rightarrow> VarnishCluster \<Rightarrow> objmeta \<Rightarrow> ('w, objmeta) operator" where
  "set_controller e msg instance m = wrap msg (lift (e_SetControllerReference e instance m))"

text \<open>
  \<open>controllerutil.SetControllerReference\<close> writes the owner references of the object and nothing else
  (it fails when another controller owns the object already).
\<close>

definition sets_only_owner :: "'w operator_env \<Rightarrow> bool" where
  "sets_only_owner e \<longleftrightarrow>
     (\<forall>vc m m'. e_SetControllerReference e vc m = Ret m' \<longrightarrow>
        om_Labels m' = om_Labels m \<and> om_Name m' = om_Name m \<and> om_Namespace m' = om_Namespace m \<and>
        om_Annotations m' = om_Annotations m)"

lemma emits_set_controller_bnd:
  "(\<And>m'. e_SetControllerReference e vc m = Ret m' \<Longrightarrow> emits Q (f m')) \<Longrightarrow>
   emits Q (bnd (set_controller e msg vc m) f)"
  by (cases "e_SetControllerReference e vc m")
    (auto simp: emits_def set_controller_def bnd_apply wrap_apply)

lemma sets_only_ownerD:
  "e_SetControllerReference e vc m = Ret m' \<Longrightarrow> sets_only_owner e \<Longrightarrow>
   om_Labels m' = om_Labels m \<and> om_Name m' = om_Name m \<and> om_Namespace m' = om_Namespace m \<and>
   om_Annotations m' = om_Annotations m"
  unfolding sets_only_owner_def by blast

lemma emits_lift_bnd: "(\<And>a. r = Ret a \<Longrightarrow> emits Q (f a)) \<Longrightarrow> emits Q (bnd (lift r) f)"
  by (cases r) (auto simp: emits_def bnd_apply)

subsection \<open>Which objects are touched\<close>

fun touches :: "(kobj \<Rightarrow> bool) \<Rightarrow> request \<Rightarrow> bool" where
  "touches P (Create x) = P x"
| "touches P (Update x) = P x"
| "touches P (Delete x) = P x"
| "touches P (UpdateStatus vc) = P (ObjVarnishCluster vc)"

text \<open>Creations and updates only.\<close>

fun stores :: "(kobj \<Rightarrow> bool) \<Rightarrow> request \<Rightarrow> bool" where
  "stores P (Create x) = P x"
| "stores P (Update x) = P x"
| "stores P (Delete x) = False"
| "stores P (UpdateStatus vc) = False"

lemma stores_touches: "stores P q \<Longrightarrow> touches P q"
  by (cases q) auto

definition named :: "('o \<Rightarrow> kobj) \<Rightarrow> string \<Rightarrow> string \<Rightarrow> kobj \<Rightarrow> bool" where
  "named mk namespace name x \<longleftrightarrow>
     (\<exists>y. x = mk y) \<and> om_Namespace (kobj_meta x) = namespace \<and> om_Name (kobj_meta x) = name"

text \<open>A get returns the object it was asked for, a list only objects its selector matches.\<close>

definition gets_by_name :: "('o \<Rightarrow> objmeta) \<Rightarrow> ('w, 'o) resource \<Rightarrow> bool" where
  "gets_by_name meta res \<longleftrightarrow>
     (\<forall>ns n w z w'. r_get res ns n w = (Ret z, w') \<longrightarrow> om_Namespace (meta z) = ns \<and> om_Name (meta z) = n)"

definition lists_by_label :: "('o \<Rightarrow> objmeta) \<Rightarrow> ('w, 'o) resource \<Rightarrow> bool" where
  "lists_by_label meta res \<longleftrightarrow>
     (\<forall>sel w zs w'. r_list res sel w = (Ret zs, w') \<longrightarrow> (\<forall>z \<in> set zs. label_match sel (om_Labels (meta z))))"

definition keeps_meta :: "('o \<Rightarrow> objmeta) \<Rightarrow> ('o \<Rightarrow> 'o) \<Rightarrow> bool" where
  "keeps_meta meta f \<longleftrightarrow> (\<forall>x. meta (f x) = meta x)"

text \<open>An accepted update of a cluster answers with the same cluster: identity and specification.\<close>

definition updates_keep_cluster :: "'w operator_env \<Rightarrow> bool" where
  "updates_keep_cluster e \<longleftrightarrow>
     (\<forall>x y w w'. r_update (e_VarnishClusters e) x w = (Ret y, w') \<longrightarrow>
        vc_Name y = vc_Name x \<and> vc_Namespace y = vc_Namespace x \<and> vc_UID y = vc_UID x \<and>
        om_Labels (vc_Meta y) = om_Labels (vc_Meta x) \<and> vc_Spec y = vc_Spec x)"

text \<open>The documented behaviour of the client and of \<open>controller-runtime\<close> the properties on writes rest on.\<close>

definition lawful_env :: "'w operator_env \<Rightarrow> bool" where
  "lawful_env e \<longleftrightarrow>
     sets_only_owner e \<and> updates_keep_cluster e \<and> keeps_meta svc_Meta (e_SchemeDefaultService e) \<and>
     keeps_meta sts_Meta (e_SchemeDefaultStatefulSet e) \<and>
     gets_by_name sa_Meta (e_ServiceAccounts e) \<and> gets_by_name role_Meta (e_Roles e) \<and>
     gets_by_name role_Meta (e_ClusterRoles e) \<and> gets_by_name rb_Meta (e_RoleBindings e) \<and>
     gets_by_name rb_Meta (e_ClusterRoleBindings e) \<and> gets_by_name svc_Meta (e_Services e) \<and>
     gets_by_name sec_Meta (e_Secrets e) \<and> gets_by_name sts_Meta (e_StatefulSets e) \<and>
     gets_by_name cm_Meta (e_ConfigMaps e) \<and> gets_by_name pdb_Meta (e_PDBs e) \<and>
     gets_by_name sm_Meta (e_ServiceMonitors e) \<and> gets_by_name vc_Meta (e_VarnishClusters e) \<and>
     lists_by_label pod_Meta (e_Pods e) \<and> lists_by_label cm_Meta (e_ConfigMaps e) \<and>
     lists_by_label sm_Meta (e_ServiceMonitors e)"

lemma emits_get_attempt:
  fixes res :: "('w, 'o) resource"
  assumes "gets_by_name meta res" "\<And>err. emits Q (f (Inl err))"
    "\<And>z. om_Namespace (meta z) = ns \<Longrightarrow> om_Name (meta z) = n \<Longrightarrow> emits Q (f (Inr z))"
  shows "emits Q (attempt (api_get res ns n) f)"
  unfolding emits_def
proof
  fix s :: "'w ostate"
  obtain r w where g: "r_get res ns n (os_world s) = (r, w)" by (cases "r_get res ns n (os_world s)")
  show "\<exists>rs. os_requests (snd (attempt (api_get res ns n) f s)) = os_requests s @ rs \<and> (\<forall>r \<in> set rs. Q r)"
  proof (cases r)
    case (Ret z)
    then have "om_Namespace (meta z) = ns \<and> om_Name (meta z) = n"
      using g assms(1) unfolding gets_by_name_def by blast
    then have "emits Q (f (Inr z))" using assms(3) by blast
    then show ?thesis using g Ret unfolding emits_def
      by (auto simp: attempt_apply api_get_def in_world_def dest: spec [of _ "s\<lparr>os_world := w\<rparr>"])
  next
    case (Err err)
    then show ?thesis using g assms(2) [of err] unfolding emits_def
      by (auto simp: attempt_apply api_get_def in_world_def dest: spec [of _ "s\<lparr>os_world := w\<rparr>"])
  qed (use g in \<open>simp add: attempt_apply api_get_def in_world_def\<close>)
qed

lemma emits_list_attempt:
  fixes res :: "('w, 'o) resource"
  assumes "lists_by_label meta res" "\<And>err. emits Q (f (Inl err))"
    "\<And>zs. \<forall>z \<in> set zs. label_match sel (om_Labels (meta z)) \<Longrightarrow> emits Q (f (Inr zs))"
  shows "emits Q (attempt (api_list res sel) f)"
  unfolding emits_def
proof
  fix s :: "'w ostate"
  obtain r w where g: "r_list res sel (os_world s) = (r, w)" by (cases "r_list res sel (os_world s)")
  show "\<exists>rs. os_requests (snd (attempt (api_list res sel) f s)) = os_requests s @ rs \<and> (\<forall>r \<in> set rs. Q r)"
  proof (cases r)
    case (Ret zs)
    then have "\<forall>z \<in> set zs. label_match sel (om_Labels (meta z))"
      using g assms(1) unfolding lists_by_label_def by blast
    then have "emits Q (f (Inr zs))" using assms(3) by blast
    then show ?thesis using g Ret unfolding emits_def
      by (auto simp: attempt_apply api_list_def in_world_def dest: spec [of _ "s\<lparr>os_world := w\<rparr>"])
  next
    case (Err err)
    then show ?thesis using g assms(2) [of err] unfolding emits_def
      by (auto simp: attempt_apply api_list_def in_world_def dest: spec [of _ "s\<lparr>os_world := w\<rparr>"])
  qed (use g in \<open>simp add: attempt_apply api_list_def in_world_def\<close>)
qed

lemma bnd_attempt: "bnd m f = attempt m (\<lambda>r. case r of Inl err \<Rightarrow> fail err | Inr a \<Rightarrow> f a)"
  by (auto simp: attempt_def bnd_def fun_eq_iff split: prod.split outcome.split)

lemma emits_get_bnd:
  "gets_by_name meta res \<Longrightarrow>
   (\<And>z. om_Namespace (meta z) = ns \<Longrightarrow> om_Name (meta z) = n \<Longrightarrow> emits Q (f z)) \<Longrightarrow>
   emits Q (bnd (api_get res ns n) f)"
  unfolding bnd_attempt by (erule emits_get_attempt) (auto intro: emits_pure)

lemma emits_list_bnd:
  "lists_by_label meta res \<Longrightarrow>
   (\<And>zs. \<forall>z \<in> set zs. label_match sel (om_Labels (meta z)) \<Longrightarrow> emits Q (f zs)) \<Longrightarrow>
   emits Q (bnd (api_list res sel) f)"
  unfolding bnd_attempt by (erule emits_list_attempt) (auto intro: emits_pure)

text \<open>The metadata the comparisons look at and an update does not write.\<close>

definition fixed_meta :: "objmeta \<Rightarrow> string \<times> string \<times> time option \<times> owner_ref list \<times> string list" where
  "fixed_meta m = (om_Name m, om_Namespace m, om_DeletionTimestamp m, om_OwnerReferences m, om_Finalizers m)"

lemma ignore_metadata_eq:
  "ignore_metadata m = ignore_metadata m' \<longleftrightarrow>
     fixed_meta m = fixed_meta m' \<and> om_Labels m = om_Labels m' \<and> om_Annotations m = om_Annotations m'"
  by (cases m; cases m') (auto simp: ignore_metadata_def fixed_meta_def)

lemma fixed_meta_update [simp]:
  "fixed_meta (m\<lparr>om_Labels := l\<rparr>) = fixed_meta m" "fixed_meta (m\<lparr>om_Annotations := a\<rparr>) = fixed_meta m"
  by (simp_all add: fixed_meta_def)

definition agree_annotated :: "objmeta \<Rightarrow> objmeta \<Rightarrow> bool" where
  "agree_annotated m m' \<longleftrightarrow> fixed_meta m = fixed_meta m' \<and> om_Annotations m = om_Annotations m'"

subsection \<open>The contract of comparison and copy\<close>

text \<open>
  \<open>agree f d\<close>: the found object has the desired values in every field the comparison looks at and
  the copy leaves alone. \<open>good d\<close>: a desired object the comparison accepts as it is.
\<close>

locale upsert =
  fixes mk :: "'o \<Rightarrow> kobj"
    and meta :: "'o \<Rightarrow> objmeta"
    and equal :: "'o \<Rightarrow> 'o \<Rightarrow> bool"
    and merge :: "'o \<Rightarrow> 'o \<Rightarrow> 'o"
    and agree :: "'o \<Rightarrow> 'o \<Rightarrow> bool"
    and good :: "'o \<Rightarrow> bool"
  assumes meta_mk: "kobj_meta (mk x) = meta x"
    and equal_refl: "good d \<Longrightarrow> equal d d"
    and merge_name: "om_Name (meta (merge f d)) = om_Name (meta f)"
    and merge_namespace: "om_Namespace (meta (merge f d)) = om_Namespace (meta f)"
    and equal_merge: "good d \<Longrightarrow> equal (merge f d) d \<longleftrightarrow> agree f d"
begin

lemma silent_when_equal:
  assumes "r_get res (om_Namespace (meta d)) (om_Name (meta d)) (os_world s) = (Ret f, w)" "equal f d"
  shows "upsert_object mk meta res equal merge msgs d s = (Ret d, s\<lparr>os_world := w\<rparr>)"
  using assms by (simp add: upsert_object_def attempt_apply api_get_apply)

lemma updates_when_different:
  assumes "r_get res (om_Namespace (meta d)) (om_Name (meta d)) (os_world s) = (Ret f, w)" "\<not> equal f d"
  shows "os_requests (snd (upsert_object mk meta res equal merge msgs d s)) =
     os_requests s @ [Update (mk (merge f d))]"
  using assms
  by (simp add: upsert_object_def attempt_apply api_get_apply wrap_apply seq_apply api_update_apply
      split: prod.split outcome.split)

lemma after_success:
  assumes law: "reads_back meta equal res d" and good: "good d"
    and run: "upsert_object mk meta res equal merge msgs d s = (Ret u, s1)"
  shows "\<exists>z w. r_get res (om_Namespace (meta d)) (om_Name (meta d)) (os_world s1) = (Ret z, w) \<and>
     (equal z d \<longleftrightarrow>
        (\<forall>f w. r_get res (om_Namespace (meta d)) (om_Name (meta d)) (os_world s) = (Ret f, w) \<longrightarrow>
           equal f d \<or> agree f d))"
proof -
  let ?get = "r_get res (om_Namespace (meta d)) (om_Name (meta d))"
  obtain r w where g: "?get (os_world s) = (r, w)" by (cases "?get (os_world s)")
  show ?thesis
  proof (cases r)
    case (Ret f)
    from reads_back_read [OF law g [unfolded Ret]] obtain w2 where
      f: "?get w = (Ret f, w2)" "om_Name (meta f) = om_Name (meta d)" "om_Namespace (meta f) = om_Namespace (meta d)" .
    show ?thesis
    proof (cases "equal f d")
      case True
      then show ?thesis using silent_when_equal [OF g [unfolded Ret], of msgs] g f Ret run by auto
    next
      case False
      then obtain y w3 where u: "r_update res (merge f d) w = (Ret y, w3)" "os_world s1 = w3"
        using run g Ret
        by (auto simp: upsert_object_def attempt_apply api_apply wrap_apply seq_apply
            split: prod.splits outcome.splits)
      from reads_back_write [OF law _ _ disjI2 [OF u(1)]] f obtain z w4 where
        "?get w3 = (Ret z, w4)" "equal z d = equal (merge f d) d" by (auto simp: merge_name merge_namespace)
      then show ?thesis using u(2) g Ret False by (auto simp: equal_merge good)
    qed
  next
    case (Err err)
    then obtain y w3 where u: "r_create res d w = (Ret y, w3)" "os_world s1 = w3"
      using run g
      by (auto simp: upsert_object_def attempt_apply api_apply wrap_apply seq_apply
          split: prod.splits outcome.splits if_splits)
    from reads_back_write [OF law _ _ disjI1 [OF u(1)]] obtain z w4 where
      "?get w3 = (Ret z, w4)" "equal z d = equal d d" by auto
    then show ?thesis using u(2) g Err by (auto simp: equal_refl good)
  next
    case (Panic p)
    then show ?thesis using run g by (simp add: upsert_object_def attempt_apply api_apply)
  qed
qed

lemma second_run_silent:
  assumes law: "reads_back meta equal res d" and good: "good d"
    and run: "upsert_object mk meta res equal merge msgs d s = (Ret u, s1)"
    and agree: "\<And>f w. r_get res (om_Namespace (meta d)) (om_Name (meta d)) (os_world s) = (Ret f, w) \<Longrightarrow>
           equal f d \<or> agree f d"
  shows "\<exists>s2. upsert_object mk meta res equal merge msgs d s1 = (Ret d, s2) \<and> os_requests s2 = os_requests s1"
proof -
  obtain z w where "r_get res (om_Namespace (meta d)) (om_Name (meta d)) (os_world s1) = (Ret z, w)" "equal z d"
    using after_success [OF law good run] agree by blast
  from silent_when_equal [OF this, of msgs] show ?thesis by simp
qed

lemma drift_is_rewritten:
  assumes law: "reads_back meta equal res d" and good: "good d"
    and run: "upsert_object mk meta res equal merge msgs d s = (Ret u, s1)"
    and drift: "r_get res (om_Namespace (meta d)) (om_Name (meta d)) (os_world s) = (Ret f, w)"
      "\<not> equal f d" "\<not> agree f d"
  shows "\<exists>x. os_requests (snd (upsert_object mk meta res equal merge msgs d s1)) = os_requests s1 @ [Update (mk x)]"
proof -
  obtain z w where "r_get res (om_Namespace (meta d)) (om_Name (meta d)) (os_world s1) = (Ret z, w)" "\<not> equal z d"
    using after_success [OF law good run] drift by blast
  from updates_when_different [OF this, of msgs] show ?thesis by (intro exI)
qed

lemma settles_iff:
  assumes law: "reads_back meta equal res d" and good: "good d"
    and run: "upsert_object mk meta res equal merge msgs d s = (Ret u, s1)"
  shows "os_requests (snd (upsert_object mk meta res equal merge msgs d s1)) = os_requests s1 \<longleftrightarrow>
     (\<forall>f w. r_get res (om_Namespace (meta d)) (om_Name (meta d)) (os_world s) = (Ret f, w) \<longrightarrow>
        equal f d \<or> agree f d)"
proof -
  obtain z w where z: "r_get res (om_Namespace (meta d)) (om_Name (meta d)) (os_world s1) = (Ret z, w)"
    "equal z d \<longleftrightarrow> (\<forall>f w. r_get res (om_Namespace (meta d)) (om_Name (meta d)) (os_world s) = (Ret f, w) \<longrightarrow>
           equal f d \<or> agree f d)"
    using after_success [OF law good run] by blast
  show ?thesis
    using silent_when_equal [OF z(1), of msgs] updates_when_different [OF z(1), of msgs] z(2) by auto
qed

lemma emits_stores:
  assumes "gets_by_name meta res" "om_Namespace (meta d) = ns" "om_Name (meta d) = n"
  shows "emits (stores (named mk ns n)) (upsert_object mk meta res equal merge msgs d)"
  unfolding upsert_object_def assms(2,3)
  using assms(2,3) by (intro emits_get_attempt [OF assms(1)])
    (auto simp: named_def meta_mk merge_name merge_namespace intro!: emits_intros)

lemma emits_named:
  assumes "gets_by_name meta res" "om_Namespace (meta d) = ns" "om_Name (meta d) = n"
  shows "emits (touches (named mk ns n)) (upsert_object mk meta res equal merge msgs d)"
  using emits_mono [OF emits_stores [OF assms] stores_touches] .

end

end
