(* ===== verification/Rbac.thy ===== *)
theory Rbac
  imports Upsert
begin

text \<open>
  The service account of the Varnish pods and their permissions: \<open>varnishcluster_service_account.go\<close>,
  \<open>varnishcluster_role.go\<close>, \<open>varnishcluster_rolebinding.go\<close>, \<open>varnishcluster_clusterrole.go\<close> and
  \<open>varnishcluster_clusterrolebinding.go\<close>. The two cluster-wide objects have no owner reference: they
  carry the cluster's name in annotations and are removed by the finalizers.
\<close>

definition annotationVarnishClusterName :: string where
  "annotationVarnishClusterName = ''varnish-cluster-name''"
definition annotationVarnishClusterNamespace :: string where
  "annotationVarnishClusterNamespace = ''varnish-cluster-namespace''"

definition cluster_annotations :: "VarnishCluster \<Rightarrow> strmap" where
  "cluster_annotations instance =
     [annotationVarnishClusterNamespace \<mapsto> vc_Namespace instance,
      annotationVarnishClusterName \<mapsto> vc_Name instance]"

subsection \<open>Service account\<close>

definition desired_service_account :: "VarnishCluster \<Rightarrow> service_account" where
  "desired_service_account instance =
     \<lparr>sa_Meta = new_meta (ServiceAccountName (vc_Name instance)) (vc_Namespace instance)
        (CombinedComponentLabels instance VarnishComponentServiceAccount) Map.empty,
      sa_Secrets = [], sa_ImagePullSecrets = []\<rparr>"

text \<open>
  \<open>EqualServiceAccount\<close> and the field copied on an update: the labels. \<open>sa_ImagePullSecrets\<close> is ignored by the
  comparison, and the found secrets are too, as the operator desires none.
\<close>

definition merge_service_account :: "service_account \<Rightarrow> service_account \<Rightarrow> service_account" where
  "merge_service_account found desired =
     found\<lparr>sa_Meta := (sa_Meta found)\<lparr>om_Labels := om_Labels (sa_Meta desired)\<rparr>\<rparr>"

definition reconcileServiceAccount :: "'w operator_env \<Rightarrow> VarnishCluster \<Rightarrow> ('w, unit) operator" where
  "reconcileServiceAccount e instance =
     (let serviceAccount = desired_service_account instance in
      bnd (set_controller e ''Cannot set controller reference for Service account'' instance (sa_Meta serviceAccount)) (\<lambda>m.
        create_or_update ObjServiceAccount sa_Meta (e_ServiceAccounts e) EqualServiceAccount merge_service_account
          (''Unable to create Service account'', ''Could not get Service account'', ''Unable to update service account'')
          (serviceAccount\<lparr>sa_Meta := m\<rparr>)))"

subsection \<open>Role and role binding\<close>

definition rule :: "string \<Rightarrow> string list \<Rightarrow> string list \<Rightarrow> policy_rule" where
  "rule grp resources verbs = \<lparr>rule_APIGroups = [grp], rule_Resources = resources, rule_Verbs = verbs\<rparr>"

definition desired_role :: "VarnishCluster \<Rightarrow> rbac_role" where
  "desired_role instance =
     \<lparr>role_Meta = new_meta (RoleName (vc_Name instance)) (vc_Namespace instance)
        (CombinedComponentLabels instance VarnishComponentRole) Map.empty,
      role_Rules =
       [rule [] [''endpoints''] [''list'', ''watch''],
        rule [] [''events''] [''create'', ''patch'']]\<rparr>"

definition merge_role :: "rbac_role \<Rightarrow> rbac_role \<Rightarrow> rbac_role" where
  "merge_role found desired =
     found\<lparr>role_Rules := role_Rules desired,
           role_Meta := (role_Meta found)\<lparr>om_Labels := om_Labels (role_Meta desired)\<rparr>\<rparr>"

definition reconcileRole :: "'w operator_env \<Rightarrow> VarnishCluster \<Rightarrow> ('w, unit) operator" where
  "reconcileRole e instance =
     (let role = desired_role instance in
      bnd (set_controller e ''Cannot set controller reference for service'' instance (role_Meta role)) (\<lambda>m.
        create_or_update ObjRole role_Meta (e_Roles e) EqualRole merge_role
          (''Unable to create role'', ''Could not Get role'', ''Could not Update role'')
          (role\<lparr>role_Meta := m\<rparr>)))"

definition desired_role_binding :: "VarnishCluster \<Rightarrow> rbac_binding" where
  "desired_role_binding instance =
     \<lparr>rb_Meta = new_meta (RoleBindingName (vc_Name instance)) (vc_Namespace instance)
        (CombinedComponentLabels instance VarnishComponentRoleBinding) Map.empty,
      rb_Subjects = [\<lparr>sub_Kind = ''ServiceAccount'', sub_Name = ServiceAccountName (vc_Name instance),
                      sub_Namespace = vc_Namespace instance\<rparr>],
      rb_RoleRef = \<lparr>ref_Kind = ''Role'', ref_Name = RoleName (vc_Name instance),
                    ref_APIGroup = ''rbac.authorization.k8s.io''\<rparr>\<rparr>"

definition merge_role_binding :: "rbac_binding \<Rightarrow> rbac_binding \<Rightarrow> rbac_binding" where
  "merge_role_binding found desired =
     found\<lparr>rb_Subjects := rb_Subjects desired, rb_RoleRef := rb_RoleRef desired,
           rb_Meta := (rb_Meta found)\<lparr>om_Labels := om_Labels (rb_Meta desired)\<rparr>\<rparr>"

definition reconcileRoleBinding :: "'w operator_env \<Rightarrow> VarnishCluster \<Rightarrow> ('w, unit) operator" where
  "reconcileRoleBinding e instance =
     (let roleBinding = desired_role_binding instance in
      bnd (set_controller e ''Cannot set controller reference for service'' instance (rb_Meta roleBinding)) (\<lambda>m.
        create_or_update ObjRoleBinding rb_Meta (e_RoleBindings e) EqualRoleBinding merge_role_binding
          (''Unable to create roleBinding'', ''Could not Get roleBinding'', ''Could not Update roleBinding'')
          (roleBinding\<lparr>rb_Meta := m\<rparr>)))"

subsection \<open>Cluster role and cluster role binding\<close>

definition desired_cluster_role :: "VarnishCluster \<Rightarrow> rbac_role" where
  "desired_cluster_role instance =
     \<lparr>role_Meta = new_meta (ClusterRoleName (vc_Name instance) (vc_Namespace instance)) []
        (CombinedComponentLabels instance VarnishComponentClusterRole) (cluster_annotations instance),
      role_Rules =
       [rule [] [''nodes''] [''list'', ''watch''],
        rule [] [''pods''] [''list'', ''watch'', ''get'', ''update''],
        rule ''caching.ibm.com'' [''varnishclusters''] [''list'', ''watch''],
        rule [] [''secrets'', ''configmaps''] [''list'', ''get'', ''watch'']]\<rparr>"

definition merge_cluster_role :: "rbac_role \<Rightarrow> rbac_role \<Rightarrow> rbac_role" where
  "merge_cluster_role found desired =
     found\<lparr>role_Rules := role_Rules desired,
           role_Meta := (role_Meta found)\<lparr>om_Labels := om_Labels (role_Meta desired),
                                           om_Annotations := om_Annotations (role_Meta desired)\<rparr>\<rparr>"

definition reconcileClusterRole :: "'w operator_env \<Rightarrow> VarnishCluster \<Rightarrow> ('w, unit) operator" where
  "reconcileClusterRole e instance =
     create_or_update ObjClusterRole role_Meta (e_ClusterRoles e) EqualClusterRole merge_cluster_role
       (''Unable to create ClusterRole'', ''Could not Get ClusterRole'', ''Could not Update ClusterRole'')
       (desired_cluster_role instance)"

definition desired_cluster_role_binding :: "VarnishCluster \<Rightarrow> rbac_binding" where
  "desired_cluster_role_binding instance =
     \<lparr>rb_Meta = new_meta (ClusterRoleBindingName (vc_Name instance) (vc_Namespace instance)) []
        (CombinedComponentLabels instance VarnishComponentClusterRoleBinding) (cluster_annotations instance),
      rb_Subjects = [\<lparr>sub_Kind = ''ServiceAccount'', sub_Name = ServiceAccountName (vc_Name instance),
                      sub_Namespace = vc_Namespace instance\<rparr>],
      rb_RoleRef = \<lparr>ref_Kind = ''ClusterRole'', ref_Name = ClusterRoleName (vc_Name instance) (vc_Namespace instance),
                    ref_APIGroup = ''rbac.authorization.k8s.io''\<rparr>\<rparr>"

definition merge_cluster_role_binding :: "rbac_binding \<Rightarrow> rbac_binding \<Rightarrow> rbac_binding" where
  "merge_cluster_role_binding found desired =
     found\<lparr>rb_Subjects := rb_Subjects desired, rb_RoleRef := rb_RoleRef desired,
           rb_Meta := (rb_Meta found)\<lparr>om_Labels := om_Labels (rb_Meta desired),
                                       om_Annotations := om_Annotations (rb_Meta desired)\<rparr>\<rparr>"

definition reconcileClusterRoleBinding :: "'w operator_env \<Rightarrow> VarnishCluster \<Rightarrow> ('w, unit) operator" where
  "reconcileClusterRoleBinding e instance =
     create_or_update ObjClusterRoleBinding rb_Meta (e_ClusterRoleBindings e) EqualClusterRoleBinding
       merge_cluster_role_binding
       (''Unable to create ClusterRoleBinding'', ''Could not Get ClusterRoleBinding'', ''Could not Update ClusterRoleBinding'')
       (desired_cluster_role_binding instance)"

subsection \<open>The contracts\<close>

definition agree_service_account :: "service_account \<Rightarrow> service_account \<Rightarrow> bool" where
  "agree_service_account f d \<longleftrightarrow> agree_annotated (sa_Meta f) (sa_Meta d) \<and>
     (sa_Secrets d = [] \<or> sa_Secrets f = sa_Secrets d)"

interpretation up_sa: upsert ObjServiceAccount sa_Meta EqualServiceAccount merge_service_account
    agree_service_account "\<lambda>_. True"
  by unfold_locales
    (auto simp: EqualServiceAccount_def merge_service_account_def agree_service_account_def agree_annotated_def
      ignore_metadata_eq Let_def)

interpretation up_role: upsert ObjRole role_Meta EqualRole merge_role
    "\<lambda>f d. agree_annotated (role_Meta f) (role_Meta d)" "\<lambda>_. True"
  by unfold_locales (auto simp: EqualRole_def merge_role_def agree_annotated_def ignore_metadata_eq)

interpretation up_rb: upsert ObjRoleBinding rb_Meta EqualRoleBinding merge_role_binding
    "\<lambda>f d. agree_annotated (rb_Meta f) (rb_Meta d)" "\<lambda>_. True"
  by unfold_locales (auto simp: EqualRoleBinding_def merge_role_binding_def agree_annotated_def ignore_metadata_eq)

interpretation up_cr: upsert ObjClusterRole role_Meta EqualClusterRole merge_cluster_role
    "\<lambda>f d. fixed_meta (role_Meta f) = fixed_meta (role_Meta d)" "\<lambda>_. True"
  by unfold_locales (auto simp: EqualClusterRole_def merge_cluster_role_def ignore_metadata_eq)

interpretation up_crb: upsert ObjClusterRoleBinding rb_Meta EqualClusterRoleBinding merge_cluster_role_binding
    "\<lambda>f d. fixed_meta (rb_Meta f) = fixed_meta (rb_Meta d)" "\<lambda>_. True"
  by unfold_locales (auto simp: EqualClusterRoleBinding_def merge_cluster_role_binding_def ignore_metadata_eq)

text \<open>
  The role settles exactly when nothing but the operator's own fields drifted: after a
  reconcile that succeeded, the next one sends no write if and only if the role that was found (if
  any) already was as desired, or had the desired name, owner, finalizers and annotations.
  An annotation put on the role by anybody else is compared but never written, so it makes every
  later reconcile update the role again. The API server is assumed to read back what it stored.
\<close>

theorem role_settles_iff:
  assumes "e_SetControllerReference e vc (role_Meta (desired_role vc)) = Ret m"
    and "reads_back role_Meta EqualRole (e_Roles e) ((desired_role vc)\<lparr>role_Meta := m\<rparr>)"
    and "reconcileRole e vc s = (Ret (), s1)"
  shows "os_requests (snd (reconcileRole e vc s1)) = os_requests s1 \<longleftrightarrow>
     (\<forall>f w. r_get (e_Roles e) (om_Namespace m) (om_Name m) (os_world s) = (Ret f, w) \<longrightarrow>
        EqualRole f ((desired_role vc)\<lparr>role_Meta := m\<rparr>) \<or> agree_annotated (role_Meta f) m)"
proof -
  let ?d = "(desired_role vc)\<lparr>role_Meta := m\<rparr>"
  have eq: "reconcileRole e vc = create_or_update ObjRole role_Meta (e_Roles e) EqualRole merge_role
          (''Unable to create role'', ''Could not Get role'', ''Could not Update role'') ?d"
    using assms(1) by (simp add: reconcileRole_def Let_def set_controller_def fun_eq_iff bnd_apply wrap_apply)
  show ?thesis
    using create_or_update_Ret [OF assms(3) [unfolded eq]] up_role.settles_iff [OF assms(2) TrueI] by (auto simp: eq)
qed

subsection \<open>What is written\<close>

lemma reconcileServiceAccount_emits:
  "lawful_env e \<Longrightarrow>
   emits (touches (named ObjServiceAccount (vc_Namespace vc) (ServiceAccountName (vc_Name vc)))) (reconcileServiceAccount e vc)"
  unfolding reconcileServiceAccount_def Let_def create_or_update_def
  by (intro emits_set_controller_bnd emits_seq up_sa.emits_named emits_pure)
    (auto simp: lawful_env_def desired_service_account_def dest!: sets_only_ownerD)

lemma reconcileRole_emits:
  "lawful_env e \<Longrightarrow>
   emits (touches (named ObjRole (vc_Namespace vc) (RoleName (vc_Name vc)))) (reconcileRole e vc)"
  unfolding reconcileRole_def Let_def create_or_update_def
  by (intro emits_set_controller_bnd emits_seq up_role.emits_named emits_pure)
    (auto simp: lawful_env_def desired_role_def dest!: sets_only_ownerD)

lemma reconcileRoleBinding_emits:
  "lawful_env e \<Longrightarrow>
   emits (touches (named ObjRoleBinding (vc_Namespace vc) (RoleBindingName (vc_Name vc)))) (reconcileRoleBinding e vc)"
  unfolding reconcileRoleBinding_def Let_def create_or_update_def
  by (intro emits_set_controller_bnd emits_seq up_rb.emits_named emits_pure)
    (auto simp: lawful_env_def desired_role_binding_def dest!: sets_only_ownerD)

lemma reconcileClusterRole_emits:
  "lawful_env e \<Longrightarrow>
   emits (touches (named ObjClusterRole [] (ClusterRoleName (vc_Name vc) (vc_Namespace vc)))) (reconcileClusterRole e vc)"
  unfolding reconcileClusterRole_def create_or_update_def
  by (intro emits_seq up_cr.emits_named emits_pure) (auto simp: lawful_env_def desired_cluster_role_def)

lemma reconcileClusterRoleBinding_emits:
  "lawful_env e \<Longrightarrow>
   emits (touches (named ObjClusterRoleBinding [] (ClusterRoleBindingName (vc_Name vc) (vc_Namespace vc)))) (reconcileClusterRoleBinding e vc)"
  unfolding reconcileClusterRoleBinding_def create_or_update_def
  by (intro emits_seq up_crb.emits_named emits_pure) (auto simp: lawful_env_def desired_cluster_role_binding_def)

end
