(* ===== verification/Services.thy ===== *)
theory Services
  imports Upsert
begin

text \<open>
  The three services of a cluster: \<open>varnishcluster_service.go\<close> (the cached one, which selects the
  Varnish pods, and the one that bypasses the cache and selects the backends) and
  \<open>varnishcluster_headless_service.go\<close> (for the pods' DNS names).
\<close>

subsection \<open>Fields the server chooses\<close>

text \<open>A port without a node port of its own takes the one of the last found port of the same number.\<close>

definition inherit_port :: "service_port list \<Rightarrow> service_port \<Rightarrow> service_port" where
  "inherit_port old toPort =
     (if spt_NodePort toPort \<noteq> 0 then toPort
      else foldl (\<lambda>q fromPort. if spt_Port fromPort = spt_Port toPort
                               then q\<lparr>spt_NodePort := spt_NodePort fromPort\<rparr> else q) toPort old)"

definition inheritNodePorts :: "service_port list \<Rightarrow> service_port list \<Rightarrow> service_port list" where
  "inheritNodePorts to old = map (inherit_port old) to"

definition node_port_type :: "service \<Rightarrow> bool" where
  "node_port_type s \<longleftrightarrow> ss_Type (svc_Spec s) = ''LoadBalancer'' \<or> ss_Type (svc_Spec s) = ''NodePort''"

definition inherit_found :: "service \<Rightarrow> service \<Rightarrow> service" where
  "inherit_found found desired =
     desired\<lparr>svc_Spec := (svc_Spec desired)
       \<lparr>ss_ClusterIP := ss_ClusterIP (svc_Spec found),
        ss_ClusterIPs := ss_ClusterIPs (svc_Spec found),
        ss_IPFamilies := ss_IPFamilies (svc_Spec found),
        ss_IPFamilyPolicy := ss_IPFamilyPolicy (svc_Spec found),
        ss_InternalTrafficPolicy := ss_InternalTrafficPolicy (svc_Spec found),
        ss_Ports := (if node_port_type desired
                     then inheritNodePorts (ss_Ports (svc_Spec desired)) (ss_Ports (svc_Spec found))
                     else ss_Ports (svc_Spec desired))\<rparr>\<rparr>"

definition same_service :: "service \<Rightarrow> service \<Rightarrow> bool" where
  "same_service found desired = EqualService found (inherit_found found desired)"

definition merge_service :: "service \<Rightarrow> service \<Rightarrow> service" where
  "merge_service found desired =
     found\<lparr>svc_Spec := svc_Spec (inherit_found found desired),
           svc_Meta := (svc_Meta found)\<lparr>om_Labels := om_Labels (svc_Meta desired),
                                         om_Annotations := om_Annotations (svc_Meta desired)\<rparr>\<rparr>"

definition reconcileServiceGeneric :: "'w operator_env \<Rightarrow> VarnishCluster \<Rightarrow> service \<Rightarrow> ('w, service) operator" where
  "reconcileServiceGeneric e instance desired =
     bnd (set_controller e ''Cannot set controller reference for desired'' instance (svc_Meta desired)) (\<lambda>m.
       upsert_object ObjService svc_Meta (e_Services e) same_service merge_service
         (''Unable to create service'', ''Could not Get desired'', ''Unable to update desired'')
         (e_SchemeDefaultService e (desired\<lparr>svc_Meta := m\<rparr>)))"

subsection \<open>The services\<close>

definition new_service_spec :: "strmap \<Rightarrow> service_port list \<Rightarrow> string \<Rightarrow> service_spec" where
  "new_service_spec selector ports ty =
     \<lparr>ss_Selector = selector, ss_Ports = ports, ss_Type = ty, ss_SessionAffinity = ''None'',
      ss_ClusterIP = [], ss_ClusterIPs = [], ss_IPFamilies = [], ss_IPFamilyPolicy = None,
      ss_InternalTrafficPolicy = None, ss_ExternalTrafficPolicy = []\<rparr>"

definition tcp_port :: "string \<Rightarrow> int32 \<Rightarrow> int_or_string \<Rightarrow> int32 \<Rightarrow> service_port" where
  "tcp_port name port target nodePort =
     \<lparr>spt_Name = name, spt_Protocol = ''TCP'', spt_Port = port, spt_TargetPort = target, spt_NodePort = nodePort\<rparr>"

definition desired_nocache_service :: "VarnishCluster \<Rightarrow> service outcome" where
  "desired_nocache_service instance =
     obind (oderef (sp_Backend (vc_Spec instance))) (\<lambda>backend.
     obind (oderef (sp_Service (vc_Spec instance))) (\<lambda>svc.
     obind (oderef (sv_Port svc)) (\<lambda>port.
     obind (oderef (be_Port backend)) (\<lambda>target.
       Ret \<lparr>svc_Meta = new_meta (NoCacheServiceName (vc_Name instance)) (vc_Namespace instance)
              (InheritLabels instance ++ ComponentLabels instance VarnishComponentNoCacheService) Map.empty,
            svc_Spec = new_service_spec (be_Selector backend) [tcp_port ''backend'' port target 0] ''ClusterIP'',
            svc_Status = Opaque []\<rparr>))))"

definition reconcileServiceNoCache :: "'w operator_env \<Rightarrow> VarnishCluster \<Rightarrow> ('w, strmap) operator" where
  "reconcileServiceNoCache e instance =
     bnd (lift (desired_nocache_service instance)) (\<lambda>serviceNoCache.
       seq (reconcileServiceGeneric e instance serviceNoCache)
         (ret (ComponentLabels instance VarnishComponentNoCacheService)))"

definition desired_service :: "VarnishCluster \<Rightarrow> service outcome" where
  "desired_service instance =
     obind (oderef (sp_Service (vc_Spec instance))) (\<lambda>svc.
     obind (oderef (sv_Port svc)) (\<lambda>port.
     obind (oderef (sv_MetricsPort svc)) (\<lambda>metricsPort.
       Ret \<lparr>svc_Meta = new_meta (vc_Name instance) (vc_Namespace instance)
              (CombinedComponentLabels instance VarnishComponentCacheService) (sv_Annotations svc),
            svc_Spec = new_service_spec (CombinedComponentLabels instance VarnishComponentVarnish)
              [tcp_port VarnishPortName port (StrPort VarnishPortName) (sv_NodePort svc),
               tcp_port VarnishMetricsPortName metricsPort (StrPort VarnishMetricsPortName) (sv_MetricsNodePort svc),
               tcp_port VarnishControllerMetricsPortName VarnishControllerMetricsPort
                 (StrPort VarnishControllerMetricsPortName) (sv_ControllerMetricsNodePort svc)]
              (sv_Type svc),
            svc_Status = Opaque []\<rparr>)))"

text \<open>It records the selector of the Varnish pods in the status of the cluster.\<close>

definition set_pods_selector :: "string \<Rightarrow> VarnishCluster \<Rightarrow> VarnishCluster" where
  "set_pods_selector selector instanceStatus =
     instanceStatus\<lparr>vc_Status := (vc_Status instanceStatus)\<lparr>st_VarnishPodsSelector := selector\<rparr>\<rparr>"

definition reconcileService :: "'w operator_env \<Rightarrow> VarnishCluster \<Rightarrow> VarnishCluster \<Rightarrow> ('w, VarnishCluster) operator" where
  "reconcileService e instance instanceStatus =
     bnd (lift (desired_service instance)) (\<lambda>service.
     bnd (reconcileServiceGeneric e instance service) (\<lambda>service'.
       ret (set_pods_selector (e_FormatLabels e (ss_Selector (svc_Spec service'))) instanceStatus)))"

definition desired_headless_service :: "VarnishCluster \<Rightarrow> service" where
  "desired_headless_service instance =
     \<lparr>svc_Meta = new_meta (HeadlessServiceName (vc_Name instance)) (vc_Namespace instance)
        (CombinedComponentLabels instance VarnishComponentHeadlessService) Map.empty,
      svc_Spec = (new_service_spec (CombinedComponentLabels instance VarnishComponentVarnish)
          [tcp_port ''varnish'' VarnishPort (IntPort VarnishPort) 0] ''ClusterIP'')
        \<lparr>ss_ClusterIP := ''None'', ss_ClusterIPs := [''None'']\<rparr>,
      svc_Status = Opaque []\<rparr>"

definition inherit_headless :: "service \<Rightarrow> service \<Rightarrow> service" where
  "inherit_headless found desired =
     desired\<lparr>svc_Spec := (svc_Spec desired)
       \<lparr>ss_InternalTrafficPolicy := ss_InternalTrafficPolicy (svc_Spec found),
        ss_IPFamilyPolicy := ss_IPFamilyPolicy (svc_Spec found),
        ss_IPFamilies := ss_IPFamilies (svc_Spec found)\<rparr>\<rparr>"

text \<open>The update of the headless service sends the found object as it was read: nothing is copied.\<close>

definition same_headless :: "service \<Rightarrow> service \<Rightarrow> bool" where
  "same_headless found desired = EqualService found (inherit_headless found desired)"

definition merge_headless :: "service \<Rightarrow> service \<Rightarrow> service" where
  "merge_headless found desired = found"

definition reconcileHeadlessService :: "'w operator_env \<Rightarrow> VarnishCluster \<Rightarrow> ('w, unit) operator" where
  "reconcileHeadlessService e instance =
     (let desired = desired_headless_service instance in
      bnd (set_controller e ''could not set controller as the OwnerReference for headless service'' instance
             (svc_Meta desired)) (\<lambda>m.
        create_or_update ObjService svc_Meta (e_Services e) same_headless merge_headless
          (''could not create Headless Service'', ''could not get current state of Headless Service'',
           ''could not update Headless Service'')
          (desired\<lparr>svc_Meta := m\<rparr>)))"

subsection \<open>Node ports\<close>

lemma foldl_node_port:
  "foldl (\<lambda>q f. if spt_Port f = n then q\<lparr>spt_NodePort := spt_NodePort f\<rparr> else q) p fs =
   p\<lparr>spt_NodePort := (case filter (\<lambda>f. spt_Port f = n) fs of [] \<Rightarrow> spt_NodePort p | _ \<Rightarrow>
      spt_NodePort (last (filter (\<lambda>f. spt_Port f = n) fs)))\<rparr>"
  by (induction fs arbitrary: p) (auto split: list.split)

lemma filter_port_distinct:
  "distinct (map spt_Port ps) \<Longrightarrow> p \<in> set ps \<Longrightarrow> filter (\<lambda>f. spt_Port f = spt_Port p) ps = [p]"
proof (induction ps)
  case (Cons q ps)
  then have "p \<in> set ps \<Longrightarrow> spt_Port q \<noteq> spt_Port p" by (metis distinct.simps(2) image_eqI list.map(2) list.set_map)
  moreover have "p = q \<Longrightarrow> filter (\<lambda>f. spt_Port f = spt_Port p) ps = []"
    using Cons.prems by (auto simp: filter_empty_conv image_iff)
  ultimately show ?case using Cons by auto
qed simp

lemma inherit_port_eq:
  "inherit_port old p =
     (if spt_NodePort p \<noteq> 0 then p
      else (case filter (\<lambda>f. spt_Port f = spt_Port p) old of
          [] \<Rightarrow> p | _ \<Rightarrow> p\<lparr>spt_NodePort := spt_NodePort (last (filter (\<lambda>f. spt_Port f = spt_Port p) old))\<rparr>))"
  by (auto simp: inherit_port_def foldl_node_port split: list.split)

lemma inherit_port_number [simp]: "spt_Port (inherit_port old p) = spt_Port p"
  by (simp add: inherit_port_eq split: list.split)

lemma inheritNodePorts_ports [simp]: "map spt_Port (inheritNodePorts to old) = map spt_Port to"
  by (simp add: inheritNodePorts_def)

lemma inheritNodePorts_self: "distinct (map spt_Port ps) \<Longrightarrow> inheritNodePorts ps ps = ps"
  unfolding inheritNodePorts_def by (intro map_idI) (simp add: inherit_port_eq filter_port_distinct)

text \<open>Inheriting once more from the result changes nothing, when the wanted ports have distinct numbers.\<close>

lemma inheritNodePorts_twice:
  assumes "distinct (map spt_Port to)"
  shows "inheritNodePorts to (inheritNodePorts to old) = inheritNodePorts to old"
proof -
  have "inherit_port (inheritNodePorts to old) p = inherit_port old p" if "p \<in> set to" for p
  proof (cases "spt_NodePort p = 0")
    case True
    have "inherit_port old p \<in> set (inheritNodePorts to old)" using that by (simp add: inheritNodePorts_def)
    then have "filter (\<lambda>f. spt_Port f = spt_Port p) (inheritNodePorts to old) = [inherit_port old p]"
      using filter_port_distinct [of "inheritNodePorts to old" "inherit_port old p"] assms by simp
    then have "inherit_port (inheritNodePorts to old) p = p\<lparr>spt_NodePort := spt_NodePort (inherit_port old p)\<rparr>"
      using True by (simp add: inherit_port_eq [of "inheritNodePorts to old"])
    then show ?thesis using True by (auto simp: inherit_port_eq [of old] split: list.split)
  qed (simp add: inherit_port_eq)
  then show ?thesis by (simp add: inheritNodePorts_def)
qed

definition good_service :: "service \<Rightarrow> bool" where
  "good_service d \<longleftrightarrow> (node_port_type d \<longrightarrow> distinct (map spt_Port (ss_Ports (svc_Spec d))))"

lemma inherit_found_self: "good_service d \<Longrightarrow> inherit_found d d = d"
  by (cases d; cases "svc_Spec d") (auto simp: inherit_found_def good_service_def inheritNodePorts_self)

lemma inherit_found_twice:
  "good_service d \<Longrightarrow> inherit_found (merge_service f d) d = inherit_found f d"
  by (simp add: inherit_found_def merge_service_def good_service_def inheritNodePorts_twice)

interpretation up_svc: upsert ObjService svc_Meta same_service merge_service
    "\<lambda>f d. fixed_meta (svc_Meta f) = fixed_meta (svc_Meta d)" good_service
proof unfold_locales
  show "same_service d d" if "good_service d" for d
    using that by (simp add: same_service_def EqualService_def inherit_found_self)
  show "same_service (merge_service f d) d \<longleftrightarrow> fixed_meta (svc_Meta f) = fixed_meta (svc_Meta d)"
    if "good_service d" for f d
    using that by (simp add: same_service_def inherit_found_twice)
      (simp add: EqualService_def ignore_metadata_eq merge_service_def inherit_found_def)
qed (simp_all add: merge_service_def)

interpretation up_headless: upsert ObjService svc_Meta same_headless merge_headless same_headless "\<lambda>_. True"
  by unfold_locales (simp_all add: merge_headless_def same_headless_def inherit_headless_def EqualService_def)

subsection \<open>What is written\<close>

lemma reconcileServiceGeneric_emits:
  assumes "lawful_env e"
  shows "emits (touches (named ObjService (om_Namespace (svc_Meta d)) (om_Name (svc_Meta d))))
    (reconcileServiceGeneric e vc d)"
  using assms unfolding reconcileServiceGeneric_def
  by (intro emits_set_controller_bnd up_svc.emits_named) (auto simp: lawful_env_def keeps_meta_def dest!: sets_only_ownerD)

lemma reconcileServiceNoCache_emits:
  "lawful_env e \<Longrightarrow>
   emits (touches (named ObjService (vc_Namespace vc) (NoCacheServiceName (vc_Name vc)))) (reconcileServiceNoCache e vc)"
  unfolding reconcileServiceNoCache_def
  by (rule emits_lift_bnd, rule emits_seq, rule emits_mono, erule reconcileServiceGeneric_emits)
    (auto simp: desired_nocache_service_def obind_eq_Ret emits_intros)

lemma reconcileService_emits:
  "lawful_env e \<Longrightarrow>
   emits (touches (named ObjService (vc_Namespace vc) (vc_Name vc))) (reconcileService e vc st)"
  unfolding reconcileService_def
  by (rule emits_lift_bnd, rule emits_bnd, rule emits_mono, erule reconcileServiceGeneric_emits)
    (auto simp: desired_service_def obind_eq_Ret emits_intros)

lemma reconcileHeadlessService_emits:
  "lawful_env e \<Longrightarrow>
   emits (touches (named ObjService (vc_Namespace vc) (HeadlessServiceName (vc_Name vc)))) (reconcileHeadlessService e vc)"
  unfolding reconcileHeadlessService_def Let_def create_or_update_def
  by (intro emits_set_controller_bnd emits_seq up_headless.emits_named emits_pure)
    (auto simp: lawful_env_def desired_headless_service_def dest!: sets_only_ownerD)


text \<open>
  A headless service that drifted is never repaired: when the service found differs from the
  desired one in a field the comparison looks at, a reconcile that succeeds has sent the found
  service back to the server, and the next reconcile finds the same difference and sends an update
  again.
\<close>

theorem headless_drift_not_repaired:
  assumes "e_SetControllerReference e vc (svc_Meta (desired_headless_service vc)) = Ret m"
    and "d = (desired_headless_service vc)\<lparr>svc_Meta := m\<rparr>"
    and "reads_back svc_Meta same_headless (e_Services e) d"
    and "r_get (e_Services e) (om_Namespace m) (om_Name m) (os_world s) = (Ret f, w)" "\<not> same_headless f d"
    and "reconcileHeadlessService e vc s = (Ret (), s1)"
  shows "os_requests s1 = os_requests s @ [Update (ObjService f)] \<and>
    (\<exists>f'. os_requests (snd (reconcileHeadlessService e vc s1)) = os_requests s1 @ [Update (ObjService f')])"
proof -
  have eq: "reconcileHeadlessService e vc = create_or_update ObjService svc_Meta (e_Services e) same_headless merge_headless
          (''could not create Headless Service'', ''could not get current state of Headless Service'',
           ''could not update Headless Service'') d"
    using assms(1,2) by (simp add: reconcileHeadlessService_def Let_def set_controller_def fun_eq_iff bnd_apply wrap_apply)
  let ?msgs = "(''could not create Headless Service'', ''could not get current state of Headless Service'',
           ''could not update Headless Service'')"
  obtain y where run: "upsert_object ObjService svc_Meta (e_Services e) same_headless merge_headless ?msgs d s = (Ret y, s1)"
    using create_or_update_Ret [OF assms(6) [unfolded eq]] by blast
  have m: "svc_Meta d = m" using assms(2) by simp
  note g = assms(4) [folded m]
  show ?thesis
    using up_headless.updates_when_different [OF g assms(5), of ?msgs] run
      up_headless.drift_is_rewritten [OF assms(3) TrueI run g assms(5,5)]
    by (simp add: eq merge_headless_def)
qed

end
