(* ===== verification/VarnishSecret.thy ===== *)
theory VarnishSecret
  imports Upsert
begin

text \<open>
  \<open>varnishcluster_secret.go\<close>: the secret \<open>varnishadm\<close> authenticates with. The user may name an
  existing one; the operator creates it when it does not exist and fills its key when it is empty,
  with 512 bytes of the random source, which is a parameter.
\<close>

definition varnishDefaultSecretKeyName :: string where "varnishDefaultSecretKeyName = ''secret''"
definition varnishSecretSize :: nat where "varnishSecretSize = 512"

definition notEmptyString :: "string option \<Rightarrow> bool" where
  "notEmptyString s \<longleftrightarrow> s \<noteq> None \<and> s \<noteq> Some []"

definition secret_names :: "VarnishCluster \<Rightarrow> VarnishClusterVarnish \<Rightarrow> string \<times> string" where
  "secret_names instance varnish =
     (case vv_Secret varnish of
        None \<Rightarrow> (VarnishSecretName (vc_Name instance), varnishDefaultSecretKeyName)
      | Some spec \<Rightarrow>
          if notEmptyString (vs_SecretName spec)
          then (the (vs_SecretName spec),
                if notEmptyString (vs_Key spec) then the (vs_Key spec) else varnishDefaultSecretKeyName)
          else (VarnishSecretName (vc_Name instance), varnishDefaultSecretKeyName))"

definition namesForInstanceSecret :: "VarnishCluster \<Rightarrow> (string \<times> string) outcome" where
  "namesForInstanceSecret instance =
     obind (oderef (sp_Varnish (vc_Spec instance))) (\<lambda>varnish. Ret (secret_names instance varnish))"

definition generateSecretData :: "'w operator_env \<Rightarrow> ('w, string) operator" where
  "generateSecretData e = in_world (e_RandRead e varnishSecretSize)"

definition createNewSecret :: "'w operator_env \<Rightarrow> string \<Rightarrow> string \<Rightarrow> string \<Rightarrow> strmap \<Rightarrow> ('w, secret) operator" where
  "createNewSecret e secretName keyName secretNamespace secretLabels =
     bnd (wrap ''could not generate secret data'' (generateSecretData e)) (\<lambda>secretData.
       ret \<lparr>sec_Meta = new_meta secretName secretNamespace secretLabels Map.empty,
            sec_Data = [keyName \<mapsto> secretData]\<rparr>)"

definition validateVarnishSecretContent :: "secret \<Rightarrow> string \<Rightarrow> bool" where
  "validateVarnishSecretContent secret keyName \<longleftrightarrow> length (lookup (sec_Data secret) keyName) > 0"

definition updateVarnishSecret :: "'w operator_env \<Rightarrow> secret \<Rightarrow> string \<Rightarrow> ('w, unit) operator" where
  "updateVarnishSecret e secret keyName =
     bnd (wrap ''could not generate secret data'' (generateSecretData e)) (\<lambda>secretData.
       seq (wrap ''unable to update secret data''
              (api_update ObjSecret (e_Secrets e) (secret\<lparr>sec_Data := (sec_Data secret)(keyName \<mapsto> secretData)\<rparr>)))
         (ret ()))"

definition reconcileVarnishSecret :: "'w operator_env \<Rightarrow> VarnishCluster \<Rightarrow> ('w, unit) operator" where
  "reconcileVarnishSecret e instance =
     bnd (lift (namesForInstanceSecret instance)) (\<lambda>(secretName, secretKey).
     attempt (api_get (e_Secrets e) (vc_Namespace instance) secretName) (\<lambda>r.
       case r of
         Inl err \<Rightarrow>
           if IsNotFound err
           then bnd (wrap ''can't create secret object''
                       (createNewSecret e secretName secretKey (vc_Namespace instance)
                          (CombinedComponentLabels instance VarnishComponentSecret))) (\<lambda>secret.
                bnd (set_controller e ''could not set secret owner reference'' instance (sec_Meta secret)) (\<lambda>m.
                seq (wrap ''unable to create secret'' (api_create ObjSecret (e_Secrets e) (secret\<lparr>sec_Meta := m\<rparr>)))
                  (ret ())))
           else fail (Wrapped ''could not get existing varnish secret'' err)
       | Inr secret \<Rightarrow>
           if validateVarnishSecretContent secret secretKey then ret ()
           else updateVarnishSecret e secret secretKey))"

subsection \<open>What is written\<close>

lemma secret_names_cases:
  "vv_Secret v = None \<Longrightarrow> secret_names vc v = (VarnishSecretName (vc_Name vc), varnishDefaultSecretKeyName)"
  "vv_Secret v = Some spec \<Longrightarrow> vs_SecretName spec = Some n \<Longrightarrow> n \<noteq> [] \<Longrightarrow> fst (secret_names vc v) = n"
  by (simp_all add: secret_names_def notEmptyString_def)

lemma emits_generate [emits_intros]: "emits Q (generateSecretData e)"
  unfolding generateSecretData_def by (intro emits_intros)

definition secret_write :: "string \<Rightarrow> string \<Rightarrow> string \<Rightarrow> request \<Rightarrow> bool" where
  "secret_write ns name key q =
     (case q of
        Create (ObjSecret x) \<Rightarrow> om_Namespace (sec_Meta x) = ns \<and> om_Name (sec_Meta x) = name \<and> dom (sec_Data x) = {key}
      | Update (ObjSecret x) \<Rightarrow> om_Namespace (sec_Meta x) = ns \<and> om_Name (sec_Meta x) = name \<and> key \<in> dom (sec_Data x)
      | _ \<Rightarrow> False)"

lemma createNewSecret_emits:
  assumes "\<And>x. sec_Meta x = new_meta n ns l Map.empty \<Longrightarrow> dom (sec_Data x) = {k} \<Longrightarrow> emits Q (f x)"
  shows "emits Q (bnd (wrap msg (createNewSecret e n k ns l)) f)"
proof -
  have "bnd (wrap msg (createNewSecret e n k ns l)) f =
    bnd (wrap msg (wrap ''could not generate secret data'' (generateSecretData e)))
      (\<lambda>d. f \<lparr>sec_Meta = new_meta n ns l Map.empty, sec_Data = [k \<mapsto> d]\<rparr>)"
    by (auto simp: createNewSecret_def fun_eq_iff bnd_apply wrap_apply split: prod.split outcome.split)
  then show ?thesis using assms by (auto intro!: emits_intros)
qed

text \<open>
  C14: the secret reconciler writes at most the secret the cluster names, creates it with the wanted
  key and nothing else, and only ever updates a secret in which that key was empty: a value that is
  there, the user's own above all, is never overwritten and no other secret is touched.
\<close>

theorem secret_value_never_overwritten:
  assumes "lawful_env e" "namesForInstanceSecret vc = Ret (name, key)"
  shows "emits (secret_write (vc_Namespace vc) name key) (reconcileVarnishSecret e vc) \<and>
    (\<forall>s x w. r_get (e_Secrets e) (vc_Namespace vc) name (os_world s) = (Ret x, w) \<longrightarrow>
       lookup (sec_Data x) key \<noteq> [] \<longrightarrow>
       reconcileVarnishSecret e vc s = (Ret (), s\<lparr>os_world := w\<rparr>))"
proof
  have get: "gets_by_name sec_Meta (e_Secrets e)" and own: "sets_only_owner e"
    using assms(1) by (auto simp: lawful_env_def)
  show "emits (secret_write (vc_Namespace vc) name key) (reconcileVarnishSecret e vc)"
    unfolding reconcileVarnishSecret_def assms(2) updateVarnishSecret_def bnd_lift_Ret prod.case
    using own
    by (intro emits_get_attempt [OF get])
      (auto simp: secret_write_def dest!: sets_only_ownerD intro!: emits_intros createNewSecret_emits emits_set_controller_bnd)
  show "\<forall>s x w. r_get (e_Secrets e) (vc_Namespace vc) name (os_world s) = (Ret x, w) \<longrightarrow>
       lookup (sec_Data x) key \<noteq> [] \<longrightarrow> reconcileVarnishSecret e vc s = (Ret (), s\<lparr>os_world := w\<rparr>)"
    using assms(2)
    by (simp add: reconcileVarnishSecret_def bnd_apply attempt_apply api_get_apply validateVarnishSecretContent_def)
qed

lemma reconcileVarnishSecret_emits:
  assumes "lawful_env e" "namesForInstanceSecret vc = Ret (name, key)"
  shows "emits (touches (named ObjSecret (vc_Namespace vc) name)) (reconcileVarnishSecret e vc)"
proof -
  have get: "gets_by_name sec_Meta (e_Secrets e)" and own: "sets_only_owner e"
    using assms(1) by (auto simp: lawful_env_def)
  show ?thesis
    unfolding reconcileVarnishSecret_def assms(2) updateVarnishSecret_def bnd_lift_Ret prod.case
    using own
    by (intro emits_get_attempt [OF get])
      (auto simp: named_def dest!: sets_only_ownerD intro!: emits_intros createNewSecret_emits emits_set_controller_bnd)
qed

end
