(* ===== verification/Webhook.thy ===== *)
theory Webhook
  imports NamesLabels
begin

text \<open>
  \<open>api/v1alpha1/varnishcluster_webhook.go\<close>: the mutating webhook and the validating webhook of the
  operator. A validation error is \<open>Err\<close> with the message of the API response; \<open>Panic\<close> is a nil
  pointer read inside the webhook.
\<close>

subsection \<open>The mutating webhook\<close>

definition webhook_Default :: "VarnishCluster \<Rightarrow> VarnishCluster" where
  "webhook_Default vc =
     vc\<lparr>vc_Spec := (vc_Spec vc)\<lparr>sp_Replicas := Some (if_nil (sp_Replicas (vc_Spec vc)) 1)\<rparr>\<rparr>"

subsection \<open>Varnish arguments\<close>

text \<open>\<open>\w\<close> in Go's regular expressions, and \<open>^-\w$\<close>.\<close>

definition word_char :: "char \<Rightarrow> bool" where
  "word_char c \<longleftrightarrow>
     (let n = (of_char c :: nat) in (48 \<le> n \<and> n \<le> 57) \<or> (65 \<le> n \<and> n \<le> 90) \<or> (97 \<le> n \<and> n \<le> 122) \<or> n = 95)"

fun varnishArgsKey_match :: "string \<Rightarrow> bool" where
  "varnishArgsKey_match [d, c] = (d = CHR ''-'' \<and> word_char c)"
| "varnishArgsKey_match s = False"

definition disallowedVarnishArgs :: "string list" where
  "disallowedVarnishArgs = [''-f'', ''-F'', ''-n'', ''-S'', ''-b'']"

text \<open>
  The message lists the disallowed arguments in the iteration order of a Go map, which the
  language leaves open: it is the argument \<open>keys\<close>.
\<close>

definition quoted :: "string \<Rightarrow> string" where
  "quoted s = [CHR 0x22] @ s @ [CHR 0x22]"

definition disallowedVarnishArgsAsString :: "string list \<Rightarrow> string" where
  "disallowedVarnishArgsAsString keys = quoted (Join keys (quoted '', ''))"

definition args_pattern_message :: string where
  "args_pattern_message =
     ''varnish args must follow pattern: ['' @ quoted ''key'' @ ''[, '' @ quoted ''value'' @ ''][,'' @
     quoted ''key'' @ ''[, '' @ quoted ''value'' @ '']]...] where key follows regexp '' @
     quoted (''^-'' @ [CHR 0x5C] @ ''w$'') @ '' and value is optional. eg ['' @
     Join (map quoted [''-s'', ''malloc,1024M'', ''-p'', ''default_ttl=3600'', ''-T'', ''127.0.0.1:6082'']) '', '' @ '']''"

fun validVarnishArgs :: "string list \<Rightarrow> string list \<Rightarrow> unit outcome" where
  "validVarnishArgs keys [] = Ret ()"
| "validVarnishArgs keys (k # rest) =
     (if \<not> varnishArgsKey_match k then Err (Plain args_pattern_message)
      else if k \<in> set disallowedVarnishArgs
      then Err (Plain (''cannot include args '' @ disallowedVarnishArgsAsString keys))
      else case rest of
          [] \<Rightarrow> Ret ()
        | v # rest' \<Rightarrow> if varnishArgsKey_match v then validVarnishArgs keys rest
                        else validVarnishArgs keys rest')"

subsection \<open>Ranges\<close>

definition inAllowedRange :: "int \<Rightarrow> int \<Rightarrow> int \<Rightarrow> unit outcome" where
  "inAllowedRange port mn mx =
     (if port < mn \<or> mx < port
      then Err (Plain (''value should be between '' @ show_int mn @ '' and '' @ show_int mx))
      else Ret ())"

definition min_value :: "int \<Rightarrow> int \<Rightarrow> unit outcome" where
  "min_value v minimum =
     (if v < minimum then Err (Plain (''value should be more than '' @ show_int minimum)) else Ret ())"

definition fieldError :: "string \<Rightarrow> unit outcome \<Rightarrow> unit outcome" where
  "fieldError field r =
     (case r of
        Err (Plain m) \<Rightarrow> Err (Plain (''field '' @ quoted field @ '' is invalid: '' @ m))
      | _ \<Rightarrow> r)"

subsection \<open>The validating webhook\<close>

text \<open>
  One threshold of the zone balancing: the test of the third check reads \<open>Local\<close> and follows the
  pointer \<open>Threshold\<close>, as the source does.
\<close>

definition validate_threshold :: "Threshold \<Rightarrow> unit outcome" where
  "validate_threshold t =
     obind (case th_Local t of None \<Rightarrow> Ret ()
            | Some l \<Rightarrow> fieldError ''.spec.backend.zoneBalancing.thresholds[].local'' (min_value (sint l) 1))
     (\<lambda>_. obind (case th_Remote t of None \<Rightarrow> Ret ()
            | Some r \<Rightarrow> fieldError ''.spec.backend.zoneBalancing.thresholds[].remote'' (min_value (sint r) 1))
     (\<lambda>_. case th_Local t of None \<Rightarrow> Ret ()
            | Some l \<Rightarrow> obind (oderef (th_Threshold t)) (\<lambda>h.
                fieldError ''.spec.backend.zoneBalancing.thresholds[].threshold'' (inAllowedRange (sint h) 1 100))))"

fun validate_thresholds :: "Threshold list \<Rightarrow> unit outcome" where
  "validate_thresholds [] = Ret ()"
| "validate_thresholds (t # ts) = obind (validate_threshold t) (\<lambda>_. validate_thresholds ts)"

definition validate_varnish :: "string list \<Rightarrow> VarnishClusterSpec \<Rightarrow> unit outcome" where
  "validate_varnish keys sp =
     (case sp_Varnish sp of None \<Rightarrow> Ret ()
      | Some v \<Rightarrow> fieldError ''.spec.varnish.args'' (validVarnishArgs keys (vv_Args v)))"

definition validate_service :: "VarnishClusterSpec \<Rightarrow> unit outcome" where
  "validate_service sp =
     (case sp_Service sp of None \<Rightarrow> Ret ()
      | Some s \<Rightarrow>
          obind (case sv_Port s of None \<Rightarrow> Ret ()
                 | Some p \<Rightarrow> fieldError ''.spec.service.port'' (inAllowedRange (sint p) 1 65535))
          (\<lambda>_. case sv_MetricsPort s of None \<Rightarrow> Ret ()
                 | Some p \<Rightarrow> fieldError ''.spec.service.metricsPort'' (inAllowedRange (sint p) 1 65535)))"

definition validate_backend :: "VarnishClusterSpec \<Rightarrow> unit outcome" where
  "validate_backend sp =
     (case sp_Backend sp of None \<Rightarrow> Ret ()
      | Some b \<Rightarrow> (case be_ZoneBalancing b of None \<Rightarrow> Ret ()
          | Some z \<Rightarrow>
              obind (validate_thresholds (zb_Thresholds z)) (\<lambda>_.
              obind (oderef (sp_Service sp)) (\<lambda>s.
              obind (oderef (sv_Port s)) (\<lambda>p.
                fieldError ''.spec.service.port'' (inAllowedRange (sint p) 1 65535))))))"

definition validate_update_strategy :: "VarnishClusterSpec \<Rightarrow> unit outcome" where
  "validate_update_strategy sp =
     (case sp_UpdateStrategy sp of None \<Rightarrow> Ret ()
      | Some u \<Rightarrow> (case us_DelayedRollingUpdate u of None \<Rightarrow> Ret ()
          | Some d \<Rightarrow> fieldError ''.spec.updateStrategy.delayedRollingUpdate.delaySeconds''
                        (min_value (sint (dru_DelaySeconds d)) 1)))"

definition validateCreateUpdate :: "string list \<Rightarrow> VarnishCluster \<Rightarrow> unit outcome" where
  "validateCreateUpdate keys vc =
     obind (validate_varnish keys (vc_Spec vc)) (\<lambda>_.
     obind (validate_service (vc_Spec vc)) (\<lambda>_.
     obind (validate_backend (vc_Spec vc)) (\<lambda>_.
       validate_update_strategy (vc_Spec vc))))"

definition ValidateCreate :: "string list \<Rightarrow> VarnishCluster \<Rightarrow> unit outcome" where
  "ValidateCreate keys vc = validateCreateUpdate keys vc"

definition ValidateUpdate :: "string list \<Rightarrow> VarnishCluster \<Rightarrow> VarnishCluster \<Rightarrow> unit outcome" where
  "ValidateUpdate keys vc old = validateCreateUpdate keys vc"

definition ValidateDelete :: "VarnishCluster \<Rightarrow> unit outcome" where
  "ValidateDelete vc = Ret ()"

subsection \<open>When a check passes\<close>

lemma inAllowedRange_Ret [simp]: "inAllowedRange x a b = Ret u \<longleftrightarrow> a \<le> x \<and> x \<le> b"
  by (auto simp: inAllowedRange_def)

lemma min_value_Ret [simp]: "min_value x a = Ret u \<longleftrightarrow> a \<le> x"
  by (auto simp: min_value_def)

lemma fieldError_Ret [simp]: "fieldError f r = Ret u \<longleftrightarrow> r = Ret u"
  by (auto simp: fieldError_def split: outcome.splits gerr.splits)

lemma check_no_panic [simp]:
  "inAllowedRange x a b \<noteq> Panic p" "min_value x a \<noteq> Panic p"
  "fieldError f r = Panic p \<longleftrightarrow> r = Panic p"
  by (auto simp: inAllowedRange_def min_value_def fieldError_def split: outcome.splits gerr.splits)

lemma validVarnishArgs_no_panic [simp]: "validVarnishArgs keys args \<noteq> Panic p"
  by (induction keys args rule: validVarnishArgs.induct) (auto split: list.splits)

text \<open>A segment of the argument list: a key, or a key and its value.\<close>

definition arg_key_ok :: "string \<Rightarrow> bool" where
  "arg_key_ok k \<longleftrightarrow> varnishArgsKey_match k \<and> k \<notin> set disallowedVarnishArgs"

definition arg_segment :: "string list \<Rightarrow> bool" where
  "arg_segment seg \<longleftrightarrow>
     (\<exists>k. seg = [k] \<and> arg_key_ok k) \<or> (\<exists>k v. seg = [k, v] \<and> arg_key_ok k \<and> \<not> varnishArgsKey_match v)"

lemma validVarnishArgs_segments:
  "validVarnishArgs keys args = Ret () \<Longrightarrow> \<exists>segs. args = concat segs \<and> (\<forall>seg \<in> set segs. arg_segment seg)"
proof (induction keys args rule: validVarnishArgs.induct)
  case (1 keys)
  show ?case by (rule exI [of _ "[]"]) simp
next
  case (2 keys k rest)
  then have k: "arg_key_ok k" by (auto simp: arg_key_ok_def split: if_splits)
  show ?case
  proof (cases rest)
    case Nil
    with k show ?thesis by (intro exI [of _ "[[k]]"]) (simp add: arg_segment_def)
  next
    case (Cons v rest')
    show ?thesis
    proof (cases "varnishArgsKey_match v")
      case True
      with 2 Cons obtain segs where "rest = concat segs" "\<forall>seg \<in> set segs. arg_segment seg"
        by (auto split: if_splits)
      with k show ?thesis by (intro exI [of _ "[k] # segs"]) (simp add: arg_segment_def)
    next
      case False
      with 2 Cons obtain segs where "rest' = concat segs" "\<forall>seg \<in> set segs. arg_segment seg"
        by (auto split: if_splits)
      with k Cons False show ?thesis by (intro exI [of _ "[k, v] # segs"]) (simp add: arg_segment_def)
    qed
  qed
qed

lemma segments_validVarnishArgs:
  "\<forall>seg \<in> set segs. arg_segment seg \<Longrightarrow> validVarnishArgs keys (concat segs) = Ret ()"
proof (induction segs)
  case (Cons seg segs)
  then have IH: "validVarnishArgs keys (concat segs) = Ret ()" and seg: "arg_segment seg" by simp_all
  have next_key: "varnishArgsKey_match w" if "concat segs = w # ws" for w ws
    using Cons.prems that by (cases segs) (auto simp: arg_segment_def arg_key_ok_def)
  define ws where "ws = concat segs"
  have "validVarnishArgs keys (seg @ ws) = Ret ()"
    using seg IH next_key unfolding ws_def [symmetric]
    by (cases ws) (auto simp: arg_segment_def arg_key_ok_def)
  then show ?case by (simp add: ws_def)
qed simp

text \<open>
  The webhook accepts a list of varnishd arguments exactly when it splits into segments, each
  one an allowed key of the form \<open>-c\<close> alone or such a key followed by a value that has not the
  form of a key: no disallowed key (\<open>-f\<close>, \<open>-F\<close>, \<open>-n\<close>, \<open>-S\<close>, \<open>-b\<close>) is accepted in key position.
\<close>

theorem webhook_args_language:
  "validVarnishArgs keys args = Ret () \<longleftrightarrow>
     (\<exists>segs. args = concat segs \<and> (\<forall>seg \<in> set segs. arg_segment seg))"
  by (metis validVarnishArgs_segments segments_validVarnishArgs)

text \<open>What the webhook guarantees of an object it accepts.\<close>

definition threshold_ok :: "Threshold \<Rightarrow> bool" where
  "threshold_ok t \<longleftrightarrow>
     (\<forall>l. th_Local t = Some l \<longrightarrow> 1 \<le> sint l \<and> (\<exists>h. th_Threshold t = Some h \<and> 1 \<le> sint h \<and> sint h \<le> 100)) \<and>
     (\<forall>r. th_Remote t = Some r \<longrightarrow> 1 \<le> sint r)"

definition port_ok :: "int32 \<Rightarrow> bool" where
  "port_ok p \<longleftrightarrow> 1 \<le> sint p \<and> sint p \<le> 65535"

definition webhook_ok :: "string list \<Rightarrow> VarnishClusterSpec \<Rightarrow> bool" where
  "webhook_ok keys sp \<longleftrightarrow>
     (\<forall>v. sp_Varnish sp = Some v \<longrightarrow> validVarnishArgs keys (vv_Args v) = Ret ()) \<and>
     (\<forall>s. sp_Service sp = Some s \<longrightarrow> (\<forall>p. sv_Port s = Some p \<longrightarrow> port_ok p) \<and>
        (\<forall>p. sv_MetricsPort s = Some p \<longrightarrow> port_ok p)) \<and>
     (\<forall>b z. sp_Backend sp = Some b \<and> be_ZoneBalancing b = Some z \<longrightarrow>
        (\<forall>t \<in> set (zb_Thresholds z). threshold_ok t) \<and>
        (\<exists>s p. sp_Service sp = Some s \<and> sv_Port s = Some p)) \<and>
     (\<forall>u d. sp_UpdateStrategy sp = Some u \<and> us_DelayedRollingUpdate u = Some d \<longrightarrow> 1 \<le> sint (dru_DelaySeconds d))"

lemma validate_threshold_Ret: "validate_threshold t = Ret u \<longleftrightarrow> threshold_ok t"
  by (cases "th_Local t"; cases "th_Remote t")
     (auto simp: validate_threshold_def threshold_ok_def obind_eq_Ret)

lemma validate_thresholds_Ret: "validate_thresholds ts = Ret u \<longleftrightarrow> (\<forall>t \<in> set ts. threshold_ok t)"
  by (induction ts) (auto simp: obind_eq_Ret validate_threshold_Ret)

lemma validate_service_Ret:
  "validate_service sp = Ret u \<longleftrightarrow>
     (\<forall>s. sp_Service sp = Some s \<longrightarrow> (\<forall>p. sv_Port s = Some p \<longrightarrow> port_ok p) \<and>
        (\<forall>p. sv_MetricsPort s = Some p \<longrightarrow> port_ok p))"
  by (cases "sp_Service sp")
     (auto simp: validate_service_def port_ok_def obind_eq_Ret split: option.split)

lemma validate_backend_Ret:
  "validate_backend sp = Ret u \<longleftrightarrow>
     (\<forall>b z. sp_Backend sp = Some b \<and> be_ZoneBalancing b = Some z \<longrightarrow>
        (\<forall>t \<in> set (zb_Thresholds z). threshold_ok t) \<and>
        (\<exists>s p. sp_Service sp = Some s \<and> sv_Port s = Some p \<and> port_ok p))"
  by (auto simp: validate_backend_def port_ok_def obind_eq_Ret validate_thresholds_Ret split: option.split)


text \<open>
  The fields the CRD's schema makes mandatory: the API server refuses an object without them
  before it calls a validating webhook.
\<close>

definition schema_required :: "VarnishClusterSpec \<Rightarrow> bool" where
  "schema_required sp \<longleftrightarrow>
     (\<exists>s. sp_Service sp = Some s \<and> sv_Port s \<noteq> None) \<and>
     (\<exists>b. sp_Backend sp = Some b \<and> be_Port b \<noteq> None \<and>
        (\<forall>z. be_ZoneBalancing b = Some z \<longrightarrow>
           (\<forall>t \<in> set (zb_Thresholds z). th_Local t \<noteq> None \<and> th_Remote t \<noteq> None \<and> th_Threshold t \<noteq> None))) \<and>
     (\<exists>v. sp_VCL sp = Some v \<and> vcl_ConfigMapName v \<noteq> None \<and> vcl_EntrypointFileName v \<noteq> None)"

lemma validate_thresholds_no_panic:
  "\<forall>t \<in> set ts. th_Threshold t \<noteq> None \<Longrightarrow> validate_thresholds ts \<noteq> Panic p"
  by (induction ts) (auto simp: validate_threshold_def obind_eq_Panic split: option.splits)

text \<open>
  On an object that satisfies the CRD's schema the webhook returns acceptance or an error and
  never panics.
\<close>

theorem webhook_no_panic:
  assumes "schema_required (vc_Spec vc)"
  shows "validateCreateUpdate keys vc \<noteq> Panic p"
  using assms validate_thresholds_no_panic
  by (fastforce simp: validateCreateUpdate_def obind_eq_Panic schema_required_def validate_varnish_def
      validate_service_def validate_backend_def validate_update_strategy_def split: option.splits)

end
