(* ===== verification/VarnishArgs.thy ===== *)
theory VarnishArgs
  imports Webhook "HOL-Library.Multiset"
begin

text \<open>
  \<open>pkg/varnishcluster/controller/varnishcluster_varnish_args.go\<close>: the arguments of the varnishd
  container, made from the user's arguments and the operator's own.
\<close>

subsection \<open>Parsing, overriding and sorting\<close>

text \<open>
  The source compiles the key pattern from the raw string \<open>^-\\w\<close>, in which the two backslashes
  stand for one literal backslash: the expression matches a string that starts with a minus, a
  backslash and the letter \<open>w\<close>.
\<close>

definition argsKeyRegexp_match :: "string \<Rightarrow> bool" where
  "argsKeyRegexp_match s = HasPrefix s [CHR ''-'', CHR 0x5C, CHR ''w'']"

definition disallowedArgs :: "string list list" where
  "disallowedArgs = [[''-n''], [''-f'']]"

definition listen_addr :: "int32 \<Rightarrow> string" where
  "listen_addr port = ''0.0.0.0:'' @ show_int (sint port)"

definition varnishArgsOverrides :: "string list list" where
  "varnishArgsOverrides =
     [[''-F''], [''-S'', ''/etc/varnish-secret/secret''], [''-b'', ''127.0.0.1:0''],
      [''-T'', listen_addr VarnishAdminPort]]"

definition listenArg :: "string list" where
  "listenArg = [''-a'', listen_addr VarnishPort]"

definition argSpecified :: "string list list \<Rightarrow> string \<Rightarrow> bool" where
  "argSpecified args arg = list_ex (\<lambda>v. hd v = arg) args"

fun parse_args :: "string list \<Rightarrow> string list list" where
  "parse_args [] = []"
| "parse_args [k] = [[k]]"
| "parse_args (k # v # rest) =
     (if argsKeyRegexp_match v then [k] # parse_args (v # rest) else [k, v] # parse_args rest)"

definition skipped :: "string list \<Rightarrow> bool" where
  "skipped seg \<longleftrightarrow> argSpecified varnishArgsOverrides (hd seg) \<or> argSpecified disallowedArgs (hd seg)"

definition sort_arg :: "string list \<Rightarrow> string" where
  "sort_arg seg = Join seg '' ''"

definition sanitized_segments :: "string list \<Rightarrow> string list list" where
  "sanitized_segments rawArgs =
     sort_key sort_arg (filter (\<lambda>seg. \<not> skipped seg) (parse_args rawArgs) @ varnishArgsOverrides @ [listenArg])"

definition getSanitizedVarnishArgs :: "VarnishClusterSpec \<Rightarrow> string list outcome" where
  "getSanitizedVarnishArgs spec =
     obind (oderef (sp_Varnish spec)) (\<lambda>v. Ret (concat (sanitized_segments (vv_Args v))))"

subsection \<open>Lemmas\<close>

lemma parse_args_concat: "concat (parse_args args) = args"
  by (induction args rule: parse_args.induct) auto

lemma parse_args_nonempty: "seg \<in> set (parse_args args) \<Longrightarrow> seg \<noteq> []"
  by (induction args rule: parse_args.induct) (auto split: if_splits)

lemma mset_sanitized_segments:
  "mset (sanitized_segments rawArgs) =
     mset (filter (\<lambda>seg. \<not> skipped seg) (parse_args rawArgs)) + mset varnishArgsOverrides + {#listenArg#}"
  by (simp add: sanitized_segments_def)

lemma set_sanitized_segments:
  "seg \<in> set (sanitized_segments rawArgs) \<longleftrightarrow>
     seg \<in> set (parse_args rawArgs) \<and> \<not> skipped seg \<or> seg \<in> set varnishArgsOverrides \<or> seg = listenArg"
  by (auto simp: sanitized_segments_def)

lemma sorted_sanitized_segments: "sorted (map sort_arg (sanitized_segments rawArgs))"
  by (simp add: sanitized_segments_def)

definition pair_form :: "string list \<Rightarrow> bool" where
  "pair_form seg \<longleftrightarrow> (\<exists>k. seg = [k] \<and> CHR '' '' \<notin> set k) \<or> (\<exists>k v. seg = [k, v] \<and> CHR '' '' \<notin> set k)"

lemma append_sep_eq:
  "c \<notin> set a \<Longrightarrow> c \<notin> set b \<Longrightarrow> a @ c # s = b @ c # t \<longleftrightarrow> a = b \<and> s = t"
proof (induction a arbitrary: b)
  case (Cons x a)
  then show ?case by (cases b) auto
next
  case Nil
  then show ?case by (cases b) auto
qed

lemma sort_arg_inj: "inj_on sort_arg (Collect pair_form)"
  by (rule inj_onI) (auto simp: pair_form_def sort_arg_def append_sep_eq)

lemma operator_args_pair_form:
  "seg \<in> set (varnishArgsOverrides @ [listenArg]) \<Longrightarrow> pair_form seg"
  by (auto simp: varnishArgsOverrides_def listenArg_def pair_form_def)

subsection \<open>Properties\<close>


text \<open>
  The order in which the user lists the segments does not change the result, so it cannot
  trigger a rollout of the stateful set: two argument lists that parse to permutations of the same
  segments, with no blank in a key, give the same arguments.
\<close>

theorem sanitized_args_order_irrelevant:
  assumes perm: "mset (parse_args args) = mset (parse_args args')"
    and keys: "\<forall>seg \<in> set (parse_args args). CHR '' '' \<notin> set (hd seg)"
  shows "sanitized_segments args = sanitized_segments args'"
proof -
  let ?f = "\<lambda>a. filter (\<lambda>seg. \<not> skipped seg) (parse_args a) @ varnishArgsOverrides @ [listenArg]"
  have form: "length seg \<in> {1, 2}" if "seg \<in> set (parse_args a)" for seg a
    using that by (induction a rule: parse_args.induct) (auto split: if_splits)
  have pf: "pair_form seg" if "seg \<in> set (parse_args args)" for seg
    using form [OF that] keys that
    by (cases seg; cases "tl seg") (auto simp: pair_form_def)
  have "inj_on sort_arg (set (?f args))"
    using operator_args_pair_form pf by (intro inj_on_subset [OF sort_arg_inj]) auto
  moreover have "mset (?f args) = mset (?f args')"
    using perm by simp
  ultimately show ?thesis
    unfolding sanitized_segments_def
    by (metis sort_key_inj_key_eq mset_sort sorted_sort_key)
qed

text \<open>
  The key pattern of this file never matches a key, so a key that has no value of its own
  takes the next key for its value. For \<open>-d -T 1.2.3.4:1\<close>, which the webhook accepts, the user's
  \<open>-T\<close> is hidden behind \<open>-d\<close>, escapes the override, and reaches varnishd besides the operator's.
\<close>

theorem override_escapes_behind_flag:
  "validVarnishArgs keys [''-d'', ''-T'', ''1.2.3.4:1''] = Ret () \<and>
   \<not> argsKeyRegexp_match ''-T'' \<and>
   [''-d'', ''-T''] \<in> set (sanitized_segments [''-d'', ''-T'', ''1.2.3.4:1'']) \<and>
   [''-T'', listen_addr VarnishAdminPort] \<in> set (sanitized_segments [''-d'', ''-T'', ''1.2.3.4:1''])"
  by (simp add: word_char_def disallowedVarnishArgs_def argsKeyRegexp_match_def HasPrefix_def
      set_sanitized_segments skipped_def argSpecified_def varnishArgsOverrides_def disallowedArgs_def)

end
