(* ===== verification/StatefulSet.thy ===== *)
theory StatefulSet
  imports VarnishSecret VarnishArgs Rbac
begin

text \<open>
  \<open>varnishcluster_statefulset.go\<close>: the stateful set that runs the Varnish pods, each with the
  varnishd, metrics exporter and controller containers. The desired object is built in the parts the
  source's literal has; reading through a nil pointer of the spec panics.
\<close>

subsection \<open>Image names\<close>

definition splitNameAndTag :: "string \<Rightarrow> string \<times> string" where
  "splitNameAndTag fullName =
     (let parts = Split fullName CHR '':''
      in (parts ! 0, if length parts > 1 then '':'' @ parts ! 1 else []))"

definition imageNameGenerate :: "string \<Rightarrow> string \<Rightarrow> string \<Rightarrow> string" where
  "imageNameGenerate specified base sfx =
     (if specified \<noteq> [] then specified
      else case splitNameAndTag base of (baseName, tag) \<Rightarrow> baseName @ sfx @ tag)"

subsection \<open>The containers\<close>

definition mount :: "string \<Rightarrow> string \<Rightarrow> bool \<Rightarrow> volume_mount" where
  "mount name path readOnly = \<lparr>vm_Name = name, vm_MountPath = path, vm_ReadOnly = readOnly\<rparr>"

definition named_port :: "string \<Rightarrow> int32 \<Rightarrow> container_port" where
  "named_port name port = \<lparr>cp_Name = name, cp_ContainerPort = port, cp_Protocol = ''TCP''\<rparr>"

definition readiness :: "probe_handler \<Rightarrow> int32 \<Rightarrow> int32 \<Rightarrow> probe" where
  "readiness h timeout period =
     \<lparr>pr_Handler = h, pr_TimeoutSeconds = timeout, pr_PeriodSeconds = period,
      pr_SuccessThreshold = 1, pr_FailureThreshold = 3\<rparr>"

definition varnish_container :: "string \<Rightarrow> string list \<Rightarrow> opaque \<Rightarrow> VarnishClusterVarnish \<Rightarrow> container" where
  "varnish_container varnishImage varnishdArgs resources v =
     \<lparr>ct_Name = VarnishContainerName,
      ct_Image = varnishImage,
      ct_Args = varnishdArgs,
      ct_Ports = [named_port VarnishPortName VarnishPort],
      ct_Env = [],
      ct_EnvFrom = vv_EnvFrom v,
      ct_Resources = resources,
      ct_VolumeMounts =
        [mount VarnishSharedVolume ''/var/lib/varnish'' False,
         mount VarnishSettingsVolume ''/etc/varnish'' True,
         mount VarnishSecretVolume ''/etc/varnish-secret'' True] @ vv_ExtraVolumeMounts v,
      ct_ReadinessProbe = Some (readiness (ExecProbe [''/usr/bin/varnishadm'', ''ping'']) 30 10),
      ct_TerminationMessagePath = ''/dev/termination-log'',
      ct_TerminationMessagePolicy = ''File'',
      ct_ImagePullPolicy = vv_ImagePullPolicy v\<rparr>"

definition metrics_container :: "string \<Rightarrow> VarnishClusterVarnishMetricsExporter \<Rightarrow> container" where
  "metrics_container img m =
     \<lparr>ct_Name = VarnishMetricsExporterName,
      ct_Image = img,
      ct_Args = [],
      ct_Ports = [named_port VarnishMetricsPortName VarnishPrometheusExporterPort],
      ct_Env = [],
      ct_EnvFrom = [],
      ct_Resources = me_Resources m,
      ct_VolumeMounts =
        [mount VarnishSharedVolume ''/var/lib/varnish'' True,
         mount VarnishSettingsVolume ''/etc/varnish'' True],
      ct_ReadinessProbe =
        Some (readiness (HTTPGetProbe (IntPort VarnishPrometheusExporterPort) ''/'' ''HTTP'') 30 10),
      ct_TerminationMessagePath = ''/dev/termination-log'',
      ct_TerminationMessagePolicy = ''File'',
      ct_ImagePullPolicy = me_ImagePullPolicy m\<rparr>"

text \<open>The environment is how the controller learns which cluster and pod it serves.\<close>

definition controller_env :: "VarnishCluster \<Rightarrow> string \<times> string \<times> string \<Rightarrow> (string \<times> env_value) list" where
  "controller_env instance gvk =
     (case gvk of (grp, version, kind) \<Rightarrow>
       [(''NAMESPACE'', EnvValue (vc_Namespace instance)),
        (''POD_NAME'', EnvFieldRef ''v1'' ''metadata.name''),
        (''NODE_NAME'', EnvFieldRef ''v1'' ''spec.nodeName''),
        (''VARNISH_CLUSTER_NAME'', EnvValue (vc_Name instance)),
        (''VARNISH_CLUSTER_UID'', EnvValue (vc_UID instance)),
        (''VARNISH_CLUSTER_GROUP'', EnvValue grp),
        (''VARNISH_CLUSTER_VERSION'', EnvValue version),
        (''VARNISH_CLUSTER_KIND'', EnvValue kind),
        (''LOG_FORMAT'', EnvValue (sp_LogFormat (vc_Spec instance))),
        (''LOG_LEVEL'', EnvValue (sp_LogLevel (vc_Spec instance)))])"

definition controller_container ::
  "string \<Rightarrow> VarnishCluster \<Rightarrow> string \<times> string \<times> string \<Rightarrow> VarnishClusterVarnishController \<Rightarrow> container" where
  "controller_container img instance gvk c =
     \<lparr>ct_Name = VarnishControllerName,
      ct_Image = img,
      ct_Args = [],
      ct_Ports = [named_port VarnishControllerMetricsPortName VarnishControllerMetricsPort],
      ct_Env = controller_env instance gvk,
      ct_EnvFrom = [],
      ct_Resources = ctl_Resources c,
      ct_VolumeMounts =
        [mount VarnishSettingsVolume ''/etc/varnish'' False,
         mount VarnishSharedVolume ''/var/lib/varnish'' True,
         mount VarnishSecretVolume ''/etc/varnish-secret'' True],
      ct_ReadinessProbe = Some (readiness (HTTPGetProbe (IntPort HealthCheckPort) ''/readyz'' ''HTTP'') 10 3),
      ct_TerminationMessagePath = ''/dev/termination-log'',
      ct_TerminationMessagePolicy = ''File'',
      ct_ImagePullPolicy = ctl_ImagePullPolicy c\<rparr>"

subsection \<open>The pods\<close>

definition pod_volumes :: "string \<times> string \<Rightarrow> VarnishClusterVarnish \<Rightarrow> volume list" where
  "pod_volumes secretNames v =
     [\<lparr>vol_Name = VarnishSharedVolume, vol_Source = EmptyDirVolume\<rparr>,
      \<lparr>vol_Name = VarnishSettingsVolume, vol_Source = EmptyDirVolume\<rparr>,
      \<lparr>vol_Name = VarnishSecretVolume,
       vol_Source = SecretVolume (fst secretNames) [(snd secretNames, ''secret'', 292)] 420\<rparr>]
     @ vv_ExtraVolumes v"

definition desired_pod_spec ::
  "VarnishCluster \<Rightarrow> string \<times> string \<Rightarrow> VarnishClusterVarnish \<Rightarrow> container list \<Rightarrow> pod_spec" where
  "desired_pod_spec instance secretNames v containers =
     \<lparr>ps_ShareProcessNamespace = Some True,
      ps_InitContainers = vv_ExtraInitContainers v,
      ps_Volumes = pod_volumes secretNames v,
      ps_Containers = containers,
      ps_TerminationGracePeriodSeconds = Some 30,
      ps_DNSPolicy = ''ClusterFirst'',
      ps_SecurityContext = Some (Opaque []),
      ps_ServiceAccountName = ServiceAccountName (vc_Name instance),
      ps_NodeSelector = sp_NodeSelector (vc_Spec instance),
      ps_Affinity = sp_Affinity (vc_Spec instance),
      ps_PriorityClassName = sp_PriorityClassName (vc_Spec instance),
      ps_Tolerations = sp_Tolerations (vc_Spec instance),
      ps_RestartPolicy = ''Always'',
      ps_ImagePullSecrets = (if vv_ImagePullSecret v \<noteq> [] then [vv_ImagePullSecret v] else []),
      ps_DeprecatedServiceAccount = [],
      ps_SchedulerName = []\<rparr>"

definition sts_update_strategy :: "VarnishClusterUpdateStrategy \<Rightarrow> string \<times> opaque option" where
  "sts_update_strategy u =
     (if us_Type u = OnDeleteStrategy \<or> us_Type u = DelayedRollingUpdateStrategy then (''OnDelete'', None)
      else if us_Type u = RollingUpdateStrategy then (''RollingUpdate'', us_RollingUpdate u)
      else ([], None))"

definition zero_sts_status :: statefulset_status where
  "zero_sts_status = \<lparr>stss_Replicas = 0, stss_ReadyReplicas = 0, stss_UpdatedReplicas = 0, stss_UpdateRevision = []\<rparr>"

definition pod_containers ::
  "'w operator_env \<Rightarrow> VarnishCluster \<Rightarrow> VarnishClusterVarnish \<Rightarrow> string list \<Rightarrow> container list outcome" where
  "pod_containers e instance v varnishdArgs =
     (let varnishImage = if_empty (vv_Image v) (e_CoupledVarnishImage e) in
      obind (oderef (vv_Controller v)) (\<lambda>c.
      obind (oderef (vv_MetricsExporter v)) (\<lambda>m.
      obind (oderef (vv_Resources v)) (\<lambda>resources.
        Ret [varnish_container varnishImage varnishdArgs resources v,
             metrics_container (imageNameGenerate (me_Image m) varnishImage VarnishMetricsExporterImage) m,
             controller_container (imageNameGenerate (ctl_Image c) varnishImage VarnishControllerImage) instance
               (e_GroupVersionKind e instance) c]))))"

definition desired_statefulset :: "'w operator_env \<Rightarrow> VarnishCluster \<Rightarrow> string list \<Rightarrow> statefulset outcome" where
  "desired_statefulset e instance varnishdArgs =
     (let varnishLabels = CombinedComponentLabels instance VarnishComponentVarnish in
      obind (oderef (sp_Varnish (vc_Spec instance))) (\<lambda>v.
      obind (oderef (sp_UpdateStrategy (vc_Spec instance))) (\<lambda>u.
      obind (pod_containers e instance v varnishdArgs) (\<lambda>containers.
        Ret \<lparr>sts_Meta = new_meta (StatefulSetName (vc_Name instance)) (vc_Namespace instance) varnishLabels Map.empty,
             sts_Spec =
              \<lparr>sts_ServiceName = HeadlessServiceName (vc_Name instance),
               sts_Replicas = sp_Replicas (vc_Spec instance),
               sts_Selector = Some varnishLabels,
               sts_PodManagementPolicy = ''Parallel'',
               sts_StrategyType = fst (sts_update_strategy u),
               sts_StrategyRollingUpdate = snd (sts_update_strategy u),
               sts_RevisionHistoryLimit = Some 10,
               sts_VolumeClaimTemplates = vv_ExtraVolumeClaimTemplates v,
               sts_Template =
                \<lparr>pt_Labels = varnishLabels, pt_Annotations = Map.empty,
                 pt_Spec = desired_pod_spec instance (secret_names instance v) v containers\<rparr>\<rparr>,
             sts_Status = zero_sts_status\<rparr>))))"

subsection \<open>Reconciling it\<close>

definition inherit_sts :: "statefulset \<Rightarrow> statefulset \<Rightarrow> statefulset" where
  "inherit_sts found desired =
     desired\<lparr>sts_Spec := (sts_Spec desired)
       \<lparr>sts_Selector := sts_Selector (sts_Spec found),
        sts_Template := (sts_Template (sts_Spec desired))
          \<lparr>pt_Labels := pt_Labels (sts_Template (sts_Spec found)),
           pt_Annotations := pt_Annotations (sts_Template (sts_Spec found))\<rparr>\<rparr>\<rparr>"

definition same_sts :: "statefulset \<Rightarrow> statefulset \<Rightarrow> bool" where
  "same_sts found desired = EqualStatefulSet found (inherit_sts found desired)"

definition merge_sts :: "statefulset \<Rightarrow> statefulset \<Rightarrow> statefulset" where
  "merge_sts found desired =
     found\<lparr>sts_Spec := sts_Spec (inherit_sts found desired),
           sts_Meta := (sts_Meta found)\<lparr>om_Labels := om_Labels (sts_Meta desired)\<rparr>\<rparr>"

text \<open>
  The stateful set returned is the found one: the server's answer after an update, and after a
  create the empty object the failed get left.
\<close>

definition empty_statefulset :: statefulset where
  "empty_statefulset =
     \<lparr>sts_Meta = new_meta [] [] Map.empty Map.empty,
      sts_Spec = \<lparr>sts_ServiceName = [], sts_Replicas = None, sts_Selector = None, sts_PodManagementPolicy = [],
        sts_StrategyType = [], sts_StrategyRollingUpdate = None, sts_RevisionHistoryLimit = None,
        sts_VolumeClaimTemplates = [],
        sts_Template = \<lparr>pt_Labels = Map.empty, pt_Annotations = Map.empty,
          pt_Spec = \<lparr>ps_ShareProcessNamespace = None, ps_InitContainers = [], ps_Volumes = [], ps_Containers = [],
            ps_TerminationGracePeriodSeconds = None, ps_DNSPolicy = [], ps_SecurityContext = None,
            ps_ServiceAccountName = [], ps_NodeSelector = Map.empty, ps_Affinity = None, ps_PriorityClassName = [],
            ps_Tolerations = [], ps_RestartPolicy = [], ps_ImagePullSecrets = [],
            ps_DeprecatedServiceAccount = [], ps_SchedulerName = []\<rparr>\<rparr>\<rparr>,
      sts_Status = zero_sts_status\<rparr>"

definition apply_statefulset :: "'w operator_env \<Rightarrow> statefulset \<Rightarrow> ('w, statefulset) operator" where
  "apply_statefulset e desired =
     attempt (api_get (e_StatefulSets e) (om_Namespace (sts_Meta desired)) (om_Name (sts_Meta desired))) (\<lambda>r.
       case r of
         Inl err \<Rightarrow>
           if IsNotFound err
           then seq (wrap ''could not create statefulset'' (api_create ObjStatefulSet (e_StatefulSets e) desired))
                  (ret empty_statefulset)
           else fail (Wrapped ''could not get current state of statefulset'' err)
       | Inr found \<Rightarrow>
           if \<not> same_sts found desired
           then wrap ''could not update statefulset''
                  (api_update ObjStatefulSet (e_StatefulSets e) (merge_sts found desired))
           else ret found)"

definition set_sts_status :: "string \<Rightarrow> int32 \<Rightarrow> VarnishCluster \<Rightarrow> VarnishCluster" where
  "set_sts_status args replicas instanceStatus =
     instanceStatus\<lparr>vc_Status := (vc_Status instanceStatus)\<lparr>st_VarnishArgs := args, st_Replicas := replicas\<rparr>\<rparr>"

definition reconcileStatefulSet ::
  "'w operator_env \<Rightarrow> VarnishCluster \<Rightarrow> VarnishCluster \<Rightarrow> ('w, statefulset \<times> strmap \<times> VarnishCluster) operator" where
  "reconcileStatefulSet e instance instanceStatus =
     bnd (lift (getSanitizedVarnishArgs (vc_Spec instance))) (\<lambda>varnishdArgs.
     bnd (lift (desired_statefulset e instance varnishdArgs)) (\<lambda>desired.
     bnd (set_controller e ''could not set controller as the OwnerReference for statefulset'' instance
            (sts_Meta desired)) (\<lambda>m.
     bnd (apply_statefulset e (e_SchemeDefaultStatefulSet e (desired\<lparr>sts_Meta := m\<rparr>))) (\<lambda>found.
       ret (found, CombinedComponentLabels instance VarnishComponentVarnish,
            set_sts_status (Join varnishdArgs '' '') (stss_Replicas (sts_Status found)) instanceStatus)))))"

subsection \<open>Image names of the sidecars\<close>

lemma splitNameAndTag_tagged:
  "CHR '':'' \<notin> set name \<Longrightarrow> CHR '':'' \<notin> set tag \<Longrightarrow> splitNameAndTag (name @ '':'' @ tag) = (name, '':'' @ tag)"
  using Split_append_sep [of "CHR '':''" name tag] by (simp add: splitNameAndTag_def Split_no_sep)

lemma splitNameAndTag_untagged: "CHR '':'' \<notin> set name \<Longrightarrow> splitNameAndTag name = (name, [])"
  by (simp add: splitNameAndTag_def Split_no_sep)

lemma splitNameAndTag_port:
  "CHR '':'' \<notin> set name \<Longrightarrow> splitNameAndTag (name @ '':5000/varnish:'' @ tag) = (name, '':5000/varnish'')"
  using Split_append_sep [of "CHR '':''" name "''5000/varnish:'' @ tag"]
    Split_append_sep [of "CHR '':''" "''5000/varnish''" tag] by (simp add: splitNameAndTag_def)

text \<open>
  The image of a sidecar is the varnish image with the sidecar's suffix put before the tag, when
  neither the image name nor the tag has a colon, and the user's own image when one is given. With a
  registry port in the image name the split happens at that port: the rest of the name is taken for
  the tag and the real tag is lost.
\<close>

theorem sidecar_image_name:
  assumes "CHR '':'' \<notin> set name" "CHR '':'' \<notin> set tag"
  shows "imageNameGenerate [] (name @ '':'' @ tag) sfx = name @ sfx @ '':'' @ tag \<and>
   imageNameGenerate [] name sfx = name @ sfx \<and>
   imageNameGenerate (c # cs) base sfx = c # cs \<and>
   imageNameGenerate [] (name @ '':5000/varnish:'' @ tag) sfx = name @ sfx @ '':5000/varnish''"
  using assms
  using splitNameAndTag_tagged [OF assms] splitNameAndTag_port [OF assms(1), of tag]
  by (simp add: imageNameGenerate_def splitNameAndTag_untagged)

lemma sidecar_image_name_witness:
  "imageNameGenerate [] ''registry.local:5000/varnish:1.0'' ''-controller'' = ''registry.local-controller:5000/varnish''"
  using sidecar_image_name [of "''registry.local''" "''1.0''" "''-controller''"] by simp

subsection \<open>The contract of the stateful set\<close>

lemma inherit_sts_merge [simp]: "inherit_sts (merge_sts f d) d = inherit_sts f d"
  by (simp add: inherit_sts_def merge_sts_def)

lemma inherit_sts_self [simp]: "inherit_sts d d = d"
  by (simp add: inherit_sts_def)

interpretation up_sts: upsert ObjStatefulSet sts_Meta same_sts merge_sts
    "\<lambda>f d. agree_annotated (sts_Meta f) (sts_Meta d)" "\<lambda>_. True"
proof unfold_locales
  show "same_sts (merge_sts f d) d \<longleftrightarrow> agree_annotated (sts_Meta f) (sts_Meta d)" for f d
    unfolding same_sts_def inherit_sts_merge
    by (simp add: EqualStatefulSet_def ignore_metadata_eq merge_sts_def inherit_sts_def agree_annotated_def)
qed (simp_all add: merge_sts_def same_sts_def EqualStatefulSet_def)

abbreviation sts_msgs :: "string \<times> string \<times> string" where
  "sts_msgs \<equiv> (''could not create statefulset'', ''could not get current state of statefulset'',
     ''could not update statefulset'')"

lemma apply_statefulset_upsert:
  "upsert_object ObjStatefulSet sts_Meta (e_StatefulSets e) same_sts merge_sts sts_msgs d s =
     (case apply_statefulset e d s of
        (Ret y, s') \<Rightarrow> (fst (upsert_object ObjStatefulSet sts_Meta (e_StatefulSets e) same_sts merge_sts sts_msgs d s), s')
      | (Err err, s') \<Rightarrow> (Err err, s') | (Panic p, s') \<Rightarrow> (Panic p, s'))"
  by (simp add: upsert_object_def apply_statefulset_def attempt_apply api_apply wrap_apply seq_apply
      split: prod.split outcome.split)

lemma apply_statefulset_emits:
  "lawful_env e \<Longrightarrow> emits (touches (named ObjStatefulSet (om_Namespace (sts_Meta d)) (om_Name (sts_Meta d))))
     (apply_statefulset e d)"
proof -
  assume e: "lawful_env e"
  have "snd (apply_statefulset e d s) =
      snd (upsert_object ObjStatefulSet sts_Meta (e_StatefulSets e) same_sts merge_sts sts_msgs d s)" for s
    by (subst apply_statefulset_upsert) (simp split: prod.split outcome.split)
  then show ?thesis
    using e up_sts.emits_named [of "e_StatefulSets e" d "om_Namespace (sts_Meta d)" "om_Name (sts_Meta d)" sts_msgs]
    by (simp add: emits_def lawful_env_def)
qed

lemma desired_statefulset_meta:
  "desired_statefulset e vc args = Ret d \<Longrightarrow>
   sts_Meta d = new_meta (StatefulSetName (vc_Name vc)) (vc_Namespace vc)
     (CombinedComponentLabels vc VarnishComponentVarnish) Map.empty"
  by (auto simp: desired_statefulset_def Let_def obind_eq_Ret)

lemma reconcileStatefulSet_emits:
  assumes "lawful_env e"
  shows "emits (touches (named ObjStatefulSet (vc_Namespace vc) (StatefulSetName (vc_Name vc))))
    (reconcileStatefulSet e vc st)"
  unfolding reconcileStatefulSet_def using assms
  by (intro emits_lift_bnd emits_set_controller_bnd emits_bnd emits_pure
        emits_mono [OF apply_statefulset_emits [OF assms]])
    (auto simp: lawful_env_def keeps_meta_def dest!: sets_only_ownerD desired_statefulset_meta)

text \<open>
  An update of the stateful set never changes what identifies its pods: the request sent carries
  the pod selector, the pod labels and the pod annotations of the stateful set found, and the desired
  replicas, strategy and pod specification.
\<close>

theorem sts_update_keeps_selector:
  assumes "apply_statefulset e d s = (r, s')" "os_requests s' = os_requests s @ [Update (ObjStatefulSet x)]"
  shows "\<exists>f w. r_get (e_StatefulSets e) (om_Namespace (sts_Meta d)) (om_Name (sts_Meta d)) (os_world s) = (Ret f, w) \<and>
     sts_Selector (sts_Spec x) = sts_Selector (sts_Spec f) \<and>
     pt_Labels (sts_Template (sts_Spec x)) = pt_Labels (sts_Template (sts_Spec f)) \<and>
     pt_Annotations (sts_Template (sts_Spec x)) = pt_Annotations (sts_Template (sts_Spec f)) \<and>
     pt_Spec (sts_Template (sts_Spec x)) = pt_Spec (sts_Template (sts_Spec d)) \<and>
     sts_Replicas (sts_Spec x) = sts_Replicas (sts_Spec d) \<and>
     sts_StrategyType (sts_Spec x) = sts_StrategyType (sts_Spec d) \<and>
     om_Labels (sts_Meta x) = om_Labels (sts_Meta d)"
  using assms
  by (auto simp: apply_statefulset_def attempt_apply api_apply wrap_apply seq_apply merge_sts_def inherit_sts_def
      split: prod.splits outcome.splits if_splits)

text \<open>
  The pods of the desired stateful set are the ones the rest of the operator looks for: they
  carry the labels the services, the disruption budget and the rolling update select by, run under
  the cluster's service account, mount the cluster's varnish secret, and have the three containers
  with the sanitized varnishd arguments in the first.
\<close>

theorem desired_pods_fit_cluster:
  assumes "desired_statefulset e vc args = Ret d"
  shows "sts_Selector (sts_Spec d) = Some (pt_Labels (sts_Template (sts_Spec d))) \<and>
     pt_Labels (sts_Template (sts_Spec d)) = CombinedComponentLabels vc VarnishComponentVarnish \<and>
     sts_ServiceName (sts_Spec d) = HeadlessServiceName (vc_Name vc) \<and>
     ps_ServiceAccountName (pt_Spec (sts_Template (sts_Spec d))) = om_Name (sa_Meta (desired_service_account vc)) \<and>
     (\<exists>names. namesForInstanceSecret vc = Ret names \<and>
        \<lparr>vol_Name = VarnishSecretVolume,
         vol_Source = SecretVolume (fst names) [(snd names, ''secret'', 292)] 420\<rparr>
           \<in> set (ps_Volumes (pt_Spec (sts_Template (sts_Spec d))))) \<and>
     map ct_Name (ps_Containers (pt_Spec (sts_Template (sts_Spec d)))) =
       [VarnishContainerName, VarnishMetricsExporterName, VarnishControllerName] \<and>
     ct_Args (hd (ps_Containers (pt_Spec (sts_Template (sts_Spec d))))) = args"
proof -
  obtain v u containers where v: "sp_Varnish (vc_Spec vc) = Some v" "sp_UpdateStrategy (vc_Spec vc) = Some u"
    and c: "pod_containers e vc v args = Ret containers"
    using assms by (auto simp: desired_statefulset_def Let_def obind_eq_Ret)
  have names: "map ct_Name containers = [VarnishContainerName, VarnishMetricsExporterName, VarnishControllerName]"
    "ct_Args (hd containers) = args"
    using c by (auto simp: pod_containers_def Let_def obind_eq_Ret varnish_container_def metrics_container_def
        controller_container_def)
  have sec: "namesForInstanceSecret vc = Ret (secret_names vc v)" using v by (simp add: namesForInstanceSecret_def)
  show ?thesis using assms v c names
    by (clarsimp simp: desired_statefulset_def Let_def sec desired_pod_spec_def pod_volumes_def desired_service_account_def)
qed

end
