(* ===== verification/DefaultVcl.thy ===== *)
theory DefaultVcl
  imports GoStrings
begin

text \<open>
  \<open>varnishcluster_default_vcl.go\<close>: the VCL files of the config map the operator creates when the
  cluster's does not exist. The Go raw strings are given line by line.
\<close>

abbreviation dq :: string where "dq \<equiv> [CHR 0x22]"

definition lines_text :: "string list \<Rightarrow> string" where
  "lines_text ls = concat (map (\<lambda>l. l @ [CHR 0x0A]) ls)"

definition entrypointVCLFileContent :: string where
  "entrypointVCLFileContent = lines_text [
    ''vcl 4.0;'',
    [],
    ''import std;'',
    ''import var;'',
    ''include '' @ dq @ ''backends.vcl'' @ dq @ '';'',
    [],
    ''sub vcl_init {'',
    ''  call init_backends;'',
    ''}'',
    [],
    ''sub vcl_recv {'',
    ''  if (req.restarts > 0) {'',
    ''    set req.hash_always_miss = true;'',
    ''  }'',
    [],
    ''  if (req.method == '' @ dq @ ''GET'' @ dq @ '' && req.url == '' @ dq @ ''/heartbeat'' @ dq @ '') {'',
    ''    return(synth(200, '' @ dq @ ''OK'' @ dq @ ''));'',
    ''  }'',
    [],
    ''  // If backends are not configured correctly'',
    ''  if (!(var.global_get('' @ dq @ ''backendsFound'' @ dq @ '') == '' @ dq @ ''true'' @ dq @ '')) {'',
    ''    return(synth(503, '' @ dq @ ''No backends configured'' @ dq @ ''));'',
    ''  }'',
    [],
    ''  set req.backend_hint = container_rr.backend();'',
    [],
    ''  if (req.method == '' @ dq @ ''GET'' @ dq @ '' && req.url == '' @ dq @ ''/liveness'' @ dq @ '') {'',
    ''    if (!std.healthy(req.backend_hint)) {'',
    ''      return(synth(503, '' @ dq @ ''No healthy backends'' @ dq @ ''));'',
    ''    }'',
    ''    return(synth(200, '' @ dq @ ''OK'' @ dq @ ''));'',
    ''  }'',
    [],
    ''  // Do not cache paths with health (healthcheck cache fix)'',
    ''  if (req.url ~ '' @ dq @ ''health'' @ dq @ '') {'',
    ''    return (pass);'',
    ''  }'',
    ''}'',
    [],
    ''sub vcl_synth {'',
    ''  set resp.http.Content-Type = '' @ dq @ ''text/html; charset=utf-8'' @ dq @ '';'',
    [],
    ''  if (!(var.global_get('' @ dq @ ''backendsFound'' @ dq @ '') == '' @ dq @ ''true'' @ dq @ '')) { //error message if no backends configured'',
    ''    synthetic( {'' @ dq @ ''<!DOCTYPE html>'',
    ''      <html>'',
    ''        <head>'',
    ''          <title>Incorrect backend configuration'' @ dq @ ''</title>'',
    ''        </head>'',
    ''        <body>'',
    ''          <h1>Incorrect backend configuration</h1>'',
    ''          <p>Please check your deployment. It may not have pods running or Varnish is pointed to a non existing deployment.</p>'',
    ''          <p>XID: '' @ dq @ ''} + req.xid + {'' @ dq @ ''</p>'',
    ''          <hr>'',
    ''        </body>'',
    ''      </html>'',
    ''    '' @ dq @ ''} );'',
    ''  } else { //default error message for the rest of the cases'',
    ''    synthetic( {'' @ dq @ ''<!DOCTYPE html>'',
    ''      <html>'',
    ''        <head>'',
    ''          <title>'' @ dq @ ''} + resp.status + '' @ dq @ '' '' @ dq @ '' + resp.reason + {'' @ dq @ ''</title>'',
    ''        </head>'',
    ''        <body>'',
    ''          <h1>Error '' @ dq @ ''} + resp.status + '' @ dq @ '' '' @ dq @ '' + resp.reason + {'' @ dq @ ''</h1>'',
    ''          <p>'' @ dq @ ''} + resp.reason + {'' @ dq @ ''</p>'',
    ''          <h3>Guru meditation:</h3>'',
    ''          <p>XID: '' @ dq @ ''} + req.xid + {'' @ dq @ ''</p>'',
    ''          <hr>'',
    ''          <p>Varnish cache server</p>'',
    ''        </body>'',
    ''      </html>'',
    ''    '' @ dq @ ''} );'',
    ''  }'',
    [],
    ''  return (deliver);'',
    ''}'',
    [],
    ''sub vcl_hit {'',
    ''  // Do not serve stale objects'',
    ''  if (obj.ttl >= 0s) {'',
    ''    return (deliver);'',
    ''  }'',
    ''  return (restart);'',
    ''}'',
    [],
    ''sub vcl_backend_response {'',
    [],
    ''  // Do not cache 404s from backends'',
    ''  if (beresp.status == 404) {'',
    ''    set beresp.ttl = 0s;'',
    ''  }'',
    ''}'',
    [],
    ''sub vcl_deliver {'',
    [],
    ''  set resp.http.grace = req.http.grace;'',
    [],
    ''  if (obj.hits > 0) {'',
    ''    set resp.http.X-Varnish-Cache = '' @ dq @ ''HIT'' @ dq @ '';'',
    ''  }'',
    ''  else {'',
    ''    set resp.http.X-Varnish-Cache = '' @ dq @ ''MISS'' @ dq @ '';'',
    ''  }'',
    [],
    ''  return (deliver);'',
    ''}'',
    []]"

definition backendsVCLTmplFileContent :: string where
  "backendsVCLTmplFileContent = lines_text [
    ''import directors;'',
    [],
    ''{{ if .Backends -}}'',
    ''{{ range .Backends }}'',
    ''backend {{ .PodName }} {'',
    ''  // backend {{ .PodName }} labels:'',
    ''  {{- range $item, $key := .NodeLabels }}'',
    ''  //   {{ $item }}: {{ $key -}}'',
    ''  {{ end }}'',
    ''  .host = '' @ dq @ ''{{ .IP }}'' @ dq @ '';'',
    ''  .port = '' @ dq @ ''{{ $.TargetPort }}'' @ dq @ '';'',
    ''}'',
    ''{{ end }}'',
    ''{{- else -}}'',
    ''// Without this dummy backend, varnish will not compile the code'',
    ''// This is a dummy, and should not be used anywhere'',
    ''backend dummy {'',
    ''  .host = '' @ dq @ ''127.0.0.1'' @ dq @ '';'',
    ''  .port = '' @ dq @ ''0'' @ dq @ '';'',
    ''}'',
    ''{{- end }}'',
    [],
    ''sub init_backends {'',
    ''  // The line below is generated and creates a variable that is used to build custom logic'',
    ''  // when the user configured the backends incorrectly. E.g. return a custom error page that indicates the issue.'',
    ''  var.global_set('' @ dq @ ''backendsFound'' @ dq @ '', {{ if .Backends }}'' @ dq @ ''true'' @ dq @ ''{{ else }}'' @ dq @ ''false'' @ dq @ ''{{ end }}); //only strings are allowed to be set globally'',
    [],
    ''  new container_rr = directors.round_robin();'',
    ''  {{- range .Backends }}'',
    ''  container_rr.add_backend({{ .PodName }});'',
    ''  {{- end }}'',
    ''}'']"

end
