(* ===== verification/VclConfigMap.thy ===== *)
theory VclConfigMap
  imports DefaultVcl Upsert
begin

text \<open>
  \<open>varnishcluster_configmap.go\<close>: the config map with the VCL files. The operator creates it with the
  default files when it does not exist; on an existing one, which is the user's, it only sets its
  owner and adds its labels. Then it records in the status the version of the config map and how
  many pods run it.
\<close>

definition annotationVCLVersion :: string where "annotationVCLVersion = ''VCLVersion''"

definition configMapVersion_annotation :: string where "configMapVersion_annotation = ''configMapVersion''"

definition default_config_map :: "VarnishCluster \<Rightarrow> string \<Rightarrow> string \<Rightarrow> config_map" where
  "default_config_map instance name entrypoint =
     \<lparr>cm_Meta = new_meta name (vc_Namespace instance)
        (CombinedComponentLabels instance VarnishComponentVCLFileConfigMap) Map.empty,
      cm_Data = [entrypoint \<mapsto> entrypointVCLFileContent, ''backends.vcl.tmpl'' \<mapsto> backendsVCLTmplFileContent]\<rparr>"

definition create_config_map :: "'w operator_env \<Rightarrow> VarnishCluster \<Rightarrow> VarnishClusterVCL \<Rightarrow> string \<Rightarrow> ('w, config_map) operator" where
  "create_config_map e instance vcl name =
     bnd (deref (vcl_EntrypointFileName vcl)) (\<lambda>entrypoint.
       let cm = default_config_map instance name entrypoint in
       bnd (set_controller e ''could not initialize default ConfigMap'' instance (cm_Meta cm)) (\<lambda>m.
         wrap ''could not create ConfigMap'' (api_create ObjConfigMap (e_ConfigMaps e) (cm\<lparr>cm_Meta := m\<rparr>))))"

definition adopt_config_map :: "'w operator_env \<Rightarrow> VarnishCluster \<Rightarrow> config_map \<Rightarrow> ('w, config_map) operator" where
  "adopt_config_map e instance cmCopy =
     bnd (set_controller e ''could not set controller as the OwnerReference for existing ConfigMap'' instance
            (cm_Meta cmCopy)) (\<lambda>m.
       let cm = cmCopy\<lparr>cm_Meta := m\<lparr>om_Labels := om_Labels m ++
                  CombinedComponentLabels instance VarnishComponentVCLFileConfigMap\<rparr>\<rparr> in
       if \<not> EqualConfigMap cm cmCopy
       then wrap ''could not update configmap'' (api_update ObjConfigMap (e_ConfigMaps e) cm)
       else ret cm)"

text \<open>The pods counted are those that report a version; the versions are compared with the one in
  the status as it was before this reconcile.\<close>

definition pod_version :: "pod \<Rightarrow> string" where
  "pod_version p = lookup (om_Annotations (pod_Meta p)) configMapVersion_annotation"

definition count_versions :: "string \<Rightarrow> pod list \<Rightarrow> nat \<times> nat" where
  "count_versions version pods =
     foldl (\<lambda>(latest, outdated) item.
       if pod_version item = [] then (latest, outdated)
       else if pod_version item = version then (Suc latest, outdated)
       else (latest, Suc outdated)) (0, 0) pods"

definition availability_text :: "nat \<times> nat \<Rightarrow> string" where
  "availability_text c = show_nat (fst c) @ '' latest / '' @ show_nat (snd c) @ '' outdated''"

definition vcl_version :: "config_map \<Rightarrow> string option" where
  "vcl_version cm =
     (if lookup (om_Annotations (cm_Meta cm)) annotationVCLVersion \<noteq> []
      then Some (lookup (om_Annotations (cm_Meta cm)) annotationVCLVersion) else None)"

definition set_vcl_status :: "config_map \<Rightarrow> string \<Rightarrow> VarnishCluster \<Rightarrow> VarnishCluster" where
  "set_vcl_status cm availability instanceStatus =
     instanceStatus\<lparr>vc_Status := (vc_Status instanceStatus)
       \<lparr>st_VCL := \<lparr>vst_Version = vcl_version cm, vst_ConfigMapVersion = om_ResourceVersion (cm_Meta cm),
                  vst_Availability = availability\<rparr>\<rparr>\<rparr>"

definition reconcileConfigMap ::
  "'w operator_env \<Rightarrow> strmap \<Rightarrow> VarnishCluster \<Rightarrow> VarnishCluster \<Rightarrow> ('w, VarnishCluster) operator" where
  "reconcileConfigMap e podsSelector instance instanceStatus =
     bnd (deref (sp_VCL (vc_Spec instance))) (\<lambda>vcl.
     bnd (deref (vcl_ConfigMapName vcl)) (\<lambda>name.
     bnd (attempt (api_get (e_ConfigMaps e) (vc_Namespace instance) name) (\<lambda>r.
       case r of
         Inl err \<Rightarrow>
           if IsNotFound err then create_config_map e instance vcl name
           else fail (Wrapped ''could not get current state of ConfigMap'' err)
       | Inr cm \<Rightarrow> adopt_config_map e instance cm)) (\<lambda>cm.
     bnd (wrap ''can't get list of pods'' (api_list (e_Pods e) podsSelector)) (\<lambda>pods.
       ret (set_vcl_status cm
              (availability_text (count_versions (vst_ConfigMapVersion (st_VCL (vc_Status instance))) pods))
              instanceStatus)))))"

subsection \<open>The counts\<close>

lemma count_versions_acc:
  "foldl (\<lambda>(latest, outdated) item.
       if pod_version item = [] then (latest, outdated)
       else if pod_version item = v then (Suc latest, outdated)
       else (latest, Suc outdated)) (a, b) pods =
   (a + length (filter (\<lambda>p. pod_version p \<noteq> [] \<and> pod_version p = v) pods),
    b + length (filter (\<lambda>p. pod_version p \<noteq> [] \<and> pod_version p \<noteq> v) pods))"
  by (induction pods arbitrary: a b) auto

lemma count_versions_eq:
  "count_versions v pods =
     (length (filter (\<lambda>p. pod_version p \<noteq> [] \<and> pod_version p = v) pods),
      length (filter (\<lambda>p. pod_version p \<noteq> [] \<and> pod_version p \<noteq> v) pods))"
  by (simp add: count_versions_def count_versions_acc)

text \<open>
  The availability in the status counts every pod that reports a config map version once, as
  latest or as outdated, and no other pod.
\<close>

theorem availability_counts_each_pod_once:
  "count_versions v pods =
     (length (filter (\<lambda>p. pod_version p \<noteq> [] \<and> pod_version p = v) pods),
      length (filter (\<lambda>p. pod_version p \<noteq> [] \<and> pod_version p \<noteq> v) pods)) \<and>
   fst (count_versions v pods) + snd (count_versions v pods) = length (filter (\<lambda>p. pod_version p \<noteq> []) pods)"
proof
  show "fst (count_versions v pods) + snd (count_versions v pods) = length (filter (\<lambda>p. pod_version p \<noteq> []) pods)"
    unfolding count_versions_eq by (induction pods) auto
qed (rule count_versions_eq)

text \<open>
  The availability lags one reconcile behind the version it stands next to: when the version of
  the config map changed since the last status, pods that already run the new version are counted
  as outdated in the very status that announces it.
\<close>

theorem availability_lags_behind_version:
  assumes "reconcileConfigMap e sel vc st s = (Ret st', s')"
    and "vst_ConfigMapVersion (st_VCL (vc_Status st')) \<noteq> vst_ConfigMapVersion (st_VCL (vc_Status vc))"
  shows "\<exists>pods s1. api_list (e_Pods e) sel s1 = (Ret pods, s') \<and>
     vst_Availability (st_VCL (vc_Status st')) =
       availability_text (count_versions (vst_ConfigMapVersion (st_VCL (vc_Status vc))) pods) \<and>
     (\<forall>p \<in> set pods. pod_version p = vst_ConfigMapVersion (st_VCL (vc_Status st')) \<and> pod_version p \<noteq> [] \<longrightarrow>
        snd (count_versions (vst_ConfigMapVersion (st_VCL (vc_Status vc))) pods) > 0)"
proof -
  obtain pods cm s1 where st': "st' = set_vcl_status cm
      (availability_text (count_versions (vst_ConfigMapVersion (st_VCL (vc_Status vc))) pods)) st"
    and ls: "api_list (e_Pods e) sel s1 = (Ret pods, s')"
    using assms(1) by (auto simp: reconcileConfigMap_def prog_Ret_iff)
  have avail: "vst_Availability (st_VCL (vc_Status st')) =
       availability_text (count_versions (vst_ConfigMapVersion (st_VCL (vc_Status vc))) pods)"
    by (simp add: st' set_vcl_status_def)
  have "0 < snd (count_versions (vst_ConfigMapVersion (st_VCL (vc_Status vc))) pods)"
    if "p \<in> set pods" "pod_version p = vst_ConfigMapVersion (st_VCL (vc_Status st'))" "pod_version p \<noteq> []" for p
  proof -
    have "p \<in> set (filter (\<lambda>p. pod_version p \<noteq> [] \<and> pod_version p \<noteq> vst_ConfigMapVersion (st_VCL (vc_Status vc))) pods)"
      using that assms(2) by simp
    then show ?thesis unfolding count_versions_eq snd_conv by (rule length_pos_if_in_set)
  qed
  with ls avail show ?thesis by blast
qed

subsection \<open>What is written\<close>

lemma map_add_absorb:
  assumes "m' \<subseteq>\<^sub>m m"
  shows "m ++ m' = m"
proof
  fix k
  show "(m ++ m') k = m k"
  proof (cases "m' k")
    case (Some v)
    then have "m k = Some v" using assms unfolding map_le_def by (metis domI)
    with Some show ?thesis by simp
  qed (simp add: map_add_def)
qed

lemma EqualConfigMap_refl [simp]: "EqualConfigMap c c"
  by (simp add: EqualConfigMap_def)

definition config_map_write :: "VarnishCluster \<Rightarrow> config_map \<Rightarrow> request \<Rightarrow> bool" where
  "config_map_write vc found q =
     (case q of
        Update (ObjConfigMap x) \<Rightarrow> cm_Data x = cm_Data found \<and>
          om_Annotations (cm_Meta x) = om_Annotations (cm_Meta found) \<and>
          om_Labels (cm_Meta x) = om_Labels (cm_Meta found) ++ CombinedComponentLabels vc VarnishComponentVCLFileConfigMap
      | _ \<Rightarrow> False)"

text \<open>
  C17: the VCL files of an existing config map are never changed: all the operator sends for it is an
  update with the data and annotations it found, the labels it found with the operator's added over
  them, and nothing when owner and labels already are as they should be.
\<close>

theorem vcl_files_untouched:
  assumes "sets_only_owner e"
  shows "emits (config_map_write vc found) (adopt_config_map e vc found) \<and>
    (e_SetControllerReference e vc (cm_Meta found) = Ret (cm_Meta found) \<and>
     CombinedComponentLabels vc VarnishComponentVCLFileConfigMap \<subseteq>\<^sub>m om_Labels (cm_Meta found) \<longrightarrow>
       adopt_config_map e vc found s = (Ret found, s))"
proof (intro conjI impI)
  show "emits (config_map_write vc found) (adopt_config_map e vc found)"
    unfolding adopt_config_map_def Let_def using assms
    by (auto intro!: emits_set_controller_bnd emits_intros simp: config_map_write_def dest!: sets_only_ownerD)
  assume a: "e_SetControllerReference e vc (cm_Meta found) = Ret (cm_Meta found) \<and>
     CombinedComponentLabels vc VarnishComponentVCLFileConfigMap \<subseteq>\<^sub>m om_Labels (cm_Meta found)"
  then have "om_Labels (cm_Meta found) ++ CombinedComponentLabels vc VarnishComponentVCLFileConfigMap = om_Labels (cm_Meta found)"
    by (intro map_add_absorb) simp
  with a show "adopt_config_map e vc found s = (Ret found, s)"
    by (simp add: adopt_config_map_def set_controller_def bnd_apply wrap_apply Let_def)
qed

lemma reconcileConfigMap_emits:
  assumes "lawful_env e" "sp_VCL (vc_Spec vc) = Some vcl" "vcl_ConfigMapName vcl = Some name"
  shows "emits (touches (named ObjConfigMap (vc_Namespace vc) name)) (reconcileConfigMap e sel vc st)"
proof -
  have get: "gets_by_name cm_Meta (e_ConfigMaps e)" and own: "sets_only_owner e"
    using assms(1) by (auto simp: lawful_env_def)
  show ?thesis
    unfolding reconcileConfigMap_def create_config_map_def adopt_config_map_def assms deref_Some bnd_ret_left Let_def
    using own
    by (intro emits_bnd emits_get_attempt [OF get])
      (auto simp: named_def default_config_map_def dest!: sets_only_ownerD
        intro!: emits_intros emits_set_controller_bnd)
qed

end
