(* ===== verification/Pdb.thy ===== *)
theory Pdb
  imports Upsert
begin

text \<open>
  \<open>varnishcluster_poddisruptionbudget.go\<close>: the pod disruption budget, deleted when the cluster asks
  for none, and replaced (deleted and created again) when it differs.
\<close>

definition desired_pdb :: "VarnishCluster \<Rightarrow> PodDisruptionBudgetSpec \<Rightarrow> strmap \<Rightarrow> pod_disruption_budget" where
  "desired_pdb instance spec podSelector =
     \<lparr>pdb_Meta = new_meta (PodDisruptionBudgetName (vc_Name instance)) (vc_Namespace instance)
        (CombinedComponentLabels instance VarnishComponentPodDisruptionBudget) Map.empty,
      pdb_Spec = spec\<lparr>pdbs_Selector := Some podSelector\<rparr>,
      pdb_Status = Opaque []\<rparr>"

definition getPDB :: "'w operator_env \<Rightarrow> string \<Rightarrow> string \<Rightarrow> ('w, pod_disruption_budget) operator" where
  "getPDB e namespace name = api_get (e_PDBs e) namespace name"

definition createPDB :: "'w operator_env \<Rightarrow> pod_disruption_budget \<Rightarrow> ('w, unit) operator" where
  "createPDB e pdb = seq (wrap ''could not create poddisruptionbudget'' (api_create ObjPDB (e_PDBs e) pdb)) (ret ())"

definition deletePDB :: "'w operator_env \<Rightarrow> pod_disruption_budget \<Rightarrow> ('w, unit) operator" where
  "deletePDB e pdb = wrap ''could not delete poddisruptionbudget'' (api_delete ObjPDB (e_PDBs e) pdb)"

definition updatePDB ::
  "'w operator_env \<Rightarrow> pod_disruption_budget \<Rightarrow> pod_disruption_budget \<Rightarrow> ('w, unit) operator" where
  "updatePDB e found desired = seq (deletePDB e found) (createPDB e desired)"

definition deletePDBIfExists :: "'w operator_env \<Rightarrow> string \<Rightarrow> string \<Rightarrow> ('w, unit) operator" where
  "deletePDBIfExists e namespace name =
     attempt (getPDB e namespace name) (\<lambda>r.
       case r of
         Inl err \<Rightarrow> if IsNotFound err then ret ()
                    else fail (Wrapped ''could not get current state of poddisruptionbudget'' err)
       | Inr pdb \<Rightarrow> deletePDB e pdb)"

definition reconcilePodDisruptionBudget :: "'w operator_env \<Rightarrow> VarnishCluster \<Rightarrow> strmap \<Rightarrow> ('w, unit) operator" where
  "reconcilePodDisruptionBudget e instance podSelector =
     (case sp_PodDisruptionBudget (vc_Spec instance) of
        None \<Rightarrow> deletePDBIfExists e (vc_Namespace instance) (PodDisruptionBudgetName (vc_Name instance))
      | Some spec \<Rightarrow>
          let desired = desired_pdb instance spec podSelector in
          bnd (set_controller e ''could not set controller as the OwnerReference for poddisruptionbudget'' instance
                 (pdb_Meta desired)) (\<lambda>m.
            let desired = desired\<lparr>pdb_Meta := m\<rparr> in
            attempt (getPDB e (vc_Namespace instance) (PodDisruptionBudgetName (vc_Name instance))) (\<lambda>r.
              case r of
                Inl err \<Rightarrow> if IsNotFound err then createPDB e desired
                           else fail (Wrapped ''could not get current state of poddisruptionbudget'' err)
              | Inr found \<Rightarrow> if \<not> EqualPodDisruptionBudget found desired then updatePDB e found desired
                             else ret ())))"

lemmas pdb_defs = getPDB_def createPDB_def deletePDB_def updatePDB_def deletePDBIfExists_def

lemma reconcilePodDisruptionBudget_emits:
  assumes "lawful_env e"
  shows "emits (touches (named ObjPDB (vc_Namespace vc) (PodDisruptionBudgetName (vc_Name vc))))
    (reconcilePodDisruptionBudget e vc sel)"
proof -
  have get: "gets_by_name pdb_Meta (e_PDBs e)" and own: "sets_only_owner e"
    using assms by (auto simp: lawful_env_def)
  show ?thesis
    unfolding reconcilePodDisruptionBudget_def pdb_defs Let_def using own
    by (intro emits_case_option emits_set_controller_bnd emits_get_attempt [OF get])
      (auto simp: named_def desired_pdb_def dest!: sets_only_ownerD intro!: emits_intros)
qed

text \<open>
  A budget that differs is replaced, never patched: the deletion of the found budget is sent
  first and the desired one is created only after the deletion succeeded; one that does not differ
  is left alone, and with no budget in the spec the found one is deleted.
\<close>

theorem pdb_replaced_not_patched:
  assumes "r_get (e_PDBs e) (vc_Namespace vc) (PodDisruptionBudgetName (vc_Name vc)) (os_world s) = (Ret found, w)"
    and "e_SetControllerReference e vc (pdb_Meta (desired_pdb vc spec sel)) = Ret m"
    and "reconcilePodDisruptionBudget e vc sel s = (r, s')"
    and "desired = (desired_pdb vc spec sel)\<lparr>pdb_Meta := m\<rparr>"
  shows "(sp_PodDisruptionBudget (vc_Spec vc) = None \<longrightarrow> os_requests s' = os_requests s @ [Delete (ObjPDB found)]) \<and>
    (sp_PodDisruptionBudget (vc_Spec vc) = Some spec \<longrightarrow>
       (if EqualPodDisruptionBudget found desired then r = Ret () \<and> os_requests s' = os_requests s
        else (case r_delete (e_PDBs e) found w of
            (Ret _, _) \<Rightarrow> os_requests s' = os_requests s @ [Delete (ObjPDB found), Create (ObjPDB desired)]
          | _ \<Rightarrow> os_requests s' = os_requests s @ [Delete (ObjPDB found)])))"
  using assms
  by (auto simp: reconcilePodDisruptionBudget_def pdb_defs Let_def attempt_apply bnd_apply seq_apply wrap_apply
      api_apply set_controller_def split: prod.splits outcome.splits if_splits)

end
