(* ===== verification/Finalizers.thy ===== *)
theory Finalizers
  imports Upsert
begin

text \<open>
  \<open>varnishcluster_finalizers.go\<close>: the objects without an owner reference (the cluster role and its
  binding, and the monitoring objects of other namespaces) are deleted by the operator when the
  cluster is. Finalizers in the cluster's metadata hold its deletion back until then. An update
  overwrites the instance with the server's answer, so the functions return it.
\<close>

definition finalizerClusterRole :: string where
  "finalizerClusterRole = ''clusterrole.finalizers.varnishcluster.ibm.com''"
definition finalizerClusterRoleBinding :: string where
  "finalizerClusterRoleBinding = ''clusterrolebinding.finalizers.varnishcluster.ibm.com''"
definition finalizerServiceMonitor :: string where
  "finalizerServiceMonitor = ''prometheus-servicemonitor.finalizers.varnishcluster.ibm.com''"
definition finalizerGrafanaDashboard :: string where
  "finalizerGrafanaDashboard = ''grafana-dashboard.finalizers.varnishcluster.ibm.com''"

definition set_finalizers :: "string list \<Rightarrow> VarnishCluster \<Rightarrow> VarnishCluster" where
  "set_finalizers fs vc = vc\<lparr>vc_Meta := (vc_Meta vc)\<lparr>om_Finalizers := fs\<rparr>\<rparr>"

text \<open>The conditions on the spec: the objects live in a namespace of their own.\<close>

definition service_monitor_elsewhere :: "VarnishCluster \<Rightarrow> string option outcome" where
  "service_monitor_elsewhere instance =
     obind (oderef (sp_Monitoring (vc_Spec instance))) (\<lambda>mon.
     obind (oderef (mon_PrometheusServiceMonitor mon)) (\<lambda>sm.
       Ret (if psm_Enabled sm \<and> psm_Namespace sm \<noteq> [] then Some (psm_Namespace sm) else None)))"

definition dashboard_elsewhere :: "VarnishCluster \<Rightarrow> string option outcome" where
  "dashboard_elsewhere instance =
     obind (oderef (sp_Monitoring (vc_Spec instance))) (\<lambda>mon.
       Ret (case mon_GrafanaDashboard mon of
              None \<Rightarrow> None
            | Some gd \<Rightarrow> if gd_Enabled gd \<and> gd_Namespace gd \<noteq> [] then Some (gd_Namespace gd) else None))"

subsection \<open>Adding them\<close>

text \<open>For the dashboard the source adds the finalizer of the service monitor.\<close>

definition wanted_finalizers :: "'w operator_env \<Rightarrow> VarnishCluster \<Rightarrow> string list outcome" where
  "wanted_finalizers e instance =
     obind (service_monitor_elsewhere instance) (\<lambda>sm.
     obind (dashboard_elsewhere instance) (\<lambda>gd.
       let fs = foldl (e_AddFinalizer e) (vc_Finalizers instance) [finalizerClusterRole, finalizerClusterRoleBinding];
           fs = (if sm \<noteq> None then e_AddFinalizer e fs finalizerServiceMonitor else fs);
           fs = (if gd \<noteq> None then e_AddFinalizer e fs finalizerServiceMonitor else fs)
       in Ret fs))"

definition reconcileFinalizers :: "'w operator_env \<Rightarrow> VarnishCluster \<Rightarrow> ('w, VarnishCluster) operator" where
  "reconcileFinalizers e instance =
     (if om_DeletionTimestamp (vc_Meta instance) \<noteq> None then ret instance
      else bnd (lift (wanted_finalizers e instance)) (\<lambda>fs.
        if fs \<noteq> vc_Finalizers instance
        then api_update ObjVarnishCluster (e_VarnishClusters e) (set_finalizers fs instance)
        else ret instance))"

subsection \<open>Cleaning up\<close>

definition delete_if_found ::
  "('o \<Rightarrow> kobj) \<Rightarrow> ('w, 'o) resource \<Rightarrow> string \<Rightarrow> string \<Rightarrow> string \<Rightarrow> ('w, unit) operator" where
  "delete_if_found mk res msg namespace name =
     attempt (api_get res namespace name) (\<lambda>r.
       case r of
         Inl err \<Rightarrow> if IsNotFound err then ret () else fail (Wrapped msg err)
       | Inr x \<Rightarrow> api_delete mk res x)"

definition deleteCR :: "'w operator_env \<Rightarrow> string \<Rightarrow> ('w, unit) operator" where
  "deleteCR e name =
     delete_if_found ObjClusterRole (e_ClusterRoles e) ''could not get current state of clusterrole'' [] name"

definition deleteCRB :: "'w operator_env \<Rightarrow> string \<Rightarrow> ('w, unit) operator" where
  "deleteCRB e name =
     delete_if_found ObjClusterRoleBinding (e_ClusterRoleBindings e)
       ''could not get current state of clusterrolebinding'' [] name"

definition deleteServiceMonitor :: "'w operator_env \<Rightarrow> string \<Rightarrow> string \<Rightarrow> ('w, unit) operator" where
  "deleteServiceMonitor e namespace name =
     delete_if_found ObjServiceMonitor (e_ServiceMonitors e) ''could not get current state of servicemonitor''
       namespace name"

definition deleteGrafanaDashboard :: "'w operator_env \<Rightarrow> string \<Rightarrow> string \<Rightarrow> ('w, unit) operator" where
  "deleteGrafanaDashboard e namespace name =
     delete_if_found ObjConfigMap (e_ConfigMaps e) ''could not get current state of Grafana dashboard ConfigMap''
       namespace name"

definition containsString :: "string list \<Rightarrow> string \<Rightarrow> bool" where
  "containsString items s = list_ex (\<lambda>item. item = s) items"

definition removeFinalizer :: "'w operator_env \<Rightarrow> string \<Rightarrow> VarnishCluster \<Rightarrow> ('w, VarnishCluster) operator" where
  "removeFinalizer e finalizerName instance =
     (if containsString (vc_Finalizers instance) finalizerName
      then api_update ObjVarnishCluster (e_VarnishClusters e)
             (set_finalizers (e_RemoveFinalizer e (vc_Finalizers instance) finalizerName) instance)
      else ret instance)"

text \<open>An error from removing one of the two monitoring finalizers ends the clean-up without an error.\<close>

definition finalizerCleanUp :: "'w operator_env \<Rightarrow> VarnishCluster \<Rightarrow> ('w, unit) operator" where
  "finalizerCleanUp e instance =
     seq (deleteCR e (ClusterRoleName (vc_Name instance) (vc_Namespace instance))) (
     bnd (removeFinalizer e finalizerClusterRole instance) (\<lambda>instance.
     seq (deleteCRB e (ClusterRoleBindingName (vc_Name instance) (vc_Namespace instance))) (
     bnd (removeFinalizer e finalizerClusterRoleBinding instance) (\<lambda>instance.
     bnd (lift (service_monitor_elsewhere instance)) (\<lambda>sm.
     seq (case sm of None \<Rightarrow> ret () | Some ns \<Rightarrow> deleteServiceMonitor e ns (ServiceMonitorName (vc_Name instance))) (
     attempt (removeFinalizer e finalizerServiceMonitor instance) (\<lambda>r.
       case r of Inl err \<Rightarrow> ret () | Inr instance \<Rightarrow>
     bnd (lift (dashboard_elsewhere instance)) (\<lambda>gd.
     seq (case gd of None \<Rightarrow> ret () | Some ns \<Rightarrow> deleteGrafanaDashboard e ns (GrafanaDashboardName (vc_Name instance))) (
     attempt (removeFinalizer e finalizerGrafanaDashboard instance) (\<lambda>r. ret ()))))))))))"

subsection \<open>What is written\<close>

lemma set_finalizers_simps [simp]:
  "vc_Name (set_finalizers fs vc) = vc_Name vc" "vc_Namespace (set_finalizers fs vc) = vc_Namespace vc"
  "vc_UID (set_finalizers fs vc) = vc_UID vc" "vc_Spec (set_finalizers fs vc) = vc_Spec vc"
  "om_Labels (vc_Meta (set_finalizers fs vc)) = om_Labels (vc_Meta vc)"
  "vc_Finalizers (set_finalizers fs vc) = fs"
  by (simp_all add: set_finalizers_def)

definition same_cluster :: "VarnishCluster \<Rightarrow> VarnishCluster \<Rightarrow> bool" where
  "same_cluster a b \<longleftrightarrow> vc_Name a = vc_Name b \<and> vc_Namespace a = vc_Namespace b \<and> vc_UID a = vc_UID b \<and>
     om_Labels (vc_Meta a) = om_Labels (vc_Meta b) \<and> vc_Spec a = vc_Spec b"

lemma same_cluster_refl [simp]: "same_cluster a a"
  by (simp add: same_cluster_def)

lemma elsewhere_same_cluster:
  "same_cluster a b \<Longrightarrow> service_monitor_elsewhere a = service_monitor_elsewhere b"
  "same_cluster a b \<Longrightarrow> dashboard_elsewhere a = dashboard_elsewhere b"
  by (simp_all add: same_cluster_def service_monitor_elsewhere_def dashboard_elsewhere_def)

lemma emits_after_write:
  assumes "emits Q k" "Q q"
  shows "\<exists>rs. os_requests (snd (k (s\<lparr>os_world := w, os_requests := os_requests s @ [q]\<rparr>))) = os_requests s @ rs \<and>
    (\<forall>r \<in> set rs. Q r)"
proof -
  let ?s = "s\<lparr>os_world := w, os_requests := os_requests s @ [q]\<rparr>"
  obtain rs where "os_requests (snd (k ?s)) = os_requests ?s @ rs" "\<forall>r \<in> set rs. Q r"
    using assms(1) unfolding emits_def by blast
  with assms(2) show ?thesis by (intro exI [of _ "q # rs"]) simp
qed

lemma update_cluster_emits:
  fixes e :: "'w operator_env"
  assumes "updates_keep_cluster e" "Q (Update (ObjVarnishCluster x))" "\<And>y. same_cluster y x \<Longrightarrow> emits Q (f (Inr y))"
    "\<And>err. emits Q (f (Inl err))"
  shows "emits Q (attempt (api_update ObjVarnishCluster (e_VarnishClusters e) x) f)"
  unfolding emits_def
proof
  fix s :: "'w ostate"
  obtain r w where u: "r_update (e_VarnishClusters e) x (os_world s) = (r, w)"
    by (cases "r_update (e_VarnishClusters e) x (os_world s)")
  note after = emits_after_write [of Q _ "Update (ObjVarnishCluster x)" s w, OF _ assms(2)]
  show "\<exists>rs. os_requests (snd (attempt (api_update ObjVarnishCluster (e_VarnishClusters e) x) f s)) = os_requests s @ rs \<and>
      (\<forall>r \<in> set rs. Q r)"
  proof (cases r)
    case (Ret y)
    then have "same_cluster y x" using assms(1) u unfolding updates_keep_cluster_def same_cluster_def by blast
    from after [OF assms(3) [OF this]] show ?thesis using u Ret by (simp add: attempt_apply api_update_apply)
  next
    case (Err err)
    then show ?thesis using after [OF assms(4)] u by (simp add: attempt_apply api_update_apply)
  next
    case (Panic p)
    then show ?thesis using after [OF emits_pure(3) [of Q "Panic p"]] u
      by (simp add: attempt_apply api_update_apply)
  qed
qed

lemma removeFinalizer_emits:
  "Q (Update (ObjVarnishCluster (set_finalizers (e_RemoveFinalizer e (vc_Finalizers vc) n) vc))) \<Longrightarrow>
   emits Q (removeFinalizer e n vc)"
  unfolding removeFinalizer_def by (intro emits_if emits_pure emits_writes)

lemma removeFinalizer_attempt_emits:
  assumes "updates_keep_cluster e" "Q (Update (ObjVarnishCluster (set_finalizers (e_RemoveFinalizer e (vc_Finalizers vc) n) vc)))"
    "\<And>y. same_cluster y vc \<Longrightarrow> emits Q (f (Inr y))" "\<And>err. emits Q (f (Inl err))"
  shows "emits Q (attempt (removeFinalizer e n vc) f)"
proof (cases "containsString (vc_Finalizers vc) n")
  case True
  show ?thesis unfolding removeFinalizer_def if_P [OF True]
    by (rule update_cluster_emits) (use assms in \<open>auto simp: same_cluster_def\<close>)
next
  case False
  have "attempt (ret vc) f = f (Inr vc)" by (simp add: fun_eq_iff attempt_apply)
  with False assms(3) show ?thesis by (simp add: removeFinalizer_def)
qed

lemma same_cluster_trans: "same_cluster a b \<Longrightarrow> same_cluster b c \<Longrightarrow> same_cluster a c"
  by (simp add: same_cluster_def)

text \<open>The rule for a removal, with the cluster the clean-up started from.\<close>

lemma removeFinalizer_step:
  assumes "updates_keep_cluster e" "same_cluster v vc"
    "\<And>fs. Q (Update (ObjVarnishCluster (set_finalizers fs v)))"
    "\<And>y. same_cluster y vc \<Longrightarrow> emits Q (g (Inr y))" "\<And>err. emits Q (g (Inl err))"
  shows "emits Q (attempt (removeFinalizer e n v) g)"
proof (rule removeFinalizer_attempt_emits)
  show "emits Q (g (Inr y))" if "same_cluster y v" for y
    using that assms(2) by (intro assms(4)) (rule same_cluster_trans)
qed (rule assms)+

lemma removeFinalizer_bnd_step:
  assumes "updates_keep_cluster e" "same_cluster v vc"
    "\<And>fs. Q (Update (ObjVarnishCluster (set_finalizers fs v)))"
    "\<And>y. same_cluster y vc \<Longrightarrow> emits Q (f y)"
  shows "emits Q (bnd (removeFinalizer e n v) f)"
  unfolding bnd_attempt
proof (rule removeFinalizer_step)
  show "emits Q (case Inr y of Inl err \<Rightarrow> fail err | Inr a \<Rightarrow> f a)" if "same_cluster y vc" for y
    using assms(4) [OF that] by simp
qed (simp_all add: emits_pure assms)

lemma delete_if_found_emits:
  assumes "gets_by_name meta res" "\<And>x. om_Namespace (meta x) = ns \<Longrightarrow> om_Name (meta x) = n \<Longrightarrow> Q (Delete (mk x))"
  shows "emits Q (delete_if_found mk res msg ns n)"
  unfolding delete_if_found_def using assms(2)
  by (intro emits_get_attempt [OF assms(1)]) (auto intro!: emits_intros)

definition cleanup_scope :: "VarnishCluster \<Rightarrow> kobj \<Rightarrow> bool" where
  "cleanup_scope vc x \<longleftrightarrow>
     named ObjVarnishCluster (vc_Namespace vc) (vc_Name vc) x \<or>
     named ObjClusterRole [] (ClusterRoleName (vc_Name vc) (vc_Namespace vc)) x \<or>
     named ObjClusterRoleBinding [] (ClusterRoleBindingName (vc_Name vc) (vc_Namespace vc)) x \<or>
     (\<exists>ns. service_monitor_elsewhere vc = Ret (Some ns) \<and> named ObjServiceMonitor ns (ServiceMonitorName (vc_Name vc)) x) \<or>
     (\<exists>ns. dashboard_elsewhere vc = Ret (Some ns) \<and> named ObjConfigMap ns (GrafanaDashboardName (vc_Name vc)) x)"

lemma cleanup_scope_same: "same_cluster a b \<Longrightarrow> cleanup_scope a = cleanup_scope b"
  by (auto simp: fun_eq_iff cleanup_scope_def elsewhere_same_cluster)
    (auto simp: same_cluster_def)

lemma cleanup_scope_cluster: "vc_Namespace v = vc_Namespace vc \<Longrightarrow> vc_Name v = vc_Name vc \<Longrightarrow> cleanup_scope vc (ObjVarnishCluster v)"
  by (simp add: cleanup_scope_def named_def)

lemma reconcileFinalizers_emits:
  "emits (touches (named ObjVarnishCluster (vc_Namespace vc) (vc_Name vc))) (reconcileFinalizers e vc)"
  unfolding reconcileFinalizers_def
  by (intro emits_if emits_lift_bnd emits_pure emits_writes) (simp add: named_def)

lemma deleteCR_emits:
  "lawful_env e \<Longrightarrow> emits (touches (named ObjClusterRole [] n)) (deleteCR e n)"
  unfolding deleteCR_def by (rule delete_if_found_emits [of role_Meta]) (auto simp: lawful_env_def named_def)

lemma deleteCRB_emits:
  "lawful_env e \<Longrightarrow> emits (touches (named ObjClusterRoleBinding [] n)) (deleteCRB e n)"
  unfolding deleteCRB_def by (rule delete_if_found_emits [of rb_Meta]) (auto simp: lawful_env_def named_def)

lemma touches_mono: "touches P q \<Longrightarrow> (\<And>x. P x \<Longrightarrow> R x) \<Longrightarrow> touches R q"
  by (cases q) auto

lemma finalizerCleanUp_emits:
  assumes "lawful_env e"
  shows "emits (touches (cleanup_scope vc)) (finalizerCleanUp e vc)"
proof -
  have keep: "updates_keep_cluster e" and sm: "gets_by_name sm_Meta (e_ServiceMonitors e)"
    and cm: "gets_by_name cm_Meta (e_ConfigMaps e)"
    using assms by (auto simp: lawful_env_def)
  have same: "service_monitor_elsewhere v = service_monitor_elsewhere vc" "dashboard_elsewhere v = dashboard_elsewhere vc"
    "vc_Name v = vc_Name vc" "vc_Namespace v = vc_Namespace vc" if "same_cluster v vc" for v
    using elsewhere_same_cluster [OF that] that unfolding same_cluster_def by blast+
  have vcq: "touches (cleanup_scope vc) (Update (ObjVarnishCluster (set_finalizers fs v)))" if "same_cluster v vc" for fs v
    using same [OF that] by (simp add: cleanup_scope_cluster)
  have cr: "emits (touches (cleanup_scope vc)) (deleteCR e (ClusterRoleName (vc_Name vc) (vc_Namespace vc)))"
    by (rule emits_mono [OF deleteCR_emits [OF assms]]) (erule touches_mono, simp add: cleanup_scope_def)
  have crb: "emits (touches (cleanup_scope vc)) (deleteCRB e (ClusterRoleBindingName (vc_Name v) (vc_Namespace v)))"
    if "same_cluster v vc" for v
    unfolding same [OF that]
    by (rule emits_mono [OF deleteCRB_emits [OF assms]]) (erule touches_mono, simp add: cleanup_scope_def)
  have dsm: "emits (touches (cleanup_scope vc)) (deleteServiceMonitor e ns (ServiceMonitorName (vc_Name v)))"
    if v: "same_cluster v vc" and a: "service_monitor_elsewhere v = Ret a" "a = Some ns" for v a ns
  proof -
    have "service_monitor_elsewhere vc = Ret (Some ns)" using a same(1) [OF v] by simp
    then show ?thesis unfolding deleteServiceMonitor_def same(3) [OF v]
      by (intro delete_if_found_emits [OF sm]) (simp add: cleanup_scope_def named_def)
  qed
  have dgd: "emits (touches (cleanup_scope vc)) (deleteGrafanaDashboard e ns (GrafanaDashboardName (vc_Name v)))"
    if v: "same_cluster v vc" and a: "dashboard_elsewhere v = Ret a" "a = Some ns" for v a ns
  proof -
    have "dashboard_elsewhere vc = Ret (Some ns)" using a same(2) [OF v] by simp
    then show ?thesis unfolding deleteGrafanaDashboard_def same(3) [OF v]
      by (intro delete_if_found_emits [OF cm]) (simp add: cleanup_scope_def named_def)
  qed
  note step = removeFinalizer_step [OF keep, where vc = vc and Q = "touches (cleanup_scope vc)"]
    removeFinalizer_bnd_step [OF keep, where vc = vc and Q = "touches (cleanup_scope vc)"]
  show ?thesis
    unfolding finalizerCleanUp_def
    by (assumption | rule cr crb dsm dgd vcq same_cluster_refl emits_seq step emits_lift_bnd emits_case_option
          emits_pure removeFinalizer_emits emits_attempt | simp only: sum.case)+
qed

subsection \<open>When the cluster is let go\<close>

lemma delete_if_found_cases:
  "delete_if_found mk res msg ns n s =
     (case r_get res ns n (os_world s) of
        (Ret x, w) \<Rightarrow> (case r_delete res x w of (r, w') \<Rightarrow>
           (r, s\<lparr>os_world := w', os_requests := os_requests s @ [Delete (mk x)]\<rparr>))
      | (Err err, w) \<Rightarrow> (if IsNotFound err then Ret () else Err (Wrapped msg err), s\<lparr>os_world := w\<rparr>)
      | (Panic p, w) \<Rightarrow> (Panic p, s\<lparr>os_world := w\<rparr>))"
  by (simp add: delete_if_found_def attempt_apply api_apply split: prod.split outcome.split)

definition new_requests :: "'w ostate \<Rightarrow> 'w ostate \<Rightarrow> request list" where
  "new_requests s s' = drop (length (os_requests s)) (os_requests s')"

lemma delete_if_found_True [emits_intros]: "emits (\<lambda>_. True) (delete_if_found mk res msg ns n)"
  unfolding delete_if_found_def by (intro emits_attempt) (auto intro!: emits_intros split: sum.split)

lemma cleanup_continues:
  "\<exists>k. finalizerCleanUp e vc = seq (deleteCR e (ClusterRoleName (vc_Name vc) (vc_Namespace vc))) k \<and> emits (\<lambda>_. True) k"
  unfolding finalizerCleanUp_def
proof (intro exI conjI)
qed (auto simp: deleteCRB_def deleteServiceMonitor_def deleteGrafanaDashboard_def
    intro!: emits_intros removeFinalizer_emits split: option.split sum.split)

lemma updates_same:
  assumes "updates_keep_cluster e" "r_update (e_VarnishClusters e) (set_finalizers fs x) w = (Ret y, w')"
  shows "same_cluster y x"
proof -
  have "vc_Name y = vc_Name (set_finalizers fs x) \<and> vc_Namespace y = vc_Namespace (set_finalizers fs x) \<and>
      vc_UID y = vc_UID (set_finalizers fs x) \<and>
      om_Labels (vc_Meta y) = om_Labels (vc_Meta (set_finalizers fs x)) \<and> vc_Spec y = vc_Spec (set_finalizers fs x)"
    using assms unfolding updates_keep_cluster_def by blast
  then show ?thesis by (simp add: same_cluster_def)
qed

lemma removeFinalizer_same:
  assumes "updates_keep_cluster e" "removeFinalizer e f x s = (Ret y, s')"
  shows "same_cluster y x"
  using assms(2) updates_same [OF assms(1)]
  by (auto simp: removeFinalizer_def api_update_apply split: prod.splits if_splits)

text \<open>
  C34: the operator lets a deleted cluster go only after its cluster role is gone: when the clean-up
  sends any update of the cluster, as the removal of a finalizer is, the cluster role was not
  found before, or its deletion was the first request sent and it succeeded.
\<close>

theorem role_gone_before_finalizer:
  assumes "finalizerCleanUp e vc s = (r, s')" "Update (ObjVarnishCluster v) \<in> set (new_requests s s')"
    and "n = ClusterRoleName (vc_Name vc) (vc_Namespace vc)"
  shows "(\<exists>err w. r_get (e_ClusterRoles e) [] n (os_world s) = (Err err, w) \<and> IsNotFound err) \<or>
    (\<exists>x w w'. r_get (e_ClusterRoles e) [] n (os_world s) = (Ret x, w) \<and> r_delete (e_ClusterRoles e) x w = (Ret (), w') \<and>
       hd (new_requests s s') = Delete (ObjClusterRole x))"
proof (cases "deleteCR e n s")
  case (Pair rd s1)
  note del = Pair [unfolded deleteCR_def delete_if_found_cases]
  obtain k where k: "finalizerCleanUp e vc = seq (deleteCR e n) k" "emits (\<lambda>_. True) k"
    using cleanup_continues unfolding assms(3) by blast
  have run: "seq (deleteCR e n) k s = (r, s')" using assms(1) k(1) by simp
  show ?thesis
  proof (cases rd)
    case (Ret u)
    then have "k s1 = (r, s')" using run Pair by (simp add: seq_apply)
    then obtain rs where "os_requests s' = os_requests s1 @ rs" using emitsD [OF k(2)] by blast
    then show ?thesis using del Ret
      by (auto simp: new_requests_def split: prod.splits outcome.splits if_splits)
  next
    case (Err err)
    then have "s' = s1" using run Pair by (simp add: seq_apply)
    then show ?thesis using del assms(2)
      by (auto simp: new_requests_def split: prod.splits outcome.splits if_splits)
  next
    case (Panic p)
    then have "s' = s1" using run Pair by (simp add: seq_apply)
    then show ?thesis using del assms(2)
      by (auto simp: new_requests_def split: prod.splits outcome.splits if_splits)
  qed
qed

text \<open>
  Which finalizers a cluster gets: those of the cluster role and its binding always, the one of
  the service monitor when the monitor or the dashboard lives in a namespace of its own, and never
  the one of the dashboard, although the clean-up removes that one after deleting the dashboard: a
  dashboard elsewhere is guarded by the service monitor's finalizer, which is removed before the
  dashboard is deleted.
\<close>

theorem dashboard_finalizer_never_added:
  assumes "\<forall>fs f. set (e_AddFinalizer e fs f) = insert f (set fs)"
    and "wanted_finalizers e vc = Ret fs"
  shows "{finalizerClusterRole, finalizerClusterRoleBinding} \<subseteq> set fs \<and>
    (finalizerServiceMonitor \<in> set fs \<longleftrightarrow>
       service_monitor_elsewhere vc \<noteq> Ret None \<or> dashboard_elsewhere vc \<noteq> Ret None \<or>
       finalizerServiceMonitor \<in> set (vc_Finalizers vc)) \<and>
    (finalizerGrafanaDashboard \<in> set fs \<longleftrightarrow> finalizerGrafanaDashboard \<in> set (vc_Finalizers vc))"
  using assms
  by (auto simp: wanted_finalizers_def obind_eq_Ret Let_def finalizerClusterRole_def finalizerClusterRoleBinding_def
      finalizerServiceMonitor_def finalizerGrafanaDashboard_def split: if_splits)

text \<open>
  Without the ServiceMonitor kind a cluster whose monitor is configured for another namespace
  cannot be deleted: the reconcile of such a cluster treats the missing kind as nothing to do, but
  the clean-up ends in an error, so it never gets to the service monitor's finalizer.
\<close>

theorem missing_kind_blocks_cleanup:
  assumes "updates_keep_cluster e"
    and "service_monitor_elsewhere vc = Ret (Some ns)"
    and "\<forall>ns n w. fst (r_get (e_ServiceMonitors e) ns n w) = Err NoKindMatchErr"
  shows "fst (finalizerCleanUp e vc s) \<noteq> Ret ()"
proof
  assume "fst (finalizerCleanUp e vc s) = Ret ()"
  then obtain s' where "finalizerCleanUp e vc s = (Ret (), s')" by (metis prod.collapse)
  then obtain vc1 vc2 ms s1 s2 s3 where
    rm: "removeFinalizer e finalizerClusterRole vc s1 = (Ret vc1, s2)"
      "\<exists>s2. removeFinalizer e finalizerClusterRoleBinding vc1 s2 = (Ret vc2, s3)"
    and sm: "service_monitor_elsewhere vc2 = Ret ms"
    and go: "\<exists>u s4. (case ms of None \<Rightarrow> ret () | Some ns \<Rightarrow> deleteServiceMonitor e ns (ServiceMonitorName (vc_Name vc2))) s3
        = (Ret u, s4)"
    by (auto simp: finalizerCleanUp_def prog_Ret_iff) blast
  have keep: "same_cluster y x" if "removeFinalizer e f x s = (Ret y, s')" for f x y s s'
    using that removeFinalizer_same [OF assms(1)] by blast
  have "same_cluster vc2 vc" using rm keep same_cluster_trans by blast
  then have "ms = Some ns" using elsewhere_same_cluster(1) assms(2) sm by fastforce
  then have "\<exists>u s4. deleteServiceMonitor e ns (ServiceMonitorName (vc_Name vc2)) s3 = (Ret u, s4)" using go by simp
  moreover have "fst (r_get (e_ServiceMonitors e) ns (ServiceMonitorName (vc_Name vc2)) (os_world s3)) = Err NoKindMatchErr"
    using assms(3) by blast
  ultimately show False by (auto simp: deleteServiceMonitor_def delete_if_found_cases split: prod.splits if_splits)
qed

text \<open>
  An error from removing the service monitor's finalizer is dropped: when the server refuses
  that update, the clean-up still reports success, and the reconcile is not repeated for it.
\<close>

theorem finalizer_error_dropped:
  assumes "vc_Finalizers vc = [finalizerServiceMonitor]" "service_monitor_elsewhere vc = Ret None"
    and "\<forall>n w. r_get (e_ClusterRoles e) [] n w = (Err (StatusErr NotFound), w)"
    and "\<forall>n w. r_get (e_ClusterRoleBindings e) [] n w = (Err (StatusErr NotFound), w)"
    and "\<forall>x w. r_update (e_VarnishClusters e) x w = (Err err, w)"
  shows "fst (finalizerCleanUp e vc s) = Ret () \<and>
    new_requests s (snd (finalizerCleanUp e vc s)) =
      [Update (ObjVarnishCluster (set_finalizers (e_RemoveFinalizer e [finalizerServiceMonitor] finalizerServiceMonitor) vc))]"
  using assms
  by (simp add: finalizerCleanUp_def deleteCR_def deleteCRB_def delete_if_found_cases seq_apply bnd_apply attempt_apply
      removeFinalizer_def containsString_def api_update_apply new_requests_def finalizerClusterRole_def
      finalizerClusterRoleBinding_def finalizerServiceMonitor_def)

end
