(* ===== verification/Float64.thy ===== *)
theory Float64
  imports GoStrings Complex_Main "HOL-Library.Log_Nat"
begin

text \<open>
  Go's \<open>float64\<close>: IEEE double precision with round to nearest, ties to even. A finite value is the
  rational number it stands for. The program forms weights and ratios of pod counts, so overflow
  and subnormal numbers are out of reach and not modelled; the two zeros are one, which the
  operations used do not tell apart. Also \<open>fmt\<close>'s \<open>%f\<close>.
\<close>

subsection \<open>Rounding\<close>

definition pow2 :: "int \<Rightarrow> rat" where
  "pow2 e = (if 0 \<le> e then 2 ^ nat e else 1 / 2 ^ nat (- e))"

definition floor_log2 :: "rat \<Rightarrow> int" where
  "floor_log2 q = (case quotient_of q of (n, d) \<Rightarrow>
     let k = bitlen n - bitlen d in if pow2 k \<le> q then k else k - 1)"

definition round_half_even :: "rat \<Rightarrow> int" where
  "round_half_even x =
     (let f = \<lfloor>x\<rfloor>; r = x - of_int f in
      if r < 1 / 2 then f else if 1 / 2 < r then f + 1 else if even f then f else f + 1)"

definition fl :: "rat \<Rightarrow> rat" where
  "fl x = (if x = 0 then 0
           else let e = floor_log2 \<bar>x\<bar> - 52 in of_int (round_half_even (x / pow2 e)) * pow2 e)"

lemma pow2_pos [simp]: "0 < pow2 e"
  by (simp add: pow2_def)

lemma pow2_neq_0 [simp]: "pow2 e \<noteq> 0"
  using pow2_pos [of e] by linarith

lemma pow2_nat [simp]: "pow2 (int n) = 2 ^ n"
  by (simp add: pow2_def)

lemma pow2_neg_nat [simp]: "pow2 (- int n) = 1 / 2 ^ n"
  by (cases "n = 0") (simp_all add: pow2_def)

lemma pow2_add: "pow2 (a + b) = pow2 a * pow2 b"
proof -
  have powr: "pow2 e = of_rat 2 powi e" for e
    by (simp add: pow2_def power_int_def field_simps)
  show ?thesis by (simp add: powr power_int_add)
qed

lemma pow2_mono: "a \<le> b \<Longrightarrow> pow2 a \<le> pow2 b"
proof -
  assume "a \<le> b"
  then obtain n where "b = a + int n" by (metis zle_iff_zadd)
  then show ?thesis by (simp add: pow2_add)
qed

lemma round_half_even_error: "\<bar>of_int (round_half_even x) - x\<bar> \<le> 1 / 2"
proof -
  define r where "r = x - of_int \<lfloor>x\<rfloor>"
  have "0 \<le> r" "r < 1" "x = of_int \<lfloor>x\<rfloor> + r"
    unfolding r_def by linarith+
  then show ?thesis
    unfolding round_half_even_def Let_def r_def [symmetric] by (auto simp: abs_if)
qed

lemma round_half_even_int [simp]: "round_half_even (of_int n) = n"
  by (simp add: round_half_even_def)

lemma round_half_even_nonneg: "0 \<le> x \<Longrightarrow> 0 \<le> round_half_even x"
  by (auto simp: round_half_even_def Let_def)

lemma floor_log2_lower: assumes "0 < q" shows "pow2 (floor_log2 q) \<le> q"
proof -
  obtain n d where q: "quotient_of q = (n, d)" by force
  have qd: "q = of_int n / of_int d" "0 < d"
    using quotient_of_div [OF q] quotient_of_denom_pos [OF q] by simp_all
  with assms have n: "0 < n" by (simp add: zero_less_divide_iff)
  have bn: "2 ^ nat (bitlen n - 1) \<le> n" "d < 2 ^ nat (bitlen d)"
    using bitlen_bounds [of n] bitlen_bounds [of d] n qd by auto
  have b1: "1 \<le> bitlen n" "1 \<le> bitlen d"
    using bitlen_bounds [of n] n qd(2) bitlen_le_iff_floorlog bitlen_ge_iff_power [of 1 n] bitlen_ge_iff_power [of 1 d] by auto
  have "pow2 (bitlen n - 1) \<le> of_int n"
  proof -
    have "pow2 (bitlen n - 1) = of_int (2 ^ nat (bitlen n - 1))" using b1 by (simp add: pow2_def)
    also have "\<dots> \<le> of_int n" using bn(1) by (simp only: of_int_le_iff)
    finally show ?thesis .
  qed
  moreover have "of_int d \<le> pow2 (bitlen d)"
  proof -
    have "of_int d \<le> (of_int (2 ^ nat (bitlen d)) :: rat)" using bn(2) by (simp only: of_int_le_iff)
    also have "\<dots> = pow2 (bitlen d)" using b1 by (simp add: pow2_def)
    finally show ?thesis .
  qed
  ultimately have "pow2 (bitlen n - 1 - bitlen d) * pow2 (bitlen d) \<le> q * of_int d"
    using qd by (simp add: pow2_add [symmetric])
  moreover have "q * of_int d \<le> q * pow2 (bitlen d)"
    using assms \<open>of_int d \<le> pow2 (bitlen d)\<close> by (simp add: mult_left_mono)
  ultimately have "pow2 (bitlen n - 1 - bitlen d) \<le> q"
    using mult_right_le_imp_le [OF _ pow2_pos] order_trans by blast
  then have "pow2 (bitlen n - bitlen d - 1) \<le> q" by (simp add: algebra_simps)
  then show ?thesis by (simp add: floor_log2_def q Let_def)
qed

lemma floor_log2_le: assumes "0 < n" "n < 2 ^ k" shows "floor_log2 (of_int n) \<le> int k - 1"
proof -
  have "bitlen n \<le> int k" using assms by (simp add: bitlen_le_iff_power)
  moreover have "quotient_of (of_int n) = (n, 1)" by simp
  moreover have "pow2 (bitlen n - 1) \<le> of_int n"
    using assms(1) bitlen_bounds [of n] bitlen_ge_iff_power [of 1 n] by (simp add: pow2_def)
  ultimately show ?thesis
    by (auto simp: floor_log2_def Let_def bitlen_def floorlog_def split: if_splits)
qed

text \<open>A rounded value is off by at most one part in \<open>2 ^ 53\<close>, and small integers are exact.\<close>

lemma fl_error: "\<bar>fl x - x\<bar> \<le> \<bar>x\<bar> / 2 ^ 53"
proof (cases "x = 0")
  case False
  define e where "e = floor_log2 \<bar>x\<bar> - 52"
  have "fl x - x = (of_int (round_half_even (x / pow2 e)) - x / pow2 e) * pow2 e"
    using False by (simp add: fl_def e_def [symmetric] Let_def field_simps)
  then have "\<bar>fl x - x\<bar> \<le> 1 / 2 * pow2 e"
    using mult_right_mono [OF round_half_even_error [of "x / pow2 e"], of "pow2 e"]
    by (simp add: abs_mult abs_of_pos [OF pow2_pos] less_imp_le)
  also have "1 / 2 * pow2 e = pow2 (floor_log2 \<bar>x\<bar>) / 2 ^ 53"
  proof -
    have "pow2 (floor_log2 \<bar>x\<bar>) = pow2 e * 2 ^ 52"
      using pow2_add [of e 52] pow2_nat [of 52] by (simp add: e_def)
    then show ?thesis by simp
  qed
  also have "\<dots> \<le> \<bar>x\<bar> / 2 ^ 53"
    using floor_log2_lower [of "\<bar>x\<bar>"] False by (simp add: divide_right_mono)
  finally show ?thesis .
qed (simp add: fl_def)

lemma fl_of_int [simp]: assumes "\<bar>n\<bar> < 2 ^ 53" shows "fl (of_int n) = of_int n"
proof (cases "n = 0")
  case False
  define e where "e = floor_log2 \<bar>of_int n\<bar> - 52"
  have "e \<le> 0"
    using floor_log2_le [of "\<bar>n\<bar>" 53] assms False by (simp add: e_def)
  then obtain k where k: "e = - int k" by (metis int_nat_eq neg_0_le_iff_le neg_equal_iff_equal add.inverse_inverse)
  have "round_half_even (of_int n / pow2 e) = n * 2 ^ k"
    using round_half_even_int [of "n * 2 ^ k"] by (simp add: k)
  then show ?thesis
    using False unfolding fl_def e_def [symmetric] Let_def by (simp add: k)
qed (simp add: fl_def)

lemma fl_of_nat [simp]: "n < 2 ^ 53 \<Longrightarrow> fl (of_nat n) = of_nat n"
  using fl_of_int [of "int n"] by simp

lemma fl_0 [simp]: "fl 0 = 0"
  by (simp add: fl_def)

lemma fl_nonneg: "0 \<le> x \<Longrightarrow> 0 \<le> fl x"
  by (simp add: fl_def Let_def round_half_even_nonneg less_imp_le)

lemma fl_pos: assumes "0 < x" shows "0 < fl x"
proof -
  have "x - fl x \<le> x / 2 ^ 53" using fl_error [of x] assms by linarith
  moreover have "x / 2 ^ 53 < x" using assms by (simp add: field_simps)
  ultimately show ?thesis by linarith
qed

subsection \<open>Values and operations\<close>

datatype float64 = Finite rat | Infinite bool \<comment> \<open>whether negative\<close> | NaN

fun fdiv :: "float64 \<Rightarrow> float64 \<Rightarrow> float64" where
  "fdiv (Finite x) (Finite y) =
     (if y \<noteq> 0 then Finite (fl (x / y)) else if x = 0 then NaN else Infinite (x < 0))"
| "fdiv (Finite x) (Infinite n) = Finite 0"
| "fdiv (Infinite n) (Finite y) = Infinite (n \<noteq> (y < 0))"
| "fdiv x y = NaN"

fun fmul :: "float64 \<Rightarrow> float64 \<Rightarrow> float64" where
  "fmul (Finite x) (Finite y) = Finite (fl (x * y))"
| "fmul (Finite x) (Infinite n) = (if x = 0 then NaN else Infinite (n \<noteq> (x < 0)))"
| "fmul (Infinite n) (Finite y) = (if y = 0 then NaN else Infinite (n \<noteq> (y < 0)))"
| "fmul (Infinite n) (Infinite k) = Infinite (n \<noteq> k)"
| "fmul x y = NaN"

text \<open>\<open>float64(n)\<close> and \<open>int(x)\<close>, which truncates; for a value outside the range of the type the
  result is up to the implementation, here that of \<open>amd64\<close>.\<close>

definition float_of_int :: "int \<Rightarrow> float64" where
  "float_of_int n = Finite (fl (of_int n))"

definition trunc_rat :: "rat \<Rightarrow> int" where
  "trunc_rat x = (if x < 0 then - \<lfloor>- x\<rfloor> else \<lfloor>x\<rfloor>)"

fun int_of_float :: "float64 \<Rightarrow> int" where
  "int_of_float (Finite x) = trunc_rat x"
| "int_of_float x = - (2 ^ 63)"

subsection \<open>\<open>%f\<close>\<close>

text \<open>Six digits after the point, from the exact value, halves to even.\<close>

definition pad6 :: "string \<Rightarrow> string" where
  "pad6 s = replicate (6 - length s) (CHR ''0'') @ s"

fun format_f :: "float64 \<Rightarrow> string" where
  "format_f (Finite x) =
     (let m = nat \<bar>round_half_even (x * 10 ^ 6)\<bar> in
      (if x < 0 then ''-'' else []) @ show_nat (m div 10 ^ 6) @ ''.'' @ pad6 (show_nat (m mod 10 ^ 6)))"
| "format_f (Infinite n) = (if n then ''-Inf'' else ''+Inf'')"
| "format_f NaN = ''NaN''"

end
