(* ===== verification/GoJson.thy ===== *)
theory GoJson
  imports Float64 GoTime
begin

text \<open>
  What the program uses of \<open>encoding/json\<close>: decoding into \<open>interface{}\<close>. An object keeps its
  members in order, the last one of a name counts; numbers are rounded to \<open>float64\<close>. Strings are
  bytes; bytes outside ASCII are copied as they are (Go replaces those that are not UTF-8), and
  the limit of 10000 on the nesting is left out. The decoder gives up with \<open>None\<close> where Go returns
  a syntax error; its fuel is more than twice the length of the input, which every
  level of nesting and every member shortens.
\<close>

datatype json =
    JNull
  | JBool bool
  | JNumber float64
  | JString string
  | JArray "json list"
  | JObject "(string \<times> json) list"

definition member :: "(string \<times> json) list \<Rightarrow> string \<Rightarrow> json option" where
  "member ms k = map_of (rev ms) k"

subsection \<open>Tokens\<close>

definition json_space :: "char \<Rightarrow> bool" where
  "json_space c \<longleftrightarrow> c = CHR '' '' \<or> c = CHR 0x09 \<or> c = CHR 0x0A \<or> c = CHR 0x0D"

definition skip :: "string \<Rightarrow> string" where
  "skip s = dropWhile json_space s"

fun literal :: "string \<Rightarrow> string \<Rightarrow> string option" where
  "literal [] s = Some s"
| "literal (c # cs) (x # s) = (if c = x then literal cs s else None)"
| "literal (c # cs) [] = None"

definition hex_value :: "char \<Rightarrow> nat option" where
  "hex_value c =
     (let n = of_char c :: nat in
      if 48 \<le> n \<and> n \<le> 57 then Some (n - 48)
      else if 97 \<le> n \<and> n \<le> 102 then Some (n - 87)
      else if 65 \<le> n \<and> n \<le> 70 then Some (n - 55) else None)"

text \<open>The UTF-8 bytes of a code point.\<close>

definition utf8 :: "nat \<Rightarrow> string" where
  "utf8 r =
     (if r < 0x80 then [char_of r]
      else if r < 0x800 then [char_of (0xC0 + r div 64), char_of (0x80 + r mod 64)]
      else if r < 0x10000 then
        [char_of (0xE0 + r div 4096), char_of (0x80 + r div 64 mod 64), char_of (0x80 + r mod 64)]
      else
        [char_of (0xF0 + r div 262144), char_of (0x80 + r div 4096 mod 64),
         char_of (0x80 + r div 64 mod 64), char_of (0x80 + r mod 64)])"

fun getu4 :: "string \<Rightarrow> (nat \<times> string) option" where
  "getu4 (a # b # c # d # s) =
     (case (hex_value a, hex_value b, hex_value c, hex_value d) of
        (Some x, Some y, Some z, Some w) \<Rightarrow> Some (((x * 16 + y) * 16 + z) * 16 + w, s)
      | _ \<Rightarrow> None)"
| "getu4 s = None"

text \<open>A code unit after \<open>\u\<close>: a surrogate pair is one code point, half of one is U+FFFD.\<close>

definition code_point :: "nat \<Rightarrow> string \<Rightarrow> nat \<times> string" where
  "code_point r s =
     (if r < 0xD800 \<or> 0xE000 \<le> r then (r, s)
      else case s of
          x # y # s' \<Rightarrow>
            if r < 0xDC00 \<and> x = CHR 0x5C \<and> y = CHR ''u'' then
              (case getu4 s' of
                 Some (r2, s'') \<Rightarrow>
                   if 0xDC00 \<le> r2 \<and> r2 < 0xE000
                   then (0x10000 + (r - 0xD800) * 1024 + (r2 - 0xDC00), s'')
                   else (0xFFFD, s)
               | None \<Rightarrow> (0xFFFD, s))
            else (0xFFFD, s)
        | _ \<Rightarrow> (0xFFFD, s))"

definition simple_escape :: "char \<Rightarrow> char option" where
  "simple_escape c =
     (if c = CHR 0x22 \<or> c = CHR 0x5C \<or> c = CHR ''/'' then Some c
      else if c = CHR ''b'' then Some (CHR 0x08) else if c = CHR ''f'' then Some (CHR 0x0C)
      else if c = CHR ''n'' then Some (CHR 0x0A) else if c = CHR ''r'' then Some (CHR 0x0D)
      else if c = CHR ''t'' then Some (CHR 0x09) else None)"

lemma getu4_length: "getu4 s = Some (r, s') \<Longrightarrow> length s' < length s"
  by (induction s rule: getu4.induct) (auto split: option.splits)

lemma code_point_length: "code_point r s = (r', s') \<Longrightarrow> length s' \<le> length s"
  by (auto simp: code_point_def split: if_splits list.splits option.splits dest!: getu4_length)

text \<open>What follows a backslash, and the rest of a string literal after its opening quote.\<close>

definition escape :: "string \<Rightarrow> (string \<times> string) option" where
  "escape s =
     (case s of
        [] \<Rightarrow> None
      | x # s' \<Rightarrow>
          if x = CHR ''u''
          then (case getu4 s' of
                  None \<Rightarrow> None
                | Some (r, s'') \<Rightarrow> (case code_point r s'' of (r', t) \<Rightarrow> Some (utf8 r', t)))
          else (case simple_escape x of None \<Rightarrow> None | Some y \<Rightarrow> Some ([y], s')))"

lemma escape_length: "escape s = Some (v, t) \<Longrightarrow> length t < length s"
  by (auto simp: escape_def split: list.splits if_splits option.splits prod.splits
      dest!: getu4_length code_point_length)

function string_lit :: "string \<Rightarrow> (string \<times> string) option" where
  "string_lit [] = None"
| "string_lit (c # s) =
     (if c = CHR 0x22 then Some ([], s)
      else if (of_char c :: nat) < 32 then None
      else if c = CHR 0x5C then
        (case escape s of
           None \<Rightarrow> None
         | Some (v, t) \<Rightarrow> map_option (\<lambda>(w, u). (v @ w, u)) (string_lit t))
      else map_option (\<lambda>(w, u). (c # w, u)) (string_lit s))"
  by pat_completeness auto
termination
  by (relation "measure length") (auto dest!: escape_length)

subsection \<open>Numbers\<close>

fun sign_of :: "string \<Rightarrow> bool \<times> string" where
  "sign_of (x # s) = (if x = CHR ''-'' then (True, s) else (False, x # s))"
| "sign_of [] = (False, [])"

text \<open>An integer part without a superfluous zero, an optional fraction, an optional exponent.\<close>

definition int_part :: "string \<Rightarrow> (string \<times> string) option" where
  "int_part s =
     (let ds = takeWhile is_digit s in
      if ds = [] then None
      else if hd ds = CHR ''0'' then Some ([CHR ''0''], tl s)
      else Some (ds, dropWhile is_digit s))"

definition frac_part :: "string \<Rightarrow> (string \<times> string) option" where
  "frac_part s =
     (case s of
        x # s' \<Rightarrow>
          if x = CHR ''.'' then
            (if takeWhile is_digit s' = [] then None
             else Some (takeWhile is_digit s', dropWhile is_digit s'))
          else Some ([], s)
      | [] \<Rightarrow> Some ([], s))"

definition exp_part :: "string \<Rightarrow> (int \<times> string) option" where
  "exp_part s =
     (case s of
        x # s' \<Rightarrow>
          if x = CHR ''e'' \<or> x = CHR ''E'' then
            (let (neg, t) = (case s' of [] \<Rightarrow> (False, []) | y # t' \<Rightarrow>
                 if y = CHR ''+'' then (False, t') else if y = CHR ''-'' then (True, t') else (False, s'));
                 ds = takeWhile is_digit t in
             if ds = [] then None
             else Some ((if neg then - int (digits_val ds) else int (digits_val ds)), dropWhile is_digit t))
          else Some (0, s)
      | [] \<Rightarrow> Some (0, s))"

definition pow10 :: "int \<Rightarrow> rat" where
  "pow10 e = (if 0 \<le> e then 10 ^ nat e else 1 / 10 ^ nat (- e))"

definition number_lit :: "string \<Rightarrow> (float64 \<times> string) option" where
  "number_lit s =
     (case sign_of s of (neg, s1) \<Rightarrow>
      (case int_part s1 of None \<Rightarrow> None | Some (ip, s2) \<Rightarrow>
      (case frac_part s2 of None \<Rightarrow> None | Some (fp, s3) \<Rightarrow>
      (case exp_part s3 of None \<Rightarrow> None | Some (e, s4) \<Rightarrow>
        let x = of_nat (digits_val (ip @ fp)) * pow10 (e - int (length fp)) in
        Some (Finite (fl (if neg then - x else x)), s4)))))"

subsection \<open>Values\<close>

fun json_value :: "nat \<Rightarrow> string \<Rightarrow> (json \<times> string) option"
  and elements :: "nat \<Rightarrow> string \<Rightarrow> (json list \<times> string) option"
  and members :: "nat \<Rightarrow> string \<Rightarrow> ((string \<times> json) list \<times> string) option" where
  "json_value 0 s = None"
| "json_value (Suc n) s =
     (case skip s of
        [] \<Rightarrow> None
      | c # t \<Rightarrow>
          if c = CHR 0x22 then map_option (\<lambda>(v, u). (JString v, u)) (string_lit t)
          else if c = CHR ''['' then
            (case skip t of
               x # u \<Rightarrow> if x = CHR '']'' then Some (JArray [], u)
                          else map_option (\<lambda>(vs, u). (JArray vs, u)) (elements n t)
             | [] \<Rightarrow> None)
          else if c = CHR ''{'' then
            (case skip t of
               x # u \<Rightarrow> if x = CHR ''}'' then Some (JObject [], u)
                          else map_option (\<lambda>(ms, u). (JObject ms, u)) (members n t)
             | [] \<Rightarrow> None)
          else if c = CHR ''t'' then map_option (\<lambda>u. (JBool True, u)) (literal ''rue'' t)
          else if c = CHR ''f'' then map_option (\<lambda>u. (JBool False, u)) (literal ''alse'' t)
          else if c = CHR ''n'' then map_option (\<lambda>u. (JNull, u)) (literal ''ull'' t)
          else map_option (\<lambda>(x, u). (JNumber x, u)) (number_lit (c # t)))"
| "elements 0 s = None"
| "elements (Suc n) s =
     (case json_value n s of
        None \<Rightarrow> None
      | Some (v, t) \<Rightarrow>
          (case skip t of
             x # u \<Rightarrow>
               if x = CHR '']'' then Some ([v], u)
               else if x = CHR '','' then map_option (\<lambda>(vs, u). (v # vs, u)) (elements n u)
               else None
           | [] \<Rightarrow> None))"
| "members 0 s = None"
| "members (Suc n) s =
     (case skip s of
        q # s1 \<Rightarrow>
          if q \<noteq> CHR 0x22 then None
          else (case string_lit s1 of
            None \<Rightarrow> None
          | Some (k, s2) \<Rightarrow>
              (case skip s2 of
                 col # s3 \<Rightarrow>
                   if col \<noteq> CHR '':'' then None
                   else (case json_value n s3 of
                     None \<Rightarrow> None
                   | Some (v, t) \<Rightarrow>
                       (case skip t of
                          x # u \<Rightarrow>
                            if x = CHR ''}'' then Some ([(k, v)], u)
                            else if x = CHR '','' then map_option (\<lambda>(ms, u). ((k, v) # ms, u)) (members n u)
                            else None
                        | [] \<Rightarrow> None))
               | [] \<Rightarrow> None))
      | [] \<Rightarrow> None)"

definition json_parse :: "string \<Rightarrow> json option" where
  "json_parse s =
     (case json_value (Suc (2 * length s)) s of
        Some (v, t) \<Rightarrow> if skip t = [] then Some v else None
      | None \<Rightarrow> None)"

subsection \<open>The texts of a value\<close>

text \<open>
  The grammar the decoder follows: what a text must look like to stand for a value, with white space
  wherever JSON allows it. A string's text may be split at any character, so it is described by what
  the decoder makes of it in front of the rest of the literal.
\<close>

definition delimited :: "string \<Rightarrow> bool" where
  "delimited r \<longleftrightarrow> r = [] \<or> json_space (hd r) \<or> hd r \<in> {CHR '','', CHR '']'', CHR ''}''}"

definition number_text :: "float64 \<Rightarrow> string \<Rightarrow> bool" where
  "number_text x s \<longleftrightarrow> s \<noteq> [] \<and> (is_digit (hd s) \<or> hd s = CHR ''-'') \<and>
     (\<forall>r. delimited r \<longrightarrow> number_lit (s @ r) = Some (x, r))"

definition string_text :: "string \<Rightarrow> string \<Rightarrow> bool" where
  "string_text v s \<longleftrightarrow> (\<forall>t. string_lit (s @ t) = map_option (\<lambda>(w, u). (v @ w, u)) (string_lit t))"

abbreviation spaces :: "string \<Rightarrow> bool" where
  "spaces ws \<equiv> list_all json_space ws"

inductive value_text :: "json \<Rightarrow> string \<Rightarrow> bool"
  and elements_text :: "json list \<Rightarrow> string \<Rightarrow> bool"
  and member_text :: "string \<times> json \<Rightarrow> string \<Rightarrow> bool"
  and members_text :: "(string \<times> json) list \<Rightarrow> string \<Rightarrow> bool" where
  null_text: "value_text JNull ''null''"
| bool_text: "value_text (JBool b) (if b then ''true'' else ''false'')"
| num_text: "number_text x s \<Longrightarrow> value_text (JNumber x) s"
| str_text: "string_text v s \<Longrightarrow> value_text (JString v) (CHR 0x22 # s @ [CHR 0x22])"
| empty_array_text: "spaces ws \<Longrightarrow> value_text (JArray []) (CHR ''['' # ws @ '']'')"
| array_text: "elements_text vs s \<Longrightarrow> value_text (JArray vs) (CHR ''['' # s)"
| empty_object_text: "spaces ws \<Longrightarrow> value_text (JObject []) (CHR ''{'' # ws @ ''}'')"
| object_text: "members_text ms s \<Longrightarrow> value_text (JObject ms) (CHR ''{'' # s)"
| last_element_text: "spaces ws \<Longrightarrow> value_text v s \<Longrightarrow> spaces ws' \<Longrightarrow> elements_text [v] (ws @ s @ ws' @ '']'')"
| element_text: "spaces ws \<Longrightarrow> value_text v s \<Longrightarrow> spaces ws' \<Longrightarrow> elements_text vs t \<Longrightarrow>
    elements_text (v # vs) (ws @ s @ ws' @ CHR '','' # t)"
| member_text: "spaces ws \<Longrightarrow> string_text k ks \<Longrightarrow> spaces w1 \<Longrightarrow> spaces w2 \<Longrightarrow> value_text v s \<Longrightarrow> spaces w3 \<Longrightarrow>
    member_text (k, v) (ws @ CHR 0x22 # ks @ CHR 0x22 # w1 @ CHR '':'' # w2 @ s @ w3)"
| last_member_text: "member_text kv s \<Longrightarrow> members_text [kv] (s @ ''}'')"
| more_members_text: "member_text kv s \<Longrightarrow> members_text ms t \<Longrightarrow> members_text (kv # ms) (s @ CHR '','' # t)"

lemma literal_append [simp]: "literal p (p @ r) = Some r"
  by (induction p) auto

lemma skip_non_space [simp]: "\<not> json_space c \<Longrightarrow> skip (c # s) = c # s"
  by (simp add: skip_def)

lemma skip_spaces [simp]: "spaces ws \<Longrightarrow> skip (ws @ s) = skip s"
  by (induction ws) (simp_all add: skip_def)

lemma skip_all [simp]: "spaces ws \<Longrightarrow> skip ws = []"
  by (induction ws) (simp_all add: skip_def)

lemma not_json_space [simp]:
  "\<not> json_space (CHR 0x22)" "\<not> json_space (CHR '']'')" "\<not> json_space (CHR ''}'')" "\<not> json_space (CHR '','')"
  "\<not> json_space (CHR ''['')" "\<not> json_space (CHR ''{'')" "\<not> json_space (CHR '':'')" "\<not> json_space (CHR ''n'')"
  "\<not> json_space (CHR ''t'')" "\<not> json_space (CHR ''f'')" "\<not> json_space (CHR ''-'')"
  by (simp_all add: json_space_def)

lemma digit_no_space: "is_digit c \<Longrightarrow> \<not> json_space c"
  by (auto simp: is_digit_def json_space_def)

lemma delimited_Cons [simp]: "delimited (c # r) \<longleftrightarrow> json_space c \<or> c \<in> {CHR '','', CHR '']'', CHR ''}''}"
  by (simp add: delimited_def)

lemma delimited_spaces: "spaces ws \<Longrightarrow> delimited r \<Longrightarrow> delimited (ws @ r)"
  by (cases ws) simp_all

subsection \<open>Strings\<close>

definition plain_char :: "char \<Rightarrow> bool" where
  "plain_char c \<longleftrightarrow> c \<noteq> CHR 0x22 \<and> c \<noteq> CHR 0x5C \<and> \<not> (of_char c :: nat) < 32"

lemma plain_char_code [code]:
  "plain_char (Char b0 b1 b2 b3 b4 b5 b6 b7) \<longleftrightarrow> (b5 \<or> b6 \<or> b7) \<and>
     Char b0 b1 b2 b3 b4 b5 b6 b7 \<noteq> CHR 0x22 \<and> Char b0 b1 b2 b3 b4 b5 b6 b7 \<noteq> CHR 0x5C"
  by (cases b0; cases b1; cases b2; cases b3; cases b4; cases b5; cases b6; cases b7; simp add: plain_char_def)

lemma string_text_Nil: "string_text [] []"
  by (simp add: string_text_def option.map_ident_strong)

lemma string_text_append: "string_text v s \<Longrightarrow> string_text w t \<Longrightarrow> string_text (v @ w) (s @ t)"
  by (simp add: string_text_def option.map_comp comp_def case_prod_unfold)

lemma string_text_plain: "list_all plain_char s \<Longrightarrow> string_text s s"
proof (induction s)
  case (Cons c s)
  then show ?case by (simp add: string_text_def plain_char_def option.map_comp comp_def case_prod_unfold)
qed (simp add: string_text_Nil)

lemma string_text_escape: "c \<noteq> CHR ''u'' \<Longrightarrow> simple_escape c = Some d \<Longrightarrow> string_text [d] [CHR 0x5C, c]"
  by (simp add: string_text_def escape_def)

lemma string_text_closed: "string_text v s \<Longrightarrow> string_lit (s @ CHR 0x22 # r) = Some (v, r)"
  by (simp add: string_text_def)

subsection \<open>The decoder reads them\<close>

lemma number_text_head:
  assumes "number_text x s"
  obtains c t where "s = c # t" "\<not> json_space c"
    "c \<notin> {CHR 0x22, CHR ''['', CHR ''{'', CHR ''t'', CHR ''f'', CHR ''n'', CHR '']''}"
proof -
  obtain c t where n: "s = c # t" "is_digit c \<or> c = CHR ''-''"
    using assms by (cases s) (auto simp: number_text_def)
  have "c \<notin> {CHR 0x22, CHR ''['', CHR ''{'', CHR ''t'', CHR ''f'', CHR ''n'', CHR '']''}"
    using n(2) by (auto simp: is_digit_def)
  moreover have "\<not> json_space c" using n(2) digit_no_space by auto
  ultimately show ?thesis using that n(1) by blast
qed

lemma value_text_head: "value_text v s \<Longrightarrow> \<exists>c t. s = c # t \<and> \<not> json_space c \<and> c \<noteq> CHR '']''"
  by (erule value_text.cases) (auto elim: number_text_head split: if_splits)

text \<open>Fuel twice the length of the text is enough.\<close>

lemma text_read:
  "value_text v s \<Longrightarrow> spaces ws \<Longrightarrow> delimited r \<Longrightarrow> 2 * length s \<le> n \<Longrightarrow> json_value n (ws @ s @ r) = Some (v, r)"
  "elements_text vs s \<Longrightarrow> 2 * length s \<le> n \<Longrightarrow> vs \<noteq> [] \<and> elements n (s @ r) = Some (vs, r)"
  "member_text kv s \<Longrightarrow> 2 * length s \<le> n \<Longrightarrow> c \<in> {CHR ''}'', CHR '',''} \<Longrightarrow> members (Suc n) (s @ c # r) =
     (if c = CHR ''}'' then Some ([kv], r) else map_option (\<lambda>(ms, u). (kv # ms, u)) (members n r))"
  "members_text ms s \<Longrightarrow> 2 * length s \<le> n \<Longrightarrow> ms \<noteq> [] \<and> members n (s @ r) = Some (ms, r)"
proof (induction arbitrary: n r ws and n r and n r c and n r
    rule: value_text_elements_text_member_text_members_text.inducts)
  case null_text
  then show ?case using literal_append [of "''ull''" r] by (cases n) simp_all
next
  case (bool_text b)
  then show ?case using literal_append [of "''rue''" r] literal_append [of "''alse''" r] by (cases n; cases b) simp_all
next
  case (num_text x s)
  obtain c t where h: "s = c # t" "\<not> json_space c"
    "c \<notin> {CHR 0x22, CHR ''['', CHR ''{'', CHR ''t'', CHR ''f'', CHR ''n'', CHR '']''}"
    using number_text_head [OF num_text(1)] .
  moreover have "number_lit (c # t @ r) = Some (x, r)" using num_text h(1) by (simp add: number_text_def)
  ultimately show ?case using num_text by (cases n) simp_all
next
  case (str_text v s)
  then show ?case by (cases n) (simp_all add: string_text_closed)
next
  case (empty_array_text us)
  then show ?case by (cases n) simp_all
next
  case (array_text vs s)
  then obtain m where n: "n = Suc m" by (cases n) auto
  have vs: "vs \<noteq> []" "elements m (s @ r) = Some (vs, r)" using array_text n by auto
  have "\<exists>x u. skip (s @ r) = x # u \<and> x \<noteq> CHR '']''"
    using array_text(1)
    by (cases rule: elements_text.cases) (auto dest!: value_text_head)
  then show ?case using array_text n vs by auto
next
  case (empty_object_text us)
  then show ?case by (cases n) simp_all
next
  case (object_text ms s)
  then obtain m where n: "n = Suc m" by (cases n) auto
  have ms: "ms \<noteq> []" "members m (s @ r) = Some (ms, r)" using object_text n by auto
  have "\<exists>u. skip (s @ r) = CHR 0x22 # u"
    using object_text(1) by (cases rule: members_text.cases) (auto elim!: member_text.cases)
  then show ?case using object_text n ms by auto
next
  case (last_element_text us v s us')
  then obtain m where n: "n = Suc m" by (cases n) auto
  have "json_value m (us @ s @ us' @ CHR '']'' # r) = Some (v, us' @ CHR '']'' # r)"
    using last_element_text by (intro last_element_text.IH) (simp_all add: n delimited_spaces)
  then show ?case using last_element_text(3) by (simp add: n)
next
  case (element_text us v s us' vs t)
  then obtain m where n: "n = Suc m" by (cases n) auto
  have "json_value m (us @ s @ us' @ CHR '','' # t @ r) = Some (v, us' @ CHR '','' # t @ r)"
    using element_text by (intro element_text.IH(1)) (simp_all add: n delimited_spaces)
  moreover have "elements m (t @ r) = Some (vs, r)" using element_text by (simp add: n)
  ultimately show ?case using element_text(3) by (simp add: n)
next
  case (member_text us k ks w1 w2 v s w3)
  have "json_value n (w2 @ s @ w3 @ c # r) = Some (v, w3 @ c # r)"
    using member_text by (intro member_text.IH) (auto intro!: delimited_spaces)
  then show ?case using member_text by (auto simp: string_text_closed)
next
  case (last_member_text kv s)
  then obtain m where n: "n = Suc m" by (cases n) auto
  show ?case using last_member_text.IH [of m "CHR ''}''" r] last_member_text.prems by (simp add: n)
next
  case (more_members_text kv s ms t)
  then obtain m where n: "n = Suc m" by (cases n) auto
  show ?case
    using more_members_text.IH(1) [of m "CHR '',''" "t @ r"] more_members_text.IH(2) [of m r] more_members_text.prems
    by (simp add: n)
qed

lemma text_parsed:
  assumes "value_text v s" "spaces ws" "spaces ws'"
  shows "json_parse (ws @ s @ ws') = Some v"
  using text_read(1) [OF assms(1,2), of ws' "Suc (2 * length (ws @ s @ ws'))"] assms(3) delimited_spaces [of ws' "[]"]
  by (simp add: json_parse_def delimited_def)

subsection \<open>Reading back what was written\<close>

text \<open>
  A compact writer, for strings without escapes; \<open>num\<close> writes the numbers. The decoder reads the
  written value back.
\<close>

fun jprint :: "(float64 \<Rightarrow> string) \<Rightarrow> json \<Rightarrow> string"
  and jprint_elements :: "(float64 \<Rightarrow> string) \<Rightarrow> json list \<Rightarrow> string"
  and jprint_members :: "(float64 \<Rightarrow> string) \<Rightarrow> (string \<times> json) list \<Rightarrow> string" where
  "jprint num JNull = ''null''"
| "jprint num (JBool b) = (if b then ''true'' else ''false'')"
| "jprint num (JNumber x) = num x"
| "jprint num (JString s) = CHR 0x22 # s @ [CHR 0x22]"
| "jprint num (JArray vs) = CHR ''['' # jprint_elements num vs"
| "jprint num (JObject ms) = CHR ''{'' # jprint_members num ms"
| "jprint_elements num [] = '']''"
| "jprint_elements num (v # vs) =
     jprint num v @ (if vs = [] then '']'' else CHR '','' # jprint_elements num vs)"
| "jprint_members num [] = ''}''"
| "jprint_members num ((k, v) # ms) =
     CHR 0x22 # k @ CHR 0x22 # CHR '':'' # jprint num v @
       (if ms = [] then ''}'' else CHR '','' # jprint_members num ms)"

definition num_ok :: "(float64 \<Rightarrow> string) \<Rightarrow> float64 \<Rightarrow> bool" where
  "num_ok num x \<longleftrightarrow> number_text x (num x)"

fun jprintable :: "(float64 \<Rightarrow> string) \<Rightarrow> json \<Rightarrow> bool" where
  "jprintable num (JNumber x) = num_ok num x"
| "jprintable num (JString s) = list_all plain_char s"
| "jprintable num (JArray vs) = list_all (jprintable num) vs"
| "jprintable num (JObject ms) = list_all (\<lambda>(k, v). list_all plain_char k \<and> jprintable num v) ms"
| "jprintable num j = True"

lemma jprint_text:
  "jprintable num j \<Longrightarrow> value_text j (jprint num j)"
  "list_all (jprintable num) vs \<Longrightarrow> vs \<noteq> [] \<Longrightarrow> elements_text vs (jprint_elements num vs)"
  "list_all (\<lambda>(k, v). list_all plain_char k \<and> jprintable num v) ms \<Longrightarrow> ms \<noteq> [] \<Longrightarrow> members_text ms (jprint_members num ms)"
proof (induction num j and num vs and num ms rule: jprint_jprint_elements_jprint_members.induct)
  case (1 num)
  show ?case by (simp add: null_text)
next
  case (2 num b)
  show ?case using bool_text [of b] by simp
next
  case (5 num vs)
  then show ?case using array_text [OF "5.IH"] empty_array_text [of "[]"] by (cases "vs = []") simp_all
next
  case (6 num ms)
  then show ?case using object_text [OF "6.IH"] empty_object_text [of "[]"] by (cases "ms = []") simp_all
next
  case (8 num v vs)
  then show ?case using last_element_text [of "[]" v _ "[]"] element_text [of "[]" v _ "[]" vs] by auto
next
  case (10 num k v ms)
  have "member_text (k, v) (CHR 0x22 # k @ CHR 0x22 # CHR '':'' # jprint num v)"
    using 10 member_text [of "[]" k k "[]" "[]" v _ "[]"] by (simp add: string_text_plain)
  then show ?case using 10 last_member_text [of "(k, v)"] more_members_text [of "(k, v)" _ ms] by fastforce
qed (simp_all add: num_ok_def num_text str_text string_text_plain)

lemma json_roundtrip:
  assumes "jprintable num j"
  shows "json_parse (jprint num j) = Some j"
  using text_parsed [OF jprint_text(1) [OF assms], of "[]" "[]"] by simp

text \<open>Natural numbers are written in decimal.\<close>

lemma digits_val_snoc: "digits_val (ds @ [c]) = 10 * digits_val ds + ((of_char c :: nat) - 48)"
  by (simp add: digits_val_def)

lemma digits_val_show_nat [simp]: "digits_val (show_nat n) = n"
proof (induction n rule: show_nat.induct)
  case (1 n)
  show ?case
  proof (cases "n < 10")
    case True
    then show ?thesis by (simp add: show_nat.simps [of n] digits_val_def of_char_digit)
  next
    case False
    then show ?thesis using 1 by (simp add: show_nat.simps [of n] digits_val_snoc of_char_digit)
  qed
qed

lemma show_nat_digits: "list_all is_digit (show_nat n) \<and> show_nat n \<noteq> []"
proof (induction n rule: show_nat.induct)
  case (1 n)
  have "is_digit (digit k)" if "k < 10" for k using that by (simp add: is_digit_def of_char_digit)
  then show ?case using 1 by (simp add: show_nat.simps [of n])
qed

lemma show_nat_zero_head: "hd (show_nat n) = CHR ''0'' \<Longrightarrow> n = 0"
proof (induction n rule: show_nat.induct)
  case (1 n)
  have z: "(of_char (CHR ''0'') :: nat) = 48" by simp
  show ?case
  proof (cases "n < 10")
    case True
    then show ?thesis using 1(2) of_char_digit [of n] z by (simp add: show_nat.simps [of n])
  next
    case False
    then have "hd (show_nat (n div 10)) = CHR ''0''"
      using 1(2) show_nat_digits [of "n div 10"] by (simp add: show_nat.simps [of n])
    then show ?thesis using 1(1) False by simp
  qed
qed

lemma takeWhile_digits:
  assumes "list_all is_digit ds" "delimited r"
  shows "takeWhile is_digit (ds @ r) = ds" "dropWhile is_digit (ds @ r) = r"
proof -
  have "takeWhile is_digit r = [] \<and> dropWhile is_digit r = r"
    using assms(2) by (cases r) (auto simp: is_digit_def json_space_def)
  then show "takeWhile is_digit (ds @ r) = ds" "dropWhile is_digit (ds @ r) = r"
    using assms(1) by (induction ds) auto
qed

lemma show_nat_parts:
  assumes "delimited r"
  shows "int_part (show_nat n @ r) = Some (show_nat n, r)" "frac_part r = Some ([], r)" "exp_part r = Some (0, r)"
proof -
  have tw: "takeWhile is_digit (show_nat n @ r) = show_nat n" "dropWhile is_digit (show_nat n @ r) = r"
    using takeWhile_digits [OF _ assms, of "show_nat n"] show_nat_digits [of n] by simp_all
  obtain d ds where sn: "show_nat n = d # ds" using show_nat_digits [of n] by (cases "show_nat n") auto
  have "d = CHR ''0'' \<Longrightarrow> ds = []"
    using show_nat_zero_head [of n] sn show_nat.simps [of 0] by auto
  then show "int_part (show_nat n @ r) = Some (show_nat n, r)"
    using tw sn by (auto simp: int_part_def Let_def)
  show "frac_part r = Some ([], r)" "exp_part r = Some (0, r)"
    using assms by (cases r; auto simp: frac_part_def exp_part_def json_space_def)+
qed

lemma sign_of_show_nat: "sign_of (show_nat n @ r) = (False, show_nat n @ r)"
  using show_nat_digits [of n] by (cases "show_nat n") (auto simp: is_digit_def)

lemma number_lit_show_int:
  assumes r: "delimited r" and i: "\<bar>i\<bar> < 2 ^ 53"
  shows "number_lit (show_int i @ r) = Some (Finite (of_int i), r)"
proof -
  have "fl (- of_nat (nat (- i))) = of_int i" if "i < 0"
    using fl_of_int [of i] i that by simp
  moreover have "fl (of_nat (nat i)) = of_int i" if "0 \<le> i"
    using fl_of_int [of i] i that by simp
  ultimately show ?thesis
    by (simp add: show_int_def number_lit_def sign_of_show_nat show_nat_parts [OF r] pow10_def)
qed

lemma number_lit_show_nat:
  assumes "delimited r" "n < 2 ^ 53"
  shows "number_lit (show_nat n @ r) = Some (Finite (of_nat n), r)"
  using number_lit_show_int [OF assms(1), of "int n"] assms(2) by (simp add: show_int_def)

lemma number_text_show_int:
  assumes "\<bar>i\<bar> < 2 ^ 53"
  shows "number_text (Finite (of_int i)) (show_int i)"
proof -
  have "is_digit (hd (show_nat n)) \<and> show_nat n \<noteq> []" for n
    using show_nat_digits [of n] by (cases "show_nat n") simp_all
  then show ?thesis using number_lit_show_int assms by (simp add: number_text_def show_int_def)
qed

lemma num_ok_nat:
  assumes "n < 2 ^ 53" "num (Finite (of_nat n)) = show_nat n"
  shows "num_ok num (Finite (of_nat n))"
proof -
  have "is_digit (hd (show_nat n))" "show_nat n \<noteq> []"
    using show_nat_digits [of n] by (cases "show_nat n"; simp)+
  then show ?thesis using assms number_lit_show_nat by (simp add: num_ok_def number_text_def)
qed

end
