(* ===== verification/GoTemplate.thy ===== *)
theory GoTemplate
  imports GoJson Prelude
begin

text \<open>
  What the operator uses of \<open>text/template\<close>: a text with two kinds of actions, \<open>{{.Name}}\<close>, a member of
  the map the template is executed with, and \<open>{{"..."}}\<close>, a constant. A member the map does not have
  prints as \<open><no value>\<close>. A text with any other action is outside the model, and gives \<open>None\<close>.
\<close>

definition ident_char :: "char \<Rightarrow> bool" where
  "ident_char c \<longleftrightarrow> (let n = of_char c :: nat in (65 \<le> n \<and> n \<le> 90) \<or> (97 \<le> n \<and> n \<le> 122))"

definition closing :: "string \<Rightarrow> string \<Rightarrow> string \<Rightarrow> (string \<times> string) option" where
  "closing end_mark out s =
     (if take (length end_mark) s = end_mark then Some (out, drop (length end_mark) s) else None)"

definition constant_char :: "char \<Rightarrow> bool" where
  "constant_char x \<longleftrightarrow> x \<noteq> CHR 0x22 \<and> x \<noteq> CHR 0x5C \<and> x \<noteq> CHR 0x0A"

text \<open>An action after its opening braces: what it prints, and the text behind its closing ones.\<close>

definition run_action :: "(string \<Rightarrow> string option) \<Rightarrow> string \<Rightarrow> (string \<times> string) option" where
  "run_action data s =
     (case s of
        [] \<Rightarrow> None
      | c # t \<Rightarrow>
          if c = CHR ''.'' then
            (let f = takeWhile ident_char t in
             closing ''}}'' (case data f of None \<Rightarrow> ''<no value>'' | Some v \<Rightarrow> v) (dropWhile ident_char t))
          else if c = CHR 0x22 then
            closing (CHR 0x22 # ''}}'') (takeWhile constant_char t) (dropWhile constant_char t)
          else None)"

lemma closing_length: "closing m out s = Some (x, t) \<Longrightarrow> length t \<le> length s"
  by (auto simp: closing_def split: if_splits)

lemma run_action_length: "run_action data s = Some (out, t) \<Longrightarrow> length t < length s"
  by (auto simp: run_action_def Let_def split: list.splits if_splits dest!: closing_length
      intro: le_imp_less_Suc order_trans [OF _ length_dropWhile_le])

function template_run :: "(string \<Rightarrow> string option) \<Rightarrow> string \<Rightarrow> string option" where
  "template_run data [] = Some []"
| "template_run data (c # s) =
     (if c = CHR ''{'' \<and> s \<noteq> [] \<and> hd s = CHR ''{'' then
        (case run_action data (tl s) of
           None \<Rightarrow> None
         | Some (out, t) \<Rightarrow> map_option ((@) out) (template_run data t))
      else map_option ((#) c) (template_run data s))"
  by pat_completeness auto
termination
  by (relation "measure (length \<circ> snd)") (auto dest!: run_action_length)

definition template_execute :: "string \<Rightarrow> string \<Rightarrow> (string \<Rightarrow> string option) \<Rightarrow> string outcome" where
  "template_execute name text data =
     (case template_run data text of None \<Rightarrow> Err (Plain (''template: '' @ name)) | Some out \<Rightarrow> Ret out)"

subsection \<open>Executing a text piece by piece\<close>

text \<open>\<open>renders data s out\<close>: wherever \<open>s\<close> stands in front of more text, it prints \<open>out\<close>.\<close>

definition renders :: "(string \<Rightarrow> string option) \<Rightarrow> string \<Rightarrow> string \<Rightarrow> bool" where
  "renders data s out \<longleftrightarrow> (\<forall>t. template_run data (s @ t) = map_option ((@) out) (template_run data t))"

named_theorems renders_intros \<open>how a template prints, by its text\<close>

lemma renders_run: "renders data s out \<Longrightarrow> template_run data s = Some out"
  unfolding renders_def by (drule spec [of _ "[]"]) simp

lemma append_fun: "(@) (x @ y) = (\<lambda>z. x @ y @ z)" "(@) (c # x) = (\<lambda>z. c # x @ z)"
  by (simp_all add: fun_eq_iff)

lemma renders_Nil [renders_intros]: "renders data [] []"
  by (simp add: renders_def option.map_ident_strong)

lemma renders_append [renders_intros]:
  "renders data s x \<Longrightarrow> renders data t y \<Longrightarrow> renders data (s @ t) (x @ y)"
  by (simp add: renders_def option.map_comp comp_def append_fun)

lemma renders_char: "c \<noteq> CHR ''{'' \<Longrightarrow> renders data s x \<Longrightarrow> renders data (c # s) (c # x)"
  by (simp add: renders_def option.map_comp comp_def append_fun)

lemma renders_brace:
  assumes "c \<noteq> CHR ''{''" "renders data (c # s) x"
  shows "renders data (CHR ''{'' # c # s) (CHR ''{'' # x)"
proof -
  have "template_run data (CHR ''{'' # (c # s) @ t) = map_option ((#) (CHR ''{'')) (template_run data ((c # s) @ t))" for t
    using assms(1) by simp
  then show ?thesis using assms(2) unfolding renders_def by (simp add: option.map_comp comp_def append_fun del: template_run.simps)
qed

text \<open>Text without a pair of opening braces, and without one at its end, prints as it is.\<close>

fun inert :: "string \<Rightarrow> bool" where
  "inert [] = True"
| "inert (c # s) \<longleftrightarrow> (c = CHR ''{'' \<longrightarrow> s \<noteq> [] \<and> hd s \<noteq> CHR ''{'') \<and> inert s"

lemma renders_inert: "inert s \<Longrightarrow> renders data s s"
proof (induction s)
  case (Cons c s)
  then show ?case by (cases "c = CHR ''{''"; cases s) (auto intro: renders_char renders_brace)
qed (rule renders_Nil)

lemma run_until:
  assumes "list_all P q" "\<not> P c"
  shows "takeWhile P (q @ c # s) = q" "dropWhile P (q @ c # s) = c # s"
  using assms by (induction q) simp_all

lemma renders_field:
  assumes "list_all ident_char f"
  shows "renders data (''{{.'' @ f @ ''}}'') (case data f of None \<Rightarrow> ''<no value>'' | Some v \<Rightarrow> v)"
proof -
  have "\<not> ident_char (CHR ''}'')" by (simp add: ident_char_def)
  note run_until [OF assms this]
  then show ?thesis by (simp add: renders_def run_action_def closing_def)
qed

lemma renders_constant:
  assumes "list_all constant_char q"
  shows "renders data (''{{'' @ CHR 0x22 # q @ CHR 0x22 # ''}}'') q"
proof -
  have "\<not> constant_char (CHR 0x22)" by (simp add: constant_char_def)
  note run_until [OF assms this]
  then show ?thesis by (simp add: renders_def run_action_def closing_def)
qed

end
