(* ===== verification/DashboardJson.thy ===== *)
theory DashboardJson
  imports GoTemplate
begin

text \<open>
  A template of a JSON text, indented by two spaces a level, whose strings hold actions of
  \<open>text/template\<close>: what the Grafana dashboard is written as. A string is a list of pieces; \<open>EscN\<close> and
  \<open>EscQ\<close> stand for an escaped newline and an escaped quote.
\<close>

datatype piece = Txt string | EscN | EscQ | FieldOf string | Constant string

datatype tjson =
    TNull
  | TBool bool
  | TNum int
  | TStr "piece list"
  | TArr "tjson list"
  | TObj "(string \<times> tjson) list"

abbreviation jstr :: "string \<Rightarrow> tjson" where "jstr s \<equiv> TStr [Txt s]"

text \<open>Its text, for a way to write a piece.\<close>

definition line_break :: "nat \<Rightarrow> string" where
  "line_break d = CHR 0x0A # replicate (2 * d) CHR '' ''"

fun layout :: "(piece \<Rightarrow> string) \<Rightarrow> nat \<Rightarrow> tjson \<Rightarrow> string"
  and layout_elements :: "(piece \<Rightarrow> string) \<Rightarrow> nat \<Rightarrow> tjson list \<Rightarrow> string"
  and layout_members :: "(piece \<Rightarrow> string) \<Rightarrow> nat \<Rightarrow> (string \<times> tjson) list \<Rightarrow> string" where
  "layout w d TNull = ''null''"
| "layout w d (TBool b) = (if b then ''true'' else ''false'')"
| "layout w d (TNum i) = show_int i"
| "layout w d (TStr ps) = [CHR 0x22] @ concat (map w ps) @ [CHR 0x22]"
| "layout w d (TArr vs) = (if vs = [] then ''[]'' else ''['' @ layout_elements w (Suc d) vs @ line_break d @ '']'')"
| "layout w d (TObj ms) = (if ms = [] then ''{}'' else ''{'' @ layout_members w (Suc d) ms @ line_break d @ ''}'')"
| "layout_elements w d [] = []"
| "layout_elements w d (v # vs) =
     line_break d @ layout w d v @ (if vs = [] then [] else '','' @ layout_elements w d vs)"
| "layout_members w d [] = []"
| "layout_members w d ((k, v) # ms) =
     line_break d @ [CHR 0x22] @ k @ [CHR 0x22] @ '': '' @ layout w d v @ (if ms = [] then [] else '','' @ layout_members w d ms)"

text \<open>As it stands in the template, and as it is printed for the data.\<close>

fun piece_source :: "piece \<Rightarrow> string" where
  "piece_source (Txt s) = s"
| "piece_source EscN = [CHR 0x5C, CHR ''n'']"
| "piece_source EscQ = [CHR 0x5C, CHR 0x22]"
| "piece_source (FieldOf f) = ''{{.'' @ f @ ''}}''"
| "piece_source (Constant q) = ''{{'' @ CHR 0x22 # q @ CHR 0x22 # ''}}''"

fun piece_output :: "(string \<Rightarrow> string option) \<Rightarrow> piece \<Rightarrow> string" where
  "piece_output data (FieldOf f) = (case data f of None \<Rightarrow> ''<no value>'' | Some v \<Rightarrow> v)"
| "piece_output data (Constant q) = q"
| "piece_output data p = piece_source p"

subsection \<open>What it prints\<close>

fun piece_ok :: "piece \<Rightarrow> bool" where
  "piece_ok (Txt s) \<longleftrightarrow> inert s \<and> list_all plain_char s"
| "piece_ok (FieldOf f) \<longleftrightarrow> list_all ident_char f"
| "piece_ok (Constant q) \<longleftrightarrow> list_all plain_char q"
| "piece_ok p \<longleftrightarrow> True"

fun tjson_ok :: "tjson \<Rightarrow> bool" where
  "tjson_ok (TStr ps) \<longleftrightarrow> list_all piece_ok ps"
| "tjson_ok (TArr vs) \<longleftrightarrow> list_all tjson_ok vs"
| "tjson_ok (TObj ms) \<longleftrightarrow> list_all (\<lambda>(k, v). (inert k \<and> list_all plain_char k) \<and> tjson_ok v) ms"
| "tjson_ok (TNum i) \<longleftrightarrow> \<bar>i\<bar> < 2 ^ 53"
| "tjson_ok v \<longleftrightarrow> True"

lemma plain_constant: "plain_char c \<Longrightarrow> constant_char c"
  by (cases "c = CHR 0x0A") (simp_all add: plain_char_def constant_char_def)

lemma renders_piece: "piece_ok p \<Longrightarrow> renders data (piece_source p) (piece_output data p)"
proof (cases p)
  case (FieldOf f)
  assume "piece_ok p"
  then show ?thesis using renders_field [of f data] FieldOf by simp
next
  case (Constant q)
  assume "piece_ok p"
  then have "list_all constant_char q" using Constant plain_constant by (auto elim: list.pred_mono_strong)
  then show ?thesis using renders_constant [of q data] Constant by simp
qed (simp_all add: renders_inert)

lemma renders_pieces: "list_all piece_ok ps \<Longrightarrow> renders data (concat (map piece_source ps)) (concat (map (piece_output data) ps))"
  by (induction ps) (simp_all add: renders_Nil renders_append renders_piece)

lemma inert_append: "inert s \<Longrightarrow> inert t \<Longrightarrow> inert (s @ t)"
  by (induction s) auto

lemma inert_no_brace: "CHR ''{'' \<notin> set s \<Longrightarrow> inert s"
  by (induction s) auto

lemma inert_line_break [simp]: "inert (line_break d)"
  by (rule inert_no_brace) (simp add: line_break_def)

lemma inert_show_int [simp]: "inert (show_int i)"
proof (rule inert_no_brace)
  have "CHR ''{'' \<notin> set (show_nat n)" for n
  proof
    assume "CHR ''{'' \<in> set (show_nat n)"
    then have "is_digit (CHR ''{'')" using show_nat_digits [of n] by (simp only: list_all_iff)
    then show False by (simp add: is_digit_def)
  qed
  then show "CHR ''{'' \<notin> set (show_int i)" by (simp add: show_int_def)
qed

text \<open>An opening brace of JSON is followed by a line_break break or a closing one, so the text is executed piece by piece.\<close>

lemma renders_object: "renders data (line_break d @ s) (line_break d @ x) \<Longrightarrow> renders data (''{'' @ line_break d @ s) (''{'' @ line_break d @ x)"
  using renders_brace [of "CHR 0x0A" data] by (simp add: line_break_def)

lemma renders_layout:
  "tjson_ok v \<Longrightarrow> renders data (layout piece_source d v) (layout (piece_output data) d v)"
  "list_all tjson_ok vs \<Longrightarrow> renders data (layout_elements piece_source d vs) (layout_elements (piece_output data) d vs)"
  "list_all (\<lambda>(k, v). (inert k \<and> list_all plain_char k) \<and> tjson_ok v) ms \<Longrightarrow>
     renders data (layout_members piece_source d ms) (layout_members (piece_output data) d ms)"
proof (induction "piece_source" d v and "piece_source" d vs and "piece_source" d ms rule: layout_layout_elements_layout_members.induct)
  case (6 d ms)
  show ?case
  proof (cases ms)
    case Nil
    then show ?thesis by (auto intro: renders_inert)
  next
    case (Cons kv ms')
    have r: "renders data (layout_members piece_source (Suc d) ms @ line_break d @ ''}'')
        (layout_members (piece_output data) (Suc d) ms @ line_break d @ ''}'')"
      using 6 Cons by (intro renders_append renders_inert [of "line_break d"] renders_inert [of "''}''"]) simp_all
    show ?thesis
      using renders_object [of data "Suc d"] r by (cases kv) (simp add: Cons)
  qed
next
  case (10 d k v ms)
  have "inert (line_break d @ [CHR 0x22] @ k @ [CHR 0x22] @ '': '')" using 10 by (intro inert_append) simp_all
  then have "renders data ((line_break d @ [CHR 0x22] @ k @ [CHR 0x22] @ '': '') @ layout piece_source d v @ (if ms = [] then [] else '','' @ layout_members piece_source d ms))
     ((line_break d @ [CHR 0x22] @ k @ [CHR 0x22] @ '': '') @ layout (piece_output data) d v @ (if ms = [] then [] else '','' @ layout_members (piece_output data) d ms))"
    using 10 by (intro renders_append renders_inert) (auto intro!: renders_char renders_Nil)
  then show ?case by simp
qed (auto intro!: renders_char renders_append renders_Nil renders_pieces renders_inert [of "line_break d" for d] renders_inert [of "show_int i" for i])

subsection \<open>The value it stands for\<close>

fun piece_value :: "(string \<Rightarrow> string option) \<Rightarrow> piece \<Rightarrow> string" where
  "piece_value data EscN = [CHR 0x0A]"
| "piece_value data EscQ = [CHR 0x22]"
| "piece_value data p = piece_output data p"

fun instantiate :: "(string \<Rightarrow> string option) \<Rightarrow> tjson \<Rightarrow> json" where
  "instantiate data TNull = JNull"
| "instantiate data (TBool b) = JBool b"
| "instantiate data (TNum i) = JNumber (Finite (of_int i))"
| "instantiate data (TStr ps) = JString (concat (map (piece_value data) ps))"
| "instantiate data (TArr vs) = JArray (map (instantiate data) vs)"
| "instantiate data (TObj ms) = JObject (map (\<lambda>(k, v). (k, instantiate data v)) ms)"

definition plain_data :: "(string \<Rightarrow> string option) \<Rightarrow> bool" where
  "plain_data data \<longleftrightarrow> (\<forall>f v. data f = Some v \<longrightarrow> list_all plain_char v)"

lemma plain_piece_text:
  assumes "plain_data data" "piece_ok p"
  shows "string_text (piece_value data p) (piece_output data p)"
proof (cases p)
  case (FieldOf f)
  have "list_all plain_char ''<no value>''" by (simp add: plain_char_def)
  then show ?thesis using assms FieldOf by (auto intro!: string_text_plain simp: plain_data_def split: option.split)
next
  case EscN
  then show ?thesis using string_text_escape [of "CHR ''n''"] by (simp add: simple_escape_def)
next
  case EscQ
  then show ?thesis using string_text_escape [of "CHR 0x22"] by (simp add: simple_escape_def)
qed (use assms in \<open>auto intro: string_text_plain\<close>)

lemma spaces_line_break [simp]: "spaces (line_break d)"
  by (simp add: line_break_def json_space_def list_all_iff)

lemma layout_text:
  assumes "plain_data data"
  shows "tjson_ok v \<Longrightarrow> value_text (instantiate data v) (layout (piece_output data) d v)"
    and "list_all tjson_ok vs \<Longrightarrow> vs \<noteq> [] \<Longrightarrow> spaces ws \<Longrightarrow>
      elements_text (map (instantiate data) vs) (layout_elements (piece_output data) d vs @ ws @ '']'')"
    and "list_all (\<lambda>(k, v). (inert k \<and> list_all plain_char k) \<and> tjson_ok v) ms \<Longrightarrow> ms \<noteq> [] \<Longrightarrow> spaces ws \<Longrightarrow>
      members_text (map (\<lambda>(k, v). (k, instantiate data v)) ms) (layout_members (piece_output data) d ms @ ws @ ''}'')"
proof (induction "piece_output data" d v and "piece_output data" d vs and "piece_output data" d ms arbitrary: and ws and ws
    rule: layout_layout_elements_layout_members.induct)
  case (2 d b)
  show ?case using bool_text [of b] by simp
next
  case (4 d ps)
  then have "string_text (concat (map (piece_value data) ps)) (concat (map (piece_output data) ps))"
    using plain_piece_text [OF assms] by (induction ps) (simp_all add: string_text_Nil string_text_append)
  from str_text [OF this] show ?case by simp
next
  case (5 d vs)
  then show ?case using array_text empty_array_text [of "[]"] by auto
next
  case (6 d ms)
  then show ?case using object_text empty_object_text [of "[]"] by auto
next
  case (8 d v vs)
  then show ?case
    using last_element_text [of "line_break d" "instantiate data v" _ ws]
      element_text [of "line_break d" "instantiate data v" _ "[]" "map (instantiate data) vs"] by auto
next
  case (10 d k v ms)
  have m: "member_text (k, instantiate data v)
      (line_break d @ CHR 0x22 # k @ CHR 0x22 # [] @ CHR '':'' # '' '' @ layout (piece_output data) d v @ us)" if "spaces us" for us
    using 10 that by (intro member_text string_text_plain) (simp_all add: json_space_def)
  show ?case
    using 10 last_member_text [OF m [of ws]] more_members_text [OF m [of "[]"]] by auto
qed (simp_all add: null_text num_text number_text_show_int)

text \<open>The text a good template prints for plain data is the JSON it stands for.\<close>

lemma layout_executed:
  assumes "tjson_ok v"
  shows "template_run data (CHR 0x0A # layout piece_source d v) = Some (CHR 0x0A # layout (piece_output data) d v)"
  by (intro renders_run renders_char renders_layout assms) simp

lemma layout_parsed:
  assumes "plain_data data" "tjson_ok v"
  shows "json_parse (CHR 0x0A # layout (piece_output data) d v) = Some (instantiate data v)"
  using text_parsed [OF layout_text(1) [OF assms], of "[CHR 0x0A]" "[]" d] by (simp add: json_space_def)

subsection \<open>A string that is cut short\<close>

text \<open>
  The members in front of a string are read as they are; if the text of the string closes it early and goes
  on with something JSON does not allow there, nothing is read at all.
\<close>

lemma layout_members_append:
  "xs \<noteq> [] \<Longrightarrow> ys \<noteq> [] \<Longrightarrow> layout_members w d (xs @ ys) = layout_members w d xs @ CHR '','' # layout_members w d ys"
proof (induction xs)
  case (Cons x xs)
  then show ?case by (cases x; cases "xs = []") simp_all
qed simp

lemma members_behind:
  assumes "plain_data data" "list_all (\<lambda>(k, v). (inert k \<and> list_all plain_char k) \<and> tjson_ok v) ms" "ms \<noteq> []"
    and "\<And>m. members m r = None" "2 * length (layout_members (piece_output data) d ms) \<le> n"
  shows "members (Suc n) (layout_members (piece_output data) d ms @ CHR '','' # r) = None"
  using assms(2,3,5)
proof (induction ms arbitrary: n)
  case (Cons kv ms)
  obtain k v where kv: "kv = (k, v)" by (cases kv)
  let ?m = "line_break d @ CHR 0x22 # k @ CHR 0x22 # [] @ CHR '':'' # '' '' @ layout (piece_output data) d v @ []"
  have m: "member_text (k, instantiate data v) ?m"
    using Cons.prems(1) by (intro member_text string_text_plain layout_text(1) [OF assms(1)])
      (simp_all add: kv json_space_def)
  have step: "members (Suc n) (?m @ CHR '','' # u) = map_option (\<lambda>(ms, u). ((k, instantiate data v) # ms, u)) (members n u)" for u
    using Cons.prems(3) by (intro trans [OF text_read(3) [OF m]]) (simp_all add: kv)
  show ?case
  proof (cases "ms = []")
    case True
    then show ?thesis using step [of r] assms(4) by (simp add: kv)
  next
    case False
    have n: "n = Suc (n - 1)" "2 * length (layout_members (piece_output data) d ms) \<le> n - 1"
      using Cons.prems(3) False by (simp_all add: kv)
    have "members n (layout_members (piece_output data) d ms @ CHR '','' # r) = None"
      using Cons.IH [OF _ False n(2)] Cons.prems(1) n(1) by simp
    then show ?thesis using step False by (simp add: kv)
  qed
qed simp

lemma cut_string:
  assumes "list_all plain_char k" "list_all plain_char a" "\<not> json_space c" "c \<notin> {CHR '','', CHR ''}''}"
  shows "members n (line_break d @ CHR 0x22 # k @ CHR 0x22 # CHR '':'' # CHR '' '' # CHR 0x22 # a @ CHR 0x22 # c # r) = None"
proof (cases n)
  case (Suc m)
  have k: "string_lit (k @ CHR 0x22 # t) = Some (k, t)" and a: "string_lit (a @ CHR 0x22 # t) = Some (a, t)" for t
    using assms(1,2) string_text_plain string_text_closed by blast+
  have "json_value m (CHR '' '' # CHR 0x22 # a @ CHR 0x22 # c # r) \<in> {None, Some (JString a, c # r)}"
    by (cases m) (simp_all add: a skip_def json_space_def)
  then show ?thesis using assms(3,4) by (auto simp: Suc k)
qed simp

text \<open>The output only depends on the fields it has.\<close>

fun piece_fields :: "piece \<Rightarrow> string list" where
  "piece_fields (FieldOf f) = [f]"
| "piece_fields p = []"

fun used_fields :: "tjson \<Rightarrow> string list" where
  "used_fields (TStr ps) = concat (map piece_fields ps)"
| "used_fields (TArr vs) = concat (map used_fields vs)"
| "used_fields (TObj ms) = concat (map (\<lambda>(k, v). used_fields v) ms)"
| "used_fields v = []"

lemma piece_output_fields: "\<forall>f \<in> set (piece_fields p). data f = data' f \<Longrightarrow> piece_output data p = piece_output data' p"
  by (cases p) simp_all

lemma layout_fields:
  "\<forall>f \<in> set (used_fields v). data f = data' f \<Longrightarrow> layout (piece_output data) d v = layout (piece_output data') d v"
  "\<forall>f \<in> set (used_fields (TArr vs)). data f = data' f \<Longrightarrow> layout_elements (piece_output data) d vs = layout_elements (piece_output data') d vs"
  "\<forall>f \<in> set (used_fields (TObj ms)). data f = data' f \<Longrightarrow> layout_members (piece_output data) d ms = layout_members (piece_output data') d ms"
proof (induction "piece_output data" d v and "piece_output data" d vs and "piece_output data" d ms
    rule: layout_layout_elements_layout_members.induct)
  case (4 d ps)
  then have "map (piece_output data) ps = map (piece_output data') ps"
    by (intro map_cong refl piece_output_fields) auto
  then show ?case by (simp only: layout.simps)
qed auto

lemma broken_object:
  assumes "members (2 * length s + 4) s = None" "skip s = x # u" "x \<noteq> CHR ''}''"
  shows "json_parse (CHR 0x0A # CHR ''{'' # s) = None"
proof -
  define m where "m = 2 * length s + 4"
  have "skip (CHR 0x0A # CHR ''{'' # s) = CHR ''{'' # s" by (simp add: skip_def json_space_def)
  then have "json_value (Suc m) (CHR 0x0A # CHR ''{'' # s) = None" using assms unfolding m_def [symmetric] by simp
  moreover have "2 * length (CHR 0x0A # CHR ''{'' # s) = m" by (simp add: m_def)
  ultimately show ?thesis unfolding json_parse_def by (simp only: option.case)
qed

theorem cut_string_breaks:
  assumes "tjson_ok (TObj before)" "before \<noteq> []" "list_all plain_char k" "f \<notin> set (used_fields (TObj before))"
    and "\<And>g v. g \<noteq> f \<Longrightarrow> data g = Some v \<Longrightarrow> list_all plain_char v"
    and "data f = Some (a @ CHR 0x22 # c # b)" "list_all plain_char a" "\<not> json_space c" "c \<notin> {CHR '','', CHR ''}''}"
  shows "json_parse (CHR 0x0A # layout (piece_output data) d (TObj (before @ (k, TStr [FieldOf f]) # after))) = None"
proof -
  let ?w = "piece_output data" and ?w' = "piece_output (data(f := None))"
  have plain: "plain_data (data(f := None))" using assms(5) by (auto simp: plain_data_def)
  have same: "layout_members ?w (Suc d) before = layout_members ?w' (Suc d) before"
    using assms(4) by (intro layout_fields(3)) auto
  obtain r where r: "layout_members ?w (Suc d) ((k, TStr [FieldOf f]) # after) @ line_break d @ ''}'' =
      line_break (Suc d) @ CHR 0x22 # k @ CHR 0x22 # CHR '':'' # CHR '' '' # CHR 0x22 # a @ CHR 0x22 # c # r"
    using assms(6) by simp
  let ?t = "layout_members ?w' (Suc d) before @ CHR '','' # layout_members ?w (Suc d) ((k, TStr [FieldOf f]) # after) @ line_break d @ ''}''"
  have whole: "layout ?w d (TObj (before @ (k, TStr [FieldOf f]) # after)) = CHR ''{'' # ?t"
    using assms(2) same layout_members_append [of before "(k, TStr [FieldOf f]) # after"] by simp
  have "members (Suc n) ?t = None" if "2 * length (layout_members ?w' (Suc d) before) \<le> n" for n
    unfolding r using assms(1-3,7-9) that cut_string by (intro members_behind [OF plain]) simp_all
  from this [of "2 * length ?t + 3"] have "members (2 * length ?t + 4) ?t = None" by (simp add: eval_nat_numeral)
  moreover obtain x u where "skip ?t = x # u" "x \<noteq> CHR ''}''"
    using assms(2) by (cases before) auto
  ultimately show ?thesis unfolding whole by (rule broken_object)
qed

end
