(* ===== verification/DashboardPanels.thy ===== *)
theory DashboardPanels
  imports DashboardJson
begin

text \<open>
  The panels of the Grafana dashboard, as \<open>varnishcluster_grafana_dashboard_template.go\<close> has them: a row of
  gauges, and the graphs of the requests.
\<close>

subsection \<open>Real time metrics\<close>

definition row_real_time_metrics :: "tjson" where
  "row_real_time_metrics =
     TObj [(''collapsed'', TBool False), (''gridPos'', TObj [(''h'', TNum 1), (''w'', TNum 24),
     (''x'', TNum 0), (''y'', TNum 0)]), (''id'', TNum 19), (''panels'', TArr []),
     (''repeat'', jstr ''cluster''), (''title'', jstr ''Real time metrics''), (''type'', jstr ''row'')]"

definition stat_cache_hit_rate :: "tjson" where
  "stat_cache_hit_rate =
     TObj [(''cacheTimeout'', TNull), (''colorBackground'', TBool False), (''colorValue'', TBool False),
     (''colors'', TArr [jstr ''rgba(245, 54, 54, 0.9)'', jstr ''rgba(237, 129, 40, 0.89)'',
     jstr ''rgba(50, 172, 45, 0.97)'']), (''datasource'', TStr [FieldOf ''DatasourceName'']),
     (''decimals'', TNull), (''description'', TStr []), (''editable'', TBool True), (''error'', TBool False),
     (''format'', jstr ''percentunit''), (''gauge'', TObj [(''maxValue'', TNum 1), (''minValue'', TNum 0),
     (''show'', TBool True), (''thresholdLabels'', TBool False), (''thresholdMarkers'', TBool False)]),
     (''gridPos'', TObj [(''h'', TNum 4), (''w'', TNum 2), (''x'', TNum 0), (''y'', TNum 1)]),
     (''height'', TStr []), (''hideTimeOverride'', TBool False), (''id'', TNum 6), (''interval'', TNull),
     (''links'', TArr []), (''mappingType'', TNum 1),
     (''mappingTypes'', TArr [TObj [(''name'', jstr ''value to text''), (''value'', TNum 1)],
     TObj [(''name'', jstr ''range to text''), (''value'', TNum 2)]]), (''maxDataPoints'', TNum 100),
     (''nullPointMode'', jstr ''connected''), (''nullText'', TNull), (''options'', TObj []),
     (''postfix'', TStr []), (''postfixFontSize'', jstr ''50%''), (''prefix'', TStr []),
     (''prefixFontSize'', jstr ''100%''), (''rangeMaps'', TArr [TObj [(''from'', jstr ''null''),
     (''text'', jstr ''N/A''), (''to'', jstr ''null'')]]),
     (''sparkline'', TObj [(''fillColor'', jstr ''rgba(31, 118, 189, 0.18)''), (''full'', TBool False),
     (''lineColor'', jstr ''rgb(31, 120, 193)''), (''show'', TBool False)]), (''tableColumn'', jstr ''Value''),
     (''targets'', TArr [TObj [(''expr'', TStr [Txt ''avg('', EscN, Txt ''  ('', EscN,
     Txt ''    rate(varnish_main_cache_hit{service='', EscQ, FieldOf ''ServiceName'', EscQ, Txt '', pod=~'',
     EscQ, Txt ''^$varnish_pod$'', EscQ, Txt '', namespace='', EscQ, FieldOf ''Namespace'', EscQ,
     Txt ''}[1m]) / (rate(varnish_main_cache_hit{service='', EscQ, FieldOf ''ServiceName'', EscQ,
     Txt '', pod=~'', EscQ, Txt ''^$varnish_pod$'', EscQ, Txt '', namespace='', EscQ, FieldOf ''Namespace'',
     EscQ, Txt ''}[1m]) + rate(varnish_main_cache_miss{service='', EscQ, FieldOf ''ServiceName'', EscQ,
     Txt '', pod=~'', EscQ, Txt ''^$varnish_pod$'', EscQ, Txt '', namespace='', EscQ, FieldOf ''Namespace'',
     EscQ, Txt ''}[1m]))'', EscN, Txt ''  )'', EscN, Txt '')'']), (''format'', jstr ''time_series''),
     (''hide'', TBool False), (''interval'', TStr []), (''intervalFactor'', TNum 2),
     (''legendFormat'', TStr []), (''metric'', TStr []), (''refId'', jstr ''A''), (''step'', TNum 1800)]]),
     (''thresholds'', jstr ''0,0,0.1''), (''title'', jstr ''Cache Hit Rate''), (''transparent'', TBool True),
     (''type'', jstr ''singlestat''), (''valueFontSize'', jstr ''70%''),
     (''valueMaps'', TArr [TObj [(''op'', jstr ''=''), (''text'', jstr ''N/A''), (''value'', jstr ''null'')]]),
     (''valueName'', jstr ''current'')]"

definition stat_frontend_requests :: "tjson" where
  "stat_frontend_requests =
     TObj [(''cacheTimeout'', TNull), (''colorBackground'', TBool False), (''colorValue'', TBool False),
     (''colors'', TArr [jstr ''rgba(245, 54, 54, 0.9)'', jstr ''rgba(237, 129, 40, 0.89)'',
     jstr ''rgba(50, 172, 45, 0.97)'']), (''datasource'', TStr [FieldOf ''DatasourceName'']),
     (''decimals'', TNum 1), (''editable'', TBool True), (''error'', TBool False), (''format'', jstr ''none''),
     (''gauge'', TObj [(''maxValue'', TNum 100), (''minValue'', TNum 0), (''show'', TBool False),
     (''thresholdLabels'', TBool False), (''thresholdMarkers'', TBool True)]),
     (''gridPos'', TObj [(''h'', TNum 4), (''w'', TNum 2), (''x'', TNum 2), (''y'', TNum 1)]),
     (''id'', TNum 9), (''interval'', TNull), (''links'', TArr []), (''mappingType'', TNum 1),
     (''mappingTypes'', TArr [TObj [(''name'', jstr ''value to text''), (''value'', TNum 1)],
     TObj [(''name'', jstr ''range to text''), (''value'', TNum 2)]]), (''maxDataPoints'', TNum 100),
     (''nullPointMode'', jstr ''connected''), (''nullText'', TNull), (''options'', TObj []),
     (''postfix'', jstr '' / sec''), (''postfixFontSize'', jstr ''50%''), (''prefix'', TStr []),
     (''prefixFontSize'', jstr ''100%''), (''rangeMaps'', TArr [TObj [(''from'', jstr ''null''),
     (''text'', jstr ''N/A''), (''to'', jstr ''null'')]]),
     (''sparkline'', TObj [(''fillColor'', jstr ''rgba(31, 118, 189, 0.18)''), (''full'', TBool False),
     (''lineColor'', jstr ''rgb(31, 120, 193)''), (''show'', TBool False)]), (''tableColumn'', TStr []),
     (''targets'', TArr [TObj [(''expr'', TStr [Txt ''sum(irate(varnish_main_cache_hit{service='', EscQ,
     FieldOf ''ServiceName'', EscQ, Txt '', pod=~'', EscQ, Txt ''^$varnish_pod$'', EscQ, Txt '', namespace='',
     EscQ, FieldOf ''Namespace'', EscQ, Txt ''}[1m])) + sum(irate(varnish_main_cache_miss{service='', EscQ,
     FieldOf ''ServiceName'', EscQ, Txt '', pod=~'', EscQ, Txt ''^$varnish_pod$'', EscQ, Txt '', namespace='',
     EscQ, FieldOf ''Namespace'', EscQ, Txt ''}[1m]))'']), (''format'', jstr ''time_series''),
     (''hide'', TBool False), (''interval'', jstr ''15s''), (''intervalFactor'', TNum 1),
     (''legendFormat'', TStr []), (''metric'', TStr []), (''refId'', jstr ''A''), (''step'', TNum 900)]]),
     (''thresholds'', TStr []), (''timeFrom'', TNull), (''title'', jstr ''Frontend Requests''),
     (''transparent'', TBool True), (''type'', jstr ''singlestat''), (''valueFontSize'', jstr ''70%''),
     (''valueMaps'', TArr [TObj [(''op'', jstr ''=''), (''text'', jstr ''N/A''), (''value'', jstr ''null'')]]),
     (''valueName'', jstr ''current'')]"

definition stat_sessions :: "tjson" where
  "stat_sessions =
     TObj [(''cacheTimeout'', TNull), (''colorBackground'', TBool False), (''colorValue'', TBool False),
     (''colors'', TArr [jstr ''rgba(245, 54, 54, 0.9)'', jstr ''rgba(237, 129, 40, 0.89)'',
     jstr ''rgba(50, 172, 45, 0.97)'']), (''datasource'', TStr [FieldOf ''DatasourceName'']),
     (''decimals'', TNum 1), (''editable'', TBool True), (''error'', TBool False),
     (''format'', jstr ''short''), (''gauge'', TObj [(''maxValue'', TNum 100), (''minValue'', TNum 0),
     (''show'', TBool False), (''thresholdLabels'', TBool False), (''thresholdMarkers'', TBool True)]),
     (''gridPos'', TObj [(''h'', TNum 4), (''w'', TNum 2), (''x'', TNum 4), (''y'', TNum 1)]),
     (''id'', TNum 11), (''interval'', TNull), (''links'', TArr []), (''mappingType'', TNum 1),
     (''mappingTypes'', TArr [TObj [(''name'', jstr ''value to text''), (''value'', TNum 1)],
     TObj [(''name'', jstr ''range to text''), (''value'', TNum 2)]]), (''maxDataPoints'', TNum 100),
     (''nullPointMode'', jstr ''connected''), (''nullText'', TNull), (''options'', TObj []),
     (''postfix'', jstr '' / sec''), (''postfixFontSize'', jstr ''50%''), (''prefix'', TStr []),
     (''prefixFontSize'', jstr ''50%''), (''rangeMaps'', TArr [TObj [(''from'', jstr ''null''),
     (''text'', jstr ''N/A''), (''to'', jstr ''null'')]]),
     (''sparkline'', TObj [(''fillColor'', jstr ''rgba(31, 118, 189, 0.18)''), (''full'', TBool False),
     (''lineColor'', jstr ''rgb(31, 120, 193)''), (''show'', TBool False)]),
     (''tableColumn'', jstr ''frontend_for''),
     (''targets'', TArr [TObj [(''expr'', TStr [Txt ''sum(irate(varnish_main_sessions_total{service='', EscQ,
     FieldOf ''ServiceName'', EscQ, Txt '', pod=~'', EscQ, Txt ''^$varnish_pod$'', EscQ, Txt '', namespace='',
     EscQ, FieldOf ''Namespace'', EscQ, Txt ''}[1m]))'']), (''format'', jstr ''time_series''),
     (''hide'', TBool False), (''interval'', TStr []), (''intervalFactor'', TNum 1),
     (''legendFormat'', TStr []), (''refId'', jstr ''A''), (''step'', TNum 900)]]), (''thresholds'', TStr []),
     (''title'', jstr ''Sessions''), (''transparent'', TBool True), (''type'', jstr ''singlestat''),
     (''valueFontSize'', jstr ''70%''), (''valueMaps'', TArr [TObj [(''op'', jstr ''=''),
     (''text'', jstr ''N/A''), (''value'', jstr ''null'')]]), (''valueName'', jstr ''current'')]"

definition stat_cache_hit :: "tjson" where
  "stat_cache_hit =
     TObj [(''cacheTimeout'', TNull), (''colorBackground'', TBool False), (''colorValue'', TBool False),
     (''colors'', TArr [jstr ''rgba(245, 54, 54, 0.9)'', jstr ''rgba(237, 129, 40, 0.89)'',
     jstr ''rgba(50, 172, 45, 0.97)'']), (''datasource'', TStr [FieldOf ''DatasourceName'']),
     (''decimals'', TNum 1), (''editable'', TBool True), (''error'', TBool False), (''format'', jstr ''none''),
     (''gauge'', TObj [(''maxValue'', TNum 100), (''minValue'', TNum 0), (''show'', TBool False),
     (''thresholdLabels'', TBool False), (''thresholdMarkers'', TBool True)]),
     (''gridPos'', TObj [(''h'', TNum 4), (''w'', TNum 2), (''x'', TNum 6), (''y'', TNum 1)]),
     (''height'', TStr []), (''id'', TNum 4), (''interval'', TNull), (''links'', TArr []),
     (''mappingType'', TNum 1), (''mappingTypes'', TArr [TObj [(''name'', jstr ''value to text''),
     (''value'', TNum 1)], TObj [(''name'', jstr ''range to text''), (''value'', TNum 2)]]),
     (''maxDataPoints'', TNum 100), (''nullPointMode'', jstr ''connected''), (''nullText'', TNull),
     (''options'', TObj []), (''postfix'', jstr '' / sec''), (''postfixFontSize'', jstr ''50%''),
     (''prefix'', TStr []), (''prefixFontSize'', jstr ''100%''),
     (''rangeMaps'', TArr [TObj [(''from'', jstr ''null''), (''text'', jstr ''N/A''),
     (''to'', jstr ''null'')]]), (''sparkline'', TObj [(''fillColor'', jstr ''rgba(31, 118, 189, 0.18)''),
     (''full'', TBool False), (''lineColor'', jstr ''rgb(31, 120, 193)''), (''show'', TBool False)]),
     (''tableColumn'', TStr []),
     (''targets'', TArr [TObj [(''expr'', TStr [Txt ''sum(irate(varnish_main_cache_hit{service='', EscQ,
     FieldOf ''ServiceName'', EscQ, Txt '', pod=~'', EscQ, Txt ''^$varnish_pod$'', EscQ, Txt '', namespace='',
     EscQ, FieldOf ''Namespace'', EscQ, Txt ''}[1m]))'']), (''format'', jstr ''time_series''),
     (''interval'', jstr ''15s''), (''intervalFactor'', TNum 1), (''legendFormat'', TStr []),
     (''metric'', jstr ''varnish_main_backend_req''), (''refId'', jstr ''A''), (''step'', TNum 900)]]),
     (''thresholds'', TStr []), (''title'', jstr ''Cache Hit''), (''transparent'', TBool True),
     (''type'', jstr ''singlestat''), (''valueFontSize'', jstr ''70%''),
     (''valueMaps'', TArr [TObj [(''op'', jstr ''=''), (''text'', jstr ''N/A''), (''value'', jstr ''null'')]]),
     (''valueName'', jstr ''current'')]"

definition stat_loaded_vmods :: "tjson" where
  "stat_loaded_vmods =
     TObj [(''cacheTimeout'', TNull), (''colorBackground'', TBool False), (''colorValue'', TBool False),
     (''colors'', TArr [jstr ''rgba(245, 54, 54, 0.9)'', jstr ''rgba(237, 129, 40, 0.89)'',
     jstr ''rgba(50, 172, 45, 0.97)'']), (''datasource'', TStr [FieldOf ''DatasourceName'']),
     (''format'', jstr ''none''), (''gauge'', TObj [(''maxValue'', TNum 100), (''minValue'', TNum 0),
     (''show'', TBool False), (''thresholdLabels'', TBool False), (''thresholdMarkers'', TBool True)]),
     (''gridPos'', TObj [(''h'', TNum 4), (''w'', TNum 2), (''x'', TNum 8), (''y'', TNum 1)]),
     (''id'', TNum 16), (''interval'', TNull), (''links'', TArr []), (''mappingType'', TNum 1),
     (''mappingTypes'', TArr [TObj [(''name'', jstr ''value to text''), (''value'', TNum 1)],
     TObj [(''name'', jstr ''range to text''), (''value'', TNum 2)]]), (''maxDataPoints'', TNum 100),
     (''nullPointMode'', jstr ''connected''), (''nullText'', TNull), (''options'', TObj []),
     (''postfix'', TStr []), (''postfixFontSize'', jstr ''50%''), (''prefix'', TStr []),
     (''prefixFontSize'', jstr ''50%''), (''rangeMaps'', TArr [TObj [(''from'', jstr ''null''),
     (''text'', jstr ''N/A''), (''to'', jstr ''null'')]]),
     (''sparkline'', TObj [(''fillColor'', jstr ''rgba(31, 118, 189, 0.18)''), (''full'', TBool False),
     (''lineColor'', jstr ''rgb(31, 120, 193)''), (''show'', TBool False)]), (''tableColumn'', TStr []),
     (''targets'', TArr [TObj [(''expr'', TStr [Txt ''max(varnish_main_vmods{service='', EscQ,
     FieldOf ''ServiceName'', EscQ, Txt '', pod=~'', EscQ, Txt ''^$varnish_pod$'', EscQ, Txt '', namespace='',
     EscQ, FieldOf ''Namespace'', EscQ, Txt ''})'']), (''format'', jstr ''time_series''),
     (''interval'', TStr []), (''intervalFactor'', TNum 2), (''legendFormat'', TStr []),
     (''refId'', jstr ''A''), (''step'', TNum 1800)]]), (''thresholds'', TStr []),
     (''title'', jstr ''Loaded VMODs''), (''transparent'', TBool True), (''type'', jstr ''singlestat''),
     (''valueFontSize'', jstr ''70%''), (''valueMaps'', TArr [TObj [(''op'', jstr ''=''),
     (''text'', jstr ''N/A''), (''value'', jstr ''null'')]]), (''valueName'', jstr ''avg'')]"

definition stat_uptime :: "tjson" where
  "stat_uptime =
     TObj [(''cacheTimeout'', TNull), (''colorBackground'', TBool False), (''colorValue'', TBool True),
     (''colors'', TArr [jstr ''rgba(245, 54, 54, 0.9)'', jstr ''rgb(96, 96, 96)'',
     jstr ''rgba(50, 172, 45, 0.97)'']), (''datasource'', TStr [FieldOf ''DatasourceName'']),
     (''decimals'', TNull), (''editable'', TBool True), (''error'', TBool False),
     (''format'', jstr ''dtdurations''), (''gauge'', TObj [(''maxValue'', TNum 100), (''minValue'', TNum 0),
     (''show'', TBool False), (''thresholdLabels'', TBool False), (''thresholdMarkers'', TBool True)]),
     (''gridPos'', TObj [(''h'', TNum 4), (''w'', TNum 2), (''x'', TNum 10), (''y'', TNum 1)]),
     (''id'', TNum 18), (''interval'', TNull), (''links'', TArr []), (''mappingType'', TNum 1),
     (''mappingTypes'', TArr [TObj [(''name'', jstr ''value to text''), (''value'', TNum 1)],
     TObj [(''name'', jstr ''range to text''), (''value'', TNum 2)]]), (''maxDataPoints'', TNum 100),
     (''nullPointMode'', jstr ''connected''), (''nullText'', TNull), (''options'', TObj []),
     (''postfix'', TStr []), (''postfixFontSize'', jstr ''50%''), (''prefix'', TStr []),
     (''prefixFontSize'', jstr ''50%''), (''rangeMaps'', TArr [TObj [(''from'', jstr ''null''),
     (''text'', jstr ''N/A''), (''to'', jstr ''null'')]]),
     (''sparkline'', TObj [(''fillColor'', jstr ''rgba(31, 118, 189, 0.18)''), (''full'', TBool False),
     (''lineColor'', jstr ''rgb(31, 120, 193)''), (''show'', TBool False)]),
     (''tableColumn'', jstr ''__name__''),
     (''targets'', TArr [TObj [(''expr'', TStr [Txt ''min(varnish_main_uptime{service='', EscQ,
     FieldOf ''ServiceName'', EscQ, Txt '', pod=~'', EscQ, Txt ''^$varnish_pod$'', EscQ, Txt '', namespace='',
     EscQ, FieldOf ''Namespace'', EscQ, Txt ''})'']), (''format'', jstr ''time_series''),
     (''intervalFactor'', TNum 2), (''legendFormat'', TStr []), (''refId'', jstr ''A''),
     (''step'', TNum 1800)]]), (''thresholds'', TStr []), (''title'', jstr ''Uptime''),
     (''transparent'', TBool True), (''type'', jstr ''singlestat''), (''valueFontSize'', jstr ''50%''),
     (''valueMaps'', TArr [TObj [(''op'', jstr ''=''), (''text'', jstr ''N/A''), (''value'', jstr ''null'')]]),
     (''valueName'', jstr ''current'')]"

definition stat_version :: "tjson" where
  "stat_version =
     TObj [(''cacheTimeout'', TNull), (''colorBackground'', TBool False), (''colorValue'', TBool True),
     (''colors'', TArr [jstr ''rgba(245, 54, 54, 0.9)'', jstr ''rgb(96, 96, 96)'',
     jstr ''rgba(50, 172, 45, 0.97)'']), (''datasource'', TStr [FieldOf ''DatasourceName'']),
     (''decimals'', TNull), (''editable'', TBool True), (''error'', TBool False),
     (''format'', jstr ''dtdurations''), (''gauge'', TObj [(''maxValue'', TNum 100), (''minValue'', TNum 0),
     (''show'', TBool False), (''thresholdLabels'', TBool False), (''thresholdMarkers'', TBool True)]),
     (''gridPos'', TObj [(''h'', TNum 4), (''w'', TNum 2), (''x'', TNum 12), (''y'', TNum 1)]),
     (''id'', TNum 10), (''interval'', TNull), (''links'', TArr []), (''mappingType'', TNum 1),
     (''mappingTypes'', TArr [TObj [(''name'', jstr ''value to text''), (''value'', TNum 1)],
     TObj [(''name'', jstr ''range to text''), (''value'', TNum 2)]]), (''maxDataPoints'', TNum 100),
     (''nullPointMode'', jstr ''connected''), (''nullText'', TNull), (''options'', TObj []),
     (''postfix'', TStr []), (''postfixFontSize'', jstr ''50%''), (''prefix'', TStr []),
     (''prefixFontSize'', jstr ''50%''), (''rangeMaps'', TArr [TObj [(''from'', jstr ''null''),
     (''text'', jstr ''N/A''), (''to'', jstr ''null'')]]),
     (''sparkline'', TObj [(''fillColor'', jstr ''rgba(31, 118, 189, 0.18)''), (''full'', TBool False),
     (''lineColor'', jstr ''rgb(31, 120, 193)''), (''show'', TBool False)]),
     (''tableColumn'', jstr ''version''),
     (''targets'', TArr [TObj [(''expr'', TStr [Txt ''varnish_version{service='', EscQ,
     FieldOf ''ServiceName'', EscQ, Txt '', pod=~'', EscQ, Txt ''^$varnish_pod$'', EscQ, Txt '', namespace='',
     EscQ, FieldOf ''Namespace'', EscQ, Txt ''}'']), (''format'', jstr ''table''),
     (''intervalFactor'', TNum 2), (''legendFormat'', TStr []), (''refId'', jstr ''A''),
     (''step'', TNum 1800)]]), (''thresholds'', TStr []), (''title'', jstr ''Version''),
     (''transparent'', TBool True), (''type'', jstr ''singlestat''), (''valueFontSize'', jstr ''50%''),
     (''valueMaps'', TArr [TObj [(''op'', jstr ''=''), (''text'', jstr ''N/A''), (''value'', jstr ''null'')]]),
     (''valueName'', jstr ''current'')]"

subsection \<open>Varnish requests\<close>

definition row_varnish_requests :: "tjson" where
  "row_varnish_requests =
     TObj [(''collapsed'', TBool False), (''gridPos'', TObj [(''h'', TNum 1), (''w'', TNum 24),
     (''x'', TNum 0), (''y'', TNum 5)]), (''id'', TNum 91), (''panels'', TArr []),
     (''title'', jstr ''Varnish requests''), (''type'', jstr ''row'')]"

definition graph_varnish_overall_req_sec :: "tjson" where
  "graph_varnish_overall_req_sec =
     TObj [(''aliasColors'', TObj []), (''bars'', TBool False), (''dashLength'', TNum 10),
     (''dashes'', TBool False), (''datasource'', TStr [FieldOf ''DatasourceName'']), (''fill'', TNum 1),
     (''gridPos'', TObj [(''h'', TNum 5), (''w'', TNum 8), (''x'', TNum 0), (''y'', TNum 6)]),
     (''id'', TNum 27), (''legend'', TObj [(''avg'', TBool False), (''current'', TBool False),
     (''max'', TBool False), (''min'', TBool False), (''show'', TBool True), (''total'', TBool False),
     (''values'', TBool False)]), (''lines'', TBool True), (''linewidth'', TNum 1), (''links'', TArr []),
     (''nullPointMode'', jstr ''null''), (''options'', TObj []), (''paceLength'', TNum 10),
     (''percentage'', TBool False), (''pointradius'', TNum 5), (''points'', TBool False),
     (''renderer'', jstr ''flot''), (''seriesOverrides'', TArr []), (''spaceLength'', TNum 10),
     (''stack'', TBool False), (''steppedLine'', TBool False),
     (''targets'', TArr [TObj [(''expr'', TStr [Txt ''sum(irate(varnish_main_cache_hit{ service='', EscQ,
     FieldOf ''ServiceName'', EscQ, Txt '', namespace='', EscQ, FieldOf ''Namespace'', EscQ,
     Txt '' }[1m])) + sum(irate(varnish_main_cache_miss{ service='', EscQ, FieldOf ''ServiceName'', EscQ,
     Txt '', namespace='', EscQ, FieldOf ''Namespace'', EscQ, Txt '' }[1m]))'']),
     (''format'', jstr ''time_series''), (''hide'', TBool False), (''intervalFactor'', TNum 1),
     (''legendFormat'', jstr ''requests''), (''refId'', jstr ''A'')]]), (''thresholds'', TArr []),
     (''timeFrom'', TNull), (''timeRegions'', TArr []), (''timeShift'', TNull),
     (''title'', jstr ''Varnish Overall Req/sec''), (''tooltip'', TObj [(''shared'', TBool True),
     (''sort'', TNum 0), (''value_type'', jstr ''individual'')]), (''type'', jstr ''graph''),
     (''xaxis'', TObj [(''buckets'', TNull), (''mode'', jstr ''time''), (''name'', TNull),
     (''show'', TBool True), (''values'', TArr [])]), (''yaxes'', TArr [TObj [(''decimals'', TNum 0),
     (''format'', jstr ''short''), (''label'', TNull), (''logBase'', TNum 1), (''max'', TNull),
     (''min'', jstr ''0''), (''show'', TBool True)], TObj [(''format'', jstr ''short''), (''label'', TNull),
     (''logBase'', TNum 1), (''max'', TNull), (''min'', TNull), (''show'', TBool True)]]),
     (''yaxis'', TObj [(''align'', TBool False), (''alignLevel'', TNull)])]"

definition graph_cache_hit_miss_reqs_sec :: "tjson" where
  "graph_cache_hit_miss_reqs_sec =
     TObj [(''aliasColors'', TObj []), (''bars'', TBool False), (''dashLength'', TNum 10),
     (''dashes'', TBool False), (''datasource'', TStr [FieldOf ''DatasourceName'']), (''fill'', TNum 5),
     (''gridPos'', TObj [(''h'', TNum 5), (''w'', TNum 8), (''x'', TNum 8), (''y'', TNum 6)]),
     (''id'', TNum 29), (''legend'', TObj [(''avg'', TBool False), (''current'', TBool False),
     (''max'', TBool False), (''min'', TBool False), (''show'', TBool True), (''total'', TBool False),
     (''values'', TBool False)]), (''lines'', TBool True), (''linewidth'', TNum 0), (''links'', TArr []),
     (''nullPointMode'', jstr ''null''), (''options'', TObj []), (''paceLength'', TNum 10),
     (''percentage'', TBool False), (''pointradius'', TNum 5), (''points'', TBool False),
     (''renderer'', jstr ''flot''), (''seriesOverrides'', TArr []), (''spaceLength'', TNum 10),
     (''stack'', TBool True), (''steppedLine'', TBool False),
     (''targets'', TArr [TObj [(''expr'', TStr [Txt ''sum(irate(varnish_main_cache_hit{ service='', EscQ,
     FieldOf ''ServiceName'', EscQ, Txt '', namespace='', EscQ, FieldOf ''Namespace'', EscQ,
     Txt '' }[1m]))'']), (''format'', jstr ''time_series''), (''intervalFactor'', TNum 1),
     (''legendFormat'', jstr ''cache hits''), (''refId'', jstr ''A'')],
     TObj [(''expr'', TStr [Txt ''sum(irate(varnish_main_cache_miss{ service='', EscQ, FieldOf ''ServiceName'',
     EscQ, Txt '', namespace='', EscQ, FieldOf ''Namespace'', EscQ, Txt '' }[1m]))'']),
     (''format'', jstr ''time_series''), (''intervalFactor'', TNum 1),
     (''legendFormat'', jstr ''cache misses''), (''refId'', jstr ''B'')]]), (''thresholds'', TArr []),
     (''timeFrom'', TNull), (''timeRegions'', TArr []), (''timeShift'', TNull),
     (''title'', jstr ''Cache Hit/Miss Reqs/sec''), (''tooltip'', TObj [(''shared'', TBool True),
     (''sort'', TNum 0), (''value_type'', jstr ''individual'')]), (''type'', jstr ''graph''),
     (''xaxis'', TObj [(''buckets'', TNull), (''mode'', jstr ''time''), (''name'', TNull),
     (''show'', TBool True), (''values'', TArr [])]), (''yaxes'', TArr [TObj [(''decimals'', TNum 0),
     (''format'', jstr ''reqps''), (''label'', TNull), (''logBase'', TNum 1), (''max'', TNull),
     (''min'', jstr ''0''), (''show'', TBool True)], TObj [(''format'', jstr ''short''), (''label'', TNull),
     (''logBase'', TNum 1), (''max'', TNull), (''min'', TNull), (''show'', TBool True)]]),
     (''yaxis'', TObj [(''align'', TBool False), (''alignLevel'', TNull)])]"

definition graph_queued_requests_sec :: "tjson" where
  "graph_queued_requests_sec =
     TObj [(''aliasColors'', TObj []), (''bars'', TBool False), (''dashLength'', TNum 10),
     (''dashes'', TBool False), (''datasource'', TStr [FieldOf ''DatasourceName'']), (''fill'', TNum 1),
     (''gridPos'', TObj [(''h'', TNum 5), (''w'', TNum 8), (''x'', TNum 16), (''y'', TNum 6)]),
     (''id'', TNum 41), (''legend'', TObj [(''avg'', TBool False), (''current'', TBool False),
     (''max'', TBool False), (''min'', TBool False), (''show'', TBool True), (''total'', TBool False),
     (''values'', TBool False)]), (''lines'', TBool True), (''linewidth'', TNum 1), (''links'', TArr []),
     (''nullPointMode'', jstr ''null''), (''options'', TObj []), (''paceLength'', TNum 10),
     (''percentage'', TBool False), (''pointradius'', TNum 5), (''points'', TBool False),
     (''renderer'', jstr ''flot''), (''seriesOverrides'', TArr []), (''spaceLength'', TNum 10),
     (''stack'', TBool False), (''steppedLine'', TBool False),
     (''targets'', TArr [TObj [(''expr'', TStr [Txt ''sum(irate(varnish_main_thread_queue_len{ service='',
     EscQ, FieldOf ''ServiceName'', EscQ, Txt '', namespace='', EscQ, FieldOf ''Namespace'', EscQ,
     Txt '' }[1m]))'']), (''format'', jstr ''time_series''), (''intervalFactor'', TNum 1),
     (''legendFormat'', jstr ''queued requests''), (''refId'', jstr ''A'')]]), (''thresholds'', TArr []),
     (''timeFrom'', TNull), (''timeRegions'', TArr []), (''timeShift'', TNull),
     (''title'', jstr ''Queued Requests/sec''), (''tooltip'', TObj [(''shared'', TBool True),
     (''sort'', TNum 0), (''value_type'', jstr ''individual'')]), (''type'', jstr ''graph''),
     (''xaxis'', TObj [(''buckets'', TNull), (''mode'', jstr ''time''), (''name'', TNull),
     (''show'', TBool True), (''values'', TArr [])]), (''yaxes'', TArr [TObj [(''decimals'', TNum 0),
     (''format'', jstr ''none''), (''label'', TNull), (''logBase'', TNum 1), (''max'', TNull),
     (''min'', jstr ''0''), (''show'', TBool True)], TObj [(''format'', jstr ''short''), (''label'', TNull),
     (''logBase'', TNum 1), (''max'', TNull), (''min'', TNull), (''show'', TBool True)]]),
     (''yaxis'', TObj [(''align'', TBool False), (''alignLevel'', TNull)])]"

definition graph_cache_hit_rate :: "tjson" where
  "graph_cache_hit_rate =
     TObj [(''aliasColors'', TObj []), (''bars'', TBool False), (''dashLength'', TNum 10),
     (''dashes'', TBool False), (''datasource'', TStr [FieldOf ''DatasourceName'']), (''fill'', TNum 6),
     (''gridPos'', TObj [(''h'', TNum 5), (''w'', TNum 8), (''x'', TNum 0), (''y'', TNum 11)]),
     (''id'', TNum 14), (''legend'', TObj [(''alignAsTable'', TBool True), (''avg'', TBool True),
     (''current'', TBool False), (''hideEmpty'', TBool False), (''hideZero'', TBool False),
     (''max'', TBool True), (''min'', TBool True), (''rightSide'', TBool False), (''show'', TBool True),
     (''total'', TBool False), (''values'', TBool True)]), (''lines'', TBool True), (''linewidth'', TNum 0),
     (''links'', TArr []), (''nullPointMode'', jstr ''connected''), (''options'', TObj []),
     (''paceLength'', TNum 10), (''percentage'', TBool False), (''pointradius'', TNum 5),
     (''points'', TBool False), (''renderer'', jstr ''flot''),
     (''seriesOverrides'', TArr [TObj [(''alias'', jstr ''/.*miss/''), (''color'', jstr ''#890F02'')],
     TObj [(''alias'', jstr ''/.*hit/''), (''color'', jstr ''#508642'')]]), (''spaceLength'', TNum 10),
     (''stack'', TBool True), (''steppedLine'', TBool True),
     (''targets'', TArr [TObj [(''expr'', TStr [Txt ''avg(rate(varnish_main_cache_hit{service='', EscQ,
     FieldOf ''ServiceName'', EscQ, Txt '', pod=~'', EscQ, Txt ''^$varnish_pod$'', EscQ, Txt '', namespace='',
     EscQ, FieldOf ''Namespace'', EscQ, Txt ''}[1m]) / (rate(varnish_main_cache_miss{service='', EscQ,
     FieldOf ''ServiceName'', EscQ, Txt '', pod=~'', EscQ, Txt ''^$varnish_pod$'', EscQ, Txt '', namespace='',
     EscQ, FieldOf ''Namespace'', EscQ, Txt ''}[1m])+rate(varnish_main_cache_hit{service='', EscQ,
     FieldOf ''ServiceName'', EscQ, Txt '', pod=~'', EscQ, Txt ''^$varnish_pod$'', EscQ, Txt '', namespace='',
     EscQ, FieldOf ''Namespace'', EscQ, Txt ''}[1m])))'']), (''format'', jstr ''time_series''),
     (''hide'', TBool False), (''interval'', TStr []), (''intervalFactor'', TNum 2),
     (''legendFormat'', jstr ''cache hit %''), (''refId'', jstr ''A''), (''step'', TNum 240)],
     TObj [(''expr'', TStr [Txt ''avg(1 - (rate(varnish_main_cache_hit{service='', EscQ,
     FieldOf ''ServiceName'', EscQ, Txt '', pod=~'', EscQ, Txt ''^$varnish_pod$'', EscQ, Txt '', namespace='',
     EscQ, FieldOf ''Namespace'', EscQ, Txt ''}[1m]) / (rate(varnish_main_cache_miss{service='', EscQ,
     FieldOf ''ServiceName'', EscQ, Txt '', pod=~'', EscQ, Txt ''^$varnish_pod$'', EscQ, Txt '', namespace='',
     EscQ, FieldOf ''Namespace'', EscQ, Txt ''}[1m])+rate(varnish_main_cache_hit{service='', EscQ,
     FieldOf ''ServiceName'', EscQ, Txt '', pod=~'', EscQ, Txt ''^$varnish_pod$'', EscQ, Txt '', namespace='',
     EscQ, FieldOf ''Namespace'', EscQ, Txt ''}[1m]))))'']), (''format'', jstr ''time_series''),
     (''hide'', TBool False), (''interval'', TStr []), (''intervalFactor'', TNum 2),
     (''legendFormat'', jstr ''cache miss %''), (''refId'', jstr ''B''), (''step'', TNum 240)]]),
     (''thresholds'', TArr []), (''timeFrom'', TNull), (''timeRegions'', TArr []), (''timeShift'', TNull),
     (''title'', jstr ''Cache hit rate''), (''tooltip'', TObj [(''shared'', TBool True), (''sort'', TNum 0),
     (''value_type'', jstr ''individual'')]), (''type'', jstr ''graph''),
     (''xaxis'', TObj [(''buckets'', TNull), (''mode'', jstr ''time''), (''name'', TNull),
     (''show'', TBool True), (''values'', TArr [])]),
     (''yaxes'', TArr [TObj [(''format'', jstr ''percentunit''), (''label'', TStr []), (''logBase'', TNum 1),
     (''max'', jstr ''1''), (''min'', jstr ''0''), (''show'', TBool True)], TObj [(''format'', jstr ''short''),
     (''label'', TNull), (''logBase'', TNum 1), (''max'', TNull), (''min'', TNull), (''show'', TBool False)]]),
     (''yaxis'', TObj [(''align'', TBool False), (''alignLevel'', TNull)])]"

definition graph_cache_pass_reqs_sec :: "tjson" where
  "graph_cache_pass_reqs_sec =
     TObj [(''aliasColors'', TObj []), (''bars'', TBool False), (''dashLength'', TNum 10),
     (''dashes'', TBool False), (''datasource'', TStr [FieldOf ''DatasourceName'']), (''fill'', TNum 1),
     (''gridPos'', TObj [(''h'', TNum 5), (''w'', TNum 8), (''x'', TNum 8), (''y'', TNum 11)]),
     (''id'', TNum 31), (''legend'', TObj [(''avg'', TBool False), (''current'', TBool False),
     (''max'', TBool False), (''min'', TBool False), (''show'', TBool True), (''total'', TBool False),
     (''values'', TBool False)]), (''lines'', TBool True), (''linewidth'', TNum 1), (''links'', TArr []),
     (''nullPointMode'', jstr ''null''), (''options'', TObj []), (''paceLength'', TNum 10),
     (''percentage'', TBool False), (''pointradius'', TNum 5), (''points'', TBool False),
     (''renderer'', jstr ''flot''), (''seriesOverrides'', TArr []), (''spaceLength'', TNum 10),
     (''stack'', TBool False), (''steppedLine'', TBool False),
     (''targets'', TArr [TObj [(''expr'', TStr [Txt ''sum(irate(varnish_main_cache_hitpass{ service='', EscQ,
     FieldOf ''ServiceName'', EscQ, Txt '', namespace='', EscQ, FieldOf ''Namespace'', EscQ,
     Txt '' }[1m]))'']), (''format'', jstr ''time_series''), (''hide'', TBool True),
     (''intervalFactor'', TNum 1), (''legendFormat'', jstr ''passes''), (''refId'', jstr ''A'')]]),
     (''thresholds'', TArr []), (''timeFrom'', TNull), (''timeRegions'', TArr []), (''timeShift'', TNull),
     (''title'', jstr ''Cache Pass Reqs/sec''), (''tooltip'', TObj [(''shared'', TBool True),
     (''sort'', TNum 0), (''value_type'', jstr ''individual'')]), (''type'', jstr ''graph''),
     (''xaxis'', TObj [(''buckets'', TNull), (''mode'', jstr ''time''), (''name'', TNull),
     (''show'', TBool True), (''values'', TArr [])]), (''yaxes'', TArr [TObj [(''decimals'', TNum 0),
     (''format'', jstr ''none''), (''label'', TStr []), (''logBase'', TNum 1), (''max'', TNull),
     (''min'', jstr ''0''), (''show'', TBool True)], TObj [(''format'', jstr ''short''), (''label'', TNull),
     (''logBase'', TNum 1), (''max'', TNull), (''min'', TNull), (''show'', TBool True)]]),
     (''yaxis'', TObj [(''align'', TBool False), (''alignLevel'', TNull)])]"

definition graph_dropped_requests_sec :: "tjson" where
  "graph_dropped_requests_sec =
     TObj [(''aliasColors'', TObj []), (''bars'', TBool False), (''dashLength'', TNum 10),
     (''dashes'', TBool False), (''datasource'', TStr [FieldOf ''DatasourceName'']), (''fill'', TNum 1),
     (''gridPos'', TObj [(''h'', TNum 5), (''w'', TNum 8), (''x'', TNum 16), (''y'', TNum 11)]),
     (''id'', TNum 39), (''legend'', TObj [(''avg'', TBool False), (''current'', TBool False),
     (''max'', TBool False), (''min'', TBool False), (''show'', TBool True), (''total'', TBool False),
     (''values'', TBool False)]), (''lines'', TBool True), (''linewidth'', TNum 1), (''links'', TArr []),
     (''nullPointMode'', jstr ''null''), (''options'', TObj []), (''paceLength'', TNum 10),
     (''percentage'', TBool False), (''pointradius'', TNum 5), (''points'', TBool False),
     (''renderer'', jstr ''flot''), (''seriesOverrides'', TArr []), (''spaceLength'', TNum 10),
     (''stack'', TBool False), (''steppedLine'', TBool False),
     (''targets'', TArr [TObj [(''expr'', TStr [Txt ''sum(irate(varnish_main_req_dropped{ service='', EscQ,
     FieldOf ''ServiceName'', EscQ, Txt '', namespace='', EscQ, FieldOf ''Namespace'', EscQ,
     Txt '' }[1m]))'']), (''format'', jstr ''time_series''), (''instant'', TBool False),
     (''intervalFactor'', TNum 1), (''legendFormat'', jstr ''dropped''), (''refId'', jstr ''A'')]]),
     (''thresholds'', TArr []), (''timeFrom'', TNull), (''timeRegions'', TArr []), (''timeShift'', TNull),
     (''title'', jstr ''Dropped Requests/sec''), (''tooltip'', TObj [(''shared'', TBool True),
     (''sort'', TNum 0), (''value_type'', jstr ''individual'')]), (''type'', jstr ''graph''),
     (''xaxis'', TObj [(''buckets'', TNull), (''mode'', jstr ''time''), (''name'', TNull),
     (''show'', TBool True), (''values'', TArr [])]), (''yaxes'', TArr [TObj [(''decimals'', TNum 0),
     (''format'', jstr ''none''), (''label'', TNull), (''logBase'', TNum 1), (''max'', TNull),
     (''min'', jstr ''0''), (''show'', TBool True)], TObj [(''format'', jstr ''short''), (''label'', TNull),
     (''logBase'', TNum 1), (''max'', TNull), (''min'', TNull), (''show'', TBool True)]]),
     (''yaxis'', TObj [(''align'', TBool False), (''alignLevel'', TNull)])]"

end
