(* ===== verification/DashboardGraphs.thy ===== *)
theory DashboardGraphs
  imports DashboardPanels
begin

text \<open>
  The graphs of the memory and of the internals of Varnish, and the dashboard that has all panels.
\<close>

subsection \<open>Varnish memory\<close>

definition row_varnish_memory :: "tjson" where
  "row_varnish_memory =
     TObj [(''collapsed'', TBool False), (''gridPos'', TObj [(''h'', TNum 1), (''w'', TNum 24),
     (''x'', TNum 0), (''y'', TNum 16)]), (''id'', TNum 21), (''panels'', TArr []), (''repeat'', TNull),
     (''title'', jstr ''Varnish memory''), (''type'', jstr ''row'')]"

definition graph_memory :: "tjson" where
  "graph_memory =
     TObj [(''aliasColors'', TObj []), (''bars'', TBool False), (''dashLength'', TNum 10),
     (''dashes'', TBool False), (''datasource'', TStr [FieldOf ''DatasourceName'']), (''fill'', TNum 1),
     (''gridPos'', TObj [(''h'', TNum 5), (''w'', TNum 8), (''x'', TNum 0), (''y'', TNum 17)]),
     (''id'', TNum 43), (''legend'', TObj [(''avg'', TBool False), (''current'', TBool False),
     (''max'', TBool False), (''min'', TBool False), (''show'', TBool True), (''total'', TBool False),
     (''values'', TBool False)]), (''lines'', TBool True), (''linewidth'', TNum 1), (''links'', TArr []),
     (''nullPointMode'', jstr ''null''), (''options'', TObj []), (''paceLength'', TNum 10),
     (''percentage'', TBool False), (''pointradius'', TNum 5), (''points'', TBool False),
     (''renderer'', jstr ''flot''), (''seriesOverrides'', TArr []), (''spaceLength'', TNum 10),
     (''stack'', TBool False), (''steppedLine'', TBool False),
     (''targets'', TArr [TObj [(''expr'', TStr [Txt ''varnish_sma_g_bytes{service='', EscQ,
     FieldOf ''ServiceName'', EscQ, Txt '', type='', EscQ, Txt ''s0'', EscQ, Txt '', namespace='', EscQ,
     FieldOf ''Namespace'', EscQ, Txt ''}'']), (''format'', jstr ''time_series''),
     (''intervalFactor'', TNum 1), (''legendFormat'', TStr [Constant ''{{pod}}'']), (''refId'', jstr ''A'')]]),
     (''thresholds'', TArr []), (''timeFrom'', TNull), (''timeRegions'', TArr []), (''timeShift'', TNull),
     (''title'', jstr ''Memory''), (''tooltip'', TObj [(''shared'', TBool True), (''sort'', TNum 0),
     (''value_type'', jstr ''individual'')]), (''type'', jstr ''graph''),
     (''xaxis'', TObj [(''buckets'', TNull), (''mode'', jstr ''time''), (''name'', TNull),
     (''show'', TBool True), (''values'', TArr [])]), (''yaxes'', TArr [TObj [(''format'', jstr ''bytes''),
     (''label'', TNull), (''logBase'', TNum 1), (''max'', TNull), (''min'', jstr ''0''),
     (''show'', TBool True)], TObj [(''format'', jstr ''short''), (''label'', TNull), (''logBase'', TNum 1),
     (''max'', TNull), (''min'', TNull), (''show'', TBool True)]]), (''yaxis'', TObj [(''align'', TBool False),
     (''alignLevel'', TNull)])]"

definition graph_cache :: "tjson" where
  "graph_cache =
     TObj [(''aliasColors'', TObj []), (''bars'', TBool False), (''dashLength'', TNum 10),
     (''dashes'', TBool False), (''datasource'', TStr [FieldOf ''DatasourceName'']), (''decimals'', TNum 2),
     (''editable'', TBool True), (''error'', TBool False), (''fill'', TNum 4), (''grid'', TObj []),
     (''gridPos'', TObj [(''h'', TNum 10), (''w'', TNum 8), (''x'', TNum 8), (''y'', TNum 17)]),
     (''hideTimeOverride'', TBool False), (''id'', TNum 13), (''legend'', TObj [(''alignAsTable'', TBool True),
     (''avg'', TBool False), (''current'', TBool True), (''hideZero'', TBool False), (''max'', TBool True),
     (''min'', TBool True), (''rightSide'', TBool False), (''show'', TBool True), (''sort'', TNull),
     (''sortDesc'', TNull), (''total'', TBool True), (''values'', TBool True)]), (''lines'', TBool True),
     (''linewidth'', TNum 1), (''links'', TArr []), (''nullPointMode'', jstr ''connected''),
     (''options'', TObj []), (''paceLength'', TNum 10), (''percentage'', TBool False),
     (''pointradius'', TNum 5), (''points'', TBool False), (''renderer'', jstr ''flot''),
     (''seriesOverrides'', TArr [TObj [(''alias'', jstr ''/.*expired/''), (''color'', jstr ''#82B5D8'')],
     TObj [(''alias'', jstr ''/.*LRU moved/''), (''color'', jstr ''#F9E2D2'')],
     TObj [(''alias'', jstr ''/.*LRU nuked/''), (''color'', jstr ''#BF1B00'')],
     TObj [(''alias'', jstr ''/.*mem /''), (''color'', jstr ''#BA43A9''), (''fill'', TNum 0),
     (''yaxis'', TNum 2)]]), (''spaceLength'', TNum 10), (''stack'', TBool False),
     (''steppedLine'', TBool False),
     (''targets'', TArr [TObj [(''expr'', TStr [Txt ''sum(irate(varnish_main_n_expired{service='', EscQ,
     FieldOf ''ServiceName'', EscQ, Txt '', pod=~'', EscQ, Txt ''^$varnish_pod$'', EscQ, Txt '', namespace='',
     EscQ, FieldOf ''Namespace'', EscQ, Txt ''}[1m]))'']), (''format'', jstr ''time_series''),
     (''interval'', TStr []), (''intervalFactor'', TNum 2), (''legendFormat'', jstr ''expired''),
     (''metric'', jstr ''varnish_main_n_object''), (''refId'', jstr ''A''), (''step'', TNum 240)],
     TObj [(''expr'', TStr [Txt ''sum(irate(varnish_main_n_lru_moved{service='', EscQ, FieldOf ''ServiceName'',
     EscQ, Txt '', pod=~'', EscQ, Txt ''^$varnish_pod$'', EscQ, Txt '', namespace='', EscQ,
     FieldOf ''Namespace'', EscQ, Txt ''}[1m]))'']), (''format'', jstr ''time_series''),
     (''interval'', TStr []), (''intervalFactor'', TNum 2), (''legendFormat'', jstr ''LRU moved''),
     (''refId'', jstr ''C''), (''step'', TNum 240)],
     TObj [(''expr'', TStr [Txt ''sum(irate(varnish_main_n_lru_nuked{service='', EscQ, FieldOf ''ServiceName'',
     EscQ, Txt '', pod=~'', EscQ, Txt ''^$varnish_pod$'', EscQ, Txt '', namespace='', EscQ,
     FieldOf ''Namespace'', EscQ, Txt ''}[1m]))'']), (''format'', jstr ''time_series''),
     (''interval'', TStr []), (''intervalFactor'', TNum 2), (''legendFormat'', jstr ''LRU nuked''),
     (''refId'', jstr ''B''), (''step'', TNum 240)],
     TObj [(''expr'', TStr [Txt ''sum(varnish_sma_g_bytes{service='', EscQ, FieldOf ''ServiceName'', EscQ,
     Txt '', type='', EscQ, Txt ''s0'', EscQ, Txt '', pod=~'', EscQ, Txt ''^$varnish_pod$'', EscQ,
     Txt '', namespace='', EscQ, FieldOf ''Namespace'', EscQ, Txt ''})'']), (''format'', jstr ''time_series''),
     (''intervalFactor'', TNum 2), (''legendFormat'', jstr ''mem used''), (''metric'', TStr []),
     (''refId'', jstr ''E''), (''step'', TNum 240)]]), (''thresholds'', TArr []), (''timeFrom'', TNull),
     (''timeRegions'', TArr []), (''timeShift'', TNull), (''title'', jstr ''Cache''),
     (''tooltip'', TObj [(''shared'', TBool True), (''sort'', TNum 0), (''value_type'', jstr ''cumulative'')]),
     (''type'', jstr ''graph''), (''xaxis'', TObj [(''buckets'', TNull), (''mode'', jstr ''time''),
     (''name'', TNull), (''show'', TBool True), (''values'', TArr [])]),
     (''yaxes'', TArr [TObj [(''format'', jstr ''none''), (''logBase'', TNum 1), (''max'', TNull),
     (''min'', TNum 1), (''show'', TBool True)], TObj [(''format'', jstr ''bytes''), (''logBase'', TNum 1),
     (''max'', TNull), (''min'', TNum 1), (''show'', TBool True)]]),
     (''yaxis'', TObj [(''align'', TBool False), (''alignLevel'', TNull)])]"

definition graph_expired_objects_sec :: "tjson" where
  "graph_expired_objects_sec =
     TObj [(''aliasColors'', TObj []), (''bars'', TBool False), (''dashLength'', TNum 10),
     (''dashes'', TBool False), (''datasource'', TStr [FieldOf ''DatasourceName'']), (''fill'', TNum 1),
     (''gridPos'', TObj [(''h'', TNum 5), (''w'', TNum 8), (''x'', TNum 16), (''y'', TNum 17)]),
     (''id'', TNum 35), (''legend'', TObj [(''avg'', TBool False), (''current'', TBool False),
     (''max'', TBool False), (''min'', TBool False), (''show'', TBool True), (''total'', TBool False),
     (''values'', TBool False)]), (''lines'', TBool True), (''linewidth'', TNum 1), (''links'', TArr []),
     (''nullPointMode'', jstr ''null''), (''options'', TObj []), (''paceLength'', TNum 10),
     (''percentage'', TBool False), (''pointradius'', TNum 5), (''points'', TBool False),
     (''renderer'', jstr ''flot''), (''seriesOverrides'', TArr []), (''spaceLength'', TNum 10),
     (''stack'', TBool False), (''steppedLine'', TBool False),
     (''targets'', TArr [TObj [(''expr'', TStr [Txt ''sum(irate(varnish_main_n_expired{ service='', EscQ,
     FieldOf ''ServiceName'', EscQ, Txt '', namespace='', EscQ, FieldOf ''Namespace'', EscQ,
     Txt '' }[1m]))'']), (''format'', jstr ''time_series''), (''intervalFactor'', TNum 1),
     (''legendFormat'', jstr ''expired objects''), (''refId'', jstr ''A'')]]), (''thresholds'', TArr []),
     (''timeFrom'', TNull), (''timeRegions'', TArr []), (''timeShift'', TNull),
     (''title'', jstr ''Expired Objects/sec''), (''tooltip'', TObj [(''shared'', TBool True),
     (''sort'', TNum 0), (''value_type'', jstr ''individual'')]), (''type'', jstr ''graph''),
     (''xaxis'', TObj [(''buckets'', TNull), (''mode'', jstr ''time''), (''name'', TNull),
     (''show'', TBool True), (''values'', TArr [])]), (''yaxes'', TArr [TObj [(''decimals'', TNum 0),
     (''format'', jstr ''none''), (''label'', TStr []), (''logBase'', TNum 1), (''max'', TNull),
     (''min'', jstr ''0''), (''show'', TBool True)], TObj [(''format'', jstr ''short''), (''label'', TNull),
     (''logBase'', TNum 1), (''max'', TNull), (''min'', TNull), (''show'', TBool True)]]),
     (''yaxis'', TObj [(''align'', TBool False), (''alignLevel'', TNull)])]"

definition graph_network :: "tjson" where
  "graph_network =
     TObj [(''aliasColors'', TObj []), (''bars'', TBool False), (''dashLength'', TNum 10),
     (''dashes'', TBool False), (''datasource'', TStr [FieldOf ''DatasourceName'']), (''decimals'', TNull),
     (''editable'', TBool True), (''error'', TBool False), (''fill'', TNum 5), (''grid'', TObj []),
     (''gridPos'', TObj [(''h'', TNum 5), (''w'', TNum 8), (''x'', TNum 0), (''y'', TNum 22)]),
     (''hideTimeOverride'', TBool False), (''id'', TNum 12), (''legend'', TObj [(''alignAsTable'', TBool True),
     (''avg'', TBool True), (''current'', TBool False), (''hideEmpty'', TBool True),
     (''hideZero'', TBool True), (''max'', TBool True), (''min'', TBool False), (''rightSide'', TBool False),
     (''show'', TBool True), (''sideWidth'', TNum 400), (''sort'', TNull), (''sortDesc'', TNull),
     (''total'', TBool True), (''values'', TBool True)]), (''lines'', TBool True), (''linewidth'', TNum 1),
     (''links'', TArr []), (''nullPointMode'', jstr ''connected''), (''options'', TObj []),
     (''paceLength'', TNum 10), (''percentage'', TBool False), (''pointradius'', TNum 5),
     (''points'', TBool False), (''renderer'', jstr ''flot''),
     (''seriesOverrides'', TArr [TObj [(''alias'', jstr ''/backend .*/''), (''fill'', TNum 7)],
     TObj [(''alias'', jstr ''frontend''), (''color'', jstr ''#508642''), (''stack'', TBool False),
     (''zindex'', TNum (-2))], TObj [(''alias'', jstr ''/^backend$/''), (''color'', jstr ''#CCA300''),
     (''fill'', TNum 0), (''stack'', TBool False), (''zindex'', TNum 1)]]), (''spaceLength'', TNum 10),
     (''stack'', TBool True), (''steppedLine'', TBool False),
     (''targets'', TArr [TObj [(''expr'', TStr [Txt ''sum(irate(varnish_main_s_resp_hdrbytes{service='', EscQ,
     FieldOf ''ServiceName'', EscQ, Txt '', pod=~'', EscQ, Txt ''^$varnish_pod$'', EscQ, Txt '', namespace='',
     EscQ, FieldOf ''Namespace'', EscQ, Txt ''}[1m]) + irate(varnish_main_s_resp_bodybytes{service='', EscQ,
     FieldOf ''ServiceName'', EscQ, Txt '', pod=~'', EscQ, Txt ''^$varnish_pod$'', EscQ, Txt '', namespace='',
     EscQ, FieldOf ''Namespace'', EscQ, Txt ''}[1m]))'']), (''format'', jstr ''time_series''),
     (''hide'', TBool False), (''interval'', TStr []), (''intervalFactor'', TNum 1),
     (''legendFormat'', jstr ''frontend''), (''refId'', jstr ''A''), (''step'', TNum 60)],
     TObj [(''expr'', TStr [Txt ''sum(irate(varnish_backend_beresp_hdrbytes{service='', EscQ,
     FieldOf ''ServiceName'', EscQ, Txt '', pod=~'', EscQ, Txt ''^$varnish_pod$'', EscQ, Txt '', namespace='',
     EscQ, FieldOf ''Namespace'', EscQ, Txt ''}[1m]) + irate(varnish_backend_beresp_bodybytes{service='', EscQ,
     FieldOf ''ServiceName'', EscQ, Txt '', pod=~'', EscQ, Txt ''^$varnish_pod$'', EscQ, Txt '', namespace='',
     EscQ, FieldOf ''Namespace'', EscQ, Txt ''}[1m]))'']), (''format'', jstr ''time_series''),
     (''hide'', TBool False), (''interval'', TStr []), (''intervalFactor'', TNum 1),
     (''legendFormat'', jstr ''backend''), (''metric'', TStr []), (''refId'', jstr ''B''),
     (''step'', TNum 60)], TObj [(''expr'', TStr [Txt ''sum(irate(varnish_backend_beresp_hdrbytes{service='',
     EscQ, FieldOf ''ServiceName'', EscQ, Txt '', pod=~'', EscQ, Txt ''^$varnish_pod$'', EscQ,
     Txt '', namespace='', EscQ, FieldOf ''Namespace'', EscQ,
     Txt ''}[1m]) + irate(varnish_backend_beresp_bodybytes{service='', EscQ, FieldOf ''ServiceName'', EscQ,
     Txt '', pod=~'', EscQ, Txt ''^$varnish_pod$'', EscQ, Txt '', namespace='', EscQ, FieldOf ''Namespace'',
     EscQ, Txt ''}[1m])) by (backend)'']), (''format'', jstr ''time_series''), (''intervalFactor'', TNum 2),
     (''legendFormat'', TStr [Txt ''backend '', Constant ''{{ backend }}'']), (''refId'', jstr ''C''),
     (''step'', TNum 120)]]), (''thresholds'', TArr []), (''timeFrom'', TNull), (''timeRegions'', TArr []),
     (''timeShift'', TNull), (''title'', jstr ''Network''), (''tooltip'', TObj [(''shared'', TBool True),
     (''sort'', TNum 2), (''value_type'', jstr ''individual'')]), (''type'', jstr ''graph''),
     (''xaxis'', TObj [(''buckets'', TNull), (''mode'', jstr ''time''), (''name'', TNull),
     (''show'', TBool True), (''values'', TArr [])]), (''yaxes'', TArr [TObj [(''format'', jstr ''bytes''),
     (''label'', TStr []), (''logBase'', TNum 1), (''max'', TNull), (''min'', jstr ''1024''),
     (''show'', TBool True)], TObj [(''format'', jstr ''short''), (''logBase'', TNum 1), (''max'', TNull),
     (''min'', TNull), (''show'', TBool True)]]), (''yaxis'', TObj [(''align'', TBool False),
     (''alignLevel'', TNull)])]"

definition graph_nuked_objects_sec :: "tjson" where
  "graph_nuked_objects_sec =
     TObj [(''aliasColors'', TObj []), (''bars'', TBool False), (''dashLength'', TNum 10),
     (''dashes'', TBool False), (''datasource'', TStr [FieldOf ''DatasourceName'']), (''fill'', TNum 1),
     (''gridPos'', TObj [(''h'', TNum 5), (''w'', TNum 8), (''x'', TNum 16), (''y'', TNum 22)]),
     (''id'', TNum 37), (''legend'', TObj [(''avg'', TBool False), (''current'', TBool False),
     (''max'', TBool False), (''min'', TBool False), (''show'', TBool True), (''total'', TBool False),
     (''values'', TBool False)]), (''lines'', TBool True), (''linewidth'', TNum 1), (''links'', TArr []),
     (''nullPointMode'', jstr ''null''), (''options'', TObj []), (''paceLength'', TNum 10),
     (''percentage'', TBool False), (''pointradius'', TNum 5), (''points'', TBool False),
     (''renderer'', jstr ''flot''), (''seriesOverrides'', TArr []), (''spaceLength'', TNum 10),
     (''stack'', TBool False), (''steppedLine'', TBool False),
     (''targets'', TArr [TObj [(''expr'', TStr [Txt ''sum(irate(varnish_main_n_lru_nuked{ service='', EscQ,
     FieldOf ''ServiceName'', EscQ, Txt '', namespace='', EscQ, FieldOf ''Namespace'', EscQ,
     Txt '' }[1m]))'']), (''format'', jstr ''time_series''), (''intervalFactor'', TNum 1),
     (''legendFormat'', jstr ''nuked''), (''refId'', jstr ''A'')]]), (''thresholds'', TArr []),
     (''timeFrom'', TNull), (''timeRegions'', TArr []), (''timeShift'', TNull),
     (''title'', jstr ''Nuked Objects/sec''), (''tooltip'', TObj [(''shared'', TBool True), (''sort'', TNum 0),
     (''value_type'', jstr ''individual'')]), (''type'', jstr ''graph''),
     (''xaxis'', TObj [(''buckets'', TNull), (''mode'', jstr ''time''), (''name'', TNull),
     (''show'', TBool True), (''values'', TArr [])]), (''yaxes'', TArr [TObj [(''decimals'', TNum 0),
     (''format'', jstr ''none''), (''label'', TNull), (''logBase'', TNum 1), (''max'', TNull),
     (''min'', jstr ''0''), (''show'', TBool True)], TObj [(''format'', jstr ''short''), (''label'', TNull),
     (''logBase'', TNum 1), (''max'', TNull), (''min'', TNull), (''show'', TBool True)]]),
     (''yaxis'', TObj [(''align'', TBool False), (''alignLevel'', TNull)])]"

subsection \<open>Varnish internals\<close>

definition row_varnish_internals_metrics :: "tjson" where
  "row_varnish_internals_metrics =
     TObj [(''collapsed'', TBool False), (''gridPos'', TObj [(''h'', TNum 1), (''w'', TNum 24),
     (''x'', TNum 0), (''y'', TNum 27)]), (''id'', TNum 93), (''panels'', TArr []),
     (''title'', jstr ''Varnish internals metrics''), (''type'', jstr ''row'')]"

definition graph_requests_sent_to_sleep_per_seconds :: "tjson" where
  "graph_requests_sent_to_sleep_per_seconds =
     TObj [(''aliasColors'', TObj []), (''bars'', TBool False), (''dashLength'', TNum 10),
     (''dashes'', TBool False), (''datasource'', TStr [FieldOf ''DatasourceName'']),
     (''description'', TStr [Txt ''Number of requests sent to sleep without a worker thread because'', EscN,
     Txt ''        they found a busy object.'']), (''fill'', TNum 1), (''gridPos'', TObj [(''h'', TNum 6),
     (''w'', TNum 8), (''x'', TNum 0), (''y'', TNum 28)]), (''id'', TNum 71),
     (''legend'', TObj [(''avg'', TBool False), (''current'', TBool False), (''max'', TBool False),
     (''min'', TBool False), (''show'', TBool True), (''total'', TBool False), (''values'', TBool False)]),
     (''lines'', TBool True), (''linewidth'', TNum 1), (''links'', TArr []),
     (''nullPointMode'', jstr ''null''), (''options'', TObj []), (''paceLength'', TNum 10),
     (''percentage'', TBool False), (''pointradius'', TNum 5), (''points'', TBool False),
     (''renderer'', jstr ''flot''), (''seriesOverrides'', TArr []), (''spaceLength'', TNum 10),
     (''stack'', TBool False), (''steppedLine'', TBool False),
     (''targets'', TArr [TObj [(''expr'', TStr [Txt ''sum(irate(varnish_main_busy_sleep{ service='', EscQ,
     FieldOf ''ServiceName'', EscQ, Txt '', namespace='', EscQ, FieldOf ''Namespace'', EscQ,
     Txt '' }[1m]))'']), (''format'', jstr ''time_series''), (''intervalFactor'', TNum 1),
     (''legendFormat'', jstr ''requests''), (''refId'', jstr ''A'')]]), (''thresholds'', TArr []),
     (''timeFrom'', TNull), (''timeRegions'', TArr []), (''timeShift'', TNull),
     (''title'', jstr ''Requests sent to sleep per seconds''), (''tooltip'', TObj [(''shared'', TBool True),
     (''sort'', TNum 0), (''value_type'', jstr ''individual'')]), (''type'', jstr ''graph''),
     (''xaxis'', TObj [(''buckets'', TNull), (''mode'', jstr ''time''), (''name'', TNull),
     (''show'', TBool True), (''values'', TArr [])]), (''yaxes'', TArr [TObj [(''format'', jstr ''short''),
     (''label'', TNull), (''logBase'', TNum 1), (''max'', TNull), (''min'', jstr ''0''),
     (''show'', TBool True)], TObj [(''format'', jstr ''short''), (''label'', TNull), (''logBase'', TNum 1),
     (''max'', TNull), (''min'', TNull), (''show'', TBool True)]]), (''yaxis'', TObj [(''align'', TBool False),
     (''alignLevel'', TNull)])]"

definition graph_backend_retries_per_second :: "tjson" where
  "graph_backend_retries_per_second =
     TObj [(''aliasColors'', TObj []), (''bars'', TBool False), (''dashLength'', TNum 10),
     (''dashes'', TBool False), (''datasource'', TStr [FieldOf ''DatasourceName'']), (''fill'', TNum 1),
     (''gridPos'', TObj [(''h'', TNum 6), (''w'', TNum 8), (''x'', TNum 8), (''y'', TNum 28)]),
     (''id'', TNum 67), (''legend'', TObj [(''avg'', TBool False), (''current'', TBool False),
     (''max'', TBool False), (''min'', TBool False), (''show'', TBool True), (''total'', TBool False),
     (''values'', TBool False)]), (''lines'', TBool True), (''linewidth'', TNum 1), (''links'', TArr []),
     (''nullPointMode'', jstr ''null''), (''options'', TObj []), (''paceLength'', TNum 10),
     (''percentage'', TBool False), (''pointradius'', TNum 5), (''points'', TBool False),
     (''renderer'', jstr ''flot''), (''seriesOverrides'', TArr []), (''spaceLength'', TNum 10),
     (''stack'', TBool False), (''steppedLine'', TBool False),
     (''targets'', TArr [TObj [(''expr'', TStr [Txt ''sum(irate(varnish_main_backend_retry{ service='', EscQ,
     FieldOf ''ServiceName'', EscQ, Txt '', namespace='', EscQ, FieldOf ''Namespace'', EscQ,
     Txt '' }[1m]))'']), (''format'', jstr ''time_series''), (''intervalFactor'', TNum 1),
     (''legendFormat'', jstr ''retries ''), (''refId'', jstr ''A'')]]), (''thresholds'', TArr []),
     (''timeFrom'', TNull), (''timeRegions'', TArr []), (''timeShift'', TNull),
     (''title'', jstr ''Backend retries per second''), (''tooltip'', TObj [(''shared'', TBool True),
     (''sort'', TNum 0), (''value_type'', jstr ''individual'')]), (''type'', jstr ''graph''),
     (''xaxis'', TObj [(''buckets'', TNull), (''mode'', jstr ''time''), (''name'', TNull),
     (''show'', TBool True), (''values'', TArr [])]), (''yaxes'', TArr [TObj [(''format'', jstr ''short''),
     (''label'', TNull), (''logBase'', TNum 1), (''max'', TNull), (''min'', jstr ''0''),
     (''show'', TBool True)], TObj [(''format'', jstr ''short''), (''label'', TNull), (''logBase'', TNum 1),
     (''max'', TNull), (''min'', TNull), (''show'', TBool True)]]), (''yaxis'', TObj [(''align'', TBool False),
     (''alignLevel'', TNull)])]"

definition graph_threads_limited_per_second :: "tjson" where
  "graph_threads_limited_per_second =
     TObj [(''aliasColors'', TObj []), (''bars'', TBool False), (''dashLength'', TNum 10),
     (''dashes'', TBool False), (''datasource'', TStr [FieldOf ''DatasourceName'']),
     (''description'', TStr [Txt ''Number of times more threads were needed, but limit was reached in'', EscN,
     Txt ''        a thread pool. See also parameter thread_pool_max.'']), (''fill'', TNum 1),
     (''gridPos'', TObj [(''h'', TNum 6), (''w'', TNum 8), (''x'', TNum 16), (''y'', TNum 28)]),
     (''id'', TNum 69), (''legend'', TObj [(''avg'', TBool False), (''current'', TBool False),
     (''max'', TBool False), (''min'', TBool False), (''show'', TBool True), (''total'', TBool False),
     (''values'', TBool False)]), (''lines'', TBool True), (''linewidth'', TNum 1), (''links'', TArr []),
     (''nullPointMode'', jstr ''null''), (''options'', TObj []), (''paceLength'', TNum 10),
     (''percentage'', TBool False), (''pointradius'', TNum 5), (''points'', TBool False),
     (''renderer'', jstr ''flot''), (''seriesOverrides'', TArr []), (''spaceLength'', TNum 10),
     (''stack'', TBool False), (''steppedLine'', TBool False),
     (''targets'', TArr [TObj [(''expr'', TStr [Txt ''sum(irate(varnish_main_threads_limited{ service='', EscQ,
     FieldOf ''ServiceName'', EscQ, Txt '', namespace='', EscQ, FieldOf ''Namespace'', EscQ,
     Txt '' }[1m]))'']), (''format'', jstr ''time_series''), (''intervalFactor'', TNum 1),
     (''legendFormat'', jstr ''threads''), (''refId'', jstr ''A'')]]), (''thresholds'', TArr []),
     (''timeFrom'', TNull), (''timeRegions'', TArr []), (''timeShift'', TNull),
     (''title'', jstr ''Threads limited per second''), (''tooltip'', TObj [(''shared'', TBool True),
     (''sort'', TNum 0), (''value_type'', jstr ''individual'')]), (''type'', jstr ''graph''),
     (''xaxis'', TObj [(''buckets'', TNull), (''mode'', jstr ''time''), (''name'', TNull),
     (''show'', TBool True), (''values'', TArr [])]), (''yaxes'', TArr [TObj [(''format'', jstr ''short''),
     (''label'', TNull), (''logBase'', TNum 1), (''max'', TNull), (''min'', jstr ''0''),
     (''show'', TBool True)], TObj [(''format'', jstr ''short''), (''label'', TNull), (''logBase'', TNum 1),
     (''max'', TNull), (''min'', TNull), (''show'', TBool True)]]), (''yaxis'', TObj [(''align'', TBool False),
     (''alignLevel'', TNull)])]"

definition graph_number_of_sessions :: "tjson" where
  "graph_number_of_sessions =
     TObj [(''aliasColors'', TObj []), (''bars'', TBool False), (''dashLength'', TNum 10),
     (''dashes'', TBool False), (''datasource'', TStr [FieldOf ''DatasourceName'']), (''fill'', TNum 1),
     (''gridPos'', TObj [(''h'', TNum 6), (''w'', TNum 8), (''x'', TNum 0), (''y'', TNum 34)]),
     (''id'', TNum 77), (''legend'', TObj [(''avg'', TBool False), (''current'', TBool False),
     (''max'', TBool False), (''min'', TBool False), (''show'', TBool True), (''total'', TBool False),
     (''values'', TBool False)]), (''lines'', TBool True), (''linewidth'', TNum 1), (''links'', TArr []),
     (''nullPointMode'', jstr ''null''), (''options'', TObj []), (''paceLength'', TNum 10),
     (''percentage'', TBool False), (''pointradius'', TNum 5), (''points'', TBool False),
     (''renderer'', jstr ''flot''), (''seriesOverrides'', TArr []), (''spaceLength'', TNum 10),
     (''stack'', TBool False), (''steppedLine'', TBool False),
     (''targets'', TArr [TObj [(''expr'', TStr [Txt ''sum(irate(varnish_main_sessions{ service='', EscQ,
     FieldOf ''ServiceName'', EscQ, Txt '', namespace='', EscQ, FieldOf ''Namespace'', EscQ,
     Txt '' }[1m])) by (type)'']), (''format'', jstr ''time_series''), (''hide'', TBool False),
     (''intervalFactor'', TNum 1), (''legendFormat'', TStr [Constant ''{{type}}'']),
     (''refId'', jstr ''A'')]]), (''thresholds'', TArr []), (''timeFrom'', TNull), (''timeRegions'', TArr []),
     (''timeShift'', TNull), (''title'', jstr ''Number of sessions''),
     (''tooltip'', TObj [(''shared'', TBool True), (''sort'', TNum 0), (''value_type'', jstr ''individual'')]),
     (''type'', jstr ''graph''), (''xaxis'', TObj [(''buckets'', TNull), (''mode'', jstr ''time''),
     (''name'', TNull), (''show'', TBool True), (''values'', TArr [])]),
     (''yaxes'', TArr [TObj [(''format'', jstr ''short''), (''label'', TNull), (''logBase'', TNum 1),
     (''max'', TNull), (''min'', TNull), (''show'', TBool True)], TObj [(''format'', jstr ''short''),
     (''label'', TNull), (''logBase'', TNum 1), (''max'', TNull), (''min'', TNull), (''show'', TBool True)]]),
     (''yaxis'', TObj [(''align'', TBool False), (''alignLevel'', TNull)])]"

definition graph_length_of_session_queue :: "tjson" where
  "graph_length_of_session_queue =
     TObj [(''aliasColors'', TObj []), (''bars'', TBool False), (''dashLength'', TNum 10),
     (''dashes'', TBool False), (''datasource'', TStr [FieldOf ''DatasourceName'']),
     (''description'', TStr [Txt ''Number of times session was queued waiting for a thread. See also'', EscN,
     Txt ''        parameter thread_queue_limit.'']), (''fill'', TNum 1), (''gridPos'', TObj [(''h'', TNum 6),
     (''w'', TNum 8), (''x'', TNum 8), (''y'', TNum 34)]), (''id'', TNum 73),
     (''legend'', TObj [(''avg'', TBool False), (''current'', TBool False), (''max'', TBool False),
     (''min'', TBool False), (''show'', TBool True), (''total'', TBool False), (''values'', TBool False)]),
     (''lines'', TBool True), (''linewidth'', TNum 1), (''links'', TArr []),
     (''nullPointMode'', jstr ''null''), (''options'', TObj []), (''paceLength'', TNum 10),
     (''percentage'', TBool False), (''pointradius'', TNum 5), (''points'', TBool False),
     (''renderer'', jstr ''flot''), (''seriesOverrides'', TArr []), (''spaceLength'', TNum 10),
     (''stack'', TBool False), (''steppedLine'', TBool False),
     (''targets'', TArr [TObj [(''expr'', TStr [Txt ''sum(varnish_main_thread_queue_len{ service='', EscQ,
     FieldOf ''ServiceName'', EscQ, Txt '', namespace='', EscQ, FieldOf ''Namespace'', EscQ, Txt '' })'']),
     (''format'', jstr ''time_series''), (''intervalFactor'', TNum 1), (''legendFormat'', jstr ''queue''),
     (''refId'', jstr ''A'')]]), (''thresholds'', TArr []), (''timeFrom'', TNull), (''timeRegions'', TArr []),
     (''timeShift'', TNull), (''title'', jstr ''Length of session queue''),
     (''tooltip'', TObj [(''shared'', TBool True), (''sort'', TNum 0), (''value_type'', jstr ''individual'')]),
     (''type'', jstr ''graph''), (''xaxis'', TObj [(''buckets'', TNull), (''mode'', jstr ''time''),
     (''name'', TNull), (''show'', TBool True), (''values'', TArr [])]),
     (''yaxes'', TArr [TObj [(''format'', jstr ''short''), (''label'', TNull), (''logBase'', TNum 1),
     (''max'', TNull), (''min'', jstr ''0''), (''show'', TBool True)], TObj [(''format'', jstr ''short''),
     (''label'', TNull), (''logBase'', TNum 1), (''max'', TNull), (''min'', TNull), (''show'', TBool True)]]),
     (''yaxis'', TObj [(''align'', TBool False), (''alignLevel'', TNull)])]"

definition graph_number_of_fetches_per_second :: "tjson" where
  "graph_number_of_fetches_per_second =
     TObj [(''aliasColors'', TObj []), (''bars'', TBool False), (''dashLength'', TNum 10),
     (''dashes'', TBool False), (''datasource'', TStr [FieldOf ''DatasourceName'']), (''fill'', TNum 1),
     (''gridPos'', TObj [(''h'', TNum 6), (''w'', TNum 8), (''x'', TNum 16), (''y'', TNum 34)]),
     (''id'', TNum 75), (''legend'', TObj [(''avg'', TBool False), (''current'', TBool False),
     (''max'', TBool False), (''min'', TBool False), (''show'', TBool True), (''total'', TBool False),
     (''values'', TBool False)]), (''lines'', TBool True), (''linewidth'', TNum 1), (''links'', TArr []),
     (''nullPointMode'', jstr ''null''), (''options'', TObj []), (''paceLength'', TNum 10),
     (''percentage'', TBool False), (''pointradius'', TNum 5), (''points'', TBool False),
     (''renderer'', jstr ''flot''), (''seriesOverrides'', TArr []), (''spaceLength'', TNum 10),
     (''stack'', TBool False), (''steppedLine'', TBool False),
     (''targets'', TArr [TObj [(''expr'', TStr [Txt ''sum(irate(varnish_main_fetch{ service='', EscQ,
     FieldOf ''ServiceName'', EscQ, Txt '', namespace='', EscQ, FieldOf ''Namespace'', EscQ,
     Txt '' }[1m])) by (type)'']), (''format'', jstr ''time_series''), (''intervalFactor'', TNum 1),
     (''legendFormat'', TStr [Constant ''{{type}}'']), (''refId'', jstr ''A'')]]), (''thresholds'', TArr []),
     (''timeFrom'', TNull), (''timeRegions'', TArr []), (''timeShift'', TNull),
     (''title'', jstr ''Number of fetches per second''), (''tooltip'', TObj [(''shared'', TBool True),
     (''sort'', TNum 0), (''value_type'', jstr ''individual'')]), (''type'', jstr ''graph''),
     (''xaxis'', TObj [(''buckets'', TNull), (''mode'', jstr ''time''), (''name'', TNull),
     (''show'', TBool True), (''values'', TArr [])]), (''yaxes'', TArr [TObj [(''format'', jstr ''short''),
     (''label'', TNull), (''logBase'', TNum 1), (''max'', TNull), (''min'', TNull), (''show'', TBool True)],
     TObj [(''format'', jstr ''short''), (''label'', TNull), (''logBase'', TNum 1), (''max'', TNull),
     (''min'', TNull), (''show'', TBool True)]]), (''yaxis'', TObj [(''align'', TBool False),
     (''alignLevel'', TNull)])]"

subsection \<open>The dashboard\<close>

definition dashboard_head :: "(string \<times> tjson) list" where
  "dashboard_head =
     [(''annotations'', TObj [(''list'', TArr [TObj [(''builtIn'', TNum 1),
     (''datasource'', jstr ''-- Grafana --''), (''enable'', TBool True), (''hide'', TBool True),
     (''iconColor'', jstr ''rgba(0, 211, 255, 1)''), (''name'', jstr ''Annotations & Alerts''),
     (''type'', jstr ''dashboard'')]])]), (''editable'', TBool True), (''gnetId'', TNull),
     (''graphTooltip'', TNum 1), (''iteration'', TNum 1563214363724), (''links'', TArr [])]"

definition dashboard_tail :: "(string \<times> tjson) list" where
  "dashboard_tail =
     [(''refresh'', jstr ''5s''), (''schemaVersion'', TNum 18), (''style'', jstr ''dark''),
     (''tags'', TArr []), (''templating'', TObj [(''list'', TArr [TObj [(''allValue'', jstr ''.*''),
     (''current'', TObj [(''selected'', TBool False), (''text'', jstr ''All''), (''value'', jstr ''$__all'')]),
     (''datasource'', TStr [FieldOf ''DatasourceName'']),
     (''definition'', TStr [Txt ''label_values(varnish_up{ service='', EscQ, FieldOf ''ServiceName'', EscQ,
     Txt '', namespace='', EscQ, FieldOf ''Namespace'', EscQ, Txt '' }, pod)'']), (''description'', TNull),
     (''error'', TNull), (''hide'', TNum 0), (''includeAll'', TBool True), (''label'', jstr ''Pod''),
     (''multi'', TBool False), (''name'', jstr ''varnish_pod''), (''options'', TArr []),
     (''query'', TObj [(''query'', TStr [Txt ''label_values(varnish_up{ service='', EscQ,
     FieldOf ''ServiceName'', EscQ, Txt '', namespace='', EscQ, FieldOf ''Namespace'', EscQ,
     Txt '' }, pod)'']), (''refId'', jstr ''StandardVariableQuery'')]), (''refresh'', TNum 1),
     (''regex'', TStr []), (''skipUrlSync'', TBool False), (''sort'', TNum 1), (''tagValuesQuery'', TStr []),
     (''tags'', TArr []), (''tagsQuery'', TStr []), (''type'', jstr ''query''),
     (''useTags'', TBool False)]])]), (''time'', TObj [(''from'', jstr ''now-15m''), (''to'', jstr ''now'')]),
     (''timepicker'', TObj [(''now'', TBool True), (''nowDelay'', TStr []),
     (''refresh_intervals'', TArr [jstr ''5s'', jstr ''15s'', jstr ''30s'', jstr ''1m'', jstr ''5m'',
     jstr ''15m'', jstr ''30m'', jstr ''1h'', jstr ''2h'', jstr ''1d'']), (''time_options'', TArr [jstr ''5m'',
     jstr ''15m'', jstr ''1h'', jstr ''6h'', jstr ''12h'', jstr ''24h'', jstr ''2d'', jstr ''7d'',
     jstr ''30d''])]), (''timezone'', jstr ''browser''), (''title'', TStr [FieldOf ''Title'']),
     (''uid'', TStr []), (''version'', TNum 1)]"

definition dashboard_panels :: "tjson list" where
  "dashboard_panels =
     [row_real_time_metrics, stat_cache_hit_rate, stat_frontend_requests, stat_sessions, stat_cache_hit,
     stat_loaded_vmods, stat_uptime, stat_version, row_varnish_requests, graph_varnish_overall_req_sec,
     graph_cache_hit_miss_reqs_sec, graph_queued_requests_sec, graph_cache_hit_rate, graph_cache_pass_reqs_sec,
     graph_dropped_requests_sec, row_varnish_memory, graph_memory, graph_cache, graph_expired_objects_sec,
     graph_network, graph_nuked_objects_sec, row_varnish_internals_metrics,
     graph_requests_sent_to_sleep_per_seconds, graph_backend_retries_per_second,
     graph_threads_limited_per_second, graph_number_of_sessions, graph_length_of_session_queue,
     graph_number_of_fetches_per_second]"

definition dashboard :: tjson where
  "dashboard = TObj (dashboard_head @ (''panels'', TArr dashboard_panels) # dashboard_tail)"

definition grafanaDashboardTemplate :: string where
  "grafanaDashboardTemplate = CHR 0x0A # layout piece_source 0 dashboard"

end
