(* ===== verification/Monitoring.thy ===== *)
theory Monitoring
  imports Finalizers DashboardGraphs
begin

text \<open>
  \<open>varnishcluster_servicemonitor.go\<close> and \<open>varnishcluster_grafana_dashboard.go\<close>: the Prometheus
  service monitor and the config map of the Grafana dashboard, each in a namespace the user may
  choose. Copies left in other namespaces are found by label and deleted. The text of the dashboard
  is the template of \<open>DashboardGraphs\<close>, executed with the four values the source passes.
\<close>

definition EventReasonServiceMonitorKindNotFound :: string where
  "EventReasonServiceMonitorKindNotFound = ''servicemonitor-not-found''"
definition EventReasonNamespaceNotFound :: string where
  "EventReasonNamespaceNotFound = ''namespace-not-found''"

definition namespace_missing_msg :: "string \<Rightarrow> string \<Rightarrow> string" where
  "namespace_missing_msg what namespace =
     ''Can't install '' @ what @ ''. Namespace '' @ go_quoted namespace @ '' doesn't exist''"

subsection \<open>Deleting by label\<close>

text \<open>
  The loop over the listed objects, deleting those of another namespace than \<open>keep\<close>, or all. For
  the service monitors a missing kind means that there is nothing to delete.
\<close>

definition delete_listed :: "('o \<Rightarrow> kobj) \<Rightarrow> ('o \<Rightarrow> objmeta) \<Rightarrow> ('w, 'o) resource \<Rightarrow> string option \<Rightarrow> 'o list \<Rightarrow> ('w, unit) operator" where
  "delete_listed mk meta res keep items =
     for_each items (\<lambda>item. if keep = Some (om_Namespace (meta item)) then ret () else api_delete mk res item)"

definition remove_service_monitors :: "'w operator_env \<Rightarrow> VarnishCluster \<Rightarrow> string option \<Rightarrow> ('w, unit) operator" where
  "remove_service_monitors e instance keep =
     attempt (api_list (e_ServiceMonitors e) (CombinedComponentLabels instance VarnishComponentPrometheusServiceMonitor)) (\<lambda>r.
       case r of
         Inl err \<Rightarrow> if IsNoKindMatch err then ret () else fail err
       | Inr items \<Rightarrow> delete_listed ObjServiceMonitor sm_Meta (e_ServiceMonitors e) keep items)"

definition removePreviouslyCreatedServiceMonitors :: "'w operator_env \<Rightarrow> VarnishCluster \<Rightarrow> string \<Rightarrow> ('w, unit) operator" where
  "removePreviouslyCreatedServiceMonitors e instance keep = remove_service_monitors e instance (Some keep)"

definition removeAllServiceMonitors :: "'w operator_env \<Rightarrow> VarnishCluster \<Rightarrow> ('w, unit) operator" where
  "removeAllServiceMonitors e instance = remove_service_monitors e instance None"

definition remove_dashboards :: "'w operator_env \<Rightarrow> VarnishCluster \<Rightarrow> string option \<Rightarrow> ('w, unit) operator" where
  "remove_dashboards e instance keep =
     bnd (api_list (e_ConfigMaps e) (CombinedComponentLabels instance VarnishComponentGrafanaDashboard))
       (delete_listed ObjConfigMap cm_Meta (e_ConfigMaps e) keep)"

definition removePreviouslyCreatedDashboards :: "'w operator_env \<Rightarrow> VarnishCluster \<Rightarrow> string \<Rightarrow> ('w, unit) operator" where
  "removePreviouslyCreatedDashboards e instance keep = remove_dashboards e instance (Some keep)"

definition removeAllGrafanaDashboards :: "'w operator_env \<Rightarrow> VarnishCluster \<Rightarrow> ('w, unit) operator" where
  "removeAllGrafanaDashboards e instance = remove_dashboards e instance None"

subsection \<open>Installing into a namespace that must exist\<close>

text \<open>With a namespace that does not exist a warning event is recorded and nothing is installed.\<close>

definition in_namespace :: "'w operator_env \<Rightarrow> string \<Rightarrow> string \<Rightarrow> ('w, unit) operator \<Rightarrow> ('w, unit) operator" where
  "in_namespace e what namespace install =
     (if namespace = [] then install
      else attempt (api_get (e_Namespaces e) [] namespace) (\<lambda>r.
        case r of
          Inl err \<Rightarrow> if IsNotFound err then event_warning EventReasonNamespaceNotFound (namespace_missing_msg what namespace)
                     else fail err
        | Inr ns \<Rightarrow> install))"

subsection \<open>The service monitor\<close>

definition prometheus_spec :: "VarnishCluster \<Rightarrow> PrometheusServiceMonitorSpec outcome" where
  "prometheus_spec instance =
     obind (oderef (sp_Monitoring (vc_Spec instance))) (\<lambda>mon. oderef (mon_PrometheusServiceMonitor mon))"

definition cleanupNotNeededServiceMonitors ::
  "'w operator_env \<Rightarrow> VarnishCluster \<Rightarrow> PrometheusServiceMonitorSpec \<Rightarrow> ('w, unit) operator" where
  "cleanupNotNeededServiceMonitors e instance spec =
     (if \<not> psm_Enabled spec then removeAllServiceMonitors e instance
      else removePreviouslyCreatedServiceMonitors e instance (if_empty (psm_Namespace spec) (vc_Namespace instance)))"

definition service_monitor_object :: "VarnishCluster \<Rightarrow> PrometheusServiceMonitorSpec \<Rightarrow> service_monitor" where
  "service_monitor_object instance spec =
     \<lparr>sm_Meta = new_meta (ServiceMonitorName (vc_Name instance)) (if_empty (psm_Namespace spec) (vc_Namespace instance))
        (CombinedComponentLabels instance VarnishComponentPrometheusServiceMonitor ++ psm_Labels spec) Map.empty,
      sm_Spec =
       \<lparr>sms_MatchLabels = ComponentLabels instance VarnishComponentCacheService,
        sms_Endpoints = [(''metrics'', psm_ScrapeInterval spec), (''ctrl-metrics'', psm_ScrapeInterval spec)],
        sms_MatchNames = [vc_Namespace instance]\<rparr>\<rparr>"

definition createServiceMonitorObject ::
  "'w operator_env \<Rightarrow> VarnishCluster \<Rightarrow> PrometheusServiceMonitorSpec \<Rightarrow> ('w, service_monitor) operator" where
  "createServiceMonitorObject e instance spec =
     (let serviceMonitor = service_monitor_object instance spec in
      if psm_Namespace spec = []
      then bnd (lift (e_SetControllerReference e instance (sm_Meta serviceMonitor))) (\<lambda>m.
             ret (serviceMonitor\<lparr>sm_Meta := m\<rparr>))
      else ret serviceMonitor)"

definition merge_service_monitor :: "service_monitor \<Rightarrow> service_monitor \<Rightarrow> service_monitor" where
  "merge_service_monitor found desired =
     found\<lparr>sm_Spec := sm_Spec desired, sm_Meta := (sm_Meta found)\<lparr>om_Labels := om_Labels (sm_Meta desired)\<rparr>\<rparr>"

definition applyServiceMonitor :: "'w operator_env \<Rightarrow> VarnishCluster \<Rightarrow> service_monitor \<Rightarrow> ('w, unit) operator" where
  "applyServiceMonitor e instance serviceMonitor =
     attempt (api_get (e_ServiceMonitors e) (om_Namespace (sm_Meta serviceMonitor)) (ServiceMonitorName (vc_Name instance))) (\<lambda>r.
       case r of
         Inl err \<Rightarrow>
           if IsNotFound err
           then seq (wrap ''Unable to create ServiceMonitor'' (api_create ObjServiceMonitor (e_ServiceMonitors e) serviceMonitor))
                  (ret ())
           else if IsNoKindMatch err
           then event_warning EventReasonServiceMonitorKindNotFound
                  ''ServiceMonitor can't be installed. Prometheus operator needs to be installed first''
           else fail (Wrapped ''Could not get ServiceMonitor'' err)
       | Inr found \<Rightarrow>
           if \<not> EqualServiceMonitor found serviceMonitor
           then seq (wrap ''Unable to update ServiceMonitor''
                       (api_update ObjServiceMonitor (e_ServiceMonitors e) (merge_service_monitor found serviceMonitor)))
                  (ret ())
           else ret ())"

definition reconcileServiceMonitor :: "'w operator_env \<Rightarrow> VarnishCluster \<Rightarrow> ('w, unit) operator" where
  "reconcileServiceMonitor e instance =
     bnd (lift (prometheus_spec instance)) (\<lambda>spec.
     seq (cleanupNotNeededServiceMonitors e instance spec)
       (if \<not> psm_Enabled spec then ret ()
        else in_namespace e ''ServiceMonitor'' (psm_Namespace spec)
          (bnd (createServiceMonitorObject e instance spec) (applyServiceMonitor e instance))))"

subsection \<open>The dashboard\<close>

definition garbageCollectGrafanaDashboards ::
  "'w operator_env \<Rightarrow> VarnishCluster \<Rightarrow> GrafanaDashboardSpec option \<Rightarrow> ('w, unit) operator" where
  "garbageCollectGrafanaDashboards e instance spec =
     (case spec of
        None \<Rightarrow> removeAllGrafanaDashboards e instance
      | Some gd \<Rightarrow>
          if \<not> gd_Enabled gd then removeAllGrafanaDashboards e instance
          else removePreviouslyCreatedDashboards e instance (if_empty (gd_Namespace gd) (vc_Namespace instance)))"

definition generateGrafanaDashboardData ::
  "VarnishCluster \<Rightarrow> GrafanaDashboardSpec \<Rightarrow> strmap outcome" where
  "generateGrafanaDashboardData instance gd =
     obind (oderef (gd_DatasourceName gd)) (\<lambda>datasource.
     obind (template_execute ''GrafanaDashboard'' grafanaDashboardTemplate
              [''DatasourceName'' \<mapsto> datasource, ''Title'' \<mapsto> gd_Title gd,
               ''ServiceName'' \<mapsto> vc_Name instance, ''Namespace'' \<mapsto> vc_Namespace instance]) (\<lambda>text.
       Ret [GrafanaDashboardFileName (vc_Name instance) \<mapsto> text]))"

definition dashboard_labels :: "VarnishCluster \<Rightarrow> GrafanaDashboardSpec \<Rightarrow> strmap" where
  "dashboard_labels instance gd =
     (let cmLabels = CombinedComponentLabels instance VarnishComponentGrafanaDashboard
      in if gd_Labels gd \<noteq> Map.empty then cmLabels ++ gd_Labels gd
         else cmLabels(''grafana_dashboard'' \<mapsto> ''1''))"

definition createGrafanaDashboardConfigMap ::
  "'w operator_env \<Rightarrow> VarnishCluster \<Rightarrow> GrafanaDashboardSpec \<Rightarrow> ('w, config_map) operator" where
  "createGrafanaDashboardConfigMap e instance gd =
     (let m = new_meta (GrafanaDashboardName (vc_Name instance)) (if_empty (gd_Namespace gd) (vc_Namespace instance))
                (dashboard_labels instance gd) Map.empty in
      bnd (if gd_Namespace gd = [] then lift (e_SetControllerReference e instance m) else ret m) (\<lambda>m.
      bnd (lift (generateGrafanaDashboardData instance gd)) (\<lambda>data.
        ret \<lparr>cm_Meta = m, cm_Data = data\<rparr>)))"

definition merge_dashboard :: "config_map \<Rightarrow> config_map \<Rightarrow> config_map" where
  "merge_dashboard found desired =
     found\<lparr>cm_Data := cm_Data desired, cm_Meta := (cm_Meta found)\<lparr>om_Labels := om_Labels (cm_Meta desired)\<rparr>\<rparr>"

definition applyGrafanaDashboardConfigMap :: "'w operator_env \<Rightarrow> config_map \<Rightarrow> ('w, unit) operator" where
  "applyGrafanaDashboardConfigMap e grafanaDashboard =
     create_or_update ObjConfigMap cm_Meta (e_ConfigMaps e) EqualConfigMap merge_dashboard
       (''Unable to create Grafana dashboard ConfigMap'', ''Could not get Grafana dashboard ConfigMap'',
        ''Unable to update Grafana dashboard ConfigMap'') grafanaDashboard"

text \<open>An empty title is replaced by one made from the cluster's namespace and name.\<close>

definition dashboard_title :: "VarnishCluster \<Rightarrow> GrafanaDashboardSpec \<Rightarrow> GrafanaDashboardSpec" where
  "dashboard_title instance gd =
     gd\<lparr>gd_Title := if_empty (gd_Title gd) (''Varnish ('' @ vc_Namespace instance @ ''/'' @ vc_Name instance @ '')'')\<rparr>"

definition reconcileGrafanaDashboard :: "'w operator_env \<Rightarrow> VarnishCluster \<Rightarrow> ('w, unit) operator" where
  "reconcileGrafanaDashboard e instance =
     bnd (deref (sp_Monitoring (vc_Spec instance))) (\<lambda>mon.
     seq (garbageCollectGrafanaDashboards e instance (mon_GrafanaDashboard mon))
       (case mon_GrafanaDashboard mon of
          None \<Rightarrow> ret ()
        | Some gd \<Rightarrow>
            if \<not> gd_Enabled gd then ret ()
            else in_namespace e ''Grafana dashboard'' (gd_Namespace gd)
              (bnd (createGrafanaDashboardConfigMap e instance (dashboard_title instance gd))
                 (applyGrafanaDashboardConfigMap e))))"

subsection \<open>What is written\<close>

definition labelled :: "('o \<Rightarrow> kobj) \<Rightarrow> strmap \<Rightarrow> kobj \<Rightarrow> bool" where
  "labelled mk selector x \<longleftrightarrow> (\<exists>y. x = mk y) \<and> label_match selector (om_Labels (kobj_meta x))"

definition service_monitor_scope :: "VarnishCluster \<Rightarrow> request \<Rightarrow> bool" where
  "service_monitor_scope vc q =
     (case q of
        Delete x \<Rightarrow> labelled ObjServiceMonitor (CombinedComponentLabels vc VarnishComponentPrometheusServiceMonitor) x
      | Create x \<Rightarrow> \<exists>spec. prometheus_spec vc = Ret spec \<and> psm_Enabled spec \<and>
          named ObjServiceMonitor (if_empty (psm_Namespace spec) (vc_Namespace vc)) (ServiceMonitorName (vc_Name vc)) x
      | Update x \<Rightarrow> \<exists>spec. prometheus_spec vc = Ret spec \<and> psm_Enabled spec \<and>
          named ObjServiceMonitor (if_empty (psm_Namespace spec) (vc_Namespace vc)) (ServiceMonitorName (vc_Name vc)) x
      | UpdateStatus v \<Rightarrow> False)"

definition dashboard_scope :: "VarnishCluster \<Rightarrow> request \<Rightarrow> bool" where
  "dashboard_scope vc q =
     (case q of
        Delete x \<Rightarrow> labelled ObjConfigMap (CombinedComponentLabels vc VarnishComponentGrafanaDashboard) x
      | Create x \<Rightarrow> \<exists>mon gd. sp_Monitoring (vc_Spec vc) = Some mon \<and> mon_GrafanaDashboard mon = Some gd \<and> gd_Enabled gd \<and>
          named ObjConfigMap (if_empty (gd_Namespace gd) (vc_Namespace vc)) (GrafanaDashboardName (vc_Name vc)) x
      | Update x \<Rightarrow> \<exists>mon gd. sp_Monitoring (vc_Spec vc) = Some mon \<and> mon_GrafanaDashboard mon = Some gd \<and> gd_Enabled gd \<and>
          named ObjConfigMap (if_empty (gd_Namespace gd) (vc_Namespace vc)) (GrafanaDashboardName (vc_Name vc)) x
      | UpdateStatus v \<Rightarrow> False)"

lemma delete_listed_emits:
  "(\<And>x. x \<in> set items \<Longrightarrow> keep \<noteq> Some (om_Namespace (meta x)) \<Longrightarrow> Q (Delete (mk x))) \<Longrightarrow>
   emits Q (delete_listed mk meta res keep items)"
  unfolding delete_listed_def by (intro emits_for_each emits_if emits_pure emits_writes) auto

lemma remove_service_monitors_emits:
  "lawful_env e \<Longrightarrow> emits (service_monitor_scope vc) (remove_service_monitors e vc keep)"
  unfolding remove_service_monitors_def
  by (rule emits_list_attempt [of sm_Meta])
    (auto simp: lawful_env_def service_monitor_scope_def labelled_def intro!: delete_listed_emits emits_intros)

lemma remove_dashboards_emits:
  "lawful_env e \<Longrightarrow> emits (dashboard_scope vc) (remove_dashboards e vc keep)"
  unfolding remove_dashboards_def
  by (rule emits_list_bnd [of cm_Meta])
    (auto simp: lawful_env_def dashboard_scope_def labelled_def intro!: delete_listed_emits)

lemma in_namespace_emits: "emits Q m \<Longrightarrow> emits Q (in_namespace e what ns m)"
  unfolding in_namespace_def by (intro emits_intros)

lemma reconcileServiceMonitor_emits:
  assumes "lawful_env e"
  shows "emits (service_monitor_scope vc) (reconcileServiceMonitor e vc)"
proof -
  have get: "gets_by_name sm_Meta (e_ServiceMonitors e)" and own: "sets_only_owner e"
    using assms by (auto simp: lawful_env_def)
  have create: "emits (service_monitor_scope vc) (bnd (createServiceMonitorObject e vc spec) (applyServiceMonitor e vc))"
    if "prometheus_spec vc = Ret spec" "psm_Enabled spec" for spec
  proof -
    have app: "emits (service_monitor_scope vc) (applyServiceMonitor e vc x)"
      if "om_Namespace (sm_Meta x) = if_empty (psm_Namespace spec) (vc_Namespace vc)"
        "om_Name (sm_Meta x) = ServiceMonitorName (vc_Name vc)" for x
      unfolding applyServiceMonitor_def
      by (rule emits_get_attempt [OF get])
        (use that \<open>prometheus_spec vc = Ret spec\<close> \<open>psm_Enabled spec\<close> in
          \<open>auto simp: service_monitor_scope_def named_def merge_service_monitor_def intro!: emits_intros\<close>)
    show ?thesis
      unfolding createServiceMonitorObject_def Let_def
      using own by (auto simp: bnd_assoc service_monitor_object_def dest!: sets_only_ownerD
          intro!: emits_lift_bnd app)
  qed
  show ?thesis
    unfolding reconcileServiceMonitor_def cleanupNotNeededServiceMonitors_def removeAllServiceMonitors_def
      removePreviouslyCreatedServiceMonitors_def
    by (intro emits_lift_bnd emits_seq emits_if emits_pure in_namespace_emits create
        remove_service_monitors_emits [OF assms]) auto
qed

interpretation up_dashboard: upsert ObjConfigMap cm_Meta EqualConfigMap merge_dashboard
    "\<lambda>f d. agree_annotated (cm_Meta f) (cm_Meta d)" "\<lambda>_. True"
  by unfold_locales (auto simp: EqualConfigMap_def merge_dashboard_def agree_annotated_def ignore_metadata_eq)

lemma reconcileGrafanaDashboard_emits:
  assumes "lawful_env e"
  shows "emits (dashboard_scope vc) (reconcileGrafanaDashboard e vc)"
proof -
  have get: "gets_by_name cm_Meta (e_ConfigMaps e)" and own: "sets_only_owner e"
    using assms by (auto simp: lawful_env_def)
  have create: "emits (dashboard_scope vc)
      (bnd (createGrafanaDashboardConfigMap e vc (dashboard_title vc gd)) (applyGrafanaDashboardConfigMap e))"
    if "sp_Monitoring (vc_Spec vc) = Some mon" "mon_GrafanaDashboard mon = Some gd" "gd_Enabled gd" for mon gd
  proof -
    have app: "emits (dashboard_scope vc) (applyGrafanaDashboardConfigMap e x)"
      if "om_Namespace (cm_Meta x) = if_empty (gd_Namespace gd) (vc_Namespace vc)"
        "om_Name (cm_Meta x) = GrafanaDashboardName (vc_Name vc)" for x
      unfolding applyGrafanaDashboardConfigMap_def create_or_update_def
    proof (intro emits_seq emits_pure emits_mono [OF up_dashboard.emits_stores [OF get that]])
      show "dashboard_scope vc q"
        if "stores (named ObjConfigMap (if_empty (gd_Namespace gd) (vc_Namespace vc)) (GrafanaDashboardName (vc_Name vc))) q" for q
        using that \<open>sp_Monitoring _ = _\<close> \<open>mon_GrafanaDashboard mon = Some gd\<close> \<open>gd_Enabled gd\<close>
        by (cases q) (auto simp: dashboard_scope_def named_def)
    qed
    show ?thesis
      unfolding createGrafanaDashboardConfigMap_def Let_def
      using own by (auto simp: bnd_assoc dashboard_title_def dest!: sets_only_ownerD
          intro!: emits_lift_bnd app)
  qed
  show ?thesis
    unfolding reconcileGrafanaDashboard_def garbageCollectGrafanaDashboards_def removeAllGrafanaDashboards_def
      removePreviouslyCreatedDashboards_def deref_def
    by (intro emits_lift_bnd emits_seq emits_if emits_pure emits_case_option in_namespace_emits create
        remove_dashboards_emits [OF assms]) auto
qed

text \<open>
  The user's labels can hide a service monitor from its own cleanup: they are written over the
  operator's, and the cleanup lists by the operator's. When one of them gives the owner, component
  or UID label another value, the selector the cleanup uses does not match the monitor created.
\<close>

theorem monitor_labels_hide_from_cleanup:
  assumes "psm_Labels spec k = Some v" "k \<in> {LabelVarnishOwner, LabelVarnishComponent, LabelVarnishUID}"
    and "CombinedComponentLabels vc VarnishComponentPrometheusServiceMonitor k \<noteq> Some v"
  shows "\<not> label_match (CombinedComponentLabels vc VarnishComponentPrometheusServiceMonitor)
            (om_Labels (sm_Meta (service_monitor_object vc spec)))"
proof
  assume m: "label_match (CombinedComponentLabels vc VarnishComponentPrometheusServiceMonitor)
            (om_Labels (sm_Meta (service_monitor_object vc spec)))"
  obtain u where u: "CombinedComponentLabels vc VarnishComponentPrometheusServiceMonitor k = Some u"
    using assms(2) by (auto simp: CombinedComponentLabels_lookup)
  then have "om_Labels (sm_Meta (service_monitor_object vc spec)) k = Some u"
    using m unfolding label_match_def map_le_def by (metis domI)
  moreover have "om_Labels (sm_Meta (service_monitor_object vc spec)) k = Some v"
    using assms(1) by (simp add: service_monitor_object_def map_add_def)
  ultimately show False using u assms(3) by simp
qed

text \<open>
  Without the ServiceMonitor kind the reconcile of the monitor succeeds and writes nothing, and
  when a monitor is wanted in the cluster's own namespace a warning event tells the user.
\<close>

theorem missing_kind_tolerated:
  assumes "prometheus_spec vc = Ret spec" "psm_Namespace spec = []"
    and "\<forall>m. \<exists>m'. e_SetControllerReference e vc m = Ret m'"
    and "\<forall>sel w. r_list (e_ServiceMonitors e) sel w = (Err NoKindMatchErr, w)"
    and "\<forall>ns n w. r_get (e_ServiceMonitors e) ns n w = (Err NoKindMatchErr, w)"
  shows "reconcileServiceMonitor e vc s =
    (Ret (), if psm_Enabled spec
             then s\<lparr>os_events := os_events s @ [WarningEvent EventReasonServiceMonitorKindNotFound
                 ''ServiceMonitor can't be installed. Prometheus operator needs to be installed first'']\<rparr>
             else s)"
proof -
  obtain m where "e_SetControllerReference e vc (sm_Meta (service_monitor_object vc spec)) = Ret m"
    using assms(3) by blast
  then show ?thesis
    using assms
    by (simp add: reconcileServiceMonitor_def bnd_apply seq_apply cleanupNotNeededServiceMonitors_def
        removeAllServiceMonitors_def removePreviouslyCreatedServiceMonitors_def remove_service_monitors_def
        attempt_apply api_list_def in_world_def in_namespace_def createServiceMonitorObject_def Let_def
        applyServiceMonitor_def api_get_apply IsNoKindMatch_def)
qed

end
