(* ===== verification/OperatorReconcile.thy ===== *)
theory OperatorReconcile
  imports Defaults DelayedRollingUpdate Rbac Services StatefulSet VclConfigMap Pdb Monitoring
begin

text \<open>
  \<open>varnishcluster_controller.go\<close>: which events ask for a reconcile of which cluster, and the
  reconcile itself, which runs the reconcilers of all components in a fixed order and stops at the
  first error.
\<close>

subsection \<open>Watches\<close>

text \<open>A request is the namespace and the name of a cluster.\<close>

type_synonym cluster_key = "string \<times> string"

definition annotated_requests :: "objmeta \<Rightarrow> cluster_key list" where
  "annotated_requests m =
     (if lookup (om_Annotations m) annotationVarnishClusterNamespace = [] then []
      else if lookup (om_Annotations m) annotationVarnishClusterName = [] then []
      else [(lookup (om_Annotations m) annotationVarnishClusterNamespace,
             lookup (om_Annotations m) annotationVarnishClusterName)])"

definition clusterRoleEventHandler :: "kobj \<Rightarrow> cluster_key list" where
  "clusterRoleEventHandler a = (case a of ObjClusterRole cr \<Rightarrow> annotated_requests (role_Meta cr) | _ \<Rightarrow> [])"

definition clusterRoleBindingEventHandler :: "kobj \<Rightarrow> cluster_key list" where
  "clusterRoleBindingEventHandler a =
     (case a of ObjClusterRoleBinding crb \<Rightarrow> annotated_requests (rb_Meta crb) | _ \<Rightarrow> [])"

definition varnishClusterPodsEventHandler :: "kobj \<Rightarrow> cluster_key list" where
  "varnishClusterPodsEventHandler a =
     (if \<not> label_match [LabelVarnishComponent \<mapsto> component_string VarnishComponentVarnish] (om_Labels (kobj_meta a))
      then []
      else [(om_Namespace (kobj_meta a), lookup (om_Labels (kobj_meta a)) LabelVarnishOwner)])"

subsection \<open>The reconcile\<close>

definition set_type_meta :: "VarnishCluster \<Rightarrow> VarnishCluster" where
  "set_type_meta instance =
     instance\<lparr>vc_APIVersion := if_empty (vc_APIVersion instance) ''caching.ibm.com/v1alpha1'',
              vc_Kind := if_empty (vc_Kind instance) ''VarnishCluster''\<rparr>"

text \<open>The object the new status is collected in: the metadata and the status of the instance.\<close>

definition zero_spec :: VarnishClusterSpec where
  "zero_spec = \<lparr>sp_Replicas = None, sp_UpdateStrategy = None, sp_Varnish = None, sp_VCL = None, sp_Backend = None,
     sp_Service = None, sp_PodDisruptionBudget = None, sp_NodeSelector = Map.empty, sp_Affinity = None,
     sp_Tolerations = [], sp_Monitoring = None, sp_LogLevel = [], sp_LogFormat = [], sp_PriorityClassName = []\<rparr>"

definition status_copy :: "VarnishCluster \<Rightarrow> VarnishCluster" where
  "status_copy instance =
     \<lparr>vc_APIVersion = [], vc_Kind = [], vc_Meta = vc_Meta instance, vc_Spec = zero_spec, vc_Status = vc_Status instance\<rparr>"

definition update_status :: "'w operator_env \<Rightarrow> VarnishCluster \<Rightarrow> VarnishCluster \<Rightarrow> ('w, unit) operator" where
  "update_status e instance instanceStatus =
     (if \<not> EqualVarnishClusterStatus (vc_Status instance) (vc_Status instanceStatus)
      then seq (wrap (''could not update VarnishCluster Status name:'' @ vc_Name instance @ '', namespace:'' @
                       vc_Namespace instance)
                  (api_update_status e instanceStatus)) (ret ())
      else ret ())"

definition reconcile_components :: "'w operator_env \<Rightarrow> VarnishCluster \<Rightarrow> ('w, unit) operator" where
  "reconcile_components e instance =
     seq (reconcileServiceAccount e instance) (
     seq (reconcileRole e instance) (
     seq (reconcileRoleBinding e instance) (
     seq (reconcileClusterRole e instance) (
     seq (reconcileClusterRoleBinding e instance) (
     bnd (reconcileServiceNoCache e instance) (\<lambda>endpointSelector.
     seq (reconcileHeadlessService e instance) (
     seq (reconcileVarnishSecret e instance) (
     bnd (reconcileStatefulSet e instance (status_copy instance)) (\<lambda>(sts, varnishSelector, instanceStatus).
     bnd (reconcileConfigMap e varnishSelector instance instanceStatus) (\<lambda>instanceStatus.
     seq (reconcilePodDisruptionBudget e instance varnishSelector) (
     bnd (reconcileService e instance instanceStatus) (\<lambda>instanceStatus.
     seq (reconcileDelayedRollingUpdate e instance sts) (
     seq (reconcileServiceMonitor e instance) (
     seq (reconcileGrafanaDashboard e instance) (
       update_status e instance instanceStatus)))))))))))))))"

definition reconcile_instance :: "'w operator_env \<Rightarrow> VarnishCluster \<Rightarrow> ('w, unit) operator" where
  "reconcile_instance e instance =
     (if om_DeletionTimestamp (vc_Meta instance) \<noteq> None then finalizerCleanUp e instance
      else bnd (reconcileFinalizers e instance) (reconcile_components e))"

definition reconcileWithContext :: "'w operator_env \<Rightarrow> cluster_key \<Rightarrow> ('w, unit) operator" where
  "reconcileWithContext e request =
     (case request of (ns, name) \<Rightarrow>
       attempt (api_get (e_VarnishClusters e) ns name) (\<lambda>r.
         case r of
           Inl err \<Rightarrow>
             if IsNotFound err
             then seq (deleteCR e (ClusterRoleName name ns)) (deleteCRB e (ClusterRoleBindingName name ns))
             else fail (Wrapped ''could not read VarnishCluster'' err)
         | Inr instance \<Rightarrow>
             bnd (lift (defaultVarnishCluster instance)) (\<lambda>instance. reconcile_instance e (set_type_meta instance))))"

text \<open>The result is whether the request is queued again at once; a conflict is not an error.\<close>

definition Reconcile :: "'w operator_env \<Rightarrow> cluster_key \<Rightarrow> ('w, bool) operator" where
  "Reconcile e request =
     attempt (reconcileWithContext e request) (\<lambda>r.
       case r of
         Inl err \<Rightarrow> if IsConflict err then ret True else fail err
       | Inr u \<Rightarrow> ret False)"

subsection \<open>Watches lead back to the cluster\<close>

text \<open>
  An event on an object of a cluster asks for a reconcile of that cluster and no other: the
  annotations of the cluster role and of its binding, and the labels of the pods of the stateful
  set, lead back to the cluster that made them.
\<close>

theorem watches_lead_back:
  assumes "vc_Name vc \<noteq> []" "vc_Namespace vc \<noteq> []"
  shows "clusterRoleEventHandler (ObjClusterRole (desired_cluster_role vc)) = [(vc_Namespace vc, vc_Name vc)] \<and>
    clusterRoleBindingEventHandler (ObjClusterRoleBinding (desired_cluster_role_binding vc)) =
      [(vc_Namespace vc, vc_Name vc)] \<and>
    (om_Namespace (pod_Meta p) = vc_Namespace vc \<and>
     label_match (CombinedComponentLabels vc VarnishComponentVarnish) (om_Labels (pod_Meta p)) \<longrightarrow>
       varnishClusterPodsEventHandler (ObjPod p) = [(vc_Namespace vc, vc_Name vc)])"
proof (intro conjI impI)
  assume p: "om_Namespace (pod_Meta p) = vc_Namespace vc \<and>
     label_match (CombinedComponentLabels vc VarnishComponentVarnish) (om_Labels (pod_Meta p))"
  have le: "CombinedComponentLabels vc VarnishComponentVarnish k = Some v \<Longrightarrow> om_Labels (pod_Meta p) k = Some v" for k v
    using p unfolding label_match_def map_le_def by (metis domI)
  note labels = le [OF CombinedComponentLabels_lookup(1)] le [OF CombinedComponentLabels_lookup(2)]
  show "varnishClusterPodsEventHandler (ObjPod p) = [(vc_Namespace vc, vc_Name vc)]"
    using p labels by (auto simp: varnishClusterPodsEventHandler_def label_match_def map_le_def lookup_def)
qed (use assms in \<open>auto simp: clusterRoleEventHandler_def clusterRoleBindingEventHandler_def annotated_requests_def
    desired_cluster_role_def desired_cluster_role_binding_def cluster_annotations_def lookup_def
    annotationVarnishClusterName_def annotationVarnishClusterNamespace_def\<close>)

subsection \<open>Errors\<close>

text \<open>
  A conflict is never reported as an error of a reconcile: it is queued again instead, however
  deep in the reconcile it came up and however often it was wrapped; every other error is reported
  as it is, and without an error there is no requeue.
\<close>

theorem conflict_requeues:
  "fst (Reconcile e request s) =
     (case fst (reconcileWithContext e request s) of
        Ret u \<Rightarrow> Ret False
      | Err err \<Rightarrow> if IsConflict err then Ret True else Err err
      | Panic p \<Rightarrow> Panic p)"
  by (simp add: Reconcile_def attempt_apply split: prod.split outcome.split)

subsection \<open>What a reconcile may write\<close>

text \<open>The objects of a cluster, by kind, namespace and name.\<close>

definition owned_object :: "VarnishCluster \<Rightarrow> kobj \<Rightarrow> bool" where
  "owned_object vc x \<longleftrightarrow>
     named ObjServiceAccount (vc_Namespace vc) (ServiceAccountName (vc_Name vc)) x \<or>
     named ObjRole (vc_Namespace vc) (RoleName (vc_Name vc)) x \<or>
     named ObjRoleBinding (vc_Namespace vc) (RoleBindingName (vc_Name vc)) x \<or>
     named ObjClusterRole [] (ClusterRoleName (vc_Name vc) (vc_Namespace vc)) x \<or>
     named ObjClusterRoleBinding [] (ClusterRoleBindingName (vc_Name vc) (vc_Namespace vc)) x \<or>
     named ObjService (vc_Namespace vc) (NoCacheServiceName (vc_Name vc)) x \<or>
     named ObjService (vc_Namespace vc) (HeadlessServiceName (vc_Name vc)) x \<or>
     named ObjService (vc_Namespace vc) (vc_Name vc) x \<or>
     (\<exists>name key. namesForInstanceSecret vc = Ret (name, key) \<and> named ObjSecret (vc_Namespace vc) name x) \<or>
     named ObjStatefulSet (vc_Namespace vc) (StatefulSetName (vc_Name vc)) x \<or>
     (\<exists>vcl name. sp_VCL (vc_Spec vc) = Some vcl \<and> vcl_ConfigMapName vcl = Some name \<and>
        named ObjConfigMap (vc_Namespace vc) name x) \<or>
     named ObjPDB (vc_Namespace vc) (PodDisruptionBudgetName (vc_Name vc)) x \<or>
     named ObjVarnishCluster (vc_Namespace vc) (vc_Name vc) x"

definition operator_scope :: "VarnishCluster \<Rightarrow> request \<Rightarrow> bool" where
  "operator_scope vc q \<longleftrightarrow>
     touches (owned_object vc) q \<or> touches (cleanup_scope vc) q \<or>
     service_monitor_scope vc q \<or> dashboard_scope vc q \<or>
     (\<exists>p. q = Delete (ObjPod p) \<and>
        label_match (CombinedComponentLabels vc VarnishComponentVarnish) (om_Labels (pod_Meta p)))"

lemma scope_owned:
  "emits (touches P) m \<Longrightarrow> (\<And>x. P x \<Longrightarrow> owned_object vc x) \<Longrightarrow> emits (operator_scope vc) m"
  by (erule emits_mono) (auto simp: operator_scope_def intro: touches_mono)

lemma update_pod_emits: "Q (Delete (ObjPod p)) \<Longrightarrow> emits Q (update_pod e vc d p)"
  unfolding update_pod_def trigger_after_def by (intro emits_intros)

lemma reconcileDelayedRollingUpdate_emits:
  assumes "lawful_env e"
  shows "emits (operator_scope vc) (reconcileDelayedRollingUpdate e vc sts)"
proof -
  have ls: "lists_by_label pod_Meta (e_Pods e)" using assms by (simp add: lawful_env_def)
  have pod: "emits (operator_scope vc) (update_pod e vc d p)"
    if "\<forall>z \<in> set pods. label_match (CombinedComponentLabels vc VarnishComponentVarnish) (om_Labels (pod_Meta z))"
      "p \<in> set pods" for d p pods
    by (rule update_pod_emits) (use that in \<open>simp add: operator_scope_def\<close>)
  have due: "emits (operator_scope vc) (update_when_due e vc d n p)"
    if "emits (operator_scope vc) (update_pod e vc d p)" for d n p
    unfolding update_when_due_def Let_def trigger_after_def using that by (intro emits_intros)
  have step: "emits (operator_scope vc) (case candidate of None \<Rightarrow> ret () | Some c \<Rightarrow>
      bnd (deref dru) (\<lambda>d. case newest of
         None \<Rightarrow> update_pod e vc (sint (dru_DelaySeconds d) * second) (hd pods)
       | Some n \<Rightarrow> update_when_due e vc (sint (dru_DelaySeconds d) * second) n c))"
    if "scan_pods rv pods (None, None) = Ret (newest, candidate)" "pods \<noteq> []"
      and l: "\<forall>z \<in> set pods. label_match (CombinedComponentLabels vc VarnishComponentVarnish) (om_Labels (pod_Meta z))"
    for candidate newest pods rv dru
  proof (cases candidate)
    case (Some c)
    then have "c \<in> set pods" using scan_pods_candidate that(1) by blast
    then show ?thesis using Some pod [OF l] that(2)
      by (auto intro!: emits_bnd emits_pure emits_case_option due)
  qed (simp add: emits_pure)
  show ?thesis
    unfolding reconcileDelayedRollingUpdate_def Let_def
    by (intro emits_bnd [OF emits_pure(8)] emits_if emits_pure emits_list_bnd [OF ls] emits_bnd [OF emits_pure(6)]
        emits_lift_bnd emits_case_prod) (auto intro: step)
qed

lemma update_status_emits:
  fixes vc :: VarnishCluster
  shows "vc_Namespace st = vc_Namespace vc \<Longrightarrow> vc_Name st = vc_Name vc \<Longrightarrow>
   emits (touches (named ObjVarnishCluster (vc_Namespace vc) (vc_Name vc))) (update_status e i st)"
  unfolding update_status_def by (intro emits_intros) (simp add: named_def)

lemma set_status_meta [simp]:
  "vc_Meta (set_sts_status a r st) = vc_Meta st" "vc_Meta (set_vcl_status c t st) = vc_Meta st"
  "vc_Meta (set_pods_selector l st) = vc_Meta st" "vc_Meta (status_copy vc) = vc_Meta vc"
  by (simp_all add: set_sts_status_def set_vcl_status_def set_pods_selector_def status_copy_def)

text \<open>The status handed on keeps the cluster's metadata.\<close>

lemma emits_bnd_result:
  assumes "emits Q m" "\<And>a s s'. m s = (Ret a, s') \<Longrightarrow> P a" "\<And>a. P a \<Longrightarrow> emits Q (f a)"
  shows "emits Q (bnd m f)"
  unfolding emits_def
proof
  fix s
  obtain r s' where m: "m s = (r, s')" by (cases "m s")
  show "\<exists>rs. os_requests (snd (bnd m f s)) = os_requests s @ rs \<and> (\<forall>r \<in> set rs. Q r)"
  proof (cases r)
    case (Ret a)
    then show ?thesis using emits_step [OF assms(1) m assms(3) [OF assms(2) [OF m [unfolded Ret]]]] m
      by (simp add: bnd_apply)
  qed (use emitsD [OF assms(1) m] m in \<open>simp_all add: bnd_apply\<close>)
qed

lemma reconcileStatefulSet_status:
  "reconcileStatefulSet e vc st s = (Ret (sts, sel, st'), s') \<Longrightarrow> vc_Meta st' = vc_Meta st"
  by (auto simp: reconcileStatefulSet_def prog_Ret_iff)

lemma reconcileConfigMap_status:
  "reconcileConfigMap e sel vc st s = (Ret st', s') \<Longrightarrow> vc_Meta st' = vc_Meta st"
  by (auto simp: reconcileConfigMap_def prog_Ret_iff)

lemma reconcileService_status:
  "reconcileService e vc st s = (Ret st', s') \<Longrightarrow> vc_Meta st' = vc_Meta st"
  by (auto simp: reconcileService_def prog_Ret_iff)

lemma secret_emits:
  assumes "lawful_env e"
  shows "emits (operator_scope vc) (reconcileVarnishSecret e vc)"
proof (cases "namesForInstanceSecret vc")
  case (Ret names)
  then show ?thesis
    by (cases names) (auto intro!: scope_owned [OF reconcileVarnishSecret_emits [OF assms]] simp: owned_object_def)
qed (simp_all add: reconcileVarnishSecret_def emits_def bnd_apply)

lemma config_map_emits:
  assumes "lawful_env e"
  shows "emits (operator_scope vc) (reconcileConfigMap e sel vc st)"
proof (cases "\<exists>vcl name. sp_VCL (vc_Spec vc) = Some vcl \<and> vcl_ConfigMapName vcl = Some name")
  case True
  then show ?thesis
    by (auto intro!: scope_owned [OF reconcileConfigMap_emits [OF assms]] simp: owned_object_def)
next
  case False
  then show ?thesis
    by (cases "sp_VCL (vc_Spec vc)") (auto simp: reconcileConfigMap_def emits_def bnd_apply deref_apply split: option.split)
qed

lemma reconcile_components_emits:
  assumes "lawful_env e"
  shows "emits (operator_scope vc) (reconcile_components e vc)"
proof -
  let ?Q = "operator_scope vc"
  note own = scope_owned [where vc = vc]
  have upd: "emits ?Q (update_status e vc st)" if "vc_Meta st = vc_Meta vc" for st
    by (rule own [OF update_status_emits [of st vc]]) (simp_all add: that owned_object_def)
  have tail: "emits ?Q (seq (reconcileDelayedRollingUpdate e vc sts) (seq (reconcileServiceMonitor e vc)
      (seq (reconcileGrafanaDashboard e vc) (update_status e vc st))))" if "vc_Meta st = vc_Meta vc" for st sts
    by (intro emits_seq reconcileDelayedRollingUpdate_emits [OF assms] upd that
        emits_mono [OF reconcileServiceMonitor_emits [OF assms]] emits_mono [OF reconcileGrafanaDashboard_emits [OF assms]])
      (simp_all add: operator_scope_def)
  have svc: "emits ?Q (bnd (reconcileService e vc st) (\<lambda>st. seq (reconcileDelayedRollingUpdate e vc sts)
      (seq (reconcileServiceMonitor e vc) (seq (reconcileGrafanaDashboard e vc) (update_status e vc st)))))"
    if "vc_Meta st = vc_Meta vc" for st sts
    by (rule emits_bnd_result [where P = "\<lambda>st. vc_Meta st = vc_Meta vc"])
      (use that in \<open>auto intro!: own [OF reconcileService_emits [OF assms]] tail
          dest: reconcileService_status simp: owned_object_def\<close>)
  have cm: "emits ?Q (bnd (reconcileConfigMap e sel vc st) (\<lambda>st. seq (reconcilePodDisruptionBudget e vc sel)
      (bnd (reconcileService e vc st) (\<lambda>st. seq (reconcileDelayedRollingUpdate e vc sts)
      (seq (reconcileServiceMonitor e vc) (seq (reconcileGrafanaDashboard e vc) (update_status e vc st)))))))"
    if "vc_Meta st = vc_Meta vc" for st sts sel
    by (rule emits_bnd_result [where P = "\<lambda>st. vc_Meta st = vc_Meta vc"])
      (use that in \<open>auto intro!: config_map_emits [OF assms] emits_seq svc
          own [OF reconcilePodDisruptionBudget_emits [OF assms]] dest: reconcileConfigMap_status
          simp: owned_object_def\<close>)
  have sts: "emits ?Q (bnd (reconcileStatefulSet e vc (status_copy vc)) (\<lambda>(sts, sel, st).
      bnd (reconcileConfigMap e sel vc st) (\<lambda>st. seq (reconcilePodDisruptionBudget e vc sel)
      (bnd (reconcileService e vc st) (\<lambda>st. seq (reconcileDelayedRollingUpdate e vc sts)
      (seq (reconcileServiceMonitor e vc) (seq (reconcileGrafanaDashboard e vc) (update_status e vc st))))))))"
    by (rule emits_bnd_result [where P = "\<lambda>(sts, sel, st). vc_Meta st = vc_Meta vc"])
      (auto intro!: own [OF reconcileStatefulSet_emits [OF assms]] cm dest: reconcileStatefulSet_status
        simp: owned_object_def)
  show ?thesis
    unfolding reconcile_components_def
    by (intro emits_seq emits_bnd secret_emits [OF assms] sts
        own [OF reconcileServiceAccount_emits [OF assms]] own [OF reconcileRole_emits [OF assms]]
        own [OF reconcileRoleBinding_emits [OF assms]] own [OF reconcileClusterRole_emits [OF assms]]
        own [OF reconcileClusterRoleBinding_emits [OF assms]] own [OF reconcileServiceNoCache_emits [OF assms]]
        own [OF reconcileHeadlessService_emits [OF assms]]) (simp_all add: owned_object_def)
qed

lemma owned_same_cluster: "same_cluster a b \<Longrightarrow> operator_scope a = operator_scope b"
proof -
  assume s: "same_cluster a b"
  then have eq: "vc_Name a = vc_Name b" "vc_Namespace a = vc_Namespace b" "vc_Spec a = vc_Spec b"
    "om_Labels (vc_Meta a) = om_Labels (vc_Meta b)" "vc_UID a = vc_UID b"
    by (simp_all add: same_cluster_def)
  have labels: "CombinedComponentLabels a = CombinedComponentLabels b"
    using eq by (simp add: fun_eq_iff CombinedComponentLabels_def InheritLabels_def ComponentLabels_def)
  have names: "namesForInstanceSecret a = namesForInstanceSecret b" "prometheus_spec a = prometheus_spec b"
    unfolding namesForInstanceSecret_def secret_names_def prometheus_spec_def eq by simp_all
  have "owned_object a = owned_object b" by (simp add: fun_eq_iff owned_object_def eq names)
  moreover have "service_monitor_scope a = service_monitor_scope b" "dashboard_scope a = dashboard_scope b"
    unfolding service_monitor_scope_def dashboard_scope_def fun_eq_iff eq names labels by simp_all
  ultimately show ?thesis using cleanup_scope_same [OF s] by (intro ext) (simp add: operator_scope_def labels)
qed

lemma reconcile_instance_emits:
  assumes "lawful_env e"
  shows "emits (operator_scope vc) (reconcile_instance e vc)"
proof -
  have keep: "updates_keep_cluster e" using assms by (simp add: lawful_env_def)
  have fin: "reconcileFinalizers e vc s = (Ret vc', s') \<Longrightarrow> same_cluster vc' vc" for vc' s s'
    using updates_same [OF keep]
    by (auto simp: reconcileFinalizers_def prog_Ret_iff api_update_apply same_cluster_def split: if_splits prod.splits)
  show ?thesis
    unfolding reconcile_instance_def
  proof (intro emits_if)
    show "emits (operator_scope vc) (finalizerCleanUp e vc)"
      by (rule emits_mono [OF finalizerCleanUp_emits [OF assms]]) (simp add: operator_scope_def)
    show "emits (operator_scope vc) (bnd (reconcileFinalizers e vc) (reconcile_components e))"
    proof (rule emits_bnd_result [where P = "\<lambda>vc'. same_cluster vc' vc"])
      show "emits (operator_scope vc) (reconcileFinalizers e vc)"
        by (rule scope_owned [OF reconcileFinalizers_emits]) (simp add: owned_object_def)
      show "emits (operator_scope vc) (reconcile_components e vc')" if "same_cluster vc' vc" for vc'
        using reconcile_components_emits [OF assms, of vc'] owned_same_cluster [OF that] by simp
    qed (rule fin)
  qed
qed

text \<open>
  C2: a reconcile only ever writes to the objects of the cluster it was asked for, whatever the API
  server answers: it creates and updates objects of the names and namespaces derived from the
  cluster's, deletes its cluster role, its binding and its disruption budget, and deletes pods,
  service monitors and dashboards only when they carry the labels of the cluster. For a cluster that no
  longer exists it deletes the cluster role and binding of that name and namespace.
\<close>

theorem reconcile_stays_in_scope:
  assumes "lawful_env e"
  shows "emits (\<lambda>q. touches (named ObjClusterRole [] (ClusterRoleName name ns)) q \<or>
       touches (named ObjClusterRoleBinding [] (ClusterRoleBindingName name ns)) q \<or>
       (\<exists>vc. vc_Name vc = name \<and> vc_Namespace vc = ns \<and> operator_scope vc q)) (Reconcile e (ns, name))"
proof -
  have get: "gets_by_name vc_Meta (e_VarnishClusters e)" using assms by (simp add: lawful_env_def)
  let ?Q = "\<lambda>q. touches (named ObjClusterRole [] (ClusterRoleName name ns)) q \<or>
       touches (named ObjClusterRoleBinding [] (ClusterRoleBindingName name ns)) q \<or>
       (\<exists>vc. vc_Name vc = name \<and> vc_Namespace vc = ns \<and> operator_scope vc q)"
  have del: "emits ?Q (deleteCR e (ClusterRoleName name ns))" "emits ?Q (deleteCRB e (ClusterRoleBindingName name ns))"
    by (rule emits_mono [OF deleteCR_emits [OF assms]], blast)
      (rule emits_mono [OF deleteCRB_emits [OF assms]], blast)
  have inst: "emits ?Q (reconcile_instance e (set_type_meta vc'))"
    if "vc_Namespace vc = ns" "vc_Name vc = name" "defaultVarnishCluster vc = Ret vc'" for vc vc'
  proof (rule emits_mono [OF reconcile_instance_emits [OF assms]])
    fix q assume q: "operator_scope (set_type_meta vc') q"
    have "vc_Meta (set_type_meta vc') = vc_Meta vc"
      using that(3) by (auto simp: set_type_meta_def defaultVarnishCluster_def obind_eq_Ret)
    with q that show "?Q q" by metis
  qed
  have "emits ?Q (reconcileWithContext e (ns, name))"
    unfolding reconcileWithContext_def prod.case
  proof (rule emits_get_attempt [OF get])
    show "emits ?Q (case Inl err of
           Inl err \<Rightarrow>
             if IsNotFound err
             then seq (deleteCR e (ClusterRoleName name ns)) (deleteCRB e (ClusterRoleBindingName name ns))
             else fail (Wrapped ''could not read VarnishCluster'' err)
         | Inr instance \<Rightarrow>
             bnd (lift (defaultVarnishCluster instance)) (\<lambda>instance. reconcile_instance e (set_type_meta instance)))" for err
      by (simp add: emits_seq emits_pure del)
  qed (simp only: sum.case, rule emits_lift_bnd, rule inst, assumption+)
  then show ?thesis
    unfolding Reconcile_def by (intro emits_attempt) (auto intro!: emits_if emits_pure split: sum.split)
qed

end
