(* ===== verification/Permissions.thy ===== *)
theory Permissions
  imports OperatorReconcile
begin

text \<open>
  The rights of the operator: the rules of its cluster role, which \<open>controller-gen\<close> makes from the
  \<open>kubebuilder:rbac\<close> markers above \<open>Reconcile\<close> in \<open>varnishcluster_controller.go\<close>, against what a reconcile
  asks of the API server. A server that enforces rules is the environment with every operation
  behind a check; a read is served from a watch, so it takes the right to list and to watch.
\<close>

subsection \<open>Rules\<close>

definition operator_rules :: "policy_rule list" where
  "operator_rules =
     [rule ''caching.ibm.com'' [''varnishclusters''] [''list'', ''watch'', ''create'', ''update'', ''delete''],
      rule ''caching.ibm.com'' [''varnishclusters/status''] [''get'', ''update'', ''patch''],
      rule ''caching.ibm.com'' [''varnishclusters/finalizers''] [''get'', ''update'', ''patch''],
      rule [] [''secrets''] [''get'', ''list'', ''watch'', ''create'', ''update''],
      rule [] [''configmaps''] [''get'', ''list'', ''watch'', ''create'', ''update'', ''delete''],
      rule [] [''services'', ''serviceaccounts''] [''list'', ''watch'', ''create'', ''update'', ''delete''],
      rule [] [''endpoints'', ''namespaces''] [''list'', ''watch''],
      rule [] [''events''] [''create'', ''patch''],
      rule [] [''pods''] [''list'', ''get'', ''watch'', ''update''],
      rule [] [''nodes''] [''watch'', ''list''],
      rule ''apps'' [''statefulsets''] [''list'', ''watch'', ''create'', ''update'', ''delete''],
      rule ''policy'' [''poddisruptionbudgets''] [''list'', ''watch'', ''create'', ''update'', ''delete''],
      rule ''rbac.authorization.k8s.io'' [''roles'', ''rolebindings'', ''clusterroles'', ''clusterrolebindings'']
        [''list'', ''watch'', ''create'', ''update'', ''delete''],
      rule ''monitoring.coreos.com'' [''servicemonitors''] [''get'', ''list'', ''watch'', ''create'', ''update'', ''delete''],
      rule ''coordination.k8s.io'' [''leases''] [''get'', ''list'', ''watch'', ''create'', ''update'', ''delete'']]"

text \<open>What an authorizer asks of the rules: one of them names the group, the resource and the verb.\<close>

definition names_or_all :: "string list \<Rightarrow> string \<Rightarrow> bool" where
  "names_or_all xs x \<longleftrightarrow> x \<in> set xs \<or> ''*'' \<in> set xs"

definition allows :: "policy_rule list \<Rightarrow> string \<times> string \<Rightarrow> string \<Rightarrow> bool" where
  "allows rules res verb \<longleftrightarrow>
     list_ex (\<lambda>r. names_or_all (rule_APIGroups r) (fst res) \<and> names_or_all (rule_Resources r) (snd res) \<and>
        names_or_all (rule_Verbs r) verb) rules"

definition covers :: "policy_rule list \<Rightarrow> policy_rule \<Rightarrow> bool" where
  "covers rules r \<longleftrightarrow>
     list_all (\<lambda>g. list_all (\<lambda>x. list_all (allows rules (g, x)) (rule_Verbs r)) (rule_Resources r)) (rule_APIGroups r)"

fun resource_of :: "kobj \<Rightarrow> string \<times> string" where
  "resource_of (ObjServiceAccount x) = ([], ''serviceaccounts'')"
| "resource_of (ObjRole x) = (''rbac.authorization.k8s.io'', ''roles'')"
| "resource_of (ObjClusterRole x) = (''rbac.authorization.k8s.io'', ''clusterroles'')"
| "resource_of (ObjRoleBinding x) = (''rbac.authorization.k8s.io'', ''rolebindings'')"
| "resource_of (ObjClusterRoleBinding x) = (''rbac.authorization.k8s.io'', ''clusterrolebindings'')"
| "resource_of (ObjService x) = ([], ''services'')"
| "resource_of (ObjSecret x) = ([], ''secrets'')"
| "resource_of (ObjStatefulSet x) = (''apps'', ''statefulsets'')"
| "resource_of (ObjConfigMap x) = ([], ''configmaps'')"
| "resource_of (ObjPDB x) = (''policy'', ''poddisruptionbudgets'')"
| "resource_of (ObjPod x) = ([], ''pods'')"
| "resource_of (ObjServiceMonitor x) = (''monitoring.coreos.com'', ''servicemonitors'')"
| "resource_of (ObjVarnishCluster x) = (''caching.ibm.com'', ''varnishclusters'')"

text \<open>
  Whoever writes a role must hold the rights it grants; the server checks that on every write of a
  role.
\<close>

fun may_grant :: "policy_rule list \<Rightarrow> kobj \<Rightarrow> bool" where
  "may_grant rules (ObjRole x) = list_all (covers rules) (role_Rules x)"
| "may_grant rules (ObjClusterRole x) = list_all (covers rules) (role_Rules x)"
| "may_grant rules x = True"

fun permits :: "policy_rule list \<Rightarrow> request \<Rightarrow> bool" where
  "permits rules (Create x) = (allows rules (resource_of x) ''create'' \<and> may_grant rules x)"
| "permits rules (Update x) = (allows rules (resource_of x) ''update'' \<and> may_grant rules x)"
| "permits rules (Delete x) = allows rules (resource_of x) ''delete''"
| "permits rules (UpdateStatus vc) = allows rules (''caching.ibm.com'', ''varnishclusters/status'') ''update''"

definition deletes_pod :: "request \<Rightarrow> bool" where
  "deletes_pod q \<longleftrightarrow> (\<exists>p. q = Delete (ObjPod p))"

subsection \<open>What a reconcile asks for\<close>

text \<open>The definitions of the operator's programs, for arguments that follow their structure.\<close>

lemmas rbac_steps = reconcileServiceAccount_def reconcileRole_def reconcileRoleBinding_def reconcileClusterRole_def
  reconcileClusterRoleBinding_def

lemmas service_steps = reconcileServiceNoCache_def reconcileService_def reconcileHeadlessService_def
  reconcileServiceGeneric_def

lemmas secret_steps = reconcileVarnishSecret_def createNewSecret_def updateVarnishSecret_def generateSecretData_def

lemmas workload_steps = reconcileStatefulSet_def apply_statefulset_def reconcileConfigMap_def create_config_map_def
  adopt_config_map_def reconcilePodDisruptionBudget_def deletePDBIfExists_def updatePDB_def deletePDB_def createPDB_def
  getPDB_def

lemmas monitoring_steps = reconcileServiceMonitor_def cleanupNotNeededServiceMonitors_def removeAllServiceMonitors_def
  removePreviouslyCreatedServiceMonitors_def remove_service_monitors_def createServiceMonitorObject_def
  applyServiceMonitor_def reconcileGrafanaDashboard_def garbageCollectGrafanaDashboards_def
  removeAllGrafanaDashboards_def removePreviouslyCreatedDashboards_def remove_dashboards_def
  createGrafanaDashboardConfigMap_def applyGrafanaDashboardConfigMap_def in_namespace_def delete_listed_def

lemmas cleanup_steps = finalizerCleanUp_def deleteCR_def deleteCRB_def deleteServiceMonitor_def
  deleteGrafanaDashboard_def delete_if_found_def removeFinalizer_def reconcileFinalizers_def

lemmas rolling_steps = reconcileDelayedRollingUpdate_def update_when_due_def update_pod_def trigger_after_def

abbreviation permitted :: "('w, 'a) operator \<Rightarrow> bool" where
  "permitted m \<equiv> emits (\<lambda>q. permits operator_rules q \<and> \<not> deletes_pod q) m"

lemma deletes_pod_simps [simp]:
  "\<not> deletes_pod (Create x)" "\<not> deletes_pod (Update x)" "\<not> deletes_pod (UpdateStatus vc)"
  "deletes_pod (Delete x) \<longleftrightarrow> (\<exists>p. x = ObjPod p)"
  by (simp_all add: deletes_pod_def)

lemma merged_rules [simp]:
  "role_Rules (merge_role f d) = role_Rules d" "role_Rules (merge_cluster_role f d) = role_Rules d"
  by (simp_all add: merge_role_def merge_cluster_role_def)

lemmas rule_eval = operator_rules_def rule_def allows_def names_or_all_def

lemma own_rules_covered [simp]:
  "list_all (covers operator_rules) (role_Rules (desired_role vc))"
  "list_all (covers operator_rules) (role_Rules (desired_cluster_role vc))"
  by (simp_all add: desired_role_def desired_cluster_role_def covers_def rule_eval)

lemma writes_allowed [simp]:
  assumes "verb \<in> {''create'', ''update'', ''delete''}"
  shows "allows operator_rules ([], ''serviceaccounts'') verb" "allows operator_rules ([], ''services'') verb"
    "allows operator_rules ([], ''configmaps'') verb" "allows operator_rules (''apps'', ''statefulsets'') verb"
    "allows operator_rules (''policy'', ''poddisruptionbudgets'') verb"
    "allows operator_rules (''rbac.authorization.k8s.io'', ''roles'') verb"
    "allows operator_rules (''rbac.authorization.k8s.io'', ''clusterroles'') verb"
    "allows operator_rules (''rbac.authorization.k8s.io'', ''rolebindings'') verb"
    "allows operator_rules (''rbac.authorization.k8s.io'', ''clusterrolebindings'') verb"
    "allows operator_rules (''monitoring.coreos.com'', ''servicemonitors'') verb"
    "allows operator_rules (''caching.ibm.com'', ''varnishclusters'') verb"
    "allows operator_rules ([], ''secrets'') verb \<longleftrightarrow> verb \<noteq> ''delete''"
    "allows operator_rules ([], ''pods'') verb \<longleftrightarrow> verb = ''update''"
    "allows operator_rules (''caching.ibm.com'', ''varnishclusters/status'') verb \<longleftrightarrow> verb = ''update''"
  using assms by (auto simp: rule_eval)

lemma rbac_permitted:
  "permitted (reconcileServiceAccount e vc)" "permitted (reconcileRole e vc)" "permitted (reconcileRoleBinding e vc)"
  "permitted (reconcileClusterRole e vc)" "permitted (reconcileClusterRoleBinding e vc)"
  unfolding rbac_steps Let_def set_controller_def by (intro emits_intros; simp)+

lemma service_permitted:
  "permitted (reconcileServiceNoCache e vc)" "permitted (reconcileService e vc st)" "permitted (reconcileHeadlessService e vc)"
  unfolding service_steps Let_def set_controller_def by (intro emits_intros; simp)+

lemma secret_permitted: "permitted (reconcileVarnishSecret e vc)"
  unfolding secret_steps set_controller_def by (intro emits_intros; simp)+

lemma workload_permitted:
  "permitted (reconcileStatefulSet e vc st)" "permitted (reconcileConfigMap e sel vc st)"
  "permitted (reconcilePodDisruptionBudget e vc sel)"
  unfolding workload_steps Let_def set_controller_def by (intro emits_intros; simp)+

lemma monitoring_permitted: "permitted (reconcileServiceMonitor e vc)" "permitted (reconcileGrafanaDashboard e vc)"
  unfolding monitoring_steps Let_def set_controller_def by (intro emits_intros; simp)+

lemma cleanup_permitted:
  "permitted (finalizerCleanUp e vc)" "permitted (reconcileFinalizers e vc)" "permitted (deleteCR e n)" "permitted (deleteCRB e n)"
  unfolding cleanup_steps Let_def by (intro emits_intros; simp)+

lemma status_permitted: "permitted (update_status e vc st)"
  unfolding update_status_def by (intro emits_intros; simp)

lemma rolling_only_deletes: "emits deletes_pod (reconcileDelayedRollingUpdate e vc sts)"
  unfolding rolling_steps Let_def by (intro emits_intros; simp)

lemmas components_permitted = rbac_permitted service_permitted secret_permitted workload_permitted monitoring_permitted
  cleanup_permitted status_permitted

subsection \<open>A server that enforces the rules\<close>

definition forbidden :: "('w, 'a) prog" where
  "forbidden = (\<lambda>w. (Err (StatusErr (OtherReason ''Forbidden'')), w))"

definition guarded :: "policy_rule list \<Rightarrow> string \<times> string \<Rightarrow> string \<Rightarrow> ('w, 'a) prog \<Rightarrow> ('w, 'a) prog" where
  "guarded rules res verb m = (if allows rules res verb then m else forbidden)"

definition enforce_resource :: "policy_rule list \<Rightarrow> string \<times> string \<Rightarrow> ('w, 'o) resource \<Rightarrow> ('w, 'o) resource" where
  "enforce_resource rules res r =
     \<lparr>r_get = (\<lambda>ns n. guarded rules res ''list'' (guarded rules res ''watch'' (r_get r ns n))),
      r_list = (\<lambda>sel. guarded rules res ''list'' (guarded rules res ''watch'' (r_list r sel))),
      r_create = (\<lambda>x. guarded rules res ''create'' (r_create r x)),
      r_update = (\<lambda>x. guarded rules res ''update'' (r_update r x)),
      r_delete = (\<lambda>x. guarded rules res ''delete'' (r_delete r x))\<rparr>"

definition enforce :: "policy_rule list \<Rightarrow> 'w operator_env \<Rightarrow> 'w operator_env" where
  "enforce rules e = e\<lparr>
     e_ServiceAccounts := enforce_resource rules ([], ''serviceaccounts'') (e_ServiceAccounts e),
     e_Roles := enforce_resource rules (''rbac.authorization.k8s.io'', ''roles'') (e_Roles e),
     e_ClusterRoles := enforce_resource rules (''rbac.authorization.k8s.io'', ''clusterroles'') (e_ClusterRoles e),
     e_RoleBindings := enforce_resource rules (''rbac.authorization.k8s.io'', ''rolebindings'') (e_RoleBindings e),
     e_ClusterRoleBindings :=
       enforce_resource rules (''rbac.authorization.k8s.io'', ''clusterrolebindings'') (e_ClusterRoleBindings e),
     e_Services := enforce_resource rules ([], ''services'') (e_Services e),
     e_Secrets := enforce_resource rules ([], ''secrets'') (e_Secrets e),
     e_StatefulSets := enforce_resource rules (''apps'', ''statefulsets'') (e_StatefulSets e),
     e_ConfigMaps := enforce_resource rules ([], ''configmaps'') (e_ConfigMaps e),
     e_PDBs := enforce_resource rules (''policy'', ''poddisruptionbudgets'') (e_PDBs e),
     e_Pods := enforce_resource rules ([], ''pods'') (e_Pods e),
     e_Namespaces := enforce_resource rules ([], ''namespaces'') (e_Namespaces e),
     e_ServiceMonitors := enforce_resource rules (''monitoring.coreos.com'', ''servicemonitors'') (e_ServiceMonitors e),
     e_VarnishClusters := enforce_resource rules (''caching.ibm.com'', ''varnishclusters'') (e_VarnishClusters e),
     e_StatusUpdate :=
       (\<lambda>vc. guarded rules (''caching.ibm.com'', ''varnishclusters/status'') ''update'' (e_StatusUpdate e vc))\<rparr>"

lemma allows_reads [simp]:
  assumes "verb \<in> {''list'', ''watch''}"
  shows "allows operator_rules ([], ''serviceaccounts'') verb" "allows operator_rules ([], ''services'') verb"
    "allows operator_rules ([], ''configmaps'') verb" "allows operator_rules ([], ''secrets'') verb"
    "allows operator_rules ([], ''pods'') verb" "allows operator_rules ([], ''namespaces'') verb"
    "allows operator_rules (''apps'', ''statefulsets'') verb"
    "allows operator_rules (''policy'', ''poddisruptionbudgets'') verb"
    "allows operator_rules (''rbac.authorization.k8s.io'', ''roles'') verb"
    "allows operator_rules (''rbac.authorization.k8s.io'', ''clusterroles'') verb"
    "allows operator_rules (''rbac.authorization.k8s.io'', ''rolebindings'') verb"
    "allows operator_rules (''rbac.authorization.k8s.io'', ''clusterrolebindings'') verb"
    "allows operator_rules (''monitoring.coreos.com'', ''servicemonitors'') verb"
    "allows operator_rules (''caching.ibm.com'', ''varnishclusters'') verb"
  using assms by (auto simp: rule_eval)

lemma namespaces_read_only [simp]:
  "verb \<in> {''create'', ''update'', ''delete''} \<Longrightarrow> \<not> allows operator_rules ([], ''namespaces'') verb"
  by (auto simp: rule_eval)

lemma enforced_environment:
  "enforce operator_rules e = e\<lparr>
     e_Secrets := (e_Secrets e)\<lparr>r_delete := \<lambda>x. forbidden\<rparr>,
     e_Pods := (e_Pods e)\<lparr>r_create := \<lambda>x. forbidden, r_delete := \<lambda>x. forbidden\<rparr>,
     e_Namespaces := (e_Namespaces e)\<lparr>r_create := \<lambda>x. forbidden, r_update := \<lambda>x. forbidden, r_delete := \<lambda>x. forbidden\<rparr>\<rparr>"
  by (simp add: enforce_def enforce_resource_def guarded_def)

text \<open>
  C4: of all that a reconcile asks of the API server the operator's own rules refuse exactly one thing, the
  deletion of a pod: every object it creates, updates or deletes otherwise is of a kind, and in a way,
  its rules allow, and the roles it writes for a cluster grant no right it does not hold itself. A server
  that enforces the rules answers every read as one that does not, so nothing else is held up.
\<close>

theorem rules_refuse_only_pod_deletion:
  "emits (\<lambda>q. permits operator_rules q \<longleftrightarrow> \<not> deletes_pod q) (Reconcile e request) \<and>
   enforce operator_rules e = e\<lparr>
     e_Secrets := (e_Secrets e)\<lparr>r_delete := \<lambda>x. forbidden\<rparr>,
     e_Pods := (e_Pods e)\<lparr>r_create := \<lambda>x. forbidden, r_delete := \<lambda>x. forbidden\<rparr>,
     e_Namespaces := (e_Namespaces e)\<lparr>r_create := \<lambda>x. forbidden, r_update := \<lambda>x. forbidden, r_delete := \<lambda>x. forbidden\<rparr>\<rparr>"
proof (intro conjI enforced_environment)
  let ?Q = "\<lambda>q. permits operator_rules q \<longleftrightarrow> \<not> deletes_pod q"
  have p: "permitted m \<Longrightarrow> emits ?Q m" for m :: "('a, 'b) operator" by (erule emits_mono) blast
  have r: "emits ?Q (reconcileDelayedRollingUpdate e vc sts)" for vc sts
    by (rule emits_mono [OF rolling_only_deletes]) (auto simp: deletes_pod_def)
  show "emits ?Q (Reconcile e request)"
    unfolding Reconcile_def reconcileWithContext_def reconcile_instance_def reconcile_components_def
    by (intro emits_intros r p components_permitted)
qed
subsection \<open>What a refusal stops\<close>

text \<open>
  \<open>stops_at Q err m\<close>: once \<open>m\<close> has sent a request in \<open>Q\<close> it sends nothing more and returns the error.
\<close>

definition stops_at :: "(request \<Rightarrow> bool) \<Rightarrow> gerr \<Rightarrow> ('w, 'a) operator \<Rightarrow> bool" where
  "stops_at Q err m \<longleftrightarrow> (\<forall>s. \<exists>rs. os_requests (snd (m s)) = os_requests s @ rs \<and>
     ((\<forall>q \<in> set rs. \<not> Q q) \<or> (\<exists>rs' q. rs = rs' @ [q] \<and> (\<forall>q \<in> set rs'. \<not> Q q) \<and> Q q \<and> fst (m s) = Err err)))"

named_theorems stops_intros \<open>how a program stops at a request, by its structure\<close>

lemma stops_emits: "emits (\<lambda>q. \<not> Q q) m \<Longrightarrow> stops_at Q err m"
  unfolding emits_def stops_at_def by meson

lemma stops_pure [stops_intros]:
  "stops_at Q err (ret a)" "stops_at Q err (fail e)" "stops_at Q err (lift r)" "stops_at Q err (deref x)"
  "stops_at Q err (now env)" "stops_at Q err (with_timers f)" "stops_at Q err (read_timers g)"
  "stops_at Q err (api_get res ns n)" "stops_at Q err (api_list res' sel)"
  by (rule stops_emits, rule emits_intros)+

lemma stops_step:
  assumes m: "stops_at Q err m" "m s = (r, s')" and k: "stops_at Q err k" "r = Err err \<Longrightarrow> k s' = (Err err, s')"
  shows "\<exists>rs. os_requests (snd (k s')) = os_requests s @ rs \<and>
     ((\<forall>q \<in> set rs. \<not> Q q) \<or> (\<exists>rs' q. rs = rs' @ [q] \<and> (\<forall>q \<in> set rs'. \<not> Q q) \<and> Q q \<and> fst (k s') = Err err))"
proof -
  obtain rs where rs: "os_requests s' = os_requests s @ rs"
    "(\<forall>q \<in> set rs. \<not> Q q) \<or> (\<exists>rs' q. rs = rs' @ [q] \<and> (\<forall>q \<in> set rs'. \<not> Q q) \<and> Q q \<and> r = Err err)"
    using m unfolding stops_at_def by (metis fst_conv snd_conv)
  show ?thesis
  proof (cases "\<forall>q \<in> set rs. \<not> Q q")
    case False
    then show ?thesis using rs k(2) by (intro exI [of _ rs]) auto
  next
    case True
    obtain rs2 where rs2: "os_requests (snd (k s')) = os_requests s' @ rs2"
      "(\<forall>q \<in> set rs2. \<not> Q q) \<or> (\<exists>rs' q. rs2 = rs' @ [q] \<and> (\<forall>q \<in> set rs'. \<not> Q q) \<and> Q q \<and> fst (k s') = Err err)"
      using k(1) unfolding stops_at_def by blast
    from this(2) have "(\<forall>q \<in> set (rs @ rs2). \<not> Q q) \<or>
        (\<exists>us v. rs @ rs2 = us @ [v] \<and> (\<forall>q \<in> set us. \<not> Q q) \<and> Q v \<and> fst (k s') = Err err)"
    proof (rule disjE)
      assume "\<exists>rs' q. rs2 = rs' @ [q] \<and> (\<forall>q \<in> set rs'. \<not> Q q) \<and> Q q \<and> fst (k s') = Err err"
      then obtain us v where "rs2 = us @ [v]" "\<forall>q \<in> set us. \<not> Q q" "Q v" "fst (k s') = Err err" by blast
      then show ?thesis using True by (intro disjI2 exI [of _ "rs @ us"] exI [of _ v]) auto
    qed (use True in auto)
    then show ?thesis using rs(1) rs2(1) by (intro exI [of _ "rs @ rs2"]) simp
  qed
qed

text \<open>A handler must pass the error on; then nothing of the handler runs after the request.\<close>

lemma stops_attempt:
  assumes m: "stops_at Q err m" and f: "\<And>r. stops_at Q err (f r)" "\<And>s. f (Inl err) s = (Err err, s)"
  shows "stops_at Q err (attempt m f)"
  unfolding stops_at_def
proof
  fix s
  obtain r s' where ms: "m s = (r, s')" by (cases "m s")
  show "\<exists>rs. os_requests (snd (attempt m f s)) = os_requests s @ rs \<and>
     ((\<forall>q \<in> set rs. \<not> Q q) \<or> (\<exists>rs' q. rs = rs' @ [q] \<and> (\<forall>q \<in> set rs'. \<not> Q q) \<and> Q q \<and> fst (attempt m f s) = Err err))"
  proof (cases r)
    case (Ret a)
    then show ?thesis using stops_step [OF m ms f(1) [of "Inr a"]] ms by (simp add: attempt_apply)
  next
    case (Err e)
    then show ?thesis using stops_step [OF m ms f(1) [of "Inl e"]] ms f(2) by (simp add: attempt_apply)
  next
    case (Panic p)
    then show ?thesis using stops_step [OF m ms stops_pure(3) [of Q err "Panic p"]] ms by (simp add: attempt_apply)
  qed
qed

lemma bnd_attempt_fail: "bnd m f = attempt m (\<lambda>r. case r of Inl e \<Rightarrow> fail e | Inr a \<Rightarrow> f a)"
  by (auto simp: attempt_def bnd_def fun_eq_iff split: prod.split outcome.split)

lemma stops_bnd [stops_intros]: "stops_at Q err m \<Longrightarrow> (\<And>a. stops_at Q err (f a)) \<Longrightarrow> stops_at Q err (bnd m f)"
  unfolding bnd_attempt_fail by (rule stops_attempt) (auto intro: stops_pure split: sum.split)

lemma stops_seq [stops_intros]: "stops_at Q err m \<Longrightarrow> stops_at Q err k \<Longrightarrow> stops_at Q err (seq m k)"
  by (simp add: seq_def stops_bnd)

lemma stops_cases [stops_intros]:
  "(b \<Longrightarrow> stops_at Q err m) \<Longrightarrow> (\<not> b \<Longrightarrow> stops_at Q err m') \<Longrightarrow> stops_at Q err (if b then m else m')"
  "(x = None \<Longrightarrow> stops_at Q err m) \<Longrightarrow> (\<And>a. x = Some a \<Longrightarrow> stops_at Q err (f a)) \<Longrightarrow>
   stops_at Q err (case x of None \<Rightarrow> m | Some a \<Rightarrow> f a)"
  "(\<And>a b. y = (a, b) \<Longrightarrow> stops_at Q err (g a b)) \<Longrightarrow> stops_at Q err (case y of (a, b) \<Rightarrow> g a b)"
  "(\<And>a. z = Inl a \<Longrightarrow> stops_at Q err (h a)) \<Longrightarrow> (\<And>b. z = Inr b \<Longrightarrow> stops_at Q err (h' b)) \<Longrightarrow>
   stops_at Q err (case z of Inl a \<Rightarrow> h a | Inr b \<Rightarrow> h' b)"
  by (auto split: option.split prod.split sum.split)

lemma stops_delete [stops_intros]:
  assumes "\<And>w. r_delete res x w = (Err err, w)"
  shows "stops_at deletes_pod err (api_delete mk res x)"
  using assms by (cases "deletes_pod (Delete (mk x))") (simp_all add: stops_at_def api_delete_apply)

text \<open>A read handles its own errors.\<close>

lemma stops_read:
  assumes "emits (\<lambda>q. \<not> Q q) m" "\<And>r. stops_at Q err (f r)"
  shows "stops_at Q err (attempt m f)"
proof -
  have "attempt m f = bnd (attempt m (\<lambda>r. ret r)) f"
    by (auto simp: attempt_def bnd_def ret_def fun_eq_iff split: prod.split outcome.split)
  moreover have "emits (\<lambda>q. \<not> Q q) (attempt m (\<lambda>r. ret r))" by (intro emits_attempt assms emits_pure)
  ultimately show ?thesis using assms(2) by (auto intro: stops_bnd stops_emits)
qed

lemma rolling_stops:
  "stops_at deletes_pod (StatusErr (OtherReason ''Forbidden''))
     (reconcileDelayedRollingUpdate (enforce operator_rules e) vc sts)"
  unfolding rolling_steps Let_def
  by (intro stops_intros) (simp_all add: enforced_environment forbidden_def)

text \<open>
  C16: so under the rules the operator is installed with, the delayed rolling update never happens: a
  reconcile that comes to delete an outdated pod is refused, ends there with the error and has sent
  nothing after it, so that neither the monitoring objects nor the status of the cluster are reconciled.
\<close>

theorem rolling_update_forbidden:
  "stops_at deletes_pod (StatusErr (OtherReason ''Forbidden'')) (Reconcile (enforce operator_rules e) request)"
proof -
  let ?err = "StatusErr (OtherReason ''Forbidden'')"
  have p: "permitted m \<Longrightarrow> stops_at deletes_pod ?err m" for m :: "('a, 'b) operator"
    by (rule stops_emits) (erule emits_mono, blast)
  have ctx: "stops_at deletes_pod ?err (reconcileWithContext (enforce operator_rules e) request)"
    unfolding reconcileWithContext_def reconcile_instance_def reconcile_components_def
    by (intro stops_intros stops_read rolling_stops components_permitted [THEN p] emits_reads)
  show ?thesis
    unfolding Reconcile_def
    by (rule stops_attempt [OF ctx], intro stops_intros) (simp add: IsConflict_def fail_def)
qed

end
