(* ===== verification/OperatorConfig.thy ===== *)
theory OperatorConfig
  imports GoJson ApiTypes Prelude
begin

text \<open>
  The configuration of the operator (\<open>pkg/varnishcluster/config/config.go\<close>): the parsers of its
  fields, and the image of Varnish derived from the operator's own. Reading the environment into the
  struct, parsing the text of a log level, and the image references of the docker library are
  parameters; a reference that has a name is taken for its text.
\<close>

type_synonym log_level = "8 word"

record operator_config =
  oc_Namespace :: string
  oc_LeaderElectionEnabled :: bool
  oc_ContainerImage :: string
  oc_LogLevel :: log_level
  oc_LogFormat :: string
  oc_WebhooksPort :: int32
  oc_MetricsPort :: int32
  oc_WebhooksEnabled :: bool
  oc_CoupledVarnishImage :: string

datatype image_ref = NamedTagged string string  \<comment> \<open>name and tag\<close> | OtherRef

record config_libs =
  g_UnmarshalLevel :: "string \<Rightarrow> log_level option"
  g_ParseEnv :: "(string \<Rightarrow> int32 outcome) \<Rightarrow> (string \<Rightarrow> log_level outcome) \<Rightarrow> operator_config outcome"
  g_ParseRef :: "string \<Rightarrow> image_ref outcome"
  g_WithName :: "string \<Rightarrow> string outcome"
  g_WithTag :: "string \<Rightarrow> string \<Rightarrow> string outcome"

text \<open>\<open>strconv.ParseInt\<close> in base 10 for 32 bits.\<close>

definition ParseInt32 :: "string \<Rightarrow> int option" where
  "ParseInt32 v =
     (let neg = (v \<noteq> [] \<and> hd v = CHR ''-'');
          ds = (if v \<noteq> [] \<and> (hd v = CHR ''-'' \<or> hd v = CHR ''+'') then tl v else v);
          n = (if neg then - int (digits_val ds) else int (digits_val ds)) in
      if ds = [] \<or> \<not> list_all is_digit ds \<or> n < - (2 ^ 31) \<or> 2 ^ 31 \<le> n then None else Some n)"

definition int32Parser :: "string \<Rightarrow> int32 outcome" where
  "int32Parser v =
     (case ParseInt32 v of None \<Rightarrow> Err (Plain (v @ '' is not an int32'')) | Some i \<Rightarrow> Ret (word_of_int i))"

definition levelParser :: "config_libs \<Rightarrow> string \<Rightarrow> log_level outcome" where
  "levelParser g v =
     (case g_UnmarshalLevel g v of None \<Rightarrow> Err (Plain (v @ '' is not an zapcore.Level'')) | Some l \<Rightarrow> Ret l)"

text \<open>\<open>repo[:strings.LastIndexByte(repo, '/')]\<close>, or all of it without a slash.\<close>

definition chop_image_name :: "string \<Rightarrow> string" where
  "chop_image_name repo =
     (let parts = Split repo CHR ''/'' in if length parts < 2 then repo else Join (butlast parts) ''/'')"

definition wrap_err :: "string \<Rightarrow> 'a outcome \<Rightarrow> 'a outcome" where
  "wrap_err msg r = (case r of Err e \<Rightarrow> Err (Wrapped msg e) | _ \<Rightarrow> r)"

definition LoadConfig :: "config_libs \<Rightarrow> operator_config outcome" where
  "LoadConfig g =
     obind (g_ParseEnv g int32Parser (levelParser g)) (\<lambda>c.
     obind (wrap_err ''image is not properly formatted'' (g_ParseRef g (oc_ContainerImage c))) (\<lambda>ref.
     case ref of
       OtherRef \<Rightarrow> Err (Plain ''image name does not include tag'')
     | NamedTagged name tag \<Rightarrow>
         obind (wrap_err ''could not initialize varnish image name'' (g_WithName g (chop_image_name name @ ''/varnish''))) (\<lambda>varnishImageName.
         obind (wrap_err ''could not include tag to varnish image name'' (g_WithTag g varnishImageName tag)) (\<lambda>varnishImage.
           Ret (c\<lparr>oc_CoupledVarnishImage := varnishImage\<rparr>)))))"

subsection \<open>Integers\<close>

lemma hd_show_nat: "hd (show_nat n) \<noteq> CHR ''-'' \<and> hd (show_nat n) \<noteq> CHR ''+''"
proof -
  have "is_digit (hd (show_nat n))" using show_nat_digits [of n] by (cases "show_nat n") auto
  then show ?thesis by (auto simp: is_digit_def)
qed

lemma ParseInt32_show_int: "- (2 ^ 31) \<le> i \<Longrightarrow> i < 2 ^ 31 \<Longrightarrow> ParseInt32 (show_int i) = Some i"
  using show_nat_digits [of "nat (- i)"] show_nat_digits [of "nat i"] hd_show_nat [of "nat i"]
  by (auto simp: ParseInt32_def show_int_def Let_def)

text \<open>
  The parser of the ports reads back every 32-bit number as it is printed, and refuses every number
  out of range instead of truncating it.
\<close>

theorem int32Parser_reads_back:
  "int32Parser (show_int (sint (w :: int32))) = Ret w \<and>
   (i < - (2 ^ 31) \<or> 2 ^ 31 \<le> i \<longrightarrow> int32Parser (show_int i) = Err (Plain (show_int i @ '' is not an int32'')))"
proof
  have "- (2 ^ 31) \<le> sint w \<and> sint w < 2 ^ 31"
    using sint_range_size [of w] by (simp add: word_size)
  then show "int32Parser (show_int (sint w)) = Ret w" by (simp add: int32Parser_def ParseInt32_show_int)
  show "i < - (2 ^ 31) \<or> 2 ^ 31 \<le> i \<longrightarrow> int32Parser (show_int i) = Err (Plain (show_int i @ '' is not an int32''))"
    using show_nat_digits [of "nat (- i)"] show_nat_digits [of "nat i"] hd_show_nat [of "nat i"]
    by (auto simp: int32Parser_def ParseInt32_def show_int_def Let_def)
qed

subsection \<open>The coupled image\<close>

definition plain_refs :: "config_libs \<Rightarrow> bool" where
  "plain_refs g \<longleftrightarrow> (\<forall>n. g_WithName g n = Ret n) \<and> (\<forall>n t. g_WithTag g n t = Ret (n @ '':'' @ t))"

lemma chop_image_name_simps:
  "CHR ''/'' \<notin> set img \<Longrightarrow> chop_image_name (repo @ ''/'' @ img) = repo"
  "CHR ''/'' \<notin> set img \<Longrightarrow> chop_image_name img = img"
proof -
  have split: "Split (repo @ CHR ''/'' # img) CHR ''/'' = Split repo CHR ''/'' @ [img]" if "CHR ''/'' \<notin> set img"
    by (induction repo) (use that in \<open>auto simp: Split_no_sep split: list.split\<close>)
  show "CHR ''/'' \<notin> set img \<Longrightarrow> chop_image_name (repo @ ''/'' @ img) = repo"
    using Join_Split [of repo "CHR ''/''"] by (cases "Split repo CHR ''/''") (auto simp: chop_image_name_def split)
  show "CHR ''/'' \<notin> set img \<Longrightarrow> chop_image_name img = img"
    by (simp add: chop_image_name_def Split_no_sep)
qed

text \<open>
  The image of Varnish is the one next to the operator's in its repository, with the operator's tag.
  The image of an operator whose name has no repository is taken for a repository itself.
\<close>

theorem coupled_image:
  assumes "g_ParseEnv g int32Parser (levelParser g) = Ret c" "plain_refs g" "CHR ''/'' \<notin> set img"
  shows "(g_ParseRef g (oc_ContainerImage c) = Ret (NamedTagged (repo @ ''/'' @ img) tag) \<longrightarrow>
       LoadConfig g = Ret (c\<lparr>oc_CoupledVarnishImage := repo @ ''/varnish:'' @ tag\<rparr>)) \<and>
    (g_ParseRef g (oc_ContainerImage c) = Ret (NamedTagged img tag) \<longrightarrow>
       LoadConfig g = Ret (c\<lparr>oc_CoupledVarnishImage := img @ ''/varnish:'' @ tag\<rparr>))"
  using assms chop_image_name_simps [of img]
  by (auto simp: LoadConfig_def plain_refs_def wrap_err_def)

end
