(* ===== verification/Logger.thy ===== *)
theory Logger
  imports OperatorConfig
begin

text \<open>
  \<open>pkg/logger\<close>: which entry a call prints, at which level and with which fields. The zap library is
  modelled by what the package uses of it: a core with a level prints the entries of that level and above, a
  silent one nothing, and the fields of a logger come before those of a call.
\<close>

definition DebugLevel :: log_level where "DebugLevel = - 1"
definition InfoLevel :: log_level where "InfoLevel = 0"

record logger =
  lg_Production :: bool
  lg_Level :: log_level
  lg_Silent :: bool
  lg_Fields :: "(string \<times> string) list"

record log_entry =
  le_Level :: log_level
  le_Message :: string
  le_Fields :: "(string \<times> string) list"

text \<open>The configuration \<open>zap\<close> builds a logger from; one that it refuses is a panic.\<close>

record zap_config =
  zc_Production :: bool
  zc_DisableStacktrace :: bool
  zc_Level :: log_level

definition zap_logger :: "zap_config \<Rightarrow> logger" where
  "zap_logger c = \<lparr>lg_Production = zc_Production c, lg_Level = zc_Level c, lg_Silent = False, lg_Fields = []\<rparr>"

definition panic_err :: "string \<Rightarrow> 'a outcome \<Rightarrow> 'a outcome" where
  "panic_err msg r = (case r of Err e \<Rightarrow> Panic (Raised (Wrapped msg e)) | _ \<Rightarrow> r)"

definition NewLogger :: "(zap_config \<Rightarrow> unit outcome) \<Rightarrow> string \<Rightarrow> log_level \<Rightarrow> logger outcome" where
  "NewLogger build format level =
     (let loggerConfig = \<lparr>zc_Production = (format = ''json''), zc_DisableStacktrace = True, zc_Level = level\<rparr> in
      obind (panic_err ''Could not initialize zap logger'' (build loggerConfig)) (\<lambda>_. Ret (zap_logger loggerConfig)))"

definition NewNopLogger :: logger where
  "NewNopLogger = \<lparr>lg_Production = False, lg_Level = 0, lg_Silent = True, lg_Fields = []\<rparr>"

definition Enabled :: "logger \<Rightarrow> log_level \<Rightarrow> bool" where
  "Enabled l level \<longleftrightarrow> \<not> lg_Silent l \<and> sint (lg_Level l) \<le> sint level"

text \<open>\<open>Debugw\<close>, \<open>Infow\<close> and their like.\<close>

definition logw :: "logger \<Rightarrow> log_level \<Rightarrow> string \<Rightarrow> (string \<times> string) list \<Rightarrow> log_entry list" where
  "logw l level msg keysAndValues =
     (if Enabled l level
      then [\<lparr>le_Level = level, le_Message = msg, le_Fields = lg_Fields l @ keysAndValues\<rparr>] else [])"

definition Infoc :: "logger \<Rightarrow> string \<Rightarrow> (string \<times> string) list \<Rightarrow> log_entry list" where
  "Infoc l msg keysAndValues =
     (if Enabled l DebugLevel then logw l DebugLevel msg keysAndValues else logw l InfoLevel msg [])"

definition With :: "logger \<Rightarrow> (string \<times> string) list \<Rightarrow> logger" where
  "With l fs = l\<lparr>lg_Fields := lg_Fields l @ fs\<rparr>"

text \<open>A context holds at most one value under the package's key.\<close>

type_synonym log_context = "logger option"

definition ToContext :: "log_context \<Rightarrow> logger \<Rightarrow> log_context" where
  "ToContext ctx l = Some l"

definition FromContext :: "log_context \<Rightarrow> logger" where
  "FromContext ctx = (case ctx of None \<Rightarrow> NewNopLogger | Some logr \<Rightarrow> logr)"

text \<open>
  A conditional message is printed once, at every level up to \<open>info\<close>, its details only at \<open>debug\<close>; each entry
  has the fields of all loggers on the way to the context it is printed from, and a context without a logger
  prints nothing.
\<close>

theorem infoc_from_context:
  "Infoc (FromContext (ToContext ctx (With l fs))) msg kvs =
     (if \<not> lg_Silent l \<and> sint (lg_Level l) \<le> - 1 then [\<lparr>le_Level = DebugLevel, le_Message = msg, le_Fields = lg_Fields l @ fs @ kvs\<rparr>]
      else if \<not> lg_Silent l \<and> sint (lg_Level l) = 0 then [\<lparr>le_Level = InfoLevel, le_Message = msg, le_Fields = lg_Fields l @ fs\<rparr>]
      else []) \<and>
   Infoc (FromContext None) msg kvs = []"
  by (auto simp: Infoc_def logw_def Enabled_def With_def ToContext_def FromContext_def NewNopLogger_def
      DebugLevel_def InfoLevel_def)

end
