(* ===== verification/Startup.thy ===== *)
theory Startup
  imports Permissions Logger
begin

text \<open>
  How the operator starts: \<open>main\<close> of \<open>cmd/varnish-operator\<close> and \<open>SetupVarnishReconciler\<close> of
  \<open>varnishcluster_controller.go\<close>. What it asks of the controller runtime is a log of steps, each of which the
  library may refuse; the watches it registers are data, and what a watch makes of an event is read off
  them. The logging of \<open>main\<close> is left out.
\<close>

subsection \<open>Watches\<close>

datatype okind =
    KServiceAccount | KRole | KClusterRole | KRoleBinding | KClusterRoleBinding | KService | KSecret
  | KStatefulSet | KConfigMap | KPDB | KPod | KServiceMonitor | KVarnishCluster

fun kind_of :: "kobj \<Rightarrow> okind" where
  "kind_of (ObjServiceAccount x) = KServiceAccount"
| "kind_of (ObjRole x) = KRole"
| "kind_of (ObjClusterRole x) = KClusterRole"
| "kind_of (ObjRoleBinding x) = KRoleBinding"
| "kind_of (ObjClusterRoleBinding x) = KClusterRoleBinding"
| "kind_of (ObjService x) = KService"
| "kind_of (ObjSecret x) = KSecret"
| "kind_of (ObjStatefulSet x) = KStatefulSet"
| "kind_of (ObjConfigMap x) = KConfigMap"
| "kind_of (ObjPDB x) = KPDB"
| "kind_of (ObjPod x) = KPod"
| "kind_of (ObjServiceMonitor x) = KServiceMonitor"
| "kind_of (ObjVarnishCluster x) = KVarnishCluster"

datatype operator_watch =
    For okind
  | Owns okind
  | Watches okind "kobj \<Rightarrow> cluster_key list"
  | WatchesChannel  \<comment> \<open>the channel of the triggerer\<close>

text \<open>
  The watch of the service monitors is left out when they cannot be listed, whatever the error:
  the operator rather works without it than not at all.
\<close>

definition operator_watches :: "gerr + service_monitor list \<Rightarrow> operator_watch list" where
  "operator_watches serviceMonitorList =
     [For KVarnishCluster, Owns KConfigMap, Owns KStatefulSet, Owns KService, Owns KRole, Owns KRoleBinding,
      Watches KClusterRole clusterRoleEventHandler, Watches KClusterRoleBinding clusterRoleBindingEventHandler,
      Owns KServiceAccount, WatchesChannel, Watches KPod varnishClusterPodsEventHandler]
     @ (case serviceMonitorList of Inl err \<Rightarrow> [] | Inr items \<Rightarrow> [Owns KServiceMonitor])"

text \<open>
  The requests an object of an event makes. \<open>owner_requests\<close> is the library's handler of \<open>Owns\<close>: the
  \<open>VarnishCluster\<close> that the controller reference of an object names.
\<close>

fun watch_requests :: "(objmeta \<Rightarrow> cluster_key list) \<Rightarrow> kobj \<Rightarrow> operator_watch \<Rightarrow> cluster_key list" where
  "watch_requests owner_requests x (For k) =
     (if kind_of x = k then [(om_Namespace (kobj_meta x), om_Name (kobj_meta x))] else [])"
| "watch_requests owner_requests x (Owns k) = (if kind_of x = k then owner_requests (kobj_meta x) else [])"
| "watch_requests owner_requests x (Watches k f) = (if kind_of x = k then f x else [])"
| "watch_requests owner_requests x WatchesChannel = []"

definition woken :: "(objmeta \<Rightarrow> cluster_key list) \<Rightarrow> operator_watch list \<Rightarrow> kobj \<Rightarrow> cluster_key list" where
  "woken owner_requests watches x = concat (map (watch_requests owner_requests x) watches)"

subsection \<open>Starting\<close>

record manager_options =
  mo_MetricsBindAddress :: string
  mo_HealthProbeBindAddress :: string
  mo_LeaderElection :: bool
  mo_LeaderElectionID :: string
  mo_LeaderElectionNamespace :: string

datatype 'r boot_step =
    RegisterMetric string
  | CreateManager manager_options
  | AddReadyzCheck string
  | RegisterReconciler "'r list"
  | RegisterWebhook int32  \<comment> \<open>at a port\<close>
  | StartManager

record 'r boot_libs =
  b_BuildLogger :: "zap_config \<Rightarrow> unit outcome"
  b_AddStandardScheme :: "unit outcome"
  b_AddKnownTypes :: "string \<times> string \<Rightarrow> string list \<Rightarrow> unit outcome"
  b_GetConfig :: "unit outcome"
  b_answer :: "'r boot_step \<Rightarrow> unit outcome"

text \<open>
  The scheme of the own types (\<open>groupversion_info.go\<close>): the functions it is built from are run in their order, up to
  the first error. \<open>RegisterDefaults\<close> hands over the defaulting functions, which cannot fail.
\<close>

definition SchemeGroupVersion :: "string \<times> string" where
  "SchemeGroupVersion = (''caching.ibm.com'', ''v1alpha1'')"

definition registered_types :: "string list" where
  "registered_types = [''VarnishCluster'', ''VarnishClusterList'']"

definition RegisterDefaults :: "'r boot_libs \<Rightarrow> unit outcome" where
  "RegisterDefaults b = Ret ()"

definition AddToSchemes :: "('r boot_libs \<Rightarrow> unit outcome) list" where
  "AddToSchemes = [\<lambda>b. b_AddKnownTypes b SchemeGroupVersion registered_types, RegisterDefaults]"

definition AddToScheme :: "'r boot_libs \<Rightarrow> unit outcome" where
  "AddToScheme b = fold (\<lambda>f r. obind r (\<lambda>_. f b)) AddToSchemes (Ret ())"

lemma AddToScheme_eq: "AddToScheme b = b_AddKnownTypes b SchemeGroupVersion registered_types"
  by (cases "b_AddKnownTypes b SchemeGroupVersion registered_types") (simp_all add: AddToScheme_def AddToSchemes_def RegisterDefaults_def)

type_synonym ('r, 'a) boot = "('r boot_step list, 'a) prog"

definition ask :: "'r boot_libs \<Rightarrow> 'r boot_step \<Rightarrow> ('r, unit) boot" where
  "ask b st = (\<lambda>done. (b_answer b st, done @ [st]))"

text \<open>What \<open>MustRegister\<close> makes of a refusal.\<close>

definition must :: "('r, unit) boot \<Rightarrow> ('r, unit) boot" where
  "must m done = (case m done of (Err e, done') \<Rightarrow> (Panic (Raised e), done') | other \<Rightarrow> other)"

text \<open>\<open>main\<close> builds its logger first.\<close>

definition start_logger :: "'r boot_libs \<Rightarrow> string \<Rightarrow> log_level \<Rightarrow> ('r, unit) boot" where
  "start_logger b format level = bnd (lift (NewLogger (b_BuildLogger b) format level)) (\<lambda>logr. ret ())"

definition leaderElectionID :: string where
  "leaderElectionID = ''varnish-operator-leader-election-lock''"

definition bind_address :: "int32 \<Rightarrow> string" where
  "bind_address port = '':'' @ show_int (sint port)"

definition operator_options :: "operator_config \<Rightarrow> manager_options" where
  "operator_options cfg =
     \<lparr>mo_MetricsBindAddress = bind_address (oc_MetricsPort cfg),
      mo_HealthProbeBindAddress = bind_address HealthCheckPort,
      mo_LeaderElection = oc_LeaderElectionEnabled cfg,
      mo_LeaderElectionID = leaderElectionID,
      mo_LeaderElectionNamespace = oc_Namespace cfg\<rparr>"

text \<open>A new reconciler knows no timers, and has sent nothing.\<close>

definition NewVarnishReconciler :: "'w \<Rightarrow> 'w ostate" where
  "NewVarnishReconciler w = \<lparr>os_world = w, os_timers = NewReconcileTriggerer, os_requests = [], os_events = []\<rparr>"

definition SetupVarnishReconciler ::
  "operator_watch boot_libs \<Rightarrow> (gerr + service_monitor list) \<Rightarrow> (operator_watch, unit) boot" where
  "SetupVarnishReconciler b serviceMonitorList = ask b (RegisterReconciler (operator_watches serviceMonitorList))"

text \<open>An error ends the program: \<open>log.Fatalf\<close>.\<close>

definition operator_main ::
  "config_libs \<Rightarrow> operator_watch boot_libs \<Rightarrow> (gerr + service_monitor list) \<Rightarrow> (operator_watch, unit) boot" where
  "operator_main g b serviceMonitorList =
     bnd (wrap ''unable to read env vars'' (lift (LoadConfig g))) (\<lambda>operatorConfig.
     seq (start_logger b (oc_LogFormat operatorConfig) (oc_LogLevel operatorConfig)) (
     seq (wrap ''unable to set up standard schemes config'' (lift (b_AddStandardScheme b))) (
     seq (wrap ''unable to set up varnish operator schemes config'' (lift (AddToScheme b))) (
     seq (wrap ''unable to set up client config'' (lift (b_GetConfig b))) (
     seq (wrap ''unable to set up overall controller manager'' (ask b (CreateManager (operator_options operatorConfig)))) (
     seq (wrap ''unable to set readiness check'' (ask b (AddReadyzCheck ''ping''))) (
     seq (wrap ''unable to setup controller'' (SetupVarnishReconciler b serviceMonitorList)) (
     seq (if oc_WebhooksEnabled operatorConfig
          then wrap ''unable to create webhook'' (ask b (RegisterWebhook (oc_WebhooksPort operatorConfig)))
          else ret ())
       (wrap ''unable to run the manager'' (ask b StartManager))))))))))"

subsection \<open>What must have happened before the manager starts\<close>

definition operator_steps :: "operator_config \<Rightarrow> (gerr + service_monitor list) \<Rightarrow> operator_watch boot_step list" where
  "operator_steps cfg serviceMonitorList =
     [CreateManager (operator_options cfg), AddReadyzCheck ''ping'', RegisterReconciler (operator_watches serviceMonitorList)]
     @ (if oc_WebhooksEnabled cfg then [RegisterWebhook (oc_WebhooksPort cfg)] else [])"

text \<open>A step is passed exactly when the library answers it.\<close>

lemma ask_passed:
  "seq (wrap msg (ask b st)) k done =
     (case b_answer b st of Ret u \<Rightarrow> k (done @ [st]) | Err e \<Rightarrow> (Err (Wrapped msg e), done @ [st]) | Panic p \<Rightarrow> (Panic p, done @ [st]))"
  "seq (must (ask b st)) k done =
     (case b_answer b st of Ret u \<Rightarrow> k (done @ [st]) | Err e \<Rightarrow> (Panic (Raised e), done @ [st]) | Panic p \<Rightarrow> (Panic p, done @ [st]))"
  by (simp_all add: seq_apply wrap_apply must_def ask_def split: outcome.split)

lemma lift_passed:
  "seq (wrap msg (lift r)) k done = (case r of Ret u \<Rightarrow> k done | Err e \<Rightarrow> (Err (Wrapped msg e), done) | Panic p \<Rightarrow> (Panic p, done))"
  by (simp add: seq_apply wrap_apply lift_def split: outcome.split)

definition logger_built :: "'r boot_libs \<Rightarrow> string \<Rightarrow> log_level \<Rightarrow> bool" where
  "logger_built b format level \<longleftrightarrow> (\<exists>l. NewLogger (b_BuildLogger b) format level = Ret l)"

lemma logger_passed: "logger_built b format level \<Longrightarrow> seq (start_logger b format level) k done = k done"
  by (auto simp: logger_built_def start_logger_def seq_apply bnd_apply ret_def)

lemma started_logger:
  "StartManager \<notin> set done \<Longrightarrow> StartManager \<in> set (snd (seq (start_logger b format level) k done)) \<longleftrightarrow>
     logger_built b format level \<and> StartManager \<in> set (snd (k done))"
  by (auto simp: logger_built_def start_logger_def seq_apply bnd_apply ret_def split: outcome.split)

lemma started_behind:
  "StartManager \<notin> set done \<Longrightarrow> st \<noteq> StartManager \<Longrightarrow>
     StartManager \<in> set (snd (seq (wrap msg (ask b st)) k done)) \<longleftrightarrow>
       b_answer b st = Ret () \<and> StartManager \<in> set (snd (k (done @ [st])))"
  "StartManager \<notin> set done \<Longrightarrow> st \<noteq> StartManager \<Longrightarrow>
     StartManager \<in> set (snd (seq (must (ask b st)) k done)) \<longleftrightarrow>
       b_answer b st = Ret () \<and> StartManager \<in> set (snd (k (done @ [st])))"
  "StartManager \<notin> set done \<Longrightarrow>
     StartManager \<in> set (snd (seq (wrap msg (lift r)) k done)) \<longleftrightarrow> r = Ret () \<and> StartManager \<in> set (snd (k done))"
  by (auto simp: ask_passed lift_passed split: outcome.split)

lemma started_config:
  "StartManager \<in> set (snd (bnd (wrap msg (lift r)) f [])) \<longleftrightarrow> (\<exists>cfg. r = Ret cfg \<and> StartManager \<in> set (snd (f cfg [])))"
  by (auto simp: bnd_apply wrap_apply lift_def split: outcome.splits)

lemma seq_ret: "seq (ret ()) k = k"
  by (simp add: fun_eq_iff seq_apply ret_def)

lemma seq_ret_if: "seq (if c then m else ret ()) k done = (if c then seq m k done else k done)"
  by (simp add: seq_ret)

lemma config_passed: "bnd (wrap msg (lift (Ret cfg))) f done = f cfg done"
  by (simp add: bnd_apply wrap_apply lift_def)

lemma last_step: "snd (wrap msg (ask b st) done) = done @ [st]"
  by (simp add: wrap_apply ask_def split: outcome.split)

lemma started_last: "StartManager \<in> set (snd (wrap msg (ask b StartManager) done))"
  by (simp add: wrap_apply ask_def split: outcome.split)

lemmas started_iff = started_behind started_logger started_config started_last

text \<open>
  C24: the manager runs when everything is in place and only then: the configuration is loaded, the logger and the
  schemes are set up, the manager has been created with the addresses of the configuration, the readiness check and
  the reconciler with all its watches are registered, and the webhooks at their port when they are enabled;
  then these are all the steps there were, in this order. That the service monitors cannot be listed
  does not keep it from starting.
\<close>

theorem operator_starts_complete:
  "(StartManager \<in> set (snd (operator_main g b serviceMonitorList [])) \<longleftrightarrow>
      (\<exists>cfg. LoadConfig g = Ret cfg \<and> logger_built b (oc_LogFormat cfg) (oc_LogLevel cfg) \<and>
         b_AddStandardScheme b = Ret () \<and> AddToScheme b = Ret () \<and> b_GetConfig b = Ret () \<and>
         list_all (\<lambda>st. b_answer b st = Ret ()) (operator_steps cfg serviceMonitorList))) \<and>
   (StartManager \<in> set (snd (operator_main g b serviceMonitorList [])) \<longrightarrow>
      (\<exists>cfg. LoadConfig g = Ret cfg \<and>
         snd (operator_main g b serviceMonitorList []) = operator_steps cfg serviceMonitorList @ [StartManager]))"
proof -
  have iff: "StartManager \<in> set (snd (operator_main g b serviceMonitorList [])) \<longleftrightarrow>
      (\<exists>cfg. LoadConfig g = Ret cfg \<and> logger_built b (oc_LogFormat cfg) (oc_LogLevel cfg) \<and>
         b_AddStandardScheme b = Ret () \<and> AddToScheme b = Ret () \<and> b_GetConfig b = Ret () \<and>
         list_all (\<lambda>st. b_answer b st = Ret ()) (operator_steps cfg serviceMonitorList))"
    unfolding operator_main_def SetupVarnishReconciler_def started_config
    by (auto simp: started_iff operator_steps_def seq_ret_if)
  moreover have "snd (operator_main g b serviceMonitorList []) = operator_steps cfg serviceMonitorList @ [StartManager]"
    if "LoadConfig g = Ret cfg" "logger_built b (oc_LogFormat cfg) (oc_LogLevel cfg)"
      "b_AddStandardScheme b = Ret ()" "AddToScheme b = Ret ()" "b_GetConfig b = Ret ()"
      "list_all (\<lambda>st. b_answer b st = Ret ()) (operator_steps cfg serviceMonitorList)" for cfg
    using that
    by (cases "oc_WebhooksEnabled cfg")
      (simp_all add: operator_main_def SetupVarnishReconciler_def config_passed lift_passed logger_passed ask_passed
        last_step operator_steps_def seq_ret)
  ultimately show ?thesis by blast
qed

subsection \<open>Created objects lead back to their cluster\<close>

text \<open>
  A monitor or a dashboard in a namespace of the user's choice has no owner; secrets and disruption budgets are
  not watched, nor are service monitors when they cannot be listed. Every other object is watched by a
  handler that knows the way back.
\<close>

definition unwatched :: "(gerr + service_monitor list) \<Rightarrow> kobj \<Rightarrow> bool" where
  "unwatched serviceMonitorList x \<longleftrightarrow>
     kind_of x \<in> {KSecret, KPDB} \<or> (kind_of x = KServiceMonitor \<and> (case serviceMonitorList of Inl err \<Rightarrow> True | Inr items \<Rightarrow> False))"

definition installed_elsewhere :: "VarnishCluster \<Rightarrow> kobj \<Rightarrow> bool" where
  "installed_elsewhere vc x \<longleftrightarrow>
     (kind_of x = KServiceMonitor \<and> (\<exists>spec. prometheus_spec vc = Ret spec \<and> psm_Namespace spec \<noteq> [])) \<or>
     (kind_of x = KConfigMap \<and> (\<exists>mon gd. sp_Monitoring (vc_Spec vc) = Some mon \<and> mon_GrafanaDashboard mon = Some gd \<and>
        gd_Namespace gd \<noteq> []) \<and> om_Name (kobj_meta x) = GrafanaDashboardName (vc_Name vc))"

definition leads_back ::
  "(objmeta \<Rightarrow> cluster_key list) \<Rightarrow> (gerr + service_monitor list) \<Rightarrow> VarnishCluster \<Rightarrow> request \<Rightarrow> bool" where
  "leads_back owner_requests serviceMonitorList vc q \<longleftrightarrow>
     (\<forall>x. q = Create x \<longrightarrow>
        (vc_Namespace vc, vc_Name vc) \<in> set (woken owner_requests (operator_watches serviceMonitorList) x) \<or>
        unwatched serviceMonitorList x \<or> installed_elsewhere vc x)"

text \<open>What the library promises: the handler reads the reference \<open>SetControllerReference\<close> writes.\<close>

definition owner_found :: "'w operator_env \<Rightarrow> (objmeta \<Rightarrow> cluster_key list) \<Rightarrow> bool" where
  "owner_found e owner_requests \<longleftrightarrow>
     (\<forall>vc m m'. e_SetControllerReference e vc m = Ret m' \<longrightarrow> owner_requests m' = [(om_Namespace m, vc_Name vc)])"

lemma leads_back_simps [simp]:
  "leads_back own l vc (Update x)" "leads_back own l vc (Delete x)" "leads_back own l vc (UpdateStatus v)"
  "leads_back own l vc (Create x) \<longleftrightarrow> (vc_Namespace vc, vc_Name vc) \<in> set (woken own (operator_watches l) x) \<or>
     unwatched l x \<or> installed_elsewhere vc x"
  by (simp_all add: leads_back_def)

lemma woken_eq:
  "woken own (operator_watches l) x =
     (case kind_of x of
        KVarnishCluster \<Rightarrow> [(om_Namespace (kobj_meta x), om_Name (kobj_meta x))]
      | KClusterRole \<Rightarrow> clusterRoleEventHandler x
      | KClusterRoleBinding \<Rightarrow> clusterRoleBindingEventHandler x
      | KPod \<Rightarrow> varnishClusterPodsEventHandler x
      | KServiceMonitor \<Rightarrow> (case l of Inl err \<Rightarrow> [] | Inr items \<Rightarrow> own (kobj_meta x))
      | KSecret \<Rightarrow> [] | KPDB \<Rightarrow> []
      | _ \<Rightarrow> own (kobj_meta x))"
  by (cases x) (simp_all add: woken_def operator_watches_def split: sum.split)

lemma owner_foundD:
  "owner_found e own \<Longrightarrow> e_SetControllerReference e vc m = Ret m' \<Longrightarrow> own m' = [(om_Namespace m, vc_Name vc)]"
  by (simp add: owner_found_def)

lemmas back_intros = emits_set_controller_bnd emits_lift_bnd emits_intros

text \<open>The same rule of \<open>bnd\<close>, keeping what the first program returned.\<close>

lemma emits_bnd_eq:
  assumes "emits Q m" "\<And>a s s'. m s = (Ret a, s') \<Longrightarrow> emits Q (f a)"
  shows "emits Q (bnd m f)"
  by (rule emits_bnd_result [where P = "\<lambda>a. \<exists>s s'. m s = (Ret a, s')", OF assms(1)]) (use assms(2) in blast)+

lemma rbac_leads_back:
  assumes "owner_found e own" "vc_Name vc \<noteq> []" "vc_Namespace vc \<noteq> []"
  shows "emits (leads_back own l vc) (reconcileServiceAccount e vc)" "emits (leads_back own l vc) (reconcileRole e vc)"
    "emits (leads_back own l vc) (reconcileRoleBinding e vc)" "emits (leads_back own l vc) (reconcileClusterRole e vc)"
    "emits (leads_back own l vc) (reconcileClusterRoleBinding e vc)"
  using assms
  unfolding rbac_steps Let_def create_or_update_def upsert_object_def
  by (intro back_intros; simp add: woken_eq owner_foundD desired_service_account_def desired_role_def
      desired_role_binding_def watches_lead_back)+

lemma generic_service_leads_back:
  assumes "owner_found e own" "keeps_meta svc_Meta (e_SchemeDefaultService e)" "om_Namespace (svc_Meta svc) = vc_Namespace vc"
  shows "emits (leads_back own l vc) (reconcileServiceGeneric e vc svc)"
  using assms unfolding reconcileServiceGeneric_def upsert_object_def
  by (intro back_intros; simp add: woken_eq owner_foundD keeps_meta_def)

lemma service_leads_back:
  assumes "owner_found e own" "keeps_meta svc_Meta (e_SchemeDefaultService e)"
  shows "emits (leads_back own l vc) (reconcileServiceNoCache e vc)" "emits (leads_back own l vc) (reconcileService e vc st)"
    "emits (leads_back own l vc) (reconcileHeadlessService e vc)"
proof -
  have ns: "om_Namespace (svc_Meta svc) = vc_Namespace vc"
    if "desired_nocache_service vc = Ret svc \<or> desired_service vc = Ret svc" for svc
    using that by (auto simp: desired_nocache_service_def desired_service_def obind_eq_Ret)
  show "emits (leads_back own l vc) (reconcileServiceNoCache e vc)" "emits (leads_back own l vc) (reconcileService e vc st)"
    unfolding reconcileServiceNoCache_def reconcileService_def
    by (intro back_intros generic_service_leads_back assms ns; simp)+
  show "emits (leads_back own l vc) (reconcileHeadlessService e vc)"
    using assms unfolding reconcileHeadlessService_def Let_def create_or_update_def upsert_object_def
    by (intro back_intros; simp add: woken_eq owner_foundD desired_headless_service_def keeps_meta_def)
qed

lemma secret_leads_back: "emits (leads_back own l vc) (reconcileVarnishSecret e vc)"
  unfolding secret_steps by (intro back_intros; simp add: unwatched_def)

lemma workload_leads_back:
  assumes "owner_found e own" "keeps_meta sts_Meta (e_SchemeDefaultStatefulSet e)"
  shows "emits (leads_back own l vc) (reconcileStatefulSet e vc st)" "emits (leads_back own l vc) (reconcileConfigMap e sel vc st)"
    "emits (leads_back own l vc) (reconcilePodDisruptionBudget e vc sel)"
proof -
  have ns: "om_Namespace (sts_Meta d) = vc_Namespace vc" if "desired_statefulset e vc args = Ret d" for d args
    using that by (auto simp: desired_statefulset_def Let_def obind_eq_Ret)
  show "emits (leads_back own l vc) (reconcileStatefulSet e vc st)"
    using assms ns unfolding reconcileStatefulSet_def apply_statefulset_def
    by (intro back_intros; simp add: woken_eq owner_foundD keeps_meta_def)
  show "emits (leads_back own l vc) (reconcileConfigMap e sel vc st)"
    using assms(1) unfolding reconcileConfigMap_def create_config_map_def adopt_config_map_def Let_def
    by (intro back_intros; simp add: woken_eq owner_foundD default_config_map_def)
  show "emits (leads_back own l vc) (reconcilePodDisruptionBudget e vc sel)"
    unfolding workload_steps Let_def by (intro back_intros; simp add: unwatched_def)
qed

lemma creators_pure:
  "emits Q (createServiceMonitorObject e vc spec)" "emits Q (createGrafanaDashboardConfigMap e vc gd)"
  unfolding createServiceMonitorObject_def createGrafanaDashboardConfigMap_def Let_def by (intro emits_intros)+

lemma monitoring_leads_back:
  assumes "owner_found e own"
  shows "emits (leads_back own l vc) (reconcileServiceMonitor e vc)" "emits (leads_back own l vc) (reconcileGrafanaDashboard e vc)"
proof -
  have monitor: "own (sm_Meta x) = [(vc_Namespace vc, vc_Name vc)] \<or> psm_Namespace spec \<noteq> []"
    if "createServiceMonitorObject e vc spec s = (Ret x, s')" for spec x s s'
    using that owner_foundD [OF assms]
    by (auto simp: createServiceMonitorObject_def Let_def service_monitor_object_def prog_Ret_iff if_empty_def split: if_splits)
  show "emits (leads_back own l vc) (reconcileServiceMonitor e vc)"
    unfolding reconcileServiceMonitor_def cleanupNotNeededServiceMonitors_def removeAllServiceMonitors_def
      removePreviouslyCreatedServiceMonitors_def remove_service_monitors_def applyServiceMonitor_def in_namespace_def
      delete_listed_def
    by (intro emits_lift_bnd emits_bnd_eq [where m = "createServiceMonitorObject _ _ _"] creators_pure emits_intros;
      auto simp: woken_eq unwatched_def installed_elsewhere_def dest!: monitor split: sum.splits)
  have dashboard: "own (cm_Meta x) = [(vc_Namespace vc, vc_Name vc)] \<or>
      (gd_Namespace gd \<noteq> [] \<and> om_Name (cm_Meta x) = GrafanaDashboardName (vc_Name vc))"
    if "createGrafanaDashboardConfigMap e vc (dashboard_title vc gd) s = (Ret x, s')" for gd x s s'
    using that owner_foundD [OF assms]
    by (auto simp: createGrafanaDashboardConfigMap_def dashboard_title_def Let_def prog_Ret_iff if_empty_def split: if_splits)
  show "emits (leads_back own l vc) (reconcileGrafanaDashboard e vc)"
    unfolding reconcileGrafanaDashboard_def garbageCollectGrafanaDashboards_def removeAllGrafanaDashboards_def
      removePreviouslyCreatedDashboards_def remove_dashboards_def applyGrafanaDashboardConfigMap_def in_namespace_def
      delete_listed_def create_or_update_def upsert_object_def deref_def
    by (intro emits_lift_bnd emits_bnd_eq [where m = "createGrafanaDashboardConfigMap _ _ _"] creators_pure emits_intros;
      auto simp: woken_eq installed_elsewhere_def dest!: dashboard)
qed

lemma rolling_leads_back: "emits (leads_back own l vc) (reconcileDelayedRollingUpdate e vc sts)"
  by (rule emits_mono [OF rolling_only_deletes]) (auto simp: deletes_pod_def)


end
