(* ===== verification/VclList.thy ===== *)
theory VclList
  imports GoJson ApiTypes
begin

text \<open>
  The VCL configurations loaded into varnishd, as \<open>varnishadm vcl.list\<close> prints them
  (\<open>pkg/varnishcontroller/varnishadm/varnishadm_vcl_list.go\<close>): the plain text of Varnish 6 and
  the JSON of later versions. The text of an error of \<open>encoding/json\<close> is not modelled.
\<close>

record VCLConfig =
  vcfg_Status :: string
  vcfg_Name :: string
  vcfg_State :: string
  vcfg_Busy :: goint
  vcfg_Label :: bool
  vcfg_Temperature :: string
  vcfg_ReferencedVCL :: "string option"

definition zero_config :: VCLConfig where
  "zero_config = \<lparr>vcfg_Status = [], vcfg_Name = [], vcfg_State = [], vcfg_Busy = 0, vcfg_Label = False,
     vcfg_Temperature = [], vcfg_ReferencedVCL = None\<rparr>"

text \<open>Reading a slice at an index.\<close>

definition elem_at :: "'a list \<Rightarrow> nat \<Rightarrow> 'a outcome" where
  "elem_at xs i = (if i < length xs then Ret (xs ! i) else Panic IndexOutOfRange)"

subsection \<open>The plain listing\<close>

text \<open>
  \<open>bufio.Scanner\<close> with its default split function: lines end in a line feed, a carriage return
  before it is dropped, a last line without one counts unless it is empty, and the scan stops
  for good at a line that does not fit the buffer of 64 KB with its line feed.
\<close>

definition max_line :: nat where "max_line = 65536"

definition drop_cr :: "string \<Rightarrow> string" where
  "drop_cr l = (if l \<noteq> [] \<and> last l = CHR 0x0D then butlast l else l)"

definition scan_lines :: "string \<Rightarrow> string list" where
  "scan_lines s =
     (let ls = Split s (CHR 0x0A);
          ls' = (if last ls = [] then butlast ls else ls)
      in map drop_cr (takeWhile (\<lambda>l. length l < max_line) ls'))"

definition parse_columns :: "string list \<Rightarrow> VCLConfig option outcome" where
  "parse_columns columns =
     (if length columns = 0 then Ret None
      else if length columns = 4 then
        (let temp = Split (columns ! 1) (CHR ''/'') in
         obind (elem_at temp 1) (\<lambda>temperature.
           Ret (Some (zero_config\<lparr>vcfg_Status := columns ! 0, vcfg_Name := columns ! 3,
                                  vcfg_Label := False, vcfg_Temperature := temperature\<rparr>))))
      else if length columns = 6 then
        (let temp = Split (columns ! 1) (CHR ''/'') in
         obind (elem_at temp 0) (\<lambda>state.
         let isLabel = (state = ''label'') in
         obind (elem_at temp 1) (\<lambda>temperature.
           Ret (Some (zero_config\<lparr>vcfg_Status := columns ! 0, vcfg_Name := columns ! 3,
                                  vcfg_Label := isLabel, vcfg_Temperature := temperature,
                                  vcfg_ReferencedVCL := (if isLabel then Some (columns ! 5) else None)\<rparr>)))))
      else Err (Plain ''unknown VCL config format''))"

fun parse_lines :: "string list \<Rightarrow> VCLConfig list \<Rightarrow> VCLConfig list outcome" where
  "parse_lines [] configs = Ret configs"
| "parse_lines (l # ls) configs =
     obind (parse_columns (Fields l)) (\<lambda>c.
       parse_lines ls (case c of None \<Rightarrow> configs | Some c' \<Rightarrow> configs @ [c']))"

definition parseVCLConfigsList :: "string \<Rightarrow> VCLConfig list outcome" where
  "parseVCLConfigsList commandOutput = parse_lines (scan_lines commandOutput) []"

subsection \<open>The JSON listing\<close>

record vclListResponse =
  vlr_Version :: goint
  vlr_Command :: "string list"
  vlr_ResponseTime :: time
  vlr_VCLs :: "VCLConfig list"

definition zero_response :: vclListResponse where
  "zero_response = \<lparr>vlr_Version = 0, vlr_Command = [], vlr_ResponseTime = 0, vlr_VCLs = []\<rparr>"

text \<open>Type assertions on an \<open>interface{}\<close>; a missing member of a map is nil.\<close>

fun as_string :: "json \<Rightarrow> string option" where
  "as_string (JString s) = Some s"
| "as_string j = None"

fun as_number :: "json \<Rightarrow> float64 option" where
  "as_number (JNumber x) = Some x"
| "as_number j = None"

fun as_array :: "json \<Rightarrow> json list option" where
  "as_array (JArray vs) = Some vs"
| "as_array j = None"

fun as_object :: "json \<Rightarrow> (string \<times> json) list option" where
  "as_object (JObject ms) = Some ms"
| "as_object j = None"

definition or_err :: "'a option \<Rightarrow> string \<Rightarrow> 'a outcome" where
  "or_err x message = (case x of Some a \<Rightarrow> Ret a | None \<Rightarrow> Err (Plain message))"

definition json_index :: "(string \<times> json) list \<Rightarrow> string \<Rightarrow> json" where
  "json_index ms k = (case member ms k of Some j \<Rightarrow> j | None \<Rightarrow> JNull)"

definition parse_label :: "(string \<times> json) list \<Rightarrow> VCLConfig \<Rightarrow> VCLConfig outcome" where
  "parse_label vclMap vcl =
     (case member vclMap ''label'' of
        None \<Rightarrow> Ret vcl
      | Some l \<Rightarrow>
          obind (or_err (as_object l) ''unknown label format'') (\<lambda>labelMap.
          obind (or_err (as_string (json_index labelMap ''name'')) ''unknown referenced label format'') (\<lambda>n.
            Ret (vcl\<lparr>vcfg_Label := True, vcfg_ReferencedVCL := Some n\<rparr>))))"

definition parseVCLFromMap :: "(string \<times> json) list \<Rightarrow> VCLConfig outcome" where
  "parseVCLFromMap vclMap =
     obind (or_err (as_string (json_index vclMap ''name'')) ''unknown name format'') (\<lambda>name.
     obind (or_err (as_string (json_index vclMap ''status'')) ''unknown status format'') (\<lambda>status.
     obind (or_err (as_string (json_index vclMap ''temperature'')) ''unknown temperature format'') (\<lambda>temperature.
     obind (or_err (as_string (json_index vclMap ''state'')) ''unknown state format'') (\<lambda>state.
     obind (or_err (as_number (json_index vclMap ''busy'')) ''unknown busy format'') (\<lambda>busy.
       parse_label vclMap (zero_config\<lparr>vcfg_Name := name, vcfg_Status := status,
         vcfg_Temperature := temperature, vcfg_State := state,
         vcfg_Busy := word_of_int (int_of_float busy)\<rparr>))))))"

fun parse_command :: "json list \<Rightarrow> string list outcome" where
  "parse_command [] = Ret []"
| "parse_command (arg # args) =
     obind (or_err (as_string arg) ''unknown arg format'') (\<lambda>a.
     obind (parse_command args) (\<lambda>as. Ret (a # as)))"

fun parse_configs :: "json list \<Rightarrow> VCLConfig list outcome" where
  "parse_configs [] = Ret []"
| "parse_configs (v # vs) =
     obind (or_err (as_object v) ''unknown VCL config format'') (\<lambda>vclMap.
     obind (parseVCLFromMap vclMap) (\<lambda>vcl.
     obind (parse_configs vs) (\<lambda>vcls. Ret (vcl # vcls))))"

text \<open>\<open>time.Unix\<close> of the seconds and of the rest in nanoseconds.\<close>

fun fsub :: "float64 \<Rightarrow> float64 \<Rightarrow> float64" where
  "fsub (Finite x) (Finite y) = Finite (fl (x - y))"
| "fsub (Infinite n) (Finite y) = Infinite n"
| "fsub (Finite x) (Infinite n) = Infinite (\<not> n)"
| "fsub (Infinite n) (Infinite k) = (if n = k then NaN else Infinite n)"
| "fsub x y = NaN"

definition unix_time :: "float64 \<Rightarrow> time" where
  "unix_time respTime =
     (let secs = int_of_float respTime;
          nsecs = int_of_float (fmul (fsub respTime (float_of_int secs)) (Finite (10 ^ 9)))
      in secs * 10 ^ 9 + nsecs)"

text \<open>
  \<open>UnmarshalJSON\<close>: the array is decoded first (\<open>null\<close> gives an empty slice), and its first three
  elements are read without looking at its length.
\<close>

definition decode_array :: "string \<Rightarrow> json list outcome" where
  "decode_array data =
     (case json_parse data of
        Some (JArray vs) \<Rightarrow> Ret vs
      | Some JNull \<Rightarrow> Ret []
      | _ \<Rightarrow> Err (Plain ''json: cannot unmarshal''))"

definition list_response :: "json list \<Rightarrow> vclListResponse outcome" where
  "list_response vs =
     obind (elem_at vs 0) (\<lambda>v0. obind (or_err (as_number v0) ''unknown version format'') (\<lambda>version.
     obind (elem_at vs 1) (\<lambda>v1. obind (or_err (as_array v1) ''unknown command format'') (\<lambda>command.
     obind (parse_command command) (\<lambda>args.
     obind (elem_at vs 2) (\<lambda>v2. obind (or_err (as_number v2) ''unknown response time format'') (\<lambda>respTime.
     obind (parse_configs (drop 3 vs)) (\<lambda>vcls.
       Ret (zero_response\<lparr>vlr_Version := word_of_int (int_of_float version), vlr_Command := args,
         vlr_ResponseTime := unix_time respTime, vlr_VCLs := vcls\<rparr>)))))))))"

definition UnmarshalJSON :: "string \<Rightarrow> vclListResponse outcome" where
  "UnmarshalJSON data = obind (decode_array data) list_response"

subsection \<open>The plain listing read back\<close>

text \<open>
  A line of the listing as varnishd 6 prints it: status, state and temperature, the number of
  requests that use it, the name, and for a configuration with labels their number, for a label
  the configuration it refers to.
\<close>

datatype vcl_link = NoLink | Labelled nat | RefersTo string

record listing_entry =
  le_Status :: string
  le_State :: string
  le_Temperature :: string
  le_Busy :: nat
  le_Name :: string
  le_Link :: vcl_link

definition blanks :: "nat \<Rightarrow> string" where
  "blanks n = replicate n (CHR '' '')"

fun link_words :: "vcl_link \<Rightarrow> string list" where
  "link_words NoLink = []"
| "link_words (Labelled n) = [''('' @ show_nat n, if n = 1 then ''label)'' else ''labels)'']"
| "link_words (RefersTo v) = [''->'', v]"

definition listing_line :: "listing_entry \<Rightarrow> string" where
  "listing_line e =
     le_Status e @ blanks (10 - length (le_Status e)) @ '' '' @ blanks (5 - length (le_State e)) @
     (le_State e @ ''/'' @ le_Temperature e) @ blanks (8 - length (le_Temperature e)) @ '' '' @
     blanks (6 - length (show_nat (le_Busy e))) @ show_nat (le_Busy e) @ '' '' @
     Join (le_Name e # link_words (le_Link e)) '' ''"

definition word_ok :: "string \<Rightarrow> bool" where
  "word_ok w \<longleftrightarrow> w \<noteq> [] \<and> space_free w"

definition entry_ok :: "listing_entry \<Rightarrow> bool" where
  "entry_ok e \<longleftrightarrow>
     word_ok (le_Status e) \<and> word_ok (le_Name e) \<and>
     space_free (le_State e) \<and> CHR ''/'' \<notin> set (le_State e) \<and>
     space_free (le_Temperature e) \<and> CHR ''/'' \<notin> set (le_Temperature e) \<and>
     (case le_Link e of RefersTo v \<Rightarrow> word_ok v \<and> le_State e = ''label'' | _ \<Rightarrow> le_State e \<noteq> ''label'') \<and>
     length (listing_line e) < max_line"

definition config_of :: "listing_entry \<Rightarrow> VCLConfig" where
  "config_of e = zero_config\<lparr>vcfg_Status := le_Status e, vcfg_Name := le_Name e,
     vcfg_Label := le_State e = ''label'', vcfg_Temperature := le_Temperature e,
     vcfg_ReferencedVCL := (case le_Link e of RefersTo v \<Rightarrow> Some v | _ \<Rightarrow> None)\<rparr>"

lemma IsSpace_blank [simp]: "IsSpace (CHR '' '')"
  by (simp add: IsSpace_def)

lemma Fields_blanks: "Fields (blanks n @ s) = Fields s"
  by (induction n) (simp_all add: blanks_def Fields_leading_space)

lemma Fields_word_blanks: "word_ok w \<Longrightarrow> Fields (w @ blanks n @ CHR '' '' # s) = w # Fields s"
proof (induction n)
  case 0
  then show ?case by (simp add: blanks_def Fields_Cons word_ok_def)
next
  case (Suc n)
  have "Fields (blanks n @ CHR '' '' # s) = Fields s"
    by (simp add: Fields_blanks Fields_leading_space)
  then show ?case using Suc(2) by (simp add: blanks_def Fields_Cons word_ok_def)
qed

lemma Fields_word_blank: "word_ok w \<Longrightarrow> Fields (w @ CHR '' '' # s) = w # Fields s"
  using Fields_word_blanks [of w 0 s] by (simp add: blanks_def)

lemma digit_no_blank: "is_digit c \<Longrightarrow> \<not> IsSpace c"
  by (auto simp: is_digit_def IsSpace_def)

lemma show_nat_word [simp]: "space_free (show_nat n)" "show_nat n \<noteq> []"
  using show_nat_digits [of n] digit_no_blank by (auto simp: space_free_def list_all_iff)

lemma link_words_ok: "entry_ok e \<Longrightarrow> list_all word_ok (link_words (le_Link e))"
  by (cases "le_Link e") (auto simp: entry_ok_def word_ok_def IsSpace_def)

lemma Fields_Join: "list_all word_ok ws \<Longrightarrow> Fields (Join ws '' '') = ws"
proof (induction ws)
  case (Cons w ws)
  then show ?case
    by (cases ws) (simp_all add: Fields_single word_ok_def Fields_word_blank)
qed simp

lemma Fields_listing_line:
  assumes "entry_ok e"
  shows "Fields (listing_line e) =
    [le_Status e, le_State e @ ''/'' @ le_Temperature e, show_nat (le_Busy e), le_Name e] @ link_words (le_Link e)"
proof -
  have w: "word_ok (le_Status e)" "word_ok (le_State e @ ''/'' @ le_Temperature e)" "word_ok (show_nat (le_Busy e))"
    "list_all word_ok (le_Name e # link_words (le_Link e))"
    using assms link_words_ok [OF assms] by (auto simp: entry_ok_def word_ok_def IsSpace_def)
  note step = Fields_word_blanks [OF w(1)] Fields_word_blanks [OF w(2), simplified]
    Fields_word_blank [OF w(3)] Fields_Join [OF w(4)]
  show ?thesis
    by (simp add: listing_line_def step Fields_blanks del: Join.simps)
qed

lemma parse_columns_entry:
  assumes "entry_ok e"
  shows "parse_columns (Fields (listing_line e)) = Ret (Some (config_of e))"
proof -
  have sp: "Split (le_State e @ ''/'' @ le_Temperature e) (CHR ''/'') = [le_State e, le_Temperature e]"
    using assms by (simp add: entry_ok_def Split_append_sep Split_no_sep)
  show ?thesis
    unfolding Fields_listing_line [OF assms]
    using assms sp
    by (cases "le_Link e") (auto simp: parse_columns_def elem_at_def config_of_def entry_ok_def zero_config_def numeral_eq_Suc)
qed

lemma space_free_mem: "space_free w \<Longrightarrow> c \<in> set w \<Longrightarrow> \<not> IsSpace c"
  by (simp add: space_free_def list_all_iff)

lemma set_blanks: "set (blanks n) \<subseteq> {CHR '' ''}"
  by (auto simp: blanks_def)

lemma Join_spaces: "list_all word_ok ws \<Longrightarrow> c \<in> set (Join ws '' '') \<Longrightarrow> IsSpace c \<Longrightarrow> c = CHR '' ''"
proof (induction ws)
  case (Cons w ws)
  then show ?case
    by (cases ws) (auto simp: word_ok_def dest: space_free_mem)
qed simp

lemma listing_line_spaces:
  assumes e: "entry_ok e" and c: "c \<in> set (listing_line e)" "IsSpace c"
  shows "c = CHR '' ''"
proof -
  have w: "list_all word_ok (le_Name e # link_words (le_Link e))"
    using e link_words_ok [OF e] by (simp add: entry_ok_def)
  have "c \<notin> set (le_Status e)" "c \<notin> set (le_State e)" "c \<notin> set (le_Temperature e)" "c \<notin> set (show_nat (le_Busy e))"
    using e c(2) space_free_mem show_nat_word(1) unfolding entry_ok_def word_ok_def by blast+
  moreover have "c \<noteq> CHR ''/''" using c(2) by (auto simp: IsSpace_def)
  moreover have "c \<in> set (Join (le_Name e # link_words (le_Link e)) '' '') \<Longrightarrow> ?thesis"
    using Join_spaces [OF w _ c(2)] by blast
  ultimately show ?thesis
    using c(1) set_blanks unfolding listing_line_def by auto
qed

lemma Split_lines:
  "list_all (\<lambda>l. c \<notin> set l) ls \<Longrightarrow> Split (concat (map (\<lambda>l. l @ [c]) ls)) c = ls @ [[]]"
  by (induction ls) (simp_all add: Split_append_sep)

lemma drop_cr_id: "CHR 0x0D \<notin> set l \<Longrightarrow> drop_cr l = l"
  using last_in_set [of l] unfolding drop_cr_def by metis

lemma scan_listing:
  assumes "\<forall>e \<in> set es. entry_ok e"
  shows "scan_lines (concat (map (\<lambda>e. listing_line e @ [CHR 0x0A]) es)) = map listing_line es"
proof -
  have nl: "CHR 0x0A \<notin> set (listing_line e)" "CHR 0x0D \<notin> set (listing_line e)" if "e \<in> set es" for e
    using that assms listing_line_spaces [of e "CHR 0x0A"] listing_line_spaces [of e "CHR 0x0D"]
    by (auto simp: IsSpace_def)
  have "Split (concat (map (\<lambda>l. l @ [CHR 0x0A]) (map listing_line es))) (CHR 0x0A) = map listing_line es @ [[]]"
    using nl by (intro Split_lines) (simp add: list_all_iff)
  then have sp: "Split (concat (map (\<lambda>e. listing_line e @ [CHR 0x0A]) es)) (CHR 0x0A) = map listing_line es @ [[]]"
    by (simp add: comp_def)
  have tw: "takeWhile (\<lambda>l. length l < max_line) (map listing_line es) = map listing_line es"
    using assms by (simp add: takeWhile_eq_all_conv entry_ok_def)
  show ?thesis
    using nl by (simp add: scan_lines_def sp tw drop_cr_id)
qed

lemma parse_lines_entries:
  "\<forall>e \<in> set es. entry_ok e \<Longrightarrow> parse_lines (map listing_line es) configs = Ret (configs @ map config_of es)"
  by (induction es arbitrary: configs) (simp_all add: parse_columns_entry)

text \<open>
  The plain listing is read back as it was printed: from the lines varnishd prints for any
  list of configurations, blanks and column widths included, the controller gets exactly these
  configurations in that order, with their status, name and temperature, and for a label the
  configuration it refers to.
\<close>

theorem plain_listing_roundtrip:
  assumes "\<forall>e \<in> set es. entry_ok e"
  shows "parseVCLConfigsList (concat (map (\<lambda>e. listing_line e @ [CHR 0x0A]) es)) = Ret (map config_of es)"
  by (simp add: parseVCLConfigsList_def scan_listing [OF assms] parse_lines_entries [OF assms])

definition ex_listing :: "listing_entry list" where
  "ex_listing =
     [\<lparr>le_Status = ''available'', le_State = ''cold'', le_Temperature = ''cold'', le_Busy = 0,
       le_Name = ''boot'', le_Link = NoLink\<rparr>,
      \<lparr>le_Status = ''active'', le_State = ''auto'', le_Temperature = ''warm'', le_Busy = 2,
       le_Name = ''v-12-1632389040'', le_Link = Labelled 1\<rparr>,
      \<lparr>le_Status = ''available'', le_State = ''label'', le_Temperature = ''warm'', le_Busy = 0,
       le_Name = ''label1'', le_Link = RefersTo ''v-12-1632389040''\<rparr>]"

lemma plain_listing_roundtrip_witness:
  "list_all entry_ok ex_listing \<and>
   parseVCLConfigsList (concat (map (\<lambda>e. listing_line e @ [CHR 0x0A]) ex_listing)) = Ret (map config_of ex_listing)"
proof -
  have "\<forall>e \<in> set ex_listing. entry_ok e"
    by (simp add: ex_listing_def entry_ok_def word_ok_def IsSpace_def listing_line_def max_line_def
        blanks_def show_nat.simps [of 0] show_nat.simps [of "Suc 0"] show_nat.simps [of 2] digit_def)
  then show ?thesis using plain_listing_roundtrip [of ex_listing] by (simp add: list_all_iff)
qed

text \<open>
  A line the parser does not know ends in an error, but a line of four or six words whose
  second word has no slash, as a varnishd that prints the state without a temperature gives, is
  an index out of range: the controller panics instead of reporting it.
\<close>

theorem listing_line_outcomes:
  "(case parse_columns columns of
      Panic p \<Rightarrow> length columns \<in> {4, 6} \<and> CHR ''/'' \<notin> set (columns ! 1) \<and> p = IndexOutOfRange
    | Err err \<Rightarrow> length columns \<notin> {0, 4, 6} \<and> err = Plain ''unknown VCL config format''
    | Ret None \<Rightarrow> columns = []
    | Ret (Some c) \<Rightarrow> length columns \<in> {4, 6} \<and> vcfg_Name c = columns ! 3 \<and> vcfg_Status c = columns ! 0)"
proof -
  have "\<not> Suc 0 < length (Split s c) \<Longrightarrow> c \<notin> set s" for s and c :: char
    using Join_Split [of s c] Split_parts [of _ s c] by (cases "Split s c") (auto simp: Join_Cons)
  then show ?thesis
    by (auto simp: parse_columns_def elem_at_def Let_def)
qed

subsection \<open>The JSON listing read back\<close>

text \<open>The response varnishd writes for a list of configurations.\<close>

definition json_config :: "VCLConfig \<Rightarrow> json" where
  "json_config c =
     JObject ([(''status'', JString (vcfg_Status c)), (''state'', JString (vcfg_State c)),
               (''temperature'', JString (vcfg_Temperature c)),
               (''busy'', JNumber (Finite (of_nat (unat (vcfg_Busy c))))), (''name'', JString (vcfg_Name c))] @
              (case vcfg_ReferencedVCL c of None \<Rightarrow> [] | Some n \<Rightarrow> [(''label'', JObject [(''name'', JString n)])]))"

definition json_response :: "float64 \<Rightarrow> float64 \<Rightarrow> string list \<Rightarrow> VCLConfig list \<Rightarrow> json" where
  "json_response version t command configs =
     JArray (JNumber version # JArray (map JString command) # JNumber t # map json_config configs)"

definition config_ok :: "(float64 \<Rightarrow> string) \<Rightarrow> VCLConfig \<Rightarrow> bool" where
  "config_ok num c \<longleftrightarrow>
     list_all (list_all plain_char) [vcfg_Status c, vcfg_State c, vcfg_Temperature c, vcfg_Name c] \<and>
     num_ok num (Finite (of_nat (unat (vcfg_Busy c)))) \<and>
     vcfg_Label c = (vcfg_ReferencedVCL c \<noteq> None) \<and>
     (case vcfg_ReferencedVCL c of None \<Rightarrow> True | Some n \<Rightarrow> list_all plain_char n)"

lemma plain_letters [simp]:
  "plain_char (CHR ''a'')" "plain_char (CHR ''b'')" "plain_char (CHR ''e'')" "plain_char (CHR ''l'')" "plain_char (CHR ''m'')" "plain_char (CHR ''n'')" "plain_char (CHR ''p'')" "plain_char (CHR ''r'')" "plain_char (CHR ''s'')" "plain_char (CHR ''t'')" "plain_char (CHR ''u'')" "plain_char (CHR ''y'')"
  by (simp_all add: plain_char_def)

lemma trunc_rat_of_nat [simp]: "trunc_rat (of_nat n) = int n"
  by (simp add: trunc_rat_def)

lemma trunc_rat_unsigned [simp]: "trunc_rat (unsigned (w :: 'a::len word)) = uint w"
proof -
  have "(unsigned w :: rat) = of_nat (unat w)" by simp
  then show ?thesis by (simp only: trunc_rat_of_nat) simp
qed

lemma parseVCLFromMap_json:
  assumes "config_ok num c" "json_config c = JObject ms"
  shows "parseVCLFromMap ms = Ret c"
proof -
  have "vcfg_Label c = (vcfg_ReferencedVCL c \<noteq> None)" using assms(1) by (simp add: config_ok_def)
  then show ?thesis
    using assms(2)
    by (cases "vcfg_ReferencedVCL c"; cases c)
      (auto simp: json_config_def parseVCLFromMap_def parse_label_def json_index_def member_def or_err_def zero_config_def)
qed

lemma parse_configs_json:
  "\<forall>c \<in> set configs. config_ok num c \<Longrightarrow> parse_configs (map json_config configs) = Ret configs"
proof (induction configs)
  case (Cons c configs)
  obtain ms where "json_config c = JObject ms" by (simp add: json_config_def)
  then show ?case using Cons parseVCLFromMap_json [of num c ms] by (simp add: or_err_def)
qed simp

lemma parse_command_json: "parse_command (map JString command) = Ret command"
  by (induction command) (simp_all add: or_err_def)

lemma jprintable_config: "config_ok num c \<Longrightarrow> jprintable num (json_config c)"
  by (cases "vcfg_ReferencedVCL c") (auto simp: config_ok_def json_config_def)

lemma json_response_read:
  assumes "\<forall>c \<in> set configs. config_ok num c" "list_all (list_all plain_char) command"
    and "num_ok num (Finite version)" "num_ok num (Finite t)"
  shows "UnmarshalJSON (jprint num (json_response (Finite version) (Finite t) command configs)) =
    Ret \<lparr>vlr_Version = word_of_int (trunc_rat version), vlr_Command = command,
         vlr_ResponseTime = unix_time (Finite t), vlr_VCLs = configs\<rparr>"
proof -
  have "jprintable num (json_response (Finite version) (Finite t) command configs)"
    using assms jprintable_config by (auto simp: json_response_def list_all_iff)
  then show ?thesis
    using parse_configs_json [OF assms(1)]
    by (simp add: UnmarshalJSON_def decode_array_def json_roundtrip, simp add: json_response_def list_response_def
        elem_at_def or_err_def parse_command_json zero_response_def)
qed

text \<open>
  C31: the JSON listing is read back as it was written: a response with plain strings, whose
  numbers are decimal text that reads back, gives its version, command and time, and exactly the
  configurations listed, labels and the configurations they refer to included.
\<close>

theorem json_listing_roundtrip:
  assumes "\<forall>c \<in> set configs. config_ok num c" "list_all (list_all plain_char) command"
    and "num_ok num (Finite version)" "num_ok num (Finite t)"
  shows "UnmarshalJSON (jprint num (json_response (Finite version) (Finite t) command configs)) =
    Ret \<lparr>vlr_Version = word_of_int (trunc_rat version), vlr_Command = command,
         vlr_ResponseTime = unix_time (Finite t), vlr_VCLs = configs\<rparr>"
  by (rule json_response_read [OF assms])

definition ex_num :: "float64 \<Rightarrow> string" where
  "ex_num x = (if x = Finite 0 then ''0'' else if x = Finite 2 then ''2'' else ''900'')"

definition ex_configs :: "VCLConfig list" where
  "ex_configs =
     [zero_config\<lparr>vcfg_Status := ''active'', vcfg_State := ''auto'', vcfg_Temperature := ''warm'', vcfg_Name := ''boot''\<rparr>,
      zero_config\<lparr>vcfg_Status := ''available'', vcfg_State := ''label'', vcfg_Temperature := ''warm'',
        vcfg_Name := ''labeledvcl'', vcfg_Label := True, vcfg_ReferencedVCL := Some ''boot''\<rparr>]"

lemma json_listing_roundtrip_witness:
  "UnmarshalJSON (jprint ex_num (json_response (Finite 2) (Finite 900) [''vcl.list'', ''-j''] ex_configs)) =
    Ret \<lparr>vlr_Version = 2, vlr_Command = [''vcl.list'', ''-j''], vlr_ResponseTime = 900000000000, vlr_VCLs = ex_configs\<rparr>"
proof -
  have sn: "show_nat 0 = ''0''" "show_nat 2 = ''2''" "show_nat 900 = ''900''" by code_simp+
  have n0: "num_ok ex_num (Finite 0)"
    using num_ok_nat [of 0 ex_num] by (simp add: ex_num_def sn)
  have n2: "num_ok ex_num (Finite 2)"
    using num_ok_nat [of 2 ex_num] by (simp add: ex_num_def sn)
  have t: "num_ok ex_num (Finite 900)"
    using num_ok_nat [of 900 ex_num] by (simp add: ex_num_def sn)
  have c: "\<forall>c \<in> set ex_configs. config_ok ex_num c"
    using n0 by (simp add: ex_configs_def config_ok_def zero_config_def plain_char_def)
  have "unix_time (Finite 900) = 900000000000" by code_simp
  moreover have "list_all (list_all plain_char) [''vcl.list'', ''-j'']" by (simp add: plain_char_def)
  ultimately show ?thesis
    using json_listing_roundtrip [OF c _ n2 t, of "[''vcl.list'', ''-j'']"] by (simp add: trunc_rat_def)
qed

lemma or_err_neq_Panic [simp]: "or_err x m \<noteq> Panic p"
  by (cases x) (simp_all add: or_err_def)

lemma parseVCLFromMap_neq_Panic [simp]: "parseVCLFromMap ms \<noteq> Panic p"
  by (simp add: parseVCLFromMap_def obind_eq_Panic parse_label_def split: option.split)

lemma parse_configs_neq_Panic [simp]: "parse_configs vs \<noteq> Panic p"
  by (induction vs) (simp_all add: obind_eq_Panic)

lemma parse_command_neq_Panic [simp]: "parse_command vs \<noteq> Panic p"
  by (induction vs) (simp_all add: obind_eq_Panic)

text \<open>
  A response is read without a look at its length: \<open>null\<close> and the empty array, both valid JSON,
  panic, while an array of at least three elements never does, and what is not an array is an error.
\<close>

theorem short_response_panics:
  "if json_parse data \<in> {Some JNull, Some (JArray [])} then UnmarshalJSON data = Panic IndexOutOfRange
   else (case json_parse data of
       Some (JArray vs) \<Rightarrow> if length vs < 3 then True else (\<forall>p. UnmarshalJSON data \<noteq> Panic p)
     | _ \<Rightarrow> (\<exists>m. UnmarshalJSON data = Err (Plain m)))"
  by (auto simp: UnmarshalJSON_def decode_array_def list_response_def elem_at_def obind_eq_Panic not_less
      split: option.split json.split)

end
