(* ===== verification/VarnishAdm.thy ===== *)
theory VarnishAdm
  imports VclList
begin

text \<open>
  The wrapper of the \<open>varnishadm\<close> command line tool (\<open>pkg/varnishcontroller/varnishadm/varnishadm.go\<close>).
  Running the tool is a parameter, \<open>va_execute\<close>: from the name and the arguments of the command it
  gives the combined output and the error of the call, in a world \<open>'w\<close> that holds varnishd.
  Sharing of the argument slice between the \<open>append\<close>s is not modelled: each result is used before
  the next one is formed.
\<close>

type_synonym 'w executor = "string \<Rightarrow> string list \<Rightarrow> 'w \<Rightarrow> (string \<times> gerr option) \<times> 'w"

record 'w varnish_adm =
  va_binary :: string
  va_vclBase :: string
  va_pingTimeout :: int
  va_pingDelay :: int
  va_varnishAdmArgs :: "string list"
  va_execute :: "'w executor"

definition VarninshAdmBinary :: string where "VarninshAdmBinary = ''varnishadm''"
definition VCLStatusAvailable :: string where "VCLStatusAvailable = ''available''"
definition VCLStatusActive :: string where "VCLStatusActive = ''active''"

definition sanitizeVarnishArgs :: "string list \<Rightarrow> string list" where
  "sanitizeVarnishArgs input = filter (\<lambda>val. \<not> (val = [] \<or> val = [CHR 0x09] \<or> val = '' '')) input"

definition NewVarnishAdministartor ::
  "int \<Rightarrow> int \<Rightarrow> string \<Rightarrow> string list \<Rightarrow> 'w executor \<Rightarrow> 'w varnish_adm" where
  "NewVarnishAdministartor timeout delay vclBase args execCommandProvider =
     \<lparr>va_binary = VarninshAdmBinary, va_vclBase = vclBase, va_pingTimeout = timeout, va_pingDelay = delay,
      va_varnishAdmArgs = sanitizeVarnishArgs args, va_execute = execCommandProvider\<rparr>"

subsection \<open>Commands\<close>

definition adm_run :: "'w varnish_adm \<Rightarrow> string list \<Rightarrow> 'w \<Rightarrow> (string \<times> gerr option) \<times> 'w" where
  "adm_run v args = va_execute v (va_binary v) args"

definition adm_load :: "'w varnish_adm \<Rightarrow> string \<Rightarrow> string \<Rightarrow> 'w \<Rightarrow> (string \<times> gerr option) \<times> 'w" where
  "adm_load v version entry =
     adm_run v (va_varnishAdmArgs v @ [''vcl.load'', version, va_vclBase v @ ''/'' @ entry])"

definition adm_use :: "'w varnish_adm \<Rightarrow> string \<Rightarrow> 'w \<Rightarrow> (string \<times> gerr option) \<times> 'w" where
  "adm_use v version = adm_run v (va_varnishAdmArgs v @ [''vcl.use'', version])"

text \<open>\<open>Reload\<close> returns the output of the tool besides the error: the caller looks into it.\<close>

definition Reload :: "'w varnish_adm \<Rightarrow> string \<Rightarrow> string \<Rightarrow> 'w \<Rightarrow> (string \<times> gerr option) \<times> 'w" where
  "Reload v version entry w =
     (case adm_load v version entry w of
        ((out, Some err), w') \<Rightarrow> ((out, Some err), w')
      | ((out, None), w') \<Rightarrow> adm_use v version w')"

definition Discard :: "'w varnish_adm \<Rightarrow> string \<Rightarrow> ('w, unit) prog" where
  "Discard v vclConfigName w =
     (case adm_run v (va_varnishAdmArgs v @ [''vcl.discard'', vclConfigName]) w of
        ((out, Some err), w') \<Rightarrow> (Err (Wrapped out err), w')
      | ((out, None), w') \<Rightarrow> (Ret (), w'))"

definition wrap_outcome :: "string \<Rightarrow> 'a outcome \<Rightarrow> 'a outcome" where
  "wrap_outcome out r = (case r of Err err \<Rightarrow> Err (Wrapped out err) | _ \<Rightarrow> r)"

definition List :: "'w varnish_adm \<Rightarrow> ('w, VCLConfig list) prog" where
  "List v w =
     (case adm_run v (va_varnishAdmArgs v @ [''vcl.list'', ''-j'']) w of
        ((out, Some err), w') \<Rightarrow>
          if Contains out ''JSON unimplemented'' then
            (case adm_run v (va_varnishAdmArgs v @ [''vcl.list'']) w' of
               ((out', Some err'), w'') \<Rightarrow> (Err (Wrapped out' err'), w'')
             | ((out', None), w'') \<Rightarrow> (parseVCLConfigsList out', w''))
          else (Err err, w')
      | ((out, None), w') \<Rightarrow>
          (obind (wrap_outcome out (UnmarshalJSON out)) (\<lambda>vclList. Ret (vlr_VCLs vclList)), w'))"

definition is_active :: "VCLConfig \<Rightarrow> bool" where
  "is_active c \<longleftrightarrow> vcfg_Status c = VCLStatusActive"

definition getActiveVCLConfig :: "'w varnish_adm \<Rightarrow> ('w, VCLConfig) prog" where
  "getActiveVCLConfig v =
     bnd (List v) (\<lambda>configsList.
       case find is_active configsList of
         Some c \<Rightarrow> ret c
       | None \<Rightarrow> fail (Plain ''No active VCL configuration found''))"

definition GetActiveConfigurationName :: "'w varnish_adm \<Rightarrow> ('w, string) prog" where
  "GetActiveConfigurationName v = bnd (getActiveVCLConfig v) (\<lambda>active. ret (vcfg_Name active))"

subsection \<open>Ping\<close>

text \<open>
  The goroutine of \<open>Ping\<close> tries again and again, the caller waits for it or for the timeout,
  whichever comes first. An attempt is its duration and whether it succeeded; \<open>t\<close> is the time since
  the start. At the very instant of the timeout Go picks either branch, \<open>tie\<close>. \<open>None\<close> is a caller
  that still waits when the attempts given are over.
\<close>

fun ping_loop :: "int \<Rightarrow> int \<Rightarrow> bool \<Rightarrow> (int \<times> bool) list \<Rightarrow> int \<Rightarrow> bool option" where
  "ping_loop timeout delay tie [] t = (if timeout < t then Some False else None)"
| "ping_loop timeout delay tie ((d, ok) # attempts) t =
     (if timeout < t + d then Some False
      else if ok then Some (t + d < timeout \<or> tie)
      else ping_loop timeout delay tie attempts (t + d + delay))"

definition Ping :: "'w varnish_adm \<Rightarrow> bool \<Rightarrow> (int \<times> bool) list \<Rightarrow> unit outcome option" where
  "Ping v tie attempts =
     map_option (\<lambda>r. if r then Ret () else Err (Plain ''varnish is unreachable''))
       (ping_loop (va_pingTimeout v) (va_pingDelay v) tie attempts 0)"

text \<open>The time at which an attempt ends, after the attempts before it and the pauses.\<close>

definition ends_at :: "int \<Rightarrow> (int \<times> bool) list \<Rightarrow> nat \<Rightarrow> int" where
  "ends_at delay attempts i = (\<Sum>j\<le>i. fst (attempts ! j)) + int i * delay"

lemma ends_at_0 [simp]: "ends_at delay (a # as) 0 = fst a"
  by (simp add: ends_at_def)

lemma ends_at_Suc [simp]: "ends_at delay (a # as) (Suc i) = fst a + delay + ends_at delay as i"
  by (simp add: ends_at_def sum.atMost_Suc_shift algebra_simps del: sum.atMost_Suc)

lemma ping_loop_decides:
  assumes "\<forall>a \<in> set attempts. 0 \<le> fst a" "0 < delay" "timeout - t < int (length attempts) * delay"
  shows "ping_loop timeout delay tie attempts t \<noteq> None"
  using assms
proof (induction timeout delay tie attempts t rule: ping_loop.induct)
  case (2 timeout delay tie d ok attempts t)
  have "timeout - (t + d + delay) < int (length attempts) * delay"
    using 2(2,3,4) by (simp add: algebra_simps)
  then show ?case using 2 by auto
qed simp

lemma ping_loop_True:
  assumes "ping_loop timeout delay tie attempts t = Some True"
  shows "\<exists>i < length attempts. snd (attempts ! i) \<and> (\<forall>j < i. \<not> snd (attempts ! j)) \<and>
    t + ends_at delay attempts i \<le> timeout"
  using assms
proof (induction timeout delay tie attempts t rule: ping_loop.induct)
  case (2 timeout delay tie d ok attempts t)
  show ?case
  proof (cases ok)
    case True
    then show ?thesis using 2(2) by (intro exI [of _ 0]) (auto split: if_splits)
  next
    case False
    then obtain i where i: "i < length attempts" "snd (attempts ! i)" "\<forall>j < i. \<not> snd (attempts ! j)"
      "t + d + delay + ends_at delay attempts i \<le> timeout"
      using 2 by (auto split: if_splits)
    then show ?thesis using False
      by (intro exI [of _ "Suc i"]) (auto simp: less_Suc_eq_0_disj)
  qed
qed (simp split: if_splits)

lemma ping_loop_False:
  assumes "ping_loop timeout delay tie attempts t = Some False" "i < length attempts" "snd (attempts ! i)"
    "\<forall>j < i. \<not> snd (attempts ! j)" "\<forall>a \<in> set attempts. 0 \<le> fst a" "0 \<le> delay"
  shows "timeout \<le> t + ends_at delay attempts i"
  using assms
proof (induction timeout delay tie attempts t arbitrary: i rule: ping_loop.induct)
  case (2 timeout delay tie d ok attempts t)
  have pos: "0 \<le> ends_at delay as k" if "k < length as" "\<forall>a \<in> set as. 0 \<le> fst a" for as k
    unfolding ends_at_def using that 2(7)
    by (intro add_nonneg_nonneg sum_nonneg) auto
  show ?case
  proof (cases i)
    case 0
    then show ?thesis using 2 by (auto split: if_splits)
  next
    case (Suc k)
    then have "\<not> ok" using 2(5) by fastforce
    show ?thesis
    proof (cases "timeout < t + d")
      case True
      then show ?thesis using Suc pos [of k attempts] 2(3,6,7) by simp
    next
      case False
      have "\<forall>j < k. \<not> snd (attempts ! j)" using 2(5) Suc by fastforce
      then show ?thesis
        using 2 False \<open>\<not> ok\<close> Suc by fastforce
    qed
  qed
qed simp

text \<open>
  C37: \<open>Ping\<close> always returns, within a bounded number of attempts (each takes no negative time, the
  pause between them is at least a nanosecond); it reports success only when an attempt succeeded
  by the timeout, and an error only when none did before the timeout.
\<close>

theorem ping_terminates:
  assumes "0 < va_pingDelay v" "va_pingTimeout v < int (length attempts) * va_pingDelay v"
    and "\<forall>a \<in> set attempts. 0 \<le> fst a"
  shows "(\<exists>i < length attempts. snd (attempts ! i) \<and> (\<forall>j < i. \<not> snd (attempts ! j)) \<and>
       Ping v tie attempts = Some (Ret ()) \<and> ends_at (va_pingDelay v) attempts i \<le> va_pingTimeout v) \<or>
    (Ping v tie attempts = Some (Err (Plain ''varnish is unreachable'')) \<and>
       (\<forall>i < length attempts. snd (attempts ! i) \<longrightarrow> (\<forall>j < i. \<not> snd (attempts ! j)) \<longrightarrow>
          va_pingTimeout v \<le> ends_at (va_pingDelay v) attempts i))"
proof -
  obtain r where r: "ping_loop (va_pingTimeout v) (va_pingDelay v) tie attempts 0 = Some r"
    using ping_loop_decides [OF assms(3,1), of "va_pingTimeout v" 0 tie] assms(2) by auto
  show ?thesis
    using r ping_loop_True [of "va_pingTimeout v" "va_pingDelay v" tie attempts 0]
      ping_loop_False [of "va_pingTimeout v" "va_pingDelay v" tie attempts 0] assms
    by (cases r) (auto simp: Ping_def)
qed

lemma ping_terminates_witness:
  "Ping (NewVarnishAdministartor 10 3 ''/etc/varnish'' [] (\<lambda>b args w. (([], None), w))) True
     [(1, False), (1, False), (1, True), (1, True)] = Some (Ret ())"
  using ping_terminates [of "NewVarnishAdministartor 10 3 ''/etc/varnish'' [] (\<lambda>b args w. (([], None), w :: unit))"
      "[(1, False), (1, False), (1, True), (1, True)]" True]
  by (simp add: NewVarnishAdministartor_def Ping_def)

subsection \<open>The administrator over varnishd\<close>

text \<open>
  What \<open>varnishadm\<close> documents of the commands used, over an abstract varnishd: the list \<open>loaded w\<close> of
  its configurations. \<open>vcl.list\<close> writes that list; \<open>vcl.load\<close> adds a configuration of a new name, not
  active, \<open>vcl.use\<close> makes a loaded one the only active one, \<open>vcl.discard\<close> removes one, and a command
  that fails changes nothing.
\<close>

definition activate :: "string \<Rightarrow> VCLConfig list \<Rightarrow> VCLConfig list" where
  "activate n cs = map (\<lambda>c. if vcfg_Name c = n then c\<lparr>vcfg_Status := VCLStatusActive\<rparr>
                            else if is_active c then c\<lparr>vcfg_Status := VCLStatusAvailable\<rparr> else c) cs"

definition discard_config :: "string \<Rightarrow> VCLConfig list \<Rightarrow> VCLConfig list" where
  "discard_config n cs = filter (\<lambda>c. vcfg_Name c \<noteq> n) cs"

definition lists_loaded :: "'w varnish_adm \<Rightarrow> (float64 \<Rightarrow> string) \<Rightarrow> ('w \<Rightarrow> VCLConfig list) \<Rightarrow> bool" where
  "lists_loaded v num loaded \<longleftrightarrow>
     (\<forall>w. \<exists>version t. num_ok num (Finite version) \<and> num_ok num (Finite t) \<and> (\<forall>c \<in> set (loaded w). config_ok num c) \<and>
        adm_run v (va_varnishAdmArgs v @ [''vcl.list'', ''-j'']) w =
          ((jprint num (json_response (Finite version) (Finite t) [''vcl.list'', ''-j''] (loaded w)), None), w))"

definition loads_config :: "'w varnish_adm \<Rightarrow> ('w \<Rightarrow> VCLConfig list) \<Rightarrow> bool" where
  "loads_config v loaded \<longleftrightarrow>
     (\<forall>w n f out err w'. adm_load v n f w = ((out, err), w') \<longrightarrow>
        (if err = None
         then n \<notin> vcfg_Name ` set (loaded w) \<and> (\<exists>c. loaded w' = loaded w @ [c] \<and> vcfg_Name c = n \<and> \<not> is_active c)
         else loaded w' = loaded w))"

definition uses_config :: "'w varnish_adm \<Rightarrow> ('w \<Rightarrow> VCLConfig list) \<Rightarrow> bool" where
  "uses_config v loaded \<longleftrightarrow>
     (\<forall>w n out err w'. adm_use v n w = ((out, err), w') \<longrightarrow>
        (if err = None then n \<in> vcfg_Name ` set (loaded w) \<and> loaded w' = activate n (loaded w)
         else loaded w' = loaded w))"

definition discards_config :: "'w varnish_adm \<Rightarrow> ('w \<Rightarrow> VCLConfig list) \<Rightarrow> bool" where
  "discards_config v loaded \<longleftrightarrow>
     (\<forall>w n out err w'. adm_run v (va_varnishAdmArgs v @ [''vcl.discard'', n]) w = ((out, err), w') \<longrightarrow>
        loaded w' = (if err = None then discard_config n (loaded w) else loaded w))"

definition varnishd_protocol :: "'w varnish_adm \<Rightarrow> (float64 \<Rightarrow> string) \<Rightarrow> ('w \<Rightarrow> VCLConfig list) \<Rightarrow> bool" where
  "varnishd_protocol v num loaded \<longleftrightarrow>
     lists_loaded v num loaded \<and> loads_config v loaded \<and> uses_config v loaded \<and> discards_config v loaded"

definition active_name :: "VCLConfig list \<Rightarrow> string option" where
  "active_name cs = map_option vcfg_Name (find is_active cs)"

lemma is_active_simps [simp]:
  "is_active (c\<lparr>vcfg_Status := VCLStatusActive\<rparr>)" "\<not> is_active (c\<lparr>vcfg_Status := VCLStatusAvailable\<rparr>)"
  by (simp_all add: is_active_def VCLStatusActive_def VCLStatusAvailable_def)

lemma active_name_append: "\<not> is_active c \<Longrightarrow> active_name (cs @ [c]) = active_name cs"
  by (induction cs) (simp_all add: active_name_def)

lemma active_name_activate: "n \<in> vcfg_Name ` set cs \<Longrightarrow> active_name (activate n cs) = Some n"
  by (induction cs) (auto simp: active_name_def activate_def)

lemma active_name_discard: "active_name cs \<noteq> Some n \<Longrightarrow> active_name (discard_config n cs) = active_name cs"
  by (induction cs) (auto simp: active_name_def discard_config_def)

lemma List_loaded:
  assumes "varnishd_protocol v num loaded"
  shows "List v w = (Ret (loaded w), w)"
proof -
  obtain version t where l: "num_ok num (Finite version)" "num_ok num (Finite t)" "\<forall>c \<in> set (loaded w). config_ok num c"
    "adm_run v (va_varnishAdmArgs v @ [''vcl.list'', ''-j'']) w =
       ((jprint num (json_response (Finite version) (Finite t) [''vcl.list'', ''-j''] (loaded w)), None), w)"
    using assms unfolding varnishd_protocol_def lists_loaded_def by blast
  have "list_all (list_all plain_char) [''vcl.list'', ''-j'']" by (simp add: plain_char_def)
  then show ?thesis
    using json_response_read [OF l(3) _ l(1,2)] by (simp add: List_def l(4) wrap_outcome_def)
qed

lemma GetActive_loaded:
  assumes "varnishd_protocol v num loaded"
  shows "GetActiveConfigurationName v w =
    ((case active_name (loaded w) of Some n \<Rightarrow> Ret n | None \<Rightarrow> Err (Plain ''No active VCL configuration found'')), w)"
  by (auto simp: GetActiveConfigurationName_def getActiveVCLConfig_def bnd_apply List_loaded [OF assms] active_name_def
      split: option.split)

lemma load_loaded:
  assumes "varnishd_protocol v num loaded" "adm_load v n f w = ((out, err), w')"
  shows "if err = None then n \<notin> vcfg_Name ` set (loaded w) \<and> (\<exists>c. loaded w' = loaded w @ [c] \<and> vcfg_Name c = n \<and> \<not> is_active c)
    else loaded w' = loaded w"
  using assms unfolding varnishd_protocol_def loads_config_def by blast

lemma use_loaded:
  assumes "varnishd_protocol v num loaded" "adm_use v n w = ((out, err), w')"
  shows "if err = None then n \<in> vcfg_Name ` set (loaded w) \<and> loaded w' = activate n (loaded w) else loaded w' = loaded w"
  using assms unfolding varnishd_protocol_def uses_config_def by blast

lemma Reload_loaded:
  assumes "varnishd_protocol v num loaded" "Reload v n f w = ((out, err), w')"
  shows "if err = None then \<exists>c. vcfg_Name c = n \<and> loaded w' = activate n (loaded w @ [c])
    else active_name (loaded w') = active_name (loaded w)"
proof -
  obtain o1 e1 w1 where l: "adm_load v n f w = ((o1, e1), w1)" by (metis prod.exhaust)
  obtain o2 e2 w2 where u: "adm_use v n w1 = ((o2, e2), w2)" by (metis prod.exhaust)
  show ?thesis
    using assms(2) load_loaded [OF assms(1) l] use_loaded [OF assms(1) u]
    by (cases e1; cases e2) (auto simp: Reload_def l u active_name_append)
qed

lemma Discard_loaded:
  assumes "varnishd_protocol v num loaded" "Discard v n w = (r, w')"
  shows "loaded w' = (if r = Ret () then discard_config n (loaded w) else loaded w)" "r \<noteq> Panic p"
proof -
  obtain out err w'' where d: "adm_run v (va_varnishAdmArgs v @ [''vcl.discard'', n]) w = ((out, err), w'')"
    by (metis prod.exhaust)
  have "loaded w'' = (if err = None then discard_config n (loaded w) else loaded w)"
    using assms(1) d unfolding varnishd_protocol_def discards_config_def by blast
  then show "loaded w' = (if r = Ret () then discard_config n (loaded w) else loaded w)" "r \<noteq> Panic p"
    using assms(2) by (auto simp: Discard_def d split: option.splits)
qed

text \<open>
  C13: the administrator implements the abstract varnishd: against a varnishd that keeps to its
  protocol, \<open>List\<close> gives the loaded configurations and \<open>GetActiveConfigurationName\<close> the active one;
  a \<open>Reload\<close> that succeeds has loaded the configuration and made it the active one, a \<open>Reload\<close> that
  fails, at the load or at the switch, leaves the active one in use; and discarding any other
  configuration does not touch the active one.
\<close>

theorem administrator_refines_varnishd:
  assumes "varnishd_protocol v num loaded"
  shows "List v w = (Ret (loaded w), w) \<and>
    (active_name (loaded w) = Some n \<longrightarrow> GetActiveConfigurationName v w = (Ret n, w)) \<and>
    (case Reload v n f w of ((out, err), w') \<Rightarrow>
       if err = None
       then (\<exists>c. vcfg_Name c = n \<and> loaded w' = activate n (loaded w @ [c])) \<and> GetActiveConfigurationName v w' = (Ret n, w')
       else active_name (loaded w') = active_name (loaded w)) \<and>
    (active_name (loaded w) \<noteq> Some n \<longrightarrow> active_name (loaded (snd (Discard v n w))) = active_name (loaded w))"
proof -
  obtain out err w' where r: "Reload v n f w = ((out, err), w')" by (metis prod.exhaust)
  have rel: "case Reload v n f w of ((out, err), w') \<Rightarrow>
       if err = None
       then (\<exists>c. vcfg_Name c = n \<and> loaded w' = activate n (loaded w @ [c])) \<and> GetActiveConfigurationName v w' = (Ret n, w')
       else active_name (loaded w') = active_name (loaded w)"
    using Reload_loaded [OF assms r] GetActive_loaded [OF assms, of w']
    by (auto simp: r active_name_activate split: if_splits)
  have "active_name (loaded w) \<noteq> Some n \<Longrightarrow> active_name (loaded (snd (Discard v n w))) = active_name (loaded w)"
    using Discard_loaded [OF assms, of n w "fst (Discard v n w)" "snd (Discard v n w)"] active_name_discard by auto
  then show ?thesis
    using rel List_loaded [OF assms] GetActive_loaded [OF assms, of w] by simp
qed

text \<open>A varnishd that keeps to the protocol: the names of its configurations and the active one.\<close>

definition sim_config :: "string \<Rightarrow> string \<Rightarrow> VCLConfig" where
  "sim_config act n = zero_config\<lparr>vcfg_Name := n, vcfg_State := ''auto'', vcfg_Temperature := ''warm'',
     vcfg_Status := (if n = act then VCLStatusActive else VCLStatusAvailable)\<rparr>"

definition sim_loaded :: "string list \<times> string \<Rightarrow> VCLConfig list" where
  "sim_loaded w = (case w of (ns, act) \<Rightarrow> map (sim_config act) (filter (list_all plain_char) ns))"

definition sim_execute :: "(string list \<times> string) executor" where
  "sim_execute b args w =
     (case w of (ns, act) \<Rightarrow>
       if args = [''vcl.list'', ''-j'']
       then ((jprint ex_num (json_response (Finite 2) (Finite 900) args (sim_loaded w)), None), w)
       else if length args = 3 \<and> hd args = ''vcl.load'' \<and> list_all plain_char (args ! 1) \<and> args ! 1 \<notin> set ns \<and> args ! 1 \<noteq> act
       then (([], None), (ns @ [args ! 1], act))
       else if length args = 2 \<and> hd args = ''vcl.use'' \<and> list_all plain_char (args ! 1) \<and> args ! 1 \<in> set ns
       then (([], None), (ns, args ! 1))
       else if length args = 2 \<and> hd args = ''vcl.discard''
       then (([], None), (filter (\<lambda>n. n \<noteq> args ! 1) ns, act))
       else ((''Command failed'', Some (Plain ''exit status 1'')), w))"

definition sim_adm :: "(string list \<times> string) varnish_adm" where
  "sim_adm = NewVarnishAdministartor 10 3 ''/etc/varnish'' [] sim_execute"

lemma num_ok_ex_num: "num_ok ex_num (Finite 0)" "num_ok ex_num (Finite 2)" "num_ok ex_num (Finite 900)"
proof -
  have sn: "show_nat 0 = ''0''" "show_nat 2 = ''2''" "show_nat 900 = ''900''" by code_simp+
  show "num_ok ex_num (Finite 0)" using num_ok_nat [of 0 ex_num] by (simp add: ex_num_def sn)
  show "num_ok ex_num (Finite 2)" using num_ok_nat [of 2 ex_num] by (simp add: ex_num_def sn)
  show "num_ok ex_num (Finite 900)" using num_ok_nat [of 900 ex_num] by (simp add: ex_num_def sn)
qed

lemma sim_adm_simps [simp]:
  "adm_run sim_adm args = sim_execute VarninshAdmBinary args" "va_varnishAdmArgs sim_adm = []"
  by (simp_all add: sim_adm_def NewVarnishAdministartor_def adm_run_def sanitizeVarnishArgs_def fun_eq_iff)

lemma plain_letters_sim [simp]: "plain_char (CHR ''i'')" "plain_char (CHR ''o'')" "plain_char (CHR ''v'')"
  "plain_char (CHR ''w'')" "plain_char (CHR ''c'')" "plain_char (CHR ''-'')"
  by (simp_all add: plain_char_def)

lemma sim_adm_protocol: "varnishd_protocol sim_adm ex_num sim_loaded"
  unfolding varnishd_protocol_def
proof (intro conjI)
  have "config_ok ex_num (sim_config act n)" if "list_all plain_char n" for act n
    using that num_ok_ex_num
    by (simp add: config_ok_def sim_config_def zero_config_def VCLStatusActive_def VCLStatusAvailable_def)
  then show "lists_loaded sim_adm ex_num sim_loaded"
    using num_ok_ex_num unfolding lists_loaded_def
    by (intro allI exI [of _ 2] exI [of _ 900]) (auto simp: sim_execute_def sim_loaded_def split: prod.split)
next
  show "loads_config sim_adm sim_loaded"
    by (auto simp: loads_config_def adm_load_def sim_execute_def sim_loaded_def sim_config_def is_active_def
        VCLStatusActive_def VCLStatusAvailable_def zero_config_def split: if_splits)
next
  show "uses_config sim_adm sim_loaded"
    by (auto simp: uses_config_def adm_use_def sim_execute_def sim_loaded_def sim_config_def is_active_def activate_def
        VCLStatusActive_def VCLStatusAvailable_def zero_config_def image_iff split: if_splits)
next
  show "discards_config sim_adm sim_loaded"
    by (auto simp: discards_config_def sim_execute_def sim_loaded_def sim_config_def discard_config_def filter_map comp_def
        zero_config_def conj_commute split: if_splits)
qed

lemma administrator_refines_varnishd_witness:
  "List sim_adm ([''boot''], ''boot'') = (Ret [sim_config ''boot'' ''boot''], ([''boot''], ''boot'')) \<and>
   GetActiveConfigurationName sim_adm ([''boot''], ''boot'') = (Ret ''boot'', ([''boot''], ''boot'')) \<and>
   (case Reload sim_adm ''v-1'' ''main.vcl'' ([''boot''], ''boot'') of
      ((out, err), w') \<Rightarrow> err = None \<and> GetActiveConfigurationName sim_adm w' = (Ret ''v-1'', w'))"
proof -
  have r: "Reload sim_adm ''v-1'' ''main.vcl'' ([''boot''], ''boot'') = (([], None), ([''boot'', ''v-1''], ''v-1''))"
    by (simp add: Reload_def adm_load_def adm_use_def sim_execute_def plain_char_def)
  show ?thesis
    using administrator_refines_varnishd [OF sim_adm_protocol, where n = "''v-1''" and f = "''main.vcl''" and w = "([''boot''], ''boot'')"]
      administrator_refines_varnishd [OF sim_adm_protocol, where n = "''boot''" and f = "''main.vcl''" and w = "([''boot''], ''boot'')"]
    by (simp add: r sim_loaded_def active_name_def sim_config_def is_active_def)
qed

subsection \<open>The interface\<close>

text \<open>
  What the reconciler relies on of a \<open>VarnishAdministrator\<close>: its name of the active configuration
  is that of the first active one in its list, read in the same world.
\<close>

locale varnish_administrator =
  fixes list :: "('w, VCLConfig list) prog" and active :: "('w, string) prog"
  assumes active_err: "list w = (Err err, w') \<Longrightarrow> active w = (Err err, w')"
    and active_panic: "list w = (Panic p, w') \<Longrightarrow> active w = (Panic p, w')"
    and active_first: "list w = (Ret cs, w') \<Longrightarrow> active_name cs = Some n \<Longrightarrow> active w = (Ret n, w')"
    and active_none: "list w = (Ret cs, w') \<Longrightarrow> active_name cs = None \<Longrightarrow> \<exists>m. active w = (Err (Plain m), w')"
begin

lemma active_listed:
  assumes "active w = (Ret n, w')"
  obtains cs where "list w = (Ret cs, w')" "active_name cs = Some n"
proof (cases "list w")
  case (Pair r w1)
  then show ?thesis
  proof (cases r)
    case (Ret cs)
    then show ?thesis
      using that assms Pair active_first [of w cs w1] active_none [of w cs w1] by (cases "active_name cs") auto
  next
    case (Err err)
    then show ?thesis using assms Pair active_err by simp
  next
    case (Panic p)
    then show ?thesis using assms Pair active_panic by simp
  qed
qed

lemma active_in_list:
  assumes "active w = (Ret n, w')" "list w = (Ret cs, w')"
  shows "\<exists>c \<in> set cs. is_active c \<and> vcfg_Name c = n"
proof -
  have "active_name cs = Some n" using active_listed [OF assms(1)] assms(2) by auto
  then show ?thesis by (auto simp: active_name_def find_Some_iff)
qed

end

interpretation va: varnish_administrator "List v" "GetActiveConfigurationName v" for v
  by unfold_locales
    (auto simp: GetActiveConfigurationName_def getActiveVCLConfig_def bnd_apply active_name_def)

end
