(* ===== verification/ControllerEnv.thy ===== *)
theory ControllerEnv
  imports KubeObjects OperatorEnv VarnishAdm
begin

text \<open>
  The environment of the controller that runs beside varnishd in every pod
  (\<open>pkg/varnishcontroller\<close>): its configuration, the API client, the \<open>varnishadm\<close> wrapper, the
  directory of the VCL files, the template engine, the clock, and two choices Go leaves open, the
  order in which a map is ranged over and that of equal elements in \<open>sort.Slice\<close>.

  The state has the world \<open>'w\<close> all of these act on, the two predicates of the backends' watch that a
  reconcile rewrites, the gauge of the VCL compilation, and three logs the model adds: the writes
  sent to the API server, the events recorded and the changes asked of varnishd.
\<close>

record controller_config =
  cc_Namespace :: string
  cc_PodName :: string
  cc_NodeName :: string
  cc_VarnishClusterName :: string
  cc_VarnishClusterUID :: string
  cc_VarnishClusterGroup :: string
  cc_VarnishClusterVersion :: string
  cc_VarnishClusterKind :: string
  cc_VarnishAdmArgs :: "string list"
  cc_VarnishPingTimeout :: int
  cc_VarnishPingDelay :: int
  cc_LogFormat :: string
  cc_LogLevel :: "8 word"

definition VCLConfigDir :: string where "VCLConfigDir = ''/etc/varnish''"

text \<open>What the templates are executed with, and a pod as they see it.\<close>

record PodInfo =
  pi_IP :: string
  pi_NodeLabels :: strmap
  pi_PodName :: string
  pi_Weight :: float64

record template_data =
  td_Backends :: "PodInfo list"
  td_TargetPort :: int32
  td_VarnishNodes :: "PodInfo list"
  td_VarnishPort :: int32

record 'w node_env =
  k_config :: controller_config
  k_VarnishClusters :: "('w, VarnishCluster) resource"
  k_Pods :: "('w, pod) resource"
  k_ListPods :: "string \<Rightarrow> strmap \<Rightarrow> ('w, pod list) prog"  \<comment> \<open>in a namespace, by label selector\<close>
  k_ConfigMaps :: "('w, config_map) resource"
  k_Nodes :: "('w, node) resource"
  k_FormatSelector :: "strmap \<Rightarrow> string"
  k_varnish :: "'w varnish_adm"
  k_ReadDir :: "string \<Rightarrow> ('w, string list) prog"
  k_ReadFile :: "string \<Rightarrow> ('w, string) prog"
  k_WriteFile :: "string \<Rightarrow> string \<Rightarrow> ('w, unit) prog"
  k_Remove :: "string \<Rightarrow> ('w, unit) prog"
  k_ParseTemplate :: "string \<Rightarrow> string \<Rightarrow> (template_data \<Rightarrow> string outcome) outcome"  \<comment> \<open>name and text\<close>
  k_Now :: "'w \<Rightarrow> time \<times> 'w"
  k_Range :: "strmap \<Rightarrow> 'w \<Rightarrow> string list \<times> 'w"
  k_SortThresholds :: "Threshold list \<Rightarrow> Threshold list"

datatype controller_event = CWarning kobj string string  \<comment> \<open>object, reason and message\<close>

datatype adm_change = AdmReload string string | AdmDiscard string

record 'w cstate =
  cs_world :: 'w
  cs_backendNamespaces :: "string list"
  cs_backendSelector :: strmap
  cs_VCLCompilationError :: bool
  cs_requests :: "request list"
  cs_events :: "controller_event list"
  cs_changes :: "adm_change list"

type_synonym ('w, 'a) controller = "('w cstate, 'a) prog"

definition at_world :: "('w, 'a) prog \<Rightarrow> ('w, 'a) controller" where
  "at_world m = (\<lambda>s. case m (cs_world s) of (r, w) \<Rightarrow> (r, s\<lparr>cs_world := w\<rparr>))"

definition c_get :: "('w, 'o) resource \<Rightarrow> string \<Rightarrow> string \<Rightarrow> ('w, 'o) controller" where
  "c_get res namespace name = at_world (r_get res namespace name)"

definition c_update_pod :: "'w node_env \<Rightarrow> pod \<Rightarrow> ('w, pod) controller" where
  "c_update_pod e p =
     (\<lambda>s. at_world (r_update (k_Pods e) p) (s\<lparr>cs_requests := cs_requests s @ [Update (ObjPod p)]\<rparr>))"

text \<open>\<open>Warning\<close> of \<open>events.go\<close>; the annotation it adds names this pod and is the same for all.\<close>

definition c_warning :: "kobj \<Rightarrow> string \<Rightarrow> string \<Rightarrow> ('w, unit) controller" where
  "c_warning object reason message = (\<lambda>s. (Ret (), s\<lparr>cs_events := cs_events s @ [CWarning object reason message]\<rparr>))"

definition c_range :: "'w node_env \<Rightarrow> strmap \<Rightarrow> ('w, string list) controller" where
  "c_range e m = at_world (\<lambda>w. case k_Range e m w of (ks, w') \<Rightarrow> (Ret ks, w'))"

definition c_now :: "'w node_env \<Rightarrow> ('w, time) controller" where
  "c_now e = at_world (\<lambda>w. case k_Now e w of (t, w') \<Rightarrow> (Ret t, w'))"

definition EventReasonReloadError :: string where "EventReasonReloadError = ''ReloadError''"
definition EventReasonVCLCompilationError :: string where "EventReasonVCLCompilationError = ''VCLCompilationError''"
definition EventReasonInvalidVCLConfigMap :: string where "EventReasonInvalidVCLConfigMap = ''InvalidVCLConfigMap''"
definition EventReasonBackendIgnored :: string where "EventReasonBackendIgnored = ''BackendIgnored''"

lemma at_world_apply [prog_simps]: "at_world m s = (case m (cs_world s) of (r, w) \<Rightarrow> (r, s\<lparr>cs_world := w\<rparr>))"
  by (simp add: at_world_def)

lemma c_warning_apply [simp]:
  "c_warning object reason message s = (Ret (), s\<lparr>cs_events := cs_events s @ [CWarning object reason message]\<rparr>)"
  by (simp add: c_warning_def)

text \<open>Ranging over a map visits each of its keys once.\<close>

definition ranges_once :: "'w node_env \<Rightarrow> bool" where
  "ranges_once e \<longleftrightarrow> (\<forall>m w. finite (dom m) \<longrightarrow> distinct (fst (k_Range e m w)) \<and> set (fst (k_Range e m w)) = dom m)"

subsection \<open>What a program of the controller can write\<close>

text \<open>
  \<open>quiet m\<close>: whatever the environment answers, \<open>m\<close> sends no write to the API server and asks no
  change of varnishd; \<open>writes_only Q R m\<close> bounds the writes by \<open>Q\<close> and the changes by \<open>R\<close>.
\<close>

definition writes_only ::
  "(request \<Rightarrow> bool) \<Rightarrow> (adm_change \<Rightarrow> bool) \<Rightarrow> ('w, 'a) controller \<Rightarrow> bool" where
  "writes_only Q R m \<longleftrightarrow>
     (\<forall>s. \<exists>qs cs. cs_requests (snd (m s)) = cs_requests s @ qs \<and> cs_changes (snd (m s)) = cs_changes s @ cs \<and>
        list_all Q qs \<and> list_all R cs)"

abbreviation quiet :: "('w, 'a) controller \<Rightarrow> bool" where
  "quiet m \<equiv> writes_only (\<lambda>_. False) (\<lambda>_. False) m"

named_theorems writes_intros

lemma writes_onlyD:
  "writes_only Q R m \<Longrightarrow> m s = (r, s') \<Longrightarrow>
   \<exists>qs cs. cs_requests s' = cs_requests s @ qs \<and> cs_changes s' = cs_changes s @ cs \<and> list_all Q qs \<and> list_all R cs"
  unfolding writes_only_def by (metis snd_conv)

lemma writes_only_mono:
  assumes "writes_only P S m" "\<And>q. P q \<Longrightarrow> Q q" "\<And>c. S c \<Longrightarrow> R c"
  shows "writes_only Q R m"
  unfolding writes_only_def
proof
  fix s
  obtain qs cs where "cs_requests (snd (m s)) = cs_requests s @ qs" "cs_changes (snd (m s)) = cs_changes s @ cs"
    "list_all P qs" "list_all S cs"
    using assms(1) unfolding writes_only_def by blast
  then show "\<exists>qs cs. cs_requests (snd (m s)) = cs_requests s @ qs \<and> cs_changes (snd (m s)) = cs_changes s @ cs \<and>
      list_all Q qs \<and> list_all R cs"
    using assms(2,3) by (auto intro: list.pred_mono_strong)
qed

lemma quiet_weaken: "quiet m \<Longrightarrow> writes_only Q R m"
  by (erule writes_only_mono) simp_all

lemma writes_pure [writes_intros]:
  "writes_only Q R (ret a)" "writes_only Q R (fail err)" "writes_only Q R (lift r)" "writes_only Q R (deref x)"
  "writes_only Q R (at_world g)" "writes_only Q R (c_get res ns n)" "writes_only Q R (c_warning ob rs msg)"
  "writes_only Q R (c_range e mp)" "writes_only Q R (c_now e)"
  by (auto simp: writes_only_def deref_def at_world_def c_get_def c_warning_def c_range_def c_now_def split: prod.split)

lemma writes_update_pod [writes_intros]: "Q (Update (ObjPod p)) \<Longrightarrow> writes_only Q R (c_update_pod e p)"
  by (auto simp: writes_only_def c_update_pod_def at_world_def split: prod.split)

lemma writes_after:
  assumes "writes_only Q R m" "m s = (r, s')" "writes_only Q R k"
  shows "\<exists>qs cs. cs_requests (snd (k s')) = cs_requests s @ qs \<and> cs_changes (snd (k s')) = cs_changes s @ cs \<and>
    list_all Q qs \<and> list_all R cs"
proof -
  obtain qs cs where 1: "cs_requests s' = cs_requests s @ qs" "cs_changes s' = cs_changes s @ cs" "list_all Q qs" "list_all R cs"
    using writes_onlyD [OF assms(1,2)] by blast
  obtain qs' cs' where 2: "cs_requests (snd (k s')) = cs_requests s' @ qs'" "cs_changes (snd (k s')) = cs_changes s' @ cs'"
    "list_all Q qs'" "list_all R cs'"
    using assms(3) unfolding writes_only_def by blast
  show ?thesis using 1 2 by (intro exI [of _ "qs @ qs'"] exI [of _ "cs @ cs'"]) simp
qed

lemma writes_attempt [writes_intros]:
  assumes m: "writes_only Q R m" and f: "\<And>r. writes_only Q R (f r)"
  shows "writes_only Q R (attempt m f)"
  unfolding writes_only_def
proof
  fix s
  obtain r s' where ms: "m s = (r, s')" by (cases "m s")
  show "\<exists>qs cs. cs_requests (snd (attempt m f s)) = cs_requests s @ qs \<and> cs_changes (snd (attempt m f s)) = cs_changes s @ cs \<and>
      list_all Q qs \<and> list_all R cs"
    using writes_after [OF m ms f] writes_onlyD [OF m ms] ms by (cases r) (simp_all add: attempt_apply)
qed

lemma writes_bnd [writes_intros]:
  assumes "writes_only Q R m" "\<And>a. writes_only Q R (f a)"
  shows "writes_only Q R (bnd m f)"
proof -
  have "bnd m f = attempt m (\<lambda>r. case r of Inl err \<Rightarrow> fail err | Inr a \<Rightarrow> f a)"
    by (auto simp: attempt_def bnd_def fun_eq_iff split: prod.split outcome.split)
  then show ?thesis using assms by (auto intro!: writes_attempt writes_pure split: sum.split)
qed

lemma writes_seq [writes_intros]: "writes_only Q R m \<Longrightarrow> writes_only Q R k \<Longrightarrow> writes_only Q R (seq m k)"
  by (simp add: seq_def writes_bnd)

lemma writes_wrap [writes_intros]: "writes_only Q R m \<Longrightarrow> writes_only Q R (wrap msg m)"
  unfolding wrap_def by (rule writes_attempt) (auto intro: writes_pure split: sum.split)

lemma writes_cases [writes_intros]:
  "(b \<Longrightarrow> writes_only Q R m) \<Longrightarrow> (\<not> b \<Longrightarrow> writes_only Q R k) \<Longrightarrow> writes_only Q R (if b then m else k)"
  "(x = None \<Longrightarrow> writes_only Q R m) \<Longrightarrow> (\<And>a. x = Some a \<Longrightarrow> writes_only Q R (f a)) \<Longrightarrow>
     writes_only Q R (case x of None \<Rightarrow> m | Some a \<Rightarrow> f a)"
  "(\<And>a. y = Inl a \<Longrightarrow> writes_only Q R (g a)) \<Longrightarrow> (\<And>a. y = Inr a \<Longrightarrow> writes_only Q R (h a)) \<Longrightarrow>
     writes_only Q R (case y of Inl a \<Rightarrow> g a | Inr a \<Rightarrow> h a)"
  "(\<And>a b. z = (a, b) \<Longrightarrow> writes_only Q R (p a b)) \<Longrightarrow> writes_only Q R (case z of (a, b) \<Rightarrow> p a b)"
  by (auto split: option.split sum.split prod.split)

lemma writes_for_each [writes_intros]:
  "(\<And>x. x \<in> set xs \<Longrightarrow> writes_only Q R (f x)) \<Longrightarrow> writes_only Q R (for_each xs f)"
  by (induction xs) (auto intro: writes_seq writes_pure)

end
