(* ===== verification/ControllerConfig.thy ===== *)
theory ControllerConfig
  imports ControllerEnv OperatorConfig StatefulSet VarnishArgs
begin

text \<open>
  The configuration of the controller (\<open>pkg/varnishcontroller/config/config.go\<close>): the struct tags by
  which its fields are read from the environment of the container, and the parsers of the two types
  the library does not know. The library that reads the environment is a parameter. The properties
  tie the tags to the container the operator gives the controller (\<open>StatefulSet\<close>) and to the
  arguments it gives varnishd (\<open>VarnishArgs\<close>).
\<close>

datatype env_tag = Required string | Optional string string  \<comment> \<open>variable, and default\<close>

text \<open>The tags in the order of the fields; \<open>VARNISHADM_ARGS\<close> is separated at blanks.\<close>

definition config_tags :: "env_tag list" where
  "config_tags =
     [Required ''NAMESPACE'', Required ''POD_NAME'', Required ''NODE_NAME'', Required ''VARNISH_CLUSTER_NAME'',
      Required ''VARNISH_CLUSTER_UID'', Required ''VARNISH_CLUSTER_GROUP'', Required ''VARNISH_CLUSTER_VERSION'',
      Required ''VARNISH_CLUSTER_KIND'',
      Optional ''VARNISHADM_ARGS'' ''-S /etc/varnish-secret/secret -T 127.0.0.1:6082'',
      Optional ''VARNISHADM_PING_TIMEOUT'' ''90s'', Optional ''VARNISHADM_PING_DELAY'' ''200ms'',
      Required ''LOG_FORMAT'', Required ''LOG_LEVEL'']"

definition envSeparator :: char where "envSeparator = CHR '' ''"

record controller_config_libs =
  h_UnmarshalLevel :: "string \<Rightarrow> log_level outcome"
  h_ParseEnv :: "env_tag list \<Rightarrow> (string \<Rightarrow> int32 outcome) \<Rightarrow> (string \<Rightarrow> log_level outcome) \<Rightarrow> controller_config outcome"

definition int32Parse :: "string \<Rightarrow> int32 outcome" where
  "int32Parse v =
     (case ParseInt32 v of None \<Rightarrow> Err (Plain (v @ '' is not an int32'')) | Some i \<Rightarrow> Ret (word_of_int i))"

definition zapcoreLevelParse :: "controller_config_libs \<Rightarrow> string \<Rightarrow> log_level outcome" where
  "zapcoreLevelParse h v = wrap_err (v @ '' is not a zap level'') (h_UnmarshalLevel h v)"

definition LoadControllerConfig :: "controller_config_libs \<Rightarrow> controller_config outcome" where
  "LoadControllerConfig h = h_ParseEnv h config_tags int32Parse (zapcoreLevelParse h)"

subsection \<open>The environment the operator provides\<close>

fun required_var :: "env_tag \<Rightarrow> string option" where
  "required_var (Required v) = Some v"
| "required_var (Optional v d) = None"

definition controller_of :: "statefulset \<Rightarrow> container" where
  "controller_of d = last (ps_Containers (pt_Spec (sts_Template (sts_Spec d))))"

lemma desired_statefulset_containers:
  assumes "desired_statefulset e vc args = Ret d"
  obtains v c m resources imgs where
    "sp_Varnish (vc_Spec vc) = Some v"
    "ps_Containers (pt_Spec (sts_Template (sts_Spec d))) =
       [varnish_container (fst imgs) args resources v, metrics_container (fst (snd imgs)) m,
        controller_container (snd (snd imgs)) vc (e_GroupVersionKind e vc) c]"
    "ps_Volumes (pt_Spec (sts_Template (sts_Spec d))) = pod_volumes (secret_names vc v) v"
proof -
  obtain v u containers where v: "sp_Varnish (vc_Spec vc) = Some v" and c: "pod_containers e vc v args = Ret containers"
    and d: "ps_Containers (pt_Spec (sts_Template (sts_Spec d))) = containers"
      "ps_Volumes (pt_Spec (sts_Template (sts_Spec d))) = pod_volumes (secret_names vc v) v"
    using assms by (auto simp: desired_statefulset_def Let_def obind_eq_Ret desired_pod_spec_def)
  obtain c m resources imgs where "containers =
       [varnish_container (fst imgs) args resources v, metrics_container (fst (snd imgs)) m,
        controller_container (snd (snd imgs)) vc (e_GroupVersionKind e vc) c]"
    using c that by (fastforce simp: pod_containers_def Let_def obind_eq_Ret)
  then show ?thesis using v d that by blast
qed

text \<open>
  C23: the environment of the controller's container sets every variable its configuration requires,
  each once, and no variable it does not know; the cluster and namespace it is told to serve are the
  ones the stateful set was made for, the pod and the node come from the pod's own fields.
\<close>

theorem controller_environment_complete:
  assumes "desired_statefulset e vc args = Ret d"
  shows "ct_Name (controller_of d) = VarnishControllerName \<and>
    distinct (map fst (ct_Env (controller_of d))) \<and>
    set (map fst (ct_Env (controller_of d))) = set (List.map_filter required_var config_tags) \<and>
    map_of (ct_Env (controller_of d)) ''NAMESPACE'' = Some (EnvValue (om_Namespace (sts_Meta d))) \<and>
    map_of (ct_Env (controller_of d)) ''VARNISH_CLUSTER_NAME'' = Some (EnvValue (vc_Name vc)) \<and>
    map_of (ct_Env (controller_of d)) ''VARNISH_CLUSTER_UID'' = Some (EnvValue (vc_UID vc)) \<and>
    map_of (ct_Env (controller_of d)) ''POD_NAME'' = Some (EnvFieldRef ''v1'' ''metadata.name'') \<and>
    map_of (ct_Env (controller_of d)) ''NODE_NAME'' = Some (EnvFieldRef ''v1'' ''spec.nodeName'')"
proof -
  have ns: "om_Namespace (sts_Meta d) = vc_Namespace vc"
    using assms by (auto simp: desired_statefulset_def Let_def obind_eq_Ret new_meta_def)
  obtain grp version kind where gvk: "e_GroupVersionKind e vc = (grp, version, kind)" by (rule prod_cases3)
  have req: "List.map_filter required_var config_tags =
      [''NAMESPACE'', ''POD_NAME'', ''NODE_NAME'', ''VARNISH_CLUSTER_NAME'', ''VARNISH_CLUSTER_UID'',
       ''VARNISH_CLUSTER_GROUP'', ''VARNISH_CLUSTER_VERSION'', ''VARNISH_CLUSTER_KIND'', ''LOG_FORMAT'', ''LOG_LEVEL'']"
    by (simp add: config_tags_def List.map_filter_def)
  show ?thesis unfolding req
    by (rule desired_statefulset_containers [OF assms])
      (simp add: gvk ns controller_of_def controller_container_def controller_env_def)
qed

subsection \<open>The administration port\<close>

lemma admin_addr: "listen_addr VarnishAdminPort = ''0.0.0.0:6082''"
proof -
  have "digit 6 = CHR ''6''" "digit 0 = CHR ''0''" "digit 8 = CHR ''8''" "digit 2 = CHR ''2''" by code_simp+
  then show ?thesis by (simp add: listen_addr_def VarnishAdminPort_def show_int_def show_nat.simps)
qed


end
