(* ===== verification/Predicates.thy ===== *)
theory Predicates
  imports ControllerEnv
begin

text \<open>
  The event filters of the controller's watches (\<open>pkg/varnishcontroller/predicates\<close>,
  \<open>podutil\<close>) and the watches themselves (\<open>SetupVarnishReconciler\<close> of \<open>controller.go\<close>): which changes
  of a pod or of a \<open>VarnishCluster\<close> wake the reconciler of a pod.
\<close>

datatype kube_event =
    CreateEvent kobj
  | DeleteEvent kobj
  | UpdateEvent kobj kobj  \<comment> \<open>the old and the new object\<close>
  | GenericEvent kobj

definition PodReady :: "pod \<Rightarrow> bool" where
  "PodReady p \<longleftrightarrow> pod_ContainerReady p \<noteq> [] \<and> list_all (\<lambda>ready. ready) (pod_ContainerReady p)"

subsection \<open>By labels\<close>

definition label_filter_Update :: "strmap \<Rightarrow> kobj \<Rightarrow> kobj \<Rightarrow> bool" where
  "label_filter_Update selector old new =
     (if \<not> label_match selector (om_Labels (kobj_meta new)) then False
      else case (old, new) of
          (ObjPod oldPod, ObjPod newPod) \<Rightarrow>
            if length (pod_PodIP newPod) \<noteq> 0 \<and> pod_PodIP oldPod \<noteq> pod_PodIP newPod then True
            else if length (pod_NodeName newPod) \<noteq> 0 \<and> pod_NodeName oldPod \<noteq> pod_NodeName newPod then True
            else PodReady newPod \<noteq> PodReady oldPod
        | _ \<Rightarrow> True)"

fun label_filter :: "strmap \<Rightarrow> kube_event \<Rightarrow> bool" where
  "label_filter selector (CreateEvent x) = label_match selector (om_Labels (kobj_meta x))"
| "label_filter selector (DeleteEvent x) = label_match selector (om_Labels (kobj_meta x))"
| "label_filter selector (UpdateEvent old new) = label_filter_Update selector old new"
| "label_filter selector (GenericEvent x) = label_match selector (om_Labels (kobj_meta x))"

subsection \<open>By namespace\<close>

definition contains_string :: "string \<Rightarrow> string list \<Rightarrow> bool" where
  "contains_string v s \<longleftrightarrow> list_ex (\<lambda>x. x = v) s"

definition allow :: "string list \<Rightarrow> string \<Rightarrow> bool" where
  "allow namespaces ns = (if length namespaces = 0 then True else contains_string ns namespaces)"

fun namespace_filter :: "string list \<Rightarrow> kube_event \<Rightarrow> bool" where
  "namespace_filter nss (CreateEvent x) = allow nss (om_Namespace (kobj_meta x))"
| "namespace_filter nss (DeleteEvent x) = allow nss (om_Namespace (kobj_meta x))"
| "namespace_filter nss (UpdateEvent old new) = allow nss (om_Namespace (kobj_meta new))"
| "namespace_filter nss (GenericEvent x) = allow nss (om_Namespace (kobj_meta x))"

subsection \<open>By the UID of the cluster\<close>

fun as_cluster :: "kobj \<Rightarrow> VarnishCluster option" where
  "as_cluster (ObjVarnishCluster vc) = Some vc"
| "as_cluster x = None"

definition own_cluster :: "string \<Rightarrow> kobj \<Rightarrow> bool" where
  "own_cluster uid x = (case as_cluster x of None \<Rightarrow> True | Some vc \<Rightarrow> vc_UID vc = uid)"

text \<open>
  The watch only delivers clusters; \<open>Update\<close> on two other objects of one type would panic in the
  source and gives \<open>None\<close> here, \<open>Some\<close> is its answer.
\<close>

definition cluster_filter_Update :: "string \<Rightarrow> kobj \<Rightarrow> kobj \<Rightarrow> bool option" where
  "cluster_filter_Update uid old new =
     (case (as_cluster old, as_cluster new) of
        (Some oldCluster, Some newCluster) \<Rightarrow>
          Some (if vc_UID newCluster \<noteq> uid \<or> vc_UID oldCluster \<noteq> uid then False
                else if vst_ConfigMapVersion (st_VCL (vc_Status newCluster)) \<noteq>
                        vst_ConfigMapVersion (st_VCL (vc_Status oldCluster)) then True
                else if sp_Backend (vc_Spec newCluster) \<noteq> sp_Backend (vc_Spec oldCluster) then True
                else True)
      | (None, None) \<Rightarrow> None
      | _ \<Rightarrow> Some False)"

fun cluster_filter :: "string \<Rightarrow> kube_event \<Rightarrow> bool option" where
  "cluster_filter uid (CreateEvent x) = Some (own_cluster uid x)"
| "cluster_filter uid (DeleteEvent x) = Some (as_cluster x \<noteq> None)"
| "cluster_filter uid (UpdateEvent old new) = cluster_filter_Update uid old new"
| "cluster_filter uid (GenericEvent x) = Some (own_cluster uid x)"

text \<open>\<open>NewDebugPredicate\<close> only logs.\<close>

definition debug_filter :: "kube_event \<Rightarrow> bool" where
  "debug_filter ev = True"

subsection \<open>The watches\<close>

text \<open>A watch hands an event on when all of its predicates let it pass.\<close>

definition podMapFunc :: "controller_config \<Rightarrow> kobj \<Rightarrow> (string \<times> string) list" where
  "podMapFunc cfg a = [(cc_Namespace cfg, cc_PodName cfg)]"

definition varnishPodsSelector :: "controller_config \<Rightarrow> strmap" where
  "varnishPodsSelector cfg =
     [LabelVarnishOwner \<mapsto> cc_VarnishClusterName cfg,
      LabelVarnishComponent \<mapsto> component_string VarnishComponentVarnish,
      LabelVarnishUID \<mapsto> cc_VarnishClusterUID cfg]"

definition backend_watch :: "'w cstate \<Rightarrow> kube_event \<Rightarrow> bool" where
  "backend_watch s ev \<longleftrightarrow> namespace_filter (cs_backendNamespaces s) ev \<and> label_filter (cs_backendSelector s) ev"

definition varnish_pods_watch :: "controller_config \<Rightarrow> kube_event \<Rightarrow> bool" where
  "varnish_pods_watch cfg ev \<longleftrightarrow> namespace_filter [cc_Namespace cfg] ev \<and> label_filter (varnishPodsSelector cfg) ev"

text \<open>
  The watch of the Varnish pods sees the pods of its own cluster and no others: a new or deleted
  pod passes exactly when it is in the controller's namespace and carries the labels the operator
  gives the pods of that very cluster.
\<close>

theorem varnish_pods_watched:
  assumes "cc_VarnishClusterName cfg = vc_Name vc" "cc_VarnishClusterUID cfg = vc_UID vc" "cc_Namespace cfg = vc_Namespace vc"
  shows "(varnish_pods_watch cfg (CreateEvent (ObjPod p)) \<longleftrightarrow>
     om_Namespace (pod_Meta p) = vc_Namespace vc \<and> ComponentLabels vc VarnishComponentVarnish \<subseteq>\<^sub>m om_Labels (pod_Meta p)) \<and>
    (varnish_pods_watch cfg (DeleteEvent (ObjPod p)) \<longleftrightarrow> varnish_pods_watch cfg (CreateEvent (ObjPod p))) \<and>
    (om_Namespace (pod_Meta p) = vc_Namespace vc \<and>
       om_Labels (pod_Meta p) = CombinedComponentLabels vc VarnishComponentVarnish \<longrightarrow>
     varnish_pods_watch cfg (CreateEvent (ObjPod p)))"
proof -
  have sel: "varnishPodsSelector cfg = ComponentLabels vc VarnishComponentVarnish"
    using assms by (simp add: varnishPodsSelector_def ComponentLabels_def)
  show ?thesis
    using assms(3) CombinedComponentLabels_map_le [of vc VarnishComponentVarnish]
    by (auto simp: varnish_pods_watch_def allow_def contains_string_def label_match_def sel)
qed

text \<open>
  The labels of the old object are not looked at, so a pod that is relabelled into or out of the
  selector, and changes nothing else, is missed by the watch, whatever the selector: a backend that
  left the selector stays in the VCL, and one that entered it stays out, until some other event.
\<close>

theorem relabelled_pod_missed:
  assumes "pod_PodIP new = pod_PodIP old" "pod_NodeName new = pod_NodeName old"
    and "pod_ContainerReady new = pod_ContainerReady old"
  shows "\<not> label_filter selector (UpdateEvent (ObjPod old) (ObjPod new)) \<and> \<not> backend_watch s (UpdateEvent (ObjPod old) (ObjPod new))"
  using assms by (simp add: backend_watch_def label_filter_Update_def PodReady_def)

text \<open>
  The controller wakes for every change of its own cluster and for none of another one: of two
  versions of a cluster the filter only looks at the UIDs, the tests on the config map version and
  the backend that follow decide nothing.
\<close>

theorem cluster_filter_is_uid:
  "cluster_filter uid (UpdateEvent (ObjVarnishCluster old) (ObjVarnishCluster new)) = Some (vc_UID old = uid \<and> vc_UID new = uid) \<and>
   cluster_filter uid (CreateEvent (ObjVarnishCluster new)) = Some (vc_UID new = uid) \<and>
   cluster_filter uid (DeleteEvent (ObjVarnishCluster new)) = Some True"
  by (auto simp: cluster_filter_Update_def own_cluster_def)

end
