(* ===== verification/Endpoints.thy ===== *)
theory Endpoints
  imports Predicates "HOL-Library.Multiset"
begin

text \<open>
  \<open>pkg/varnishcontroller/controller/endpoints.go\<close> and \<open>controller_node.go\<close>: the pods behind Varnish
  and their weights. A weight depends on the zone of the node a pod runs on, and on how many
  backends there are in the zone of this Varnish pod and in the others.
\<close>

definition LabelTopologyZone :: string where "LabelTopologyZone = ''topology.kubernetes.io/zone''"
definition LabelFailureDomainBetaZone :: string where
  "LabelFailureDomainBetaZone = ''failure-domain.beta.kubernetes.io/zone''"

definition getNodeLabels :: "'w node_env \<Rightarrow> string \<Rightarrow> ('w, strmap) controller" where
  "getNodeLabels e nodeName =
     attempt (c_get (k_Nodes e) [] nodeName) (\<lambda>r.
       case r of
         Inl err \<Rightarrow>
           if IsNotFound err then fail (Wrapped (''could not find node with name '' @ nodeName) err)
           else fail (Wrapped (''problem calling Get on Node '' @ nodeName) err)
       | Inr found \<Rightarrow> ret (om_Labels (node_Meta found)))"

subsection \<open>The pods behind a selector\<close>

definition list_namespace ::
  "'w node_env \<Rightarrow> string list \<Rightarrow> strmap \<Rightarrow> string \<Rightarrow> ('w, pod list) controller" where
  "list_namespace e namespaces selector namespace =
     wrap (''could not retrieve endpoints from namespace ['' @ Join namespaces '' '' @ ''] with labels ''
             @ k_FormatSelector e selector)
       (at_world (k_ListPods e namespace selector))"

fun list_pods ::
  "'w node_env \<Rightarrow> string list \<Rightarrow> strmap \<Rightarrow> string list \<Rightarrow> pod list \<Rightarrow> ('w, pod list) controller" where
  "list_pods e namespaces selector [] pods = ret pods"
| "list_pods e namespaces selector (ns # nss) pods =
     bnd (list_namespace e namespaces selector ns) (\<lambda>found. list_pods e namespaces selector nss (pods @ found))"

definition port_matches :: "int_or_string \<Rightarrow> container_port \<Rightarrow> bool" where
  "port_matches validPort p \<longleftrightarrow> cp_ContainerPort p = IntVal validPort \<or> cp_Name p = StrVal validPort"

text \<open>
  The loop over the containers of a pod. The \<open>break\<close> at a port that matches ends the loop over the
  ports of its container only. The accumulator has the pods found so far, the number of the last
  port that matched, and whether one of this pod did.
\<close>

fun scan_containers ::
  "'w node_env \<Rightarrow> pod \<Rightarrow> int_or_string \<Rightarrow> container list \<Rightarrow> PodInfo list \<Rightarrow> int32 \<Rightarrow> bool \<Rightarrow>
   ('w, PodInfo list \<times> int32 \<times> bool) controller" where
  "scan_containers e pod validPort [] infos portNumber portFound = ret (infos, portNumber, portFound)"
| "scan_containers e pod validPort (c # cs) infos portNumber portFound =
     (case find (port_matches validPort) (ct_Ports c) of
        None \<Rightarrow> scan_containers e pod validPort cs infos portNumber portFound
      | Some p \<Rightarrow>
          bnd (getNodeLabels e (pod_NodeName pod)) (\<lambda>nodeLabels.
            scan_containers e pod validPort cs
              (infos @ [\<lparr>pi_IP = pod_PodIP pod, pi_NodeLabels = nodeLabels,
                         pi_PodName = om_Name (pod_Meta pod), pi_Weight = float_of_int 1\<rparr>])
              (cp_ContainerPort p) True))"

fun port_string :: "int_or_string \<Rightarrow> string" where
  "port_string (IntPort n) = show_int (sint n)"
| "port_string (StrPort s) = s"

definition ignored_msg :: "pod \<Rightarrow> int_or_string \<Rightarrow> string" where
  "ignored_msg pod validPort =
     ''Backend pod '' @ om_Namespace (pod_Meta pod) @ ''/'' @ om_Name (pod_Meta pod) @
     '' ignored since none of its containers have port '' @ go_quoted (port_string validPort) @ '' defined''"

definition scanned :: "bool \<Rightarrow> pod \<Rightarrow> bool" where
  "scanned onlyReady pod \<longleftrightarrow>
     \<not> (length (pod_PodIP pod) = 0 \<or> length (pod_NodeName pod) = 0) \<and> \<not> (onlyReady \<and> \<not> PodReady pod)"

fun scan_backends ::
  "'w node_env \<Rightarrow> VarnishCluster \<Rightarrow> int_or_string \<Rightarrow> bool \<Rightarrow> pod list \<Rightarrow> PodInfo list \<Rightarrow> int32 \<Rightarrow>
   ('w, PodInfo list \<times> int32) controller" where
  "scan_backends e vc validPort onlyReady [] infos portNumber = ret (infos, portNumber)"
| "scan_backends e vc validPort onlyReady (pod # pods) infos portNumber =
     (if \<not> scanned onlyReady pod then scan_backends e vc validPort onlyReady pods infos portNumber
      else bnd (scan_containers e pod validPort (pod_Containers pod) infos portNumber False)
        (\<lambda>(infos', portNumber', portFound).
          seq (if portFound then ret ()
               else c_warning (ObjVarnishCluster vc) EventReasonBackendIgnored (ignored_msg pod validPort))
            (scan_backends e vc validPort onlyReady pods infos' portNumber')))"

definition getPodsInfo ::
  "'w node_env \<Rightarrow> VarnishCluster \<Rightarrow> string list \<Rightarrow> strmap \<Rightarrow> int_or_string \<Rightarrow> bool \<Rightarrow>
   ('w, PodInfo list \<times> int32) controller" where
  "getPodsInfo e vc namespaces selector validPort onlyReady =
     bnd (list_pods e namespaces selector namespaces []) (\<lambda>pods.
       if length pods = 0 then ret ([], 0)
       else bnd (scan_backends e vc validPort onlyReady pods [] 0) (\<lambda>(infos, portNumber).
         ret (sort_key pi_IP infos, portNumber)))"

definition getVarnishEndpoints :: "'w node_env \<Rightarrow> VarnishCluster \<Rightarrow> ('w, PodInfo list) controller" where
  "getVarnishEndpoints e vc =
     bnd (getPodsInfo e vc [cc_Namespace (k_config e)] (CombinedComponentLabels vc VarnishComponentVarnish)
            (StrPort VarnishPortName) False) (\<lambda>(infos, _). ret infos)"

subsection \<open>Zones\<close>

definition in_zone :: "string \<Rightarrow> string \<Rightarrow> PodInfo \<Rightarrow> bool" where
  "in_zone zoneLabel currentZone b \<longleftrightarrow> lookup (pi_NodeLabels b) zoneLabel = currentZone"

definition has_zone :: "string \<Rightarrow> PodInfo \<Rightarrow> bool" where
  "has_zone zoneLabel b \<longleftrightarrow> pi_NodeLabels b zoneLabel \<noteq> None"

definition checkMultizone :: "PodInfo list \<Rightarrow> string \<Rightarrow> string \<Rightarrow> bool" where
  "checkMultizone endpoints zoneLabel currentZone \<longleftrightarrow>
     list_ex (\<lambda>b. has_zone zoneLabel b \<and> \<not> in_zone zoneLabel currentZone b) endpoints"

text \<open>The loop that counts: the zones seen, the local and the remote backends.\<close>

fun count_zones :: "string \<Rightarrow> string \<Rightarrow> PodInfo list \<Rightarrow> string list \<Rightarrow> nat \<Rightarrow> nat \<Rightarrow> string list \<times> nat \<times> nat" where
  "count_zones currentZone zoneLabel [] zones localCount remoteCount = (zones, localCount, remoteCount)"
| "count_zones currentZone zoneLabel (b # bs) zones localCount remoteCount =
     (if has_zone zoneLabel b then
        (let z = lookup (pi_NodeLabels b) zoneLabel;
             zones' = (if contains_string z zones then zones else zones @ [z])
         in if z = currentZone then count_zones currentZone zoneLabel bs zones' (localCount + 1) remoteCount
            else count_zones currentZone zoneLabel bs zones' localCount (remoteCount + 1))
      else count_zones currentZone zoneLabel bs zones localCount remoteCount)"

definition calculateBackendRatio :: "PodInfo list \<Rightarrow> string \<Rightarrow> string \<Rightarrow> float64" where
  "calculateBackendRatio backends currentZone zoneLabel =
     (case count_zones currentZone zoneLabel backends [] 0 0 of (zones, localCount, remoteCount) \<Rightarrow>
        fdiv (float_of_int (int localCount))
          (fdiv (float_of_int (int remoteCount)) (float_of_int (int (length zones) - 1))))"

subsection \<open>Weights\<close>

text \<open>The loops that set the weights: with the weights of the last local and remote backend.\<close>

fun weigh_auto ::
  "string \<Rightarrow> string \<Rightarrow> float64 \<Rightarrow> PodInfo list \<Rightarrow> float64 \<Rightarrow> float64 \<Rightarrow> PodInfo list \<times> float64 \<times> float64" where
  "weigh_auto zoneLabel currentZone backendRatio [] lw rw = ([], lw, rw)"
| "weigh_auto zoneLabel currentZone backendRatio (b # bs) lw rw =
     (if in_zone zoneLabel currentZone b
      then let lw' = fmul (float_of_int 10) backendRatio in
        (case weigh_auto zoneLabel currentZone backendRatio bs lw' rw of (bs', l, r) \<Rightarrow> (b\<lparr>pi_Weight := lw'\<rparr> # bs', l, r))
      else
        (case weigh_auto zoneLabel currentZone backendRatio bs lw (float_of_int 1) of (bs', l, r) \<Rightarrow> (b # bs', l, r)))"

fun weigh_fixed ::
  "string \<Rightarrow> string \<Rightarrow> float64 \<Rightarrow> float64 \<Rightarrow> PodInfo list \<Rightarrow> float64 \<Rightarrow> float64 \<Rightarrow> PodInfo list \<times> float64 \<times> float64" where
  "weigh_fixed zoneLabel currentZone l r [] lw rw = ([], lw, rw)"
| "weigh_fixed zoneLabel currentZone l r (b # bs) lw rw =
     (if in_zone zoneLabel currentZone b
      then (case weigh_fixed zoneLabel currentZone l r bs l rw of (bs', l', r') \<Rightarrow> (b\<lparr>pi_Weight := l\<rparr> # bs', l', r'))
      else (case weigh_fixed zoneLabel currentZone l r bs lw r of (bs', l', r') \<Rightarrow> (b\<lparr>pi_Weight := r\<rparr> # bs', l', r')))"

fun pick_weights :: "int \<Rightarrow> Threshold list \<Rightarrow> goint \<times> goint \<Rightarrow> (goint \<times> goint) outcome" where
  "pick_weights percent [] current = Ret current"
| "pick_weights percent (thd # thds) current =
     obind (oderef (th_Threshold thd)) (\<lambda>t.
       if percent \<le> sint t then
         obind (oderef (th_Local thd)) (\<lambda>l. obind (oderef (th_Remote thd)) (\<lambda>r. pick_weights percent thds (l, r)))
       else Ret current)"

text \<open>
  \<open>sort.Slice\<close> compares every element of a slice of at least two, so a nil threshold panics there.
  A single element is not compared.
\<close>

definition threshold_weights ::
  "'w node_env \<Rightarrow> float64 \<Rightarrow> Threshold list \<Rightarrow> (goint \<times> goint) option outcome" where
  "threshold_weights e backendRatio thresholds =
     (if length thresholds < 1 then Ret None
      else if 2 \<le> length thresholds \<and> list_ex (\<lambda>t. th_Threshold t = None) thresholds then Panic NilDeref
      else let sorted = k_SortThresholds e thresholds in
        obind (oderef (th_Local (hd sorted))) (\<lambda>l.
        obind (oderef (th_Remote (hd sorted))) (\<lambda>r.
        obind (pick_weights (int_of_float (fmul backendRatio (float_of_int 100))) sorted (l, r)) (\<lambda>w.
          Ret (Some w)))))"

definition balance ::
  "'w node_env \<Rightarrow> VarnishClusterBackendZoneBalancing \<Rightarrow> string \<Rightarrow> string \<Rightarrow> PodInfo list \<Rightarrow>
   (PodInfo list \<times> float64 \<times> float64) outcome" where
  "balance e zb zoneLabel currentZone backends =
     (let backendRatio = calculateBackendRatio backends currentZone zoneLabel; one = float_of_int 1 in
      if zb_Type zb = ZoneBalancingAuto then Ret (weigh_auto zoneLabel currentZone backendRatio backends one one)
      else if zb_Type zb = ZoneBalancingThresholds then
        obind (threshold_weights e backendRatio (zb_Thresholds zb)) (\<lambda>w.
          case w of
            None \<Rightarrow> Ret (backends, one, one)
          | Some (l, r) \<Rightarrow>
              Ret (weigh_fixed zoneLabel currentZone (float_of_int (sint l)) (float_of_int (sint r)) backends one one))
      else Ret (backends, one, one))"

definition zone_label :: "strmap \<Rightarrow> string" where
  "zone_label nodeLabels =
     (if nodeLabels LabelFailureDomainBetaZone \<noteq> None then LabelFailureDomainBetaZone else LabelTopologyZone)"

text \<open>The namespaces of the backends: those of the spec, or the pod's own; \<open>Reconcile\<close> takes the same.\<close>

definition backend_namespaces :: "'w node_env \<Rightarrow> VarnishClusterBackend \<Rightarrow> string list" where
  "backend_namespaces e backend =
     (if length (be_Namespaces backend) > 0 then be_Namespaces backend else [cc_Namespace (k_config e)])"

definition getBackendEndpoints ::
  "'w node_env \<Rightarrow> VarnishCluster \<Rightarrow> ('w, PodInfo list \<times> int32 \<times> float64 \<times> float64) controller" where
  "getBackendEndpoints e vc =
     bnd (getNodeLabels e (cc_NodeName (k_config e))) (\<lambda>varnishNodeLabels.
     let zoneLabel = zone_label varnishNodeLabels; currentZone = lookup varnishNodeLabels zoneLabel in
     bnd (deref (sp_Backend (vc_Spec vc))) (\<lambda>backend.
     bnd (deref (be_Port backend)) (\<lambda>port.
     bnd (getPodsInfo e vc (backend_namespaces e backend) (be_Selector backend) port (be_OnlyReady backend)) (\<lambda>(backendList, portNumber).
       if \<not> checkMultizone backendList zoneLabel currentZone
       then ret (backendList, portNumber, float_of_int 1, float_of_int 1)
       else bnd (deref (be_ZoneBalancing backend)) (\<lambda>zb.
         bnd (lift (balance e zb zoneLabel currentZone backendList)) (\<lambda>(bks, l, r).
           ret (bks, portNumber, l, r)))))))"

subsection \<open>The ratio\<close>

definition n_local :: "string \<Rightarrow> string \<Rightarrow> PodInfo list \<Rightarrow> nat" where
  "n_local zl cz bs = length (filter (\<lambda>b. has_zone zl b \<and> in_zone zl cz b) bs)"

definition n_remote :: "string \<Rightarrow> string \<Rightarrow> PodInfo list \<Rightarrow> nat" where
  "n_remote zl cz bs = length (filter (\<lambda>b. has_zone zl b \<and> \<not> in_zone zl cz b) bs)"

definition zones_of :: "string \<Rightarrow> PodInfo list \<Rightarrow> string set" where
  "zones_of zl bs = {lookup (pi_NodeLabels b) zl | b. b \<in> set bs \<and> has_zone zl b}"

definition remote_zones :: "string \<Rightarrow> string \<Rightarrow> PodInfo list \<Rightarrow> nat" where
  "remote_zones zl cz bs = card (zones_of zl bs - {cz})"

lemma zones_of_simps [simp]:
  "zones_of zl [] = {}"
  "zones_of zl (b # bs) = (if has_zone zl b then insert (lookup (pi_NodeLabels b) zl) (zones_of zl bs) else zones_of zl bs)"
  by (auto simp: zones_of_def)

lemma finite_zones_of [simp]: "finite (zones_of zl bs)"
  by (induction bs) auto

lemma contains_string_iff [simp]: "contains_string v s \<longleftrightarrow> v \<in> set s"
  by (auto simp: contains_string_def list_ex_iff)

lemma count_zones_result:
  assumes "count_zones cz zl bs zs l r = (zs', l', r')" "distinct zs"
  shows "l' = l + n_local zl cz bs \<and> r' = r + n_remote zl cz bs \<and> distinct zs' \<and> set zs' = set zs \<union> zones_of zl bs"
  using assms
proof (induction cz zl bs zs l r rule: count_zones.induct)
  case (2 cz zl b bs zs l r)
  then show ?case
    by (auto simp: n_local_def n_remote_def in_zone_def Let_def split: if_splits)
qed (simp add: n_local_def n_remote_def)

lemma n_local_zone: "0 < n_local zl cz bs \<longleftrightarrow> cz \<in> zones_of zl bs"
  by (induction bs) (auto simp: n_local_def in_zone_def)

lemma n_remote_pos: "0 < n_remote zl cz bs \<longleftrightarrow> checkMultizone bs zl cz"
  by (induction bs) (auto simp: n_remote_def checkMultizone_def)

lemma multizone_zones: "checkMultizone bs zl cz \<longleftrightarrow> zones_of zl bs - {cz} \<noteq> {}"
  by (induction bs) (auto simp: checkMultizone_def in_zone_def)

lemma counts_le: "n_local zl cz bs \<le> length bs" "n_remote zl cz bs \<le> length bs" "card (zones_of zl bs) \<le> length bs"
proof -
  show "n_local zl cz bs \<le> length bs" "n_remote zl cz bs \<le> length bs"
    by (simp_all add: n_local_def n_remote_def)
  show "card (zones_of zl bs) \<le> length bs"
    by (induction bs) (auto simp: card_insert_if)
qed

definition documented_ratio :: "string \<Rightarrow> string \<Rightarrow> PodInfo list \<Rightarrow> rat" where
  "documented_ratio zl cz bs = of_nat (n_local zl cz bs) / (of_nat (n_remote zl cz bs) / of_nat (remote_zones zl cz bs))"

lemma ratio_rounded:
  assumes "checkMultizone bs zl cz" "length bs < 2 ^ 53"
  shows "calculateBackendRatio bs cz zl =
    Finite (fl (of_nat (n_local zl cz bs) / fl (of_nat (n_remote zl cz bs) / of_nat (remote_zones zl cz bs))))"
proof -
  obtain zs l r where c: "count_zones cz zl bs [] 0 0 = (zs, l, r)" by (metis prod_cases3)
  have cr: "l = n_local zl cz bs" "r = n_remote zl cz bs" "distinct zs" "set zs = zones_of zl bs"
    using count_zones_result [OF c] by simp_all
  then have len: "length zs = card (zones_of zl bs)" using distinct_card by fastforce
  have bounds: "l < 2 ^ 53" "r < 2 ^ 53" "length zs < 2 ^ 53" "0 < r"
    using assms counts_le(1,2) [of zl cz bs] counts_le(3) [of zl bs] cr len n_remote_pos [of zl cz bs] by auto
  then have fi: "float_of_int (int l) = Finite (of_nat l)" "float_of_int (int r) = Finite (of_nat r)"
    by (simp_all add: float_of_int_def)
  show ?thesis
  proof (cases "l = 0")
    case False
    then have cz: "cz \<in> zones_of zl bs" using cr n_local_zone [of zl cz bs] by simp
    then have "int (length zs) - 1 = int (remote_zones zl cz bs)"
      using len card_Suc_Diff1 [OF finite_zones_of cz] by (simp add: remote_zones_def)
    moreover have rz: "0 < remote_zones zl cz bs"
      using assms(1) by (simp add: remote_zones_def multizone_zones card_gt_0_iff)
    moreover have "remote_zones zl cz bs < 2 ^ 53" using calculation bounds by linarith
    ultimately have fz: "float_of_int (int (length zs) - 1) = Finite (of_nat (remote_zones zl cz bs))"
      by (simp add: float_of_int_def)
    have "fl (of_nat r / of_nat (remote_zones zl cz bs)) \<noteq> 0"
      using fl_pos [of "of_nat r / of_nat (remote_zones zl cz bs)"] bounds rz by simp
    then show ?thesis
      using rz by (simp add: calculateBackendRatio_def c fi fz cr(1,2) [symmetric])
  next
    case True
    have fz: "float_of_int (int (length zs) - 1) = Finite (fl (of_int (int (length zs) - 1)))"
      by (simp add: float_of_int_def)
    show ?thesis
    proof (cases "length zs = 1")
      case True
      then show ?thesis using \<open>l = 0\<close> bounds by (simp add: calculateBackendRatio_def c fi cr(1) [symmetric]) (simp add: float_of_int_def)
    next
      case False
      have "zones_of zl bs \<noteq> {}" using assms(1) multizone_zones by blast
      then have "2 \<le> length zs" using False len by (cases "length zs") (auto simp: card_eq_0_iff)
      then have pos: "0 < fl (of_int (int (length zs) - 1))" by (intro fl_pos) simp
      then have "fl (of_nat r / fl (of_int (int (length zs) - 1))) \<noteq> 0"
        using fl_pos [of "of_nat r / fl (of_int (int (length zs) - 1))"] bounds by simp
      then show ?thesis using \<open>l = 0\<close> pos by (simp add: calculateBackendRatio_def c fi fz cr(1) [symmetric] float_of_int_def [of 0])
    qed
  qed
qed

lemma quotient_error:
  assumes q: "0 < q" and y: "\<bar>y - q\<bar> \<le> q / 2 ^ 53" and l: "0 \<le> (l :: rat)"
  shows "0 < y" "\<bar>fl (l / y) - l / q\<bar> \<le> (l / q) / 2 ^ 51"
proof -
  define u :: rat where "u = 1 / 2 ^ 53"
  have u: "0 < u" "u \<le> 1 / 2" "q / 2 ^ 53 = q * u" by (simp_all add: u_def)
  have yu: "\<bar>y - q\<bar> \<le> q * u" using y by (simp only: u(3))
  have "q * (1 - u) = q - q * u" by (simp add: algebra_simps)
  then have yl: "q * (1 - u) \<le> y" "\<bar>y - q\<bar> \<le> q * u" using yu by (auto simp: abs_le_iff)
  have "q / 2 \<le> q * (1 - u)" using q u by (simp add: field_simps)
  then have y2: "q / 2 \<le> y" using yl by linarith
  then show y0: "0 < y" using q by linarith
  have iy: "l / y \<le> 2 * (l / q)"
  proof -
    have "l / y \<le> l / (q / 2)" using l y2 q by (intro divide_left_mono) auto
    then show ?thesis by (simp add: mult.commute)
  qed
  have iyu: "l / y * u \<le> 2 * (l / q) * u" using iy u(1) by (rule mult_right_mono [OF _ less_imp_le])
  have "l / y - l / q = (l / y) * ((q - y) / q)" using q y0 by (simp add: field_simps)
  then have "\<bar>l / y - l / q\<bar> = (l / y) * (\<bar>y - q\<bar> / q)"
    using l y0 q by (simp add: abs_mult abs_minus_commute)
  also have "\<dots> \<le> (l / y) * u"
    using yl(2) q l y0 by (intro mult_left_mono) (simp_all add: divide_le_eq mult.commute)
  also have "\<dots> \<le> 2 * (l / q) * u" by (rule iyu)
  finally have e1: "\<bar>l / y - l / q\<bar> \<le> 2 * (l / q) * u" .
  have "\<bar>fl (l / y) - l / y\<bar> \<le> (l / y) * u" using fl_error [of "l / y"] l y0 by (simp add: u_def)
  also have "\<dots> \<le> 2 * (l / q) * u" by (rule iyu)
  finally have "\<bar>fl (l / y) - l / y\<bar> \<le> 2 * (l / q) * u" .
  with e1 have "\<bar>fl (l / y) - l / q\<bar> \<le> 4 * (l / q) * u" by linarith
  then show "\<bar>fl (l / y) - l / q\<bar> \<le> (l / q) / 2 ^ 51" by (simp add: u_def)
qed

text \<open>
  C33: the backend ratio is the documented one, the number of local backends by the average number of
  backends of a remote zone, up to one part in \<open>2 ^ 51\<close>: whenever the code comes to compute it there
  is a remote backend, so it never divides by zero into an infinity or a NaN, also not for a zone
  without a local backend.
\<close>

theorem backend_ratio_documented:
  assumes "checkMultizone bs zl cz" "length bs < 2 ^ 53"
  shows "\<exists>x. calculateBackendRatio bs cz zl = Finite x \<and> 0 \<le> x \<and>
    \<bar>x - documented_ratio zl cz bs\<bar> \<le> documented_ratio zl cz bs / 2 ^ 51"
proof -
  define q :: rat where "q = of_nat (n_remote zl cz bs) / of_nat (remote_zones zl cz bs)"
  have "0 < remote_zones zl cz bs" "0 < n_remote zl cz bs"
    using assms(1) by (simp_all add: remote_zones_def multizone_zones card_gt_0_iff n_remote_pos)
  then have q: "0 < q" by (simp add: q_def)
  have y: "\<bar>fl q - q\<bar> \<le> q / 2 ^ 53" using fl_error [of q] q by simp
  note e = quotient_error [OF q y, of "of_nat (n_local zl cz bs)"]
  show ?thesis
    using ratio_rounded [OF assms] e fl_nonneg [of "of_nat (n_local zl cz bs) / fl q"]
    by (simp add: documented_ratio_def q_def [symmetric])
qed

subsection \<open>Which backends are found\<close>

text \<open>
  A view of the cluster: the pods each namespace lists for the selector, and the labels of their
  nodes; reading it does not change it.
\<close>

definition reads_cluster ::
  "'w node_env \<Rightarrow> strmap \<Rightarrow> (string \<Rightarrow> pod list) \<Rightarrow> (string \<Rightarrow> strmap) \<Rightarrow> 'w \<Rightarrow> bool" where
  "reads_cluster e selector pods nodes w \<longleftrightarrow>
     (\<forall>ns. k_ListPods e ns selector w = (Ret (pods ns), w)) \<and>
     (\<forall>ns. \<forall>p \<in> set (pods ns). \<exists>n. r_get (k_Nodes e) [] (pod_NodeName p) w = (Ret n, w) \<and>
        om_Labels (node_Meta n) = nodes (pod_NodeName p))"

definition serving :: "int_or_string \<Rightarrow> pod \<Rightarrow> container_port list" where
  "serving port pod = List.map_filter (\<lambda>c. find (port_matches port) (ct_Ports c)) (pod_Containers pod)"

definition pod_entry :: "(string \<Rightarrow> strmap) \<Rightarrow> pod \<Rightarrow> PodInfo" where
  "pod_entry nodes pod = \<lparr>pi_IP = pod_PodIP pod, pi_NodeLabels = nodes (pod_NodeName pod),
     pi_PodName = om_Name (pod_Meta pod), pi_Weight = float_of_int 1\<rparr>"

definition pod_entries :: "(string \<Rightarrow> strmap) \<Rightarrow> int_or_string \<Rightarrow> bool \<Rightarrow> pod \<Rightarrow> PodInfo list" where
  "pod_entries nodes port onlyReady pod =
     (if scanned onlyReady pod then map (\<lambda>_. pod_entry nodes pod) (serving port pod) else [])"

definition ignored_warnings :: "VarnishCluster \<Rightarrow> int_or_string \<Rightarrow> bool \<Rightarrow> pod list \<Rightarrow> controller_event list" where
  "ignored_warnings vc port onlyReady pods =
     map (\<lambda>p. CWarning (ObjVarnishCluster vc) EventReasonBackendIgnored (ignored_msg p port))
       (filter (\<lambda>p. scanned onlyReady p \<and> serving port p = []) pods)"

definition port_after :: "int32 \<Rightarrow> container_port list \<Rightarrow> int32" where
  "port_after n ports = (if ports = [] then n else cp_ContainerPort (last ports))"

lemma port_after_append: "port_after n (as @ bs) = port_after (port_after n as) bs"
  by (simp add: port_after_def)

lemma serving_Nil_iff: "serving port pod = [] \<longleftrightarrow> \<not> list_ex (\<lambda>c. list_ex (port_matches port) (ct_Ports c)) (pod_Containers pod)"
  by (auto simp: serving_def List.map_filter_def list_ex_iff find_None_iff filter_empty_conv)

lemma getNodeLabels_read:
  assumes "r_get (k_Nodes e) [] name (cs_world s) = (Ret n, cs_world s)"
  shows "getNodeLabels e name s = (Ret (om_Labels (node_Meta n)), s)"
  using assms by (simp add: getNodeLabels_def attempt_apply c_get_def at_world_apply)

lemma scan_containers_result:
  assumes "getNodeLabels e (pod_NodeName pod) s = (Ret (nodes (pod_NodeName pod)), s)"
  shows "scan_containers e pod port cs infos n found s =
    (let ps = List.map_filter (\<lambda>c. find (port_matches port) (ct_Ports c)) cs in
     (Ret (infos @ map (\<lambda>_. pod_entry nodes pod) ps, port_after n ps, found \<or> ps \<noteq> []), s))"
  using assms
proof (induction cs arbitrary: infos n found)
  case (Cons c cs)
  then show ?case
    by (cases "find (port_matches port) (ct_Ports c)")
      (auto simp: List.map_filter_def bnd_apply port_after_def pod_entry_def Let_def)
qed (simp add: List.map_filter_def port_after_def)

lemma scan_backends_result:
  assumes "\<forall>p \<in> set pods. \<forall>s. cs_world s = w \<longrightarrow> getNodeLabels e (pod_NodeName p) s = (Ret (nodes (pod_NodeName p)), s)"
    and "cs_world s = w"
  shows "scan_backends e vc port onlyReady pods infos n s =
    (Ret (infos @ concat (map (pod_entries nodes port onlyReady) pods),
          port_after n (concat (map (serving port) (filter (scanned onlyReady) pods)))),
     s\<lparr>cs_events := cs_events s @ ignored_warnings vc port onlyReady pods\<rparr>)"
  using assms
proof (induction pods arbitrary: infos n s)
  case (Cons p pods)
  have gl: "getNodeLabels e (pod_NodeName p) s = (Ret (nodes (pod_NodeName p)), s)"
    using Cons.prems by simp
  show ?case
  proof (cases "scanned onlyReady p")
    case False
    then show ?thesis using Cons by (simp add: pod_entries_def ignored_warnings_def)
  next
    case True
    have sc: "scan_containers e p port (pod_Containers p) infos n False s =
        (Ret (infos @ pod_entries nodes port onlyReady p, port_after n (serving port p), serving port p \<noteq> []), s)"
      using scan_containers_result [where nodes = nodes and pod = p, OF gl, of port "pod_Containers p" infos n False] True
      by (simp add: pod_entries_def serving_def Let_def)
    show ?thesis
      using True Cons sc by (auto simp: bnd_apply seq_apply ignored_warnings_def port_after_append pod_entries_def)
  qed
qed (simp add: ignored_warnings_def port_after_def)

lemma list_pods_result:
  assumes "\<forall>ns. k_ListPods e ns selector (cs_world s) = (Ret (pods ns), cs_world s)"
  shows "list_pods e nss' selector nss found s = (Ret (found @ concat (map pods nss)), s)"
  using assms by (induction nss arbitrary: found) (simp_all add: bnd_apply list_namespace_def wrap_apply at_world_apply)

lemma getPodsInfo_result:
  fixes s :: "'w cstate"
  assumes "reads_cluster e selector pods nodes (cs_world s)" "ps = concat (map pods nss)"
  shows "getPodsInfo e vc nss selector port onlyReady s =
    (Ret (sort_key pi_IP (concat (map (pod_entries nodes port onlyReady) ps)),
          port_after 0 (concat (map (serving port) (filter (scanned onlyReady) ps)))),
     s\<lparr>cs_events := cs_events s @ ignored_warnings vc port onlyReady ps\<rparr>)"
proof -
  have gl: "\<forall>p \<in> set ps. \<forall>s'. cs_world s' = cs_world s \<longrightarrow>
      getNodeLabels e (pod_NodeName p) s' = (Ret (nodes (pod_NodeName p)), s')"
  proof (intro ballI allI impI)
    fix p and s' :: "'w cstate" assume p: "p \<in> set ps" and w: "cs_world s' = cs_world s"
    obtain n where "r_get (k_Nodes e) [] (pod_NodeName p) (cs_world s') = (Ret n, cs_world s')"
      "om_Labels (node_Meta n) = nodes (pod_NodeName p)"
      using assms p w unfolding reads_cluster_def by fastforce
    then show "getNodeLabels e (pod_NodeName p) s' = (Ret (nodes (pod_NodeName p)), s')"
      using getNodeLabels_read by metis
  qed
  have lp: "list_pods e nss selector nss [] s = (Ret ps, s)"
    using assms list_pods_result [of e selector s pods] unfolding reads_cluster_def by simp
  show ?thesis
    using scan_backends_result [OF gl refl, of vc port onlyReady "[]" 0]
    by (cases ps) (simp_all add: getPodsInfo_def bnd_apply lp ignored_warnings_def port_after_def)
qed

lemma set_serving_entry: "x \<in> set (pod_entries nodes port onlyReady p) \<longleftrightarrow>
    x = pod_entry nodes p \<and> scanned onlyReady p \<and> serving port p \<noteq> []"
  by (cases "serving port p") (auto simp: pod_entries_def)


lemma mset_concat_map: "mset (concat (map f xs)) = (\<Sum>x \<in># mset xs. mset (f x))"
  by (induction xs) simp_all

text \<open>
  The VCL does not depend on the order in which the API server lists the pods: two listings of the
  same pods give the same backends, when pods of one address are the same pod.
\<close>

theorem backends_independent_of_listing:
  assumes "reads_cluster e selector pods nodes (cs_world s)" "reads_cluster e' selector pods' nodes (cs_world s')"
    and "mset (concat (map pods nss)) = mset (concat (map pods' nss'))"
    and "\<forall>p \<in> set (concat (map pods nss)). \<forall>q \<in> set (concat (map pods nss)). pod_PodIP p = pod_PodIP q \<longrightarrow> p = q"
  shows "\<exists>infos n n'. fst (getPodsInfo e vc nss selector port onlyReady s) = Ret (infos, n) \<and>
    fst (getPodsInfo e' vc nss' selector port onlyReady s') = Ret (infos, n')"
proof -
  let ?es = "\<lambda>ps. concat (map (pod_entries nodes port onlyReady) ps)"
  let ?ps = "concat (map pods nss)" and ?ps' = "concat (map pods' nss')"
  have m: "mset (?es ?ps) = mset (?es ?ps')"
    by (simp only: mset_concat_map [of "pod_entries nodes port onlyReady"] assms(3))
  have "inj_on pi_IP (set (?es ?ps))"
  proof (rule inj_onI)
    fix x y assume "x \<in> set (?es ?ps)" "y \<in> set (?es ?ps)" and ip: "pi_IP x = pi_IP y"
    then obtain p q where "p \<in> set ?ps" "x = pod_entry nodes p" "q \<in> set ?ps" "y = pod_entry nodes q"
      by (auto simp: set_serving_entry)
    moreover have "p = q" using calculation ip by (intro assms(4) [rule_format]) (simp_all add: pod_entry_def)
    ultimately show "x = y" by simp
  qed
  then have "sort_key pi_IP (?es ?ps) = sort_key pi_IP (?es ?ps')"
    by (rule sort_key_inj_key_eq [rotated]) (simp_all only: mset_sort m sorted_sort_key)
  then show ?thesis
    unfolding getPodsInfo_result [OF assms(1) refl] getPodsInfo_result [OF assms(2) refl] by (simp only: fst_conv) blast
qed

subsection \<open>Weights\<close>

lemma in_zone_weight [simp]: "in_zone zl cz (b\<lparr>pi_Weight := x\<rparr>) = in_zone zl cz b"
  by (simp add: in_zone_def)

lemma weigh_auto_eq:
  "weigh_auto zl cz ratio bs lw rw =
    (map (\<lambda>b. if in_zone zl cz b then b\<lparr>pi_Weight := fmul (float_of_int 10) ratio\<rparr> else b) bs,
     if list_ex (in_zone zl cz) bs then fmul (float_of_int 10) ratio else lw,
     if list_all (in_zone zl cz) bs then rw else float_of_int 1)"
  by (induction zl cz ratio bs lw rw rule: weigh_auto.induct) (auto simp: Let_def)

lemma weigh_fixed_eq:
  "weigh_fixed zl cz l r bs lw rw =
    (map (\<lambda>b. b\<lparr>pi_Weight := if in_zone zl cz b then l else r\<rparr>) bs,
     if list_ex (in_zone zl cz) bs then l else lw, if list_all (in_zone zl cz) bs then rw else r)"
  by (induction zl cz l r bs lw rw rule: weigh_fixed.induct) auto

text \<open>Every backend has the weight reported for its side, and nothing but weights has changed.\<close>

definition reweighed :: "(PodInfo \<Rightarrow> bool) \<Rightarrow> float64 \<Rightarrow> float64 \<Rightarrow> PodInfo list \<Rightarrow> PodInfo list \<Rightarrow> bool" where
  "reweighed local l r bs bs' \<longleftrightarrow> bs' = map (\<lambda>b. b\<lparr>pi_Weight := if local b then l else r\<rparr>) bs"

lemma reweighed_auto:
  assumes "weigh_auto zl cz ratio bs (float_of_int 1) (float_of_int 1) = (bs', l, r)"
    and "\<forall>b \<in> set bs. pi_Weight b = float_of_int 1"
  shows "reweighed (in_zone zl cz) l r bs bs'"
  using assms unfolding weigh_auto_eq reweighed_def
  by (auto simp: list_ex_iff list_all_iff intro!: map_cong [OF refl])

lemma reweighed_fixed:
  assumes "weigh_fixed zl cz lf rf bs (float_of_int 1) (float_of_int 1) = (bs', l, r)"
  shows "reweighed (in_zone zl cz) l r bs bs'"
  using assms unfolding weigh_fixed_eq reweighed_def by (auto simp: list_ex_iff list_all_iff)

lemma reweighed_none:
  assumes "\<forall>b \<in> set bs. pi_Weight b = float_of_int 1"
  shows "reweighed local (float_of_int 1) (float_of_int 1) bs bs"
  using assms unfolding reweighed_def by (auto intro!: map_idI [symmetric])

lemma balance_reweighs:
  assumes "balance e zb zl cz bs = Ret (bs', l, r)" "\<forall>b \<in> set bs. pi_Weight b = float_of_int 1"
  shows "reweighed (in_zone zl cz) l r bs bs'"
  using assms reweighed_auto reweighed_fixed reweighed_none
  by (fastforce simp: balance_def Let_def obind_eq_Ret split: if_splits option.splits prod.splits)

text \<open>The thresholds in the order \<open>sort.Slice\<close> promises, the largest first; of equal ones either may come first.\<close>

definition percent_of :: "Threshold \<Rightarrow> int" where "percent_of t = sint (the (th_Threshold t))"

definition full_threshold :: "Threshold \<Rightarrow> bool" where
  "full_threshold t \<longleftrightarrow> th_Threshold t \<noteq> None \<and> th_Local t \<noteq> None \<and> th_Remote t \<noteq> None"

definition weights_of :: "Threshold \<Rightarrow> goint \<times> goint" where
  "weights_of t = (the (th_Local t), the (th_Remote t))"

definition sorts_thresholds :: "'w node_env \<Rightarrow> Threshold list \<Rightarrow> bool" where
  "sorts_thresholds e ts \<longleftrightarrow>
     mset (k_SortThresholds e ts) = mset ts \<and> sorted_wrt (\<lambda>t u. percent_of u \<le> percent_of t) (k_SortThresholds e ts)"

lemma pick_weights_eq:
  assumes "\<forall>t \<in> set ts. full_threshold t"
  shows "pick_weights p ts cur = Ret (let qs = takeWhile (\<lambda>t. p \<le> percent_of t) ts in if qs = [] then cur else weights_of (last qs))"
  using assms
  by (induction ts arbitrary: cur) (auto simp: full_threshold_def percent_of_def weights_of_def Let_def)

lemma takeWhile_filter_sorted:
  assumes "sorted_wrt (\<lambda>t u. percent_of u \<le> percent_of t) ts"
  shows "takeWhile (\<lambda>t. p \<le> percent_of t) ts = filter (\<lambda>t. p \<le> percent_of t) ts"
  using assms
proof (induction ts)
  case (Cons t ts)
  then have "p \<le> percent_of t \<or> filter (\<lambda>u. p \<le> percent_of u) ts = []"
    by (auto simp: filter_empty_conv)
  then show ?case using Cons by auto
qed simp

lemma sorted_last_least:
  assumes "sorted_wrt (\<lambda>t u. percent_of u \<le> percent_of t) ts" "u \<in> set ts"
  shows "percent_of (last ts) \<le> percent_of u"
  using assms by (induction ts) auto


lemma scan_containers_weights:
  assumes "scan_containers e pod port cs infos n f s = (Ret (infos', n', f'), s')"
    and "\<forall>b \<in> set infos. pi_Weight b = float_of_int 1"
  shows "\<forall>b \<in> set infos'. pi_Weight b = float_of_int 1"
  using assms
  by (induction cs arbitrary: infos n f s) (fastforce simp: bnd_Ret_iff split: option.splits)+

lemma scan_backends_weights:
  assumes "scan_backends e vc port onlyReady pods infos n s = (Ret (infos', n'), s')"
    and "\<forall>b \<in> set infos. pi_Weight b = float_of_int 1"
  shows "\<forall>b \<in> set infos'. pi_Weight b = float_of_int 1"
  using assms
proof (induction pods arbitrary: infos n s)
  case (Cons p pods)
  show ?case
  proof (cases "scanned onlyReady p")
    case True
    then obtain i k f s1 s2 where c: "scan_containers e p port (pod_Containers p) infos n False s = (Ret (i, k, f), s1)"
      and b: "scan_backends e vc port onlyReady pods i k s2 = (Ret (infos', n'), s')"
      using Cons.prems(1) by (auto simp: prog_Ret_iff)
    show ?thesis by (rule Cons.IH [OF b scan_containers_weights [OF c Cons.prems(2)]])
  qed (use Cons in simp)
qed simp

lemma getPodsInfo_weights:
  assumes "getPodsInfo e vc nss selector port onlyReady s = (Ret (infos, n), s')"
  shows "\<forall>b \<in> set infos. pi_Weight b = float_of_int 1"
  using assms by (auto simp: getPodsInfo_def prog_Ret_iff split: if_splits dest: scan_backends_weights)

lemma getBackendEndpoints_Ret:
  assumes "getBackendEndpoints e vc s = (Ret (bks, n, l, r), s')"
  shows "\<exists>labels s1 be port bs. getNodeLabels e (cc_NodeName (k_config e)) s = (Ret labels, s1) \<and>
    sp_Backend (vc_Spec vc) = Some be \<and> be_Port be = Some port \<and>
    getPodsInfo e vc (backend_namespaces e be)
      (be_Selector be) port (be_OnlyReady be) s1 = (Ret (bs, n), s') \<and>
    (if checkMultizone bs (zone_label labels) (lookup labels (zone_label labels))
     then \<exists>zb. be_ZoneBalancing be = Some zb \<and>
       balance e zb (zone_label labels) (lookup labels (zone_label labels)) bs = Ret (bks, l, r)
     else bks = bs \<and> l = float_of_int 1 \<and> r = float_of_int 1)"
proof -
  obtain labels s1 where labels: "getNodeLabels e (cc_NodeName (k_config e)) s = (Ret labels, s1)"
    using assms by (auto simp: getBackendEndpoints_def bnd_Ret_iff)
  obtain be where be: "sp_Backend (vc_Spec vc) = Some be"
    using assms labels by (cases "sp_Backend (vc_Spec vc)") (auto simp: getBackendEndpoints_def bnd_apply Let_def deref_apply)
  obtain port where port: "be_Port be = Some port"
    using assms labels be by (cases "be_Port be") (auto simp: getBackendEndpoints_def bnd_apply Let_def deref_apply)
  obtain bs m s2 where bs: "getPodsInfo e vc (backend_namespaces e be) (be_Selector be) port (be_OnlyReady be) s1 = (Ret (bs, m), s2)"
    using assms labels be port
    by (fastforce simp: getBackendEndpoints_def bnd_apply Let_def deref_apply split: prod.splits outcome.splits)
  show ?thesis
    using assms labels be port bs
    by (intro exI [of _ labels] exI [of _ s1] exI [of _ be] exI [of _ port] exI [of _ bs])
      (auto simp: getBackendEndpoints_def bnd_apply Let_def deref_apply split: option.splits if_splits outcome.splits)
qed

text \<open>
  The weights a reconcile reports on its pod are those of the backends it hands to the template:
  every backend in the zone of the pod has the local weight, every other one the remote weight, and
  nothing else about the backends is changed. Without backends in other zones both are one; in mode
  \<open>auto\<close> the remote weight is one and the local one ten times the ratio.
\<close>

theorem weights_reported:
  assumes "getBackendEndpoints e vc s = (Ret (bks, n, l, r), s')"
  shows "\<exists>labels bs. fst (getNodeLabels e (cc_NodeName (k_config e)) s) = Ret labels \<and>
    (let zl = zone_label labels; cz = lookup labels zl in
       bks = map (\<lambda>b. b\<lparr>pi_Weight := if in_zone zl cz b then l else r\<rparr>) bs \<and>
       (\<not> checkMultizone bs zl cz \<longrightarrow> l = float_of_int 1 \<and> r = float_of_int 1 \<and> bks = bs) \<and>
       (checkMultizone bs zl cz \<and> map_option zb_Type (Option.bind (sp_Backend (vc_Spec vc)) be_ZoneBalancing) = Some ZoneBalancingAuto \<longrightarrow>
          r = float_of_int 1 \<and> (list_ex (in_zone zl cz) bs \<longrightarrow> l = fmul (float_of_int 10) (calculateBackendRatio bs cz zl))))"
proof -
  obtain labels s1 be port bs where labels: "getNodeLabels e (cc_NodeName (k_config e)) s = (Ret labels, s1)"
    and be: "sp_Backend (vc_Spec vc) = Some be"
    and info: "getPodsInfo e vc (backend_namespaces e be)
      (be_Selector be) port (be_OnlyReady be) s1 = (Ret (bs, n), s')"
    and rest: "if checkMultizone bs (zone_label labels) (lookup labels (zone_label labels))
     then \<exists>zb. be_ZoneBalancing be = Some zb \<and>
       balance e zb (zone_label labels) (lookup labels (zone_label labels)) bs = Ret (bks, l, r)
     else bks = bs \<and> l = float_of_int 1 \<and> r = float_of_int 1"
    using getBackendEndpoints_Ret [OF assms] by blast
  note bs = getPodsInfo_weights [OF info]
  define zl where "zl = zone_label labels"
  define cz where "cz = lookup labels zl"
  show ?thesis
  proof (cases "checkMultizone bs zl cz")
    case False
    then have "bks = bs" "l = float_of_int 1" "r = float_of_int 1" using rest by (simp_all add: zl_def cz_def)
    moreover have "bs = map (\<lambda>b. b\<lparr>pi_Weight := if in_zone zl cz b then l else r\<rparr>) bs"
      using reweighed_none [OF bs, of "in_zone zl cz"] calculation by (simp only: reweighed_def)
    ultimately show ?thesis
      using False labels unfolding zl_def cz_def
      by (intro exI [of _ labels] exI [of _ bs]) (simp only: fst_conv Let_def simp_thms)
  next
    case True
    then obtain zb where zb: "be_ZoneBalancing be = Some zb" "balance e zb zl cz bs = Ret (bks, l, r)"
      using rest by (auto simp: zl_def cz_def)
    have "zb_Type zb = ZoneBalancingAuto \<longrightarrow>
        r = float_of_int 1 \<and> (list_ex (in_zone zl cz) bs \<longrightarrow> l = fmul (float_of_int 10) (calculateBackendRatio bs cz zl))"
      using zb(2) by (auto simp: balance_def weigh_auto_eq Let_def split: if_splits)
    then show ?thesis
      using balance_reweighs [OF zb(2) bs] True labels be zb(1)
      by (intro exI [of _ labels] exI [of _ bs]) (simp add: reweighed_def Let_def zl_def [symmetric] cz_def [symmetric])
  qed
qed

text \<open>
  C39: a change of a pod that changes what it contributes to the backends wakes the controller, as
  long as the pod still has an address and a node: both versions match the selector and have the
  same containers and name, and the nodes keep their labels.
\<close>

theorem backend_change_wakes:
  assumes "label_match selector (om_Labels (pod_Meta new))" "om_Name (pod_Meta new) = om_Name (pod_Meta old)"
    and "pod_Containers new = pod_Containers old" "pod_PodIP new \<noteq> []" "pod_NodeName new \<noteq> []"
    and "pod_entries nodes port onlyReady new \<noteq> pod_entries nodes port onlyReady old"
  shows "label_filter selector (UpdateEvent (ObjPod old) (ObjPod new))"
proof (rule ccontr)
  assume "\<not> label_filter selector (UpdateEvent (ObjPod old) (ObjPod new))"
  then have "pod_PodIP old = pod_PodIP new" "pod_NodeName old = pod_NodeName new" "PodReady new = PodReady old"
    using assms(1,4,5) by (auto simp: label_filter_Update_def split: if_splits)
  then have "pod_entries nodes port onlyReady new = pod_entries nodes port onlyReady old"
    using assms(2,3) by (simp add: pod_entries_def scanned_def pod_entry_def serving_def)
  then show False using assms(6) by simp
qed

text \<open>
  A port given by number has the empty name, and so a container with any unnamed port serves it:
  a pod that does not have the backend port at all is taken for a backend, at the port it has.
\<close>

theorem unnamed_port_taken_for_backend:
  assumes "pod_Containers pod = [c]" "ct_Ports c = [cp]" "cp_Name cp = []" "scanned onlyReady pod"
  shows "pod_entries nodes (IntPort port) onlyReady pod = [pod_entry nodes pod] \<and>
    port_after 0 (serving (IntPort port) pod) = cp_ContainerPort cp"
  using assms by (simp add: pod_entries_def serving_def List.map_filter_def port_matches_def port_after_def)

text \<open>The truncation of the ratio in percent: a ratio of 29 percent counts as 28.\<close>

lemma ratio_percent_truncated: "int_of_float (fmul (fdiv (float_of_int 29) (float_of_int 100)) (float_of_int 100)) = 28"
  by code_simp

end
