(* ===== verification/VclFiles.thy ===== *)
theory VclFiles
  imports Endpoints
begin

text \<open>
  The VCL files of a pod (\<open>controller_files.go\<close>, \<open>controller_template.go\<close> and the file helpers of
  \<open>controller.go\<close> under \<open>pkg/varnishcontroller/controller\<close>): the entries of the config map are files
  or templates, the templates are executed, and the directory varnishd reads is brought in line
  with the result. Maps are ranged over in the order \<open>k_Range\<close> gives.
\<close>

subsection \<open>Paths\<close>

text \<open>\<open>filepath.Ext\<close>, \<open>filepath.Clean\<close> and \<open>filepath.Join\<close> of two elements.\<close>

definition Ext :: "string \<Rightarrow> string" where
  "Ext name =
     (let t = takeWhile (\<lambda>c. c \<noteq> CHR ''.'' \<and> c \<noteq> CHR ''/'') (List.rev name) in
      case drop (length t) (List.rev name) of
        [] \<Rightarrow> []
      | c # cs \<Rightarrow> if c = CHR ''.'' then CHR ''.'' # List.rev t else [])"

fun clean_segments :: "bool \<Rightarrow> string list \<Rightarrow> string list \<Rightarrow> string list" where
  "clean_segments rooted [] out = out"
| "clean_segments rooted (w # ws) out =
     (if w = [] \<or> w = ''.'' then clean_segments rooted ws out
      else if w = ''..'' then
        if out \<noteq> [] \<and> last out \<noteq> ''..'' then clean_segments rooted ws (butlast out)
        else if rooted then clean_segments rooted ws out
        else clean_segments rooted ws (out @ [w])
      else clean_segments rooted ws (out @ [w]))"

definition Clean :: "string \<Rightarrow> string" where
  "Clean path =
     (if path = [] then ''.''
      else let rooted = (hd path = CHR ''/'');
               out = (if rooted then ''/'' else []) @ Join (clean_segments rooted (Split path CHR ''/'') []) ''/''
        in if out = [] then ''.'' else out)"

definition path_join :: "string \<Rightarrow> string \<Rightarrow> string" where
  "path_join dir name =
     (if dir \<noteq> [] then Clean (dir @ ''/'' @ name) else if name \<noteq> [] then Clean name else [])"

subsection \<open>Files and templates\<close>

definition tmpl_suffix :: string where "tmpl_suffix = ''.tmpl''"

definition filesAndTemplates :: "strmap \<Rightarrow> strmap \<times> strmap" where
  "filesAndTemplates data =
     (data |` {k. \<not> HasSuffix k tmpl_suffix}, data |` {k. HasSuffix k tmpl_suffix})"

definition verifyEntrypointExists :: "strmap \<Rightarrow> strmap \<Rightarrow> string \<Rightarrow> ('w, unit) controller" where
  "verifyEntrypointExists files templates entrypoint =
     (if files entrypoint = None \<and> templates (entrypoint @ tmpl_suffix) = None
      then fail (Plain (entrypoint @ '' must exist in configmap, but not found''))
      else ret ())"

definition generated_header :: string where
  "generated_header = ''// This file is generated. Do not edit manually, as changes will be destroyed'' @ [CHR 0x0A, CHR 0x0A]"

definition resolve_template :: "'w node_env \<Rightarrow> template_data \<Rightarrow> string \<Rightarrow> string \<Rightarrow> ('w, string) controller" where
  "resolve_template e data tmplFileName tmplStr =
     bnd (wrap (''could not parse template '' @ tmplFileName) (lift (k_ParseTemplate e tmplFileName tmplStr))) (\<lambda>tmpl.
     bnd (wrap (''problem resolving template '' @ tmplFileName) (lift (tmpl data))) (\<lambda>text.
       ret (generated_header @ text)))"

fun resolve_loop ::
  "'w node_env \<Rightarrow> template_data \<Rightarrow> strmap \<Rightarrow> string list \<Rightarrow> strmap \<Rightarrow> ('w, strmap) controller" where
  "resolve_loop e data tmplStrs [] out = ret out"
| "resolve_loop e data tmplStrs (n # ns) out =
     bnd (resolve_template e data n (lookup tmplStrs n)) (\<lambda>text.
       resolve_loop e data tmplStrs ns (out(TrimSuffix n tmpl_suffix \<mapsto> text)))"

definition resolveTemplates ::
  "'w node_env \<Rightarrow> strmap \<Rightarrow> int32 \<Rightarrow> int32 \<Rightarrow> PodInfo list \<Rightarrow> PodInfo list \<Rightarrow> ('w, strmap) controller" where
  "resolveTemplates e tmplStrs targetPort varnishPort backends varnishNodes =
     bnd (c_range e tmplStrs) (\<lambda>names.
       resolve_loop e \<lparr>td_Backends = backends, td_TargetPort = targetPort, td_VarnishNodes = varnishNodes,
         td_VarnishPort = varnishPort\<rparr> tmplStrs names Map.empty)"

text \<open>The loop of \<open>reconcileWithContext\<close> that adds the executed templates to the files.\<close>

definition name_clash_msg :: "string \<Rightarrow> string \<Rightarrow> string" where
  "name_clash_msg cmName f =
     ''VCL ConfigMap '' @ cmName @ '' has '' @ f @ '' and '' @ f @
     ''.tmpl entries. Cannot include file and template with same name''"

fun merge_loop ::
  "VarnishCluster \<Rightarrow> string \<Rightarrow> strmap \<Rightarrow> string list \<Rightarrow> strmap \<Rightarrow> ('w, strmap) controller" where
  "merge_loop vc cmName templatizedFiles [] newFiles = ret newFiles"
| "merge_loop vc cmName templatizedFiles (f # fs) newFiles =
     (if newFiles f \<noteq> None then
        seq (c_warning (ObjVarnishCluster vc) EventReasonInvalidVCLConfigMap (name_clash_msg cmName f))
          (fail (Plain (name_clash_msg cmName f)))
      else merge_loop vc cmName templatizedFiles fs (newFiles(f \<mapsto> lookup templatizedFiles f)))"

definition merge_templates ::
  "'w node_env \<Rightarrow> VarnishCluster \<Rightarrow> string \<Rightarrow> strmap \<Rightarrow> strmap \<Rightarrow> ('w, strmap) controller" where
  "merge_templates e vc cmName templatizedFiles newFiles =
     bnd (c_range e templatizedFiles) (\<lambda>names. merge_loop vc cmName templatizedFiles names newFiles)"

subsection \<open>The directory\<close>

fun read_files :: "'w node_env \<Rightarrow> string \<Rightarrow> string list \<Rightarrow> strmap \<Rightarrow> ('w, strmap) controller" where
  "read_files e dir [] out = ret out"
| "read_files e dir (name # names) out =
     (if Ext name = ''.vcl'' then
        bnd (wrap (''problem reading file '' @ name) (at_world (k_ReadFile e (path_join dir name)))) (\<lambda>contents.
          read_files e dir names (out(name \<mapsto> contents)))
      else read_files e dir names out)"

definition getCurrentFiles :: "'w node_env \<Rightarrow> string \<Rightarrow> ('w, strmap) controller" where
  "getCurrentFiles e dir =
     bnd (wrap (''incorrect dir: '' @ dir) (at_world (k_ReadDir e dir))) (\<lambda>files. read_files e dir files Map.empty)"

text \<open>
  \<open>diffFiles\<close> after its two loops: 1 for a file that is only in the new ones, 0 for one in both, -1
  for one that is only in the current ones.
\<close>

definition diffFiles :: "strmap \<Rightarrow> strmap \<Rightarrow> string \<Rightarrow> int option" where
  "diffFiles currFiles newFiles k =
     (case (newFiles k, currFiles k) of
        (Some _, None) \<Rightarrow> Some 1
      | (Some _, Some _) \<Rightarrow> Some 0
      | (None, Some _) \<Rightarrow> Some (- 1)
      | (None, None) \<Rightarrow> None)"

fun apply_diff ::
  "'w node_env \<Rightarrow> string \<Rightarrow> strmap \<Rightarrow> strmap \<Rightarrow> string list \<Rightarrow> bool \<Rightarrow> ('w, bool) controller" where
  "apply_diff e dir currFiles newFiles [] filesTouched = ret filesTouched"
| "apply_diff e dir currFiles newFiles (f # fs) filesTouched =
     (let fullpath = path_join dir f; status = diffFiles currFiles newFiles f in
      if status = Some (- 1) then
        bnd (wrap (''could not delete file '' @ fullpath) (at_world (k_Remove e fullpath)))
          (\<lambda>_. apply_diff e dir currFiles newFiles fs True)
      else if status = Some 0 \<and> lookup currFiles f \<noteq> lookup newFiles f then
        bnd (wrap (''could not write file '' @ fullpath) (at_world (k_WriteFile e fullpath (lookup newFiles f))))
          (\<lambda>_. apply_diff e dir currFiles newFiles fs True)
      else if status = Some 1 then
        bnd (wrap (''could not write file '' @ fullpath) (at_world (k_WriteFile e fullpath (lookup newFiles f))))
          (\<lambda>_. apply_diff e dir currFiles newFiles fs True)
      else apply_diff e dir currFiles newFiles fs filesTouched)"

definition keys_of :: "(string \<Rightarrow> 'a option) \<Rightarrow> strmap" where
  "keys_of m = (\<lambda>k. map_option (\<lambda>_. []) (m k))"

definition reconcileFiles :: "'w node_env \<Rightarrow> string \<Rightarrow> strmap \<Rightarrow> strmap \<Rightarrow> ('w, bool) controller" where
  "reconcileFiles e dir currFiles newFiles =
     bnd (c_range e (keys_of (diffFiles currFiles newFiles))) (\<lambda>names. apply_diff e dir currFiles newFiles names False)"

subsection \<open>The directory as a map\<close>

text \<open>
  What the file operations promise on a directory of plain files, \<open>files w\<close> being its content: a
  listing names the files, a read that succeeds gives the content, a write or a removal that succeeds
  changes that one file and no call changes another one.
\<close>

definition plain_name :: "string \<Rightarrow> bool" where
  "plain_name n \<longleftrightarrow> n \<noteq> [] \<and> CHR ''/'' \<notin> set n \<and> n \<noteq> ''.'' \<and> n \<noteq> ''..''"

definition reads_dir :: "'w node_env \<Rightarrow> string \<Rightarrow> ('w \<Rightarrow> strmap) \<Rightarrow> bool" where
  "reads_dir e dir files \<longleftrightarrow>
     (\<forall>w r w'. k_ReadDir e dir w = (r, w') \<longrightarrow> files w' = files w \<and> (\<forall>ns. r = Ret ns \<longrightarrow> set ns = dom (files w))) \<and>
     (\<forall>w n r w'. k_ReadFile e (path_join dir n) w = (r, w') \<longrightarrow> plain_name n \<longrightarrow>
        files w' = files w \<and> (\<forall>c. r = Ret c \<longrightarrow> files w n = Some c))"

definition writes_dir :: "'w node_env \<Rightarrow> string \<Rightarrow> ('w \<Rightarrow> strmap) \<Rightarrow> bool" where
  "writes_dir e dir files \<longleftrightarrow>
     (\<forall>w n c r w'. k_WriteFile e (path_join dir n) c w = (r, w') \<longrightarrow> plain_name n \<longrightarrow>
        (if r = Ret () then files w' = (files w)(n \<mapsto> c) else \<forall>k. k \<noteq> n \<longrightarrow> files w' k = files w k)) \<and>
     (\<forall>w n r w'. k_Remove e (path_join dir n) w = (r, w') \<longrightarrow> plain_name n \<longrightarrow>
        files w' = (if r = Ret () then (files w)(n := None) else files w))"

definition directory :: "'w node_env \<Rightarrow> string \<Rightarrow> ('w \<Rightarrow> strmap) \<Rightarrow> bool" where
  "directory e dir files \<longleftrightarrow>
     (\<forall>w. finite (dom (files w)) \<and> (\<forall>n \<in> dom (files w). plain_name n)) \<and>
     reads_dir e dir files \<and> writes_dir e dir files \<and> (\<forall>m w. files (snd (k_Range e m w)) = files w)"

lemma directoryD:
  assumes "directory e dir files"
  shows "finite (dom (files w))" "n \<in> dom (files w) \<Longrightarrow> plain_name n"
    "k_ReadDir e dir w = (r, w') \<Longrightarrow> files w' = files w"
    "k_ReadDir e dir w = (Ret ns, w') \<Longrightarrow> set ns = dom (files w)"
    "k_ReadFile e (path_join dir n) w = (r', w') \<Longrightarrow> plain_name n \<Longrightarrow> files w' = files w"
    "k_ReadFile e (path_join dir n) w = (Ret c, w') \<Longrightarrow> plain_name n \<Longrightarrow> files w n = Some c"
    "k_WriteFile e (path_join dir n) c w = (Ret (), w') \<Longrightarrow> plain_name n \<Longrightarrow> files w' = (files w)(n \<mapsto> c)"
    "k_Remove e (path_join dir n) w = (Ret (), w') \<Longrightarrow> plain_name n \<Longrightarrow> files w' = (files w)(n := None)"
    "files (snd (k_Range e m w)) = files w"
proof -
  note d = assms [unfolded directory_def reads_dir_def writes_dir_def]
  show "finite (dom (files w))" "files (snd (k_Range e m w)) = files w" using d by simp_all
  show "plain_name n" if "n \<in> dom (files w)" using that d [THEN conjunct1] by blast
  show "files w' = files w" if "k_ReadDir e dir w = (r, w')" using that d by blast
  show "set ns = dom (files w)" if "k_ReadDir e dir w = (Ret ns, w')" using that d by blast
  show "files w' = files w" if "k_ReadFile e (path_join dir n) w = (r', w')" "plain_name n" using that d by blast
  show "files w n = Some c" if "k_ReadFile e (path_join dir n) w = (Ret c, w')" "plain_name n"
    using that d [THEN conjunct2, THEN conjunct1, THEN conjunct2] by blast
  show "files w' = (files w)(n \<mapsto> c)" if "k_WriteFile e (path_join dir n) c w = (Ret (), w')" "plain_name n"
    using that d by presburger
  show "files w' = (files w)(n := None)" if "k_Remove e (path_join dir n) w = (Ret (), w')" "plain_name n"
    using that d by presburger
qed

lemma at_world_Ret: "at_world m s = (Ret a, s') \<longleftrightarrow> (\<exists>w. m (cs_world s) = (Ret a, w) \<and> s' = s\<lparr>cs_world := w\<rparr>)"
  by (auto simp: at_world_apply split: prod.split)

lemma c_range_Ret:
  "c_range e m s = (Ret ks, s') \<longleftrightarrow> (\<exists>w. k_Range e m (cs_world s) = (ks, w) \<and> s' = s\<lparr>cs_world := w\<rparr>)"
  by (auto simp: c_range_def at_world_apply split: prod.split)

lemma read_files_result:
  assumes "directory e dir files" "read_files e dir ns out s = (Ret cur, s')" "\<forall>n \<in> set ns. plain_name n"
  shows "files (cs_world s') = files (cs_world s) \<and>
    cur = (\<lambda>n. if n \<in> set ns \<and> Ext n = ''.vcl'' then files (cs_world s) n else out n)"
  using assms(2,3)
proof (induction ns arbitrary: out s)
  case (Cons n ns)
  show ?case
  proof (cases "Ext n = ''.vcl''")
    case True
    obtain c w where r: "k_ReadFile e (path_join dir n) (cs_world s) = (Ret c, w)"
      and rest: "read_files e dir ns (out(n \<mapsto> c)) (s\<lparr>cs_world := w\<rparr>) = (Ret cur, s')"
      using Cons.prems(1) True by (auto simp: prog_Ret_iff at_world_Ret)
    have "files w = files (cs_world s)" "files (cs_world s) n = Some c"
      using directoryD(5,6) [OF assms(1) r] Cons.prems(2) by auto
    then show ?thesis using Cons.IH [OF rest] Cons.prems(2) True by (auto simp: fun_eq_iff)
  qed (use Cons in \<open>auto simp: fun_eq_iff\<close>)
qed simp

lemma getCurrentFiles_result:
  assumes "directory e dir files" "getCurrentFiles e dir s = (Ret cur, s')"
  shows "files (cs_world s') = files (cs_world s)" "cur = files (cs_world s) |` {n. Ext n = ''.vcl''}"
proof -
  obtain ns w where r: "k_ReadDir e dir (cs_world s) = (Ret ns, w)"
    and rest: "read_files e dir ns Map.empty (s\<lparr>cs_world := w\<rparr>) = (Ret cur, s')"
    using assms(2) by (auto simp: getCurrentFiles_def prog_Ret_iff at_world_Ret)
  have ns: "set ns = dom (files (cs_world s))" "files w = files (cs_world s)"
    using directoryD(3,4) [OF assms(1) r] by simp_all
  then have "\<forall>n \<in> set ns. plain_name n" using directoryD(2) [OF assms(1)] by blast
  then show "files (cs_world s') = files (cs_world s)" "cur = files (cs_world s) |` {n. Ext n = ''.vcl''}"
    using read_files_result [OF assms(1) rest] ns by (auto simp: fun_eq_iff restrict_map_def dom_def)
qed

lemma dom_diffFiles: "dom (diffFiles cur new) = dom new \<union> dom cur"
  by (auto simp: diffFiles_def split: option.splits)

lemma dom_keys_of [simp]: "dom (keys_of m) = dom m"
  by (auto simp: keys_of_def)

lemma apply_diff_result:
  assumes "directory e dir files" "apply_diff e dir cur new fs t s = (Ret t', s')" "distinct fs"
    and "\<forall>f \<in> set fs. plain_name f \<and> f \<in> dom new \<union> dom cur"
    and "\<forall>f \<in> set fs. f \<in> dom cur \<longrightarrow> files (cs_world s) f = cur f"
  shows "files (cs_world s') = (\<lambda>n. if n \<in> set fs then new n else files (cs_world s) n) \<and>
    (t' \<longleftrightarrow> t \<or> (\<exists>f \<in> set fs. cur f \<noteq> new f))"
  using assms(2-)
proof (induction fs arbitrary: t s)
  case (Cons f fs)
  have stp: ?case if eff: "files w = (files (cs_world s))(f := new f)" and ne: "cur f \<noteq> new f"
    and rest: "apply_diff e dir cur new fs True (s\<lparr>cs_world := w\<rparr>) = (Ret t', s')" for w
    using Cons.IH [OF rest] Cons.prems(2-4) eff ne by (auto simp: fun_eq_iff)
  have pf: "plain_name f" using Cons.prems(3) by simp
  consider (new) x where "new f = Some x" "cur f = None" | (both) x y where "new f = Some x" "cur f = Some y"
    | (old) y where "new f = None" "cur f = Some y"
    using Cons.prems(3) by fastforce
  then show ?case
  proof cases
    case new
    then obtain w where w: "k_WriteFile e (path_join dir f) x (cs_world s) = (Ret (), w)"
      "apply_diff e dir cur new fs True (s\<lparr>cs_world := w\<rparr>) = (Ret t', s')"
      using Cons.prems(1) by (auto simp: diffFiles_def Let_def prog_Ret_iff at_world_Ret lookup_def)
    then show ?thesis by (intro stp [OF _ _ w(2)]) (simp_all add: directoryD(7) [OF assms(1) w(1) pf] new)
  next
    case old
    then obtain w where w: "k_Remove e (path_join dir f) (cs_world s) = (Ret (), w)"
      "apply_diff e dir cur new fs True (s\<lparr>cs_world := w\<rparr>) = (Ret t', s')"
      using Cons.prems(1) by (auto simp: diffFiles_def Let_def prog_Ret_iff at_world_Ret)
    then show ?thesis by (intro stp [OF _ _ w(2)]) (simp_all add: directoryD(8) [OF assms(1) w(1) pf] old)
  next
    case both
    show ?thesis
    proof (cases "x = y")
      case True
      then have "apply_diff e dir cur new fs t s = (Ret t', s')"
        using Cons.prems(1) both by (simp add: diffFiles_def lookup_def)
      then show ?thesis using Cons.IH [of t s] Cons.prems both True by (auto simp: fun_eq_iff)
    next
      case False
      then obtain w where w: "k_WriteFile e (path_join dir f) x (cs_world s) = (Ret (), w)"
        "apply_diff e dir cur new fs True (s\<lparr>cs_world := w\<rparr>) = (Ret t', s')"
        using Cons.prems(1) both by (auto simp: diffFiles_def Let_def prog_Ret_iff at_world_Ret lookup_def)
      then show ?thesis using False by (intro stp [OF _ _ w(2)]) (simp_all add: directoryD(7) [OF assms(1) w(1) pf] both)
    qed
  qed
qed simp

text \<open>What the directory holds after it has been brought in line with \<open>new\<close>.\<close>

definition synced :: "strmap \<Rightarrow> strmap \<Rightarrow> strmap" where
  "synced new old = old |` {n. Ext n \<noteq> ''.vcl''} ++ new"

lemma reconcileFiles_result:
  assumes "directory e dir files" "ranges_once e" "finite (dom new)" "\<forall>n \<in> dom new. plain_name n"
    and "getCurrentFiles e dir s = (Ret cur, s1)" "reconcileFiles e dir cur new s1 = (Ret touched, s2)"
  shows "files (cs_world s2) = synced new (files (cs_world s))" "touched \<longleftrightarrow> cur \<noteq> new"
proof -
  note gc = getCurrentFiles_result [OF assms(1,5)]
  obtain ns w where r: "k_Range e (keys_of (diffFiles cur new)) (cs_world s1) = (ns, w)"
    and rest: "apply_diff e dir cur new ns False (s1\<lparr>cs_world := w\<rparr>) = (Ret touched, s2)"
    using assms(6) by (auto simp: reconcileFiles_def bnd_Ret_iff c_range_Ret)
  have "dom cur \<subseteq> dom (files (cs_world s))" using gc(2) by (auto simp: restrict_map_def split: if_splits)
  then have fin: "finite (dom cur)" and pl: "\<forall>n \<in> dom cur. plain_name n"
    using directoryD(1,2) [OF assms(1)] finite_subset by blast+
  have "finite (dom (keys_of (diffFiles cur new)))" using fin assms(3) by (simp add: dom_diffFiles)
  then have ns: "distinct ns" "set ns = dom new \<union> dom cur"
    using assms(2) r unfolding ranges_once_def by (metis fst_conv dom_keys_of dom_diffFiles)+
  have w: "files w = files (cs_world s)" using directoryD(9) [OF assms(1), of _ "cs_world s1"] r gc(1) by (metis snd_conv)
  have res: "files (cs_world s2) = (\<lambda>n. if n \<in> set ns then new n else files (cs_world s) n) \<and>
      (touched \<longleftrightarrow> (\<exists>f \<in> set ns. cur f \<noteq> new f))"
  proof -
    have "files (cs_world s) f = cur f" if "f \<in> dom cur" for f
      using that gc(2) by (auto simp: restrict_map_def split: if_splits)
    moreover have "\<forall>f \<in> set ns. plain_name f \<and> f \<in> dom new \<union> dom cur" using ns(2) pl assms(4) by blast
    ultimately show ?thesis using apply_diff_result [OF assms(1) rest ns(1)] w by (simp cong: if_cong)
  qed
  show "files (cs_world s2) = synced new (files (cs_world s))"
    using res ns(2) gc(2) by (auto simp: synced_def fun_eq_iff map_add_def restrict_map_def dom_def split: option.splits if_splits)
  have "f \<in> set ns" if "cur f \<noteq> new f" for f
    using that ns(2) by (cases "new f"; cases "cur f") auto
  then show "touched \<longleftrightarrow> cur \<noteq> new" using res by (auto simp: fun_eq_iff)
qed

text \<open>
  C11: when the files have been reconciled the directory holds exactly the new files, next to those
  that are no VCL files, which stay as they are; and the reconcile is told that files were touched
  exactly when the VCL files in the directory were not the new files.
\<close>

theorem files_synced:
  assumes "directory e dir files" "ranges_once e" "finite (dom new)" "\<forall>n \<in> dom new. plain_name n"
    and "getCurrentFiles e dir s = (Ret cur, s1)" "reconcileFiles e dir cur new s1 = (Ret touched, s2)"
  shows "(\<forall>n. files (cs_world s2) n = (if n \<in> dom new then new n
       else if Ext n = ''.vcl'' then None else files (cs_world s) n)) \<and>
    (touched \<longleftrightarrow> (\<exists>n. (Ext n = ''.vcl'' \<and> files (cs_world s) n \<noteq> new n) \<or> (Ext n \<noteq> ''.vcl'' \<and> n \<in> dom new)))"
proof -
  have "touched \<longleftrightarrow> (files (cs_world s) |` {n. Ext n = ''.vcl''}) \<noteq> new"
    using reconcileFiles_result(2) [OF assms] getCurrentFiles_result(2) [OF assms(1,5)] by simp
  then show ?thesis
    using reconcileFiles_result(1) [OF assms]
    by (auto simp: synced_def map_add_def restrict_map_def fun_eq_iff dom_def split: option.splits if_splits)
qed

text \<open>
  A second pass over the same config map touches nothing, and so asks for no reload, unless the
  config map has an entry whose name does not end in \<open>.vcl\<close>: such a file is not seen in the
  directory and is written again, and reported as touched, by every reconcile.
\<close>

theorem files_settle_iff:
  assumes "directory e dir files" "ranges_once e" "finite (dom new)" "\<forall>n \<in> dom new. plain_name n"
    and "getCurrentFiles e dir s = (Ret cur, s1)" "reconcileFiles e dir cur new s1 = (Ret touched, s2)"
    and "files (cs_world s3) = files (cs_world s2)"
    and "getCurrentFiles e dir s3 = (Ret cur', s4)" "reconcileFiles e dir cur' new s4 = (Ret touched', s5)"
  shows "(touched' \<longleftrightarrow> (\<exists>n \<in> dom new. Ext n \<noteq> ''.vcl'')) \<and> files (cs_world s5) = files (cs_world s3)"
proof -
  have f2: "files (cs_world s3) = synced new (files (cs_world s))"
    using reconcileFiles_result(1) [OF assms(1-6)] assms(7) by simp
  have "cur' = synced new (files (cs_world s)) |` {n. Ext n = ''.vcl''}"
    using getCurrentFiles_result(2) [OF assms(1,8)] f2 by simp
  then have "cur' \<noteq> new \<longleftrightarrow> (\<exists>n \<in> dom new. Ext n \<noteq> ''.vcl'')"
    by (auto simp: synced_def fun_eq_iff map_add_def restrict_map_def dom_def split: option.splits if_splits)
  then show ?thesis
    using reconcileFiles_result [OF assms(1-4,8,9)] f2
    by (auto simp: synced_def fun_eq_iff map_add_def restrict_map_def split: option.splits if_splits)
qed

subsection \<open>The files of a config map\<close>

text \<open>What a template of the config map becomes.\<close>

definition render :: "'w node_env \<Rightarrow> template_data \<Rightarrow> string \<Rightarrow> string \<Rightarrow> string outcome" where
  "render e data name text = obind (k_ParseTemplate e name text) (\<lambda>tmpl. tmpl data)"

lemma resolve_template_Ret:
  "resolve_template e data n t s = (Ret text, s') \<longleftrightarrow> s' = s \<and> (\<exists>x. render e data n t = Ret x \<and> text = generated_header @ x)"
  by (auto simp: resolve_template_def render_def prog_Ret_iff obind_eq_Ret)

lemma resolve_loop_result:
  assumes "resolve_loop e data ts ns out s = (Ret out', s')" "\<forall>n \<in> set ns. HasSuffix n tmpl_suffix"
  shows "s' = s \<and> (\<forall>n. if n @ tmpl_suffix \<in> set ns
     then \<exists>x. render e data (n @ tmpl_suffix) (lookup ts (n @ tmpl_suffix)) = Ret x \<and> out' n = Some (generated_header @ x)
     else out' n = out n)"
  using assms
proof (induction ns arbitrary: out s)
  case (Cons m ns)
  obtain b where b: "m = b @ tmpl_suffix" using Cons.prems(2) by (auto simp: HasSuffix_iff)
  obtain x where x: "render e data m (lookup ts m) = Ret x"
    and rest: "resolve_loop e data ts ns (out(b \<mapsto> generated_header @ x)) s = (Ret out', s')"
    using Cons.prems(1) by (auto simp: prog_Ret_iff resolve_template_Ret b)
  show ?case using Cons.IH [OF rest] Cons.prems(2) x by (auto simp: b split: if_splits)
qed simp

lemma resolveTemplates_result:
  assumes "ranges_once e" "finite (dom ts)" "\<forall>n \<in> dom ts. HasSuffix n tmpl_suffix"
    and "resolveTemplates e ts tp vp bks nodes s = (Ret out, s')"
    and "data = \<lparr>td_Backends = bks, td_TargetPort = tp, td_VarnishNodes = nodes, td_VarnishPort = vp\<rparr>"
  shows "case ts (n @ tmpl_suffix) of None \<Rightarrow> out n = None
    | Some t \<Rightarrow> \<exists>x. render e data (n @ tmpl_suffix) t = Ret x \<and> out n = Some (generated_header @ x)"
proof -
  obtain ns w where r: "k_Range e ts (cs_world s) = (ns, w)"
    and rest: "resolve_loop e data ts ns Map.empty (s\<lparr>cs_world := w\<rparr>) = (Ret out, s')"
    using assms(4,5) by (auto simp: resolveTemplates_def bnd_Ret_iff c_range_Ret)
  have ns: "set ns = dom ts" using assms(1,2) r unfolding ranges_once_def by (metis fst_conv)
  have "if n @ tmpl_suffix \<in> set ns
     then \<exists>x. render e data (n @ tmpl_suffix) (lookup ts (n @ tmpl_suffix)) = Ret x \<and> out n = Some (generated_header @ x)
     else out n = None"
    using resolve_loop_result [OF rest] ns assms(3) by simp
  then show ?thesis by (cases "ts (n @ tmpl_suffix)") (simp_all add: ns domIff lookup_def)
qed

lemma merge_loop_result:
  "distinct fs \<Longrightarrow> merge_loop vc cmName out fs new s =
    (case find (\<lambda>f. new f \<noteq> None) fs of
       None \<Rightarrow> (Ret (\<lambda>n. if n \<in> set fs then Some (lookup out n) else new n), s)
     | Some f \<Rightarrow> (Err (Plain (name_clash_msg cmName f)),
         s\<lparr>cs_events := cs_events s @ [CWarning (ObjVarnishCluster vc) EventReasonInvalidVCLConfigMap (name_clash_msg cmName f)]\<rparr>))"
proof (induction fs arbitrary: new)
  case (Cons f fs)
  have "find (\<lambda>g. (new(f \<mapsto> lookup out f)) g \<noteq> None) fs = find (\<lambda>g. new g \<noteq> None) fs" if "new f = None"
    using Cons.prems by (intro find_cong) auto
  then show ?case
    using Cons by (auto simp: seq_apply fun_eq_iff split: option.split)
qed (simp add: fun_eq_iff)


end
