(* ===== verification/VarnishReconcile.thy ===== *)
theory VarnishReconcile
  imports VclFiles Defaults VclConfigMap
begin

text \<open>
  The reconcile of one Varnish pod (\<open>controller.go\<close>, \<open>controller_configmap.go\<close>,
  \<open>controller_varnish.go\<close> and \<open>controller_pod.go\<close> under \<open>pkg/varnishcontroller/controller\<close>): it
  writes the VCL files, has varnishd load them under a name made of the version of the config map
  and the time, discards the old configurations, and reports on its own pod what is in use.
\<close>

subsection \<open>Calls of the administrator\<close>

definition c_reload :: "'w node_env \<Rightarrow> string \<Rightarrow> string \<Rightarrow> ('w, string \<times> gerr option) controller" where
  "c_reload e version entryFile =
     (\<lambda>s. case Reload (k_varnish e) version entryFile (cs_world s) of
        (r, w) \<Rightarrow> (Ret r, s\<lparr>cs_world := w, cs_changes := cs_changes s @ [AdmReload version entryFile]\<rparr>))"

definition c_discard :: "'w node_env \<Rightarrow> string \<Rightarrow> ('w, unit) controller" where
  "c_discard e name =
     (\<lambda>s. case Discard (k_varnish e) name (cs_world s) of
        (r, w) \<Rightarrow> (r, s\<lparr>cs_world := w, cs_changes := cs_changes s @ [AdmDiscard name]\<rparr>))"

definition c_list :: "'w node_env \<Rightarrow> ('w, VCLConfig list) controller" where
  "c_list e = at_world (List (k_varnish e))"

definition c_active :: "'w node_env \<Rightarrow> ('w, string) controller" where
  "c_active e = at_world (GetActiveConfigurationName (k_varnish e))"

definition set_compilation_error :: "bool \<Rightarrow> ('w, unit) controller" where
  "set_compilation_error b = (\<lambda>s. (Ret (), s\<lparr>cs_VCLCompilationError := b\<rparr>))"

subsection \<open>Names of the configurations\<close>

definition VCLVersionPrefix :: string where "VCLVersionPrefix = ''v-''"

text \<open>\<open>time.Now().Unix()\<close> of a time in nanoseconds.\<close>

definition Unix :: "time \<Rightarrow> int" where "Unix t = t div 10 ^ 9"

definition createVCLConfigName :: "string \<Rightarrow> time \<Rightarrow> string" where
  "createVCLConfigName configMapVersion t = VCLVersionPrefix @ configMapVersion @ ''-'' @ show_int (Unix t)"

definition extractConfigMapVersion :: "string \<Rightarrow> string" where
  "extractConfigMapVersion VCLConfigName =
     (let parts = Split VCLConfigName CHR ''-'' in
      if length parts < 2 then [] else parts ! (length parts - 2))"

subsection \<open>The config map\<close>

definition getConfigMap :: "'w node_env \<Rightarrow> string \<Rightarrow> string \<Rightarrow> ('w, config_map) controller" where
  "getConfigMap e namespace name =
     attempt (c_get (k_ConfigMaps e) namespace name) (\<lambda>r.
       case r of
         Inl err \<Rightarrow>
           if IsNotFound err then fail (Wrapped ''ConfigMap must exist to reconcile Varnish'' err)
           else fail (Wrapped ''could not Get ConfigMap'' err)
       | Inr found \<Rightarrow> ret found)"

subsection \<open>Varnish\<close>

definition compilation_failed :: string where "compilation_failed = ''VCL compilation failed''"

definition compilation_warnings :: "VarnishCluster \<Rightarrow> pod \<Rightarrow> ('w, unit) controller" where
  "compilation_warnings vc p =
     seq (c_warning (ObjPod p) EventReasonVCLCompilationError ''VarnishClusterVCL compilation failed. See logs for details'')
       (c_warning (ObjVarnishCluster vc) EventReasonVCLCompilationError
          (''VarnishClusterVCL compilation failed for pod '' @ om_Name (pod_Meta p) @ ''. See pod logs for details''))"

definition reload_warnings :: "VarnishCluster \<Rightarrow> pod \<Rightarrow> ('w, unit) controller" where
  "reload_warnings vc p =
     seq (c_warning (ObjPod p) EventReasonReloadError
            (''VarnishClusterVarnish reload failed for pod '' @ om_Name (pod_Meta p) @ ''. See pod logs for details''))
       (c_warning (ObjVarnishCluster vc) EventReasonReloadError
          ''VarnishClusterVarnish reload failed. See logs for details'')"

definition unused_config :: "VCLConfig \<Rightarrow> bool" where
  "unused_config c \<longleftrightarrow> vcfg_Status c = VCLStatusAvailable \<and> HasPrefix (vcfg_Name c) VCLVersionPrefix"

text \<open>An error of \<open>Discard\<close> is only logged.\<close>

definition cleanup_config :: "'w node_env \<Rightarrow> VCLConfig \<Rightarrow> ('w, unit) controller" where
  "cleanup_config e c = (if unused_config c then attempt (c_discard e (vcfg_Name c)) (\<lambda>_. ret ()) else ret ())"

definition reconcileVarnish :: "'w node_env \<Rightarrow> VarnishCluster \<Rightarrow> pod \<Rightarrow> config_map \<Rightarrow> ('w, unit) controller" where
  "reconcileVarnish e vc p cm =
     bnd (c_now e) (\<lambda>t.
     bnd (deref (sp_VCL (vc_Spec vc))) (\<lambda>vcl.
     bnd (deref (vcl_EntrypointFileName vcl)) (\<lambda>entryFile.
     bnd (c_reload e (createVCLConfigName (om_ResourceVersion (cm_Meta cm)) t) entryFile) (\<lambda>(out, err).
       case err of
         Some er \<Rightarrow>
           if Contains out compilation_failed
           then seq (set_compilation_error True) (compilation_warnings vc p)
           else seq (reload_warnings vc p) (fail (Wrapped out er))
       | None \<Rightarrow>
           seq (set_compilation_error False)
             (bnd (c_list e) (\<lambda>configsList. for_each configsList (cleanup_config e)))))))"

subsection \<open>The pod\<close>

definition annotationConfigMapVersion :: string where "annotationConfigMapVersion = ''configMapVersion''"
definition annotation_VCLVersion :: string where "annotation_VCLVersion = ''VCLVersion''"
definition annotationActiveVCLConfigName :: string where "annotationActiveVCLConfigName = ''activeVCLConfigName''"
definition annotationLocalBackendsWeight :: string where "annotationLocalBackendsWeight = ''localBackendsWeight''"
definition annotationRemoteBackendsWeight :: string where "annotationRemoteBackendsWeight = ''remoteBackendsWeight''"

definition version_annotations :: "config_map \<Rightarrow> strmap \<Rightarrow> strmap" where
  "version_annotations cm annotations =
     (let v = lookup (om_Annotations (cm_Meta cm)) ''VCLVersion'' in
      (if v = [] then annotations(annotation_VCLVersion := None) else annotations(annotation_VCLVersion \<mapsto> v))
        (annotationConfigMapVersion \<mapsto> om_ResourceVersion (cm_Meta cm)))"

definition pod_annotations ::
  "bool \<Rightarrow> config_map \<Rightarrow> float64 \<Rightarrow> float64 \<Rightarrow> string \<Rightarrow> strmap \<Rightarrow> strmap" where
  "pod_annotations filesChanged cm localWeight remoteWeight activeVCLName annotations =
     (let latestConfigMapInUse = (om_ResourceVersion (cm_Meta cm) = extractConfigMapVersion activeVCLName);
          a = (if latestConfigMapInUse \<or> (\<not> latestConfigMapInUse \<and> \<not> filesChanged)
               then version_annotations cm annotations else annotations)
      in a(annotationActiveVCLConfigName \<mapsto> activeVCLName,
           annotationLocalBackendsWeight \<mapsto> format_f localWeight,
           annotationRemoteBackendsWeight \<mapsto> format_f remoteWeight))"

definition reconcilePod ::
  "'w node_env \<Rightarrow> bool \<Rightarrow> pod \<Rightarrow> config_map \<Rightarrow> float64 \<Rightarrow> float64 \<Rightarrow> ('w, unit) controller" where
  "reconcilePod e filesChanged p cm localWeight remoteWeight =
     bnd (c_active e) (\<lambda>activeVCLName.
       let podCopy = p\<lparr>pod_Meta := (pod_Meta p)\<lparr>om_Annotations :=
             pod_annotations filesChanged cm localWeight remoteWeight activeVCLName (om_Annotations (pod_Meta p))\<rparr>\<rparr> in
       if om_Annotations (pod_Meta p) \<noteq> om_Annotations (pod_Meta podCopy)
       then bnd (wrap ''failed to update pod'' (c_update_pod e podCopy)) (\<lambda>_. ret ())
       else ret ())"

subsection \<open>The reconcile\<close>

text \<open>From the new files on: the directory, varnishd, the pod.\<close>

definition apply_files ::
  "'w node_env \<Rightarrow> VarnishCluster \<Rightarrow> pod \<Rightarrow> config_map \<Rightarrow> strmap \<Rightarrow> float64 \<Rightarrow> float64 \<Rightarrow> ('w, unit) controller" where
  "apply_files e vc p cm newFiles localWeight remoteWeight =
     bnd (getCurrentFiles e VCLConfigDir) (\<lambda>currFiles.
     bnd (reconcileFiles e VCLConfigDir currFiles newFiles) (\<lambda>filesTouched.
     bnd (c_active e) (\<lambda>configName.
     seq (if filesTouched \<or> configName = ''boot'' then reconcileVarnish e vc p cm else ret ())
       (reconcilePod e filesTouched p cm localWeight remoteWeight))))"

definition watch_backends :: "'w node_env \<Rightarrow> VarnishClusterBackend \<Rightarrow> ('w, unit) controller" where
  "watch_backends e backend =
     (\<lambda>s. (Ret (), s\<lparr>cs_backendNamespaces := backend_namespaces e backend, cs_backendSelector := be_Selector backend\<rparr>))"

definition reconcile_cluster :: "'w node_env \<Rightarrow> string \<Rightarrow> VarnishCluster \<Rightarrow> ('w, unit) controller" where
  "reconcile_cluster e ns vc =
     bnd (deref (sp_Backend (vc_Spec vc))) (\<lambda>backend.
     seq (watch_backends e backend)
     (bnd (deref (sp_VCL (vc_Spec vc))) (\<lambda>vcl.
     bnd (deref (vcl_EntrypointFileName vcl)) (\<lambda>entrypointFileName.
     bnd (c_get (k_Pods e) ns (cc_PodName (k_config e))) (\<lambda>p.
     bnd (deref (vcl_ConfigMapName vcl)) (\<lambda>cmName.
     bnd (getConfigMap e (cc_Namespace (k_config e)) cmName) (\<lambda>cm.
     case filesAndTemplates (cm_Data cm) of (newFiles, newTemplates) \<Rightarrow>
     seq (verifyEntrypointExists newFiles newTemplates entrypointFileName)
     (bnd (getBackendEndpoints e vc) (\<lambda>(bks, backendPortNumber, localWeight, remoteWeight).
     bnd (getVarnishEndpoints e vc) (\<lambda>varnishNodes.
     bnd (resolveTemplates e newTemplates backendPortNumber VarnishPort bks varnishNodes) (\<lambda>templatizedFiles.
     bnd (merge_templates e vc cmName templatizedFiles newFiles) (\<lambda>allFiles.
       apply_files e vc p cm allFiles localWeight remoteWeight))))))))))))"

definition varnish_reconcileWithContext :: "'w node_env \<Rightarrow> string \<times> string \<Rightarrow> ('w, unit) controller" where
  "varnish_reconcileWithContext e request =
     attempt (c_get (k_VarnishClusters e) (fst request) (cc_VarnishClusterName (k_config e))) (\<lambda>r.
       case r of
         Inl err \<Rightarrow> if IsNotFound err then ret () else fail err
       | Inr vc \<Rightarrow> bnd (lift (defaultVarnishCluster vc)) (\<lambda>vc. reconcile_cluster e (fst request) vc))"

text \<open>As in the operator, the result is whether the request is queued again.\<close>

definition varnish_Reconcile :: "'w node_env \<Rightarrow> string \<times> string \<Rightarrow> ('w, bool) controller" where
  "varnish_Reconcile e request =
     attempt (varnish_reconcileWithContext e request) (\<lambda>r.
       case r of
         Inl err \<Rightarrow> if IsConflict err then ret True else fail err
       | Inr u \<Rightarrow> ret False)"

subsection \<open>Names read back\<close>

lemma version_read_back_lemma:
  assumes "CHR ''-'' \<notin> set v" "0 \<le> t"
  shows "extractConfigMapVersion (createVCLConfigName v t) = v"
proof -
  have "CHR ''-'' \<notin> set (show_int (Unix t))" using assms(2) by (simp add: show_int_no_minus Unix_def)
  then have "Split (createVCLConfigName v t) CHR ''-'' = [''v'', v, show_int (Unix t)]"
    using Split_append_sep [of "CHR ''-''" "''v''" "v @ CHR ''-'' # show_int (Unix t)"]
      Split_append_sep [OF assms(1), of "show_int (Unix t)"]
    by (simp add: createVCLConfigName_def VCLVersionPrefix_def Split_no_sep)
  then show ?thesis by (simp add: extractConfigMapVersion_def)
qed

text \<open>
  The version of the config map is read back from the name of the configuration made for it, for
  every version without a dash (API versions are numbers), and such a name is never taken for
  the boot configuration nor for one the controller did not make.
\<close>

theorem version_read_back:
  assumes "CHR ''-'' \<notin> set v" "0 \<le> t"
  shows "extractConfigMapVersion (createVCLConfigName v t) = v \<and> createVCLConfigName v t \<noteq> ''boot'' \<and>
    HasPrefix (createVCLConfigName v t) VCLVersionPrefix"
  using version_read_back_lemma [OF assms] by (simp add: createVCLConfigName_def VCLVersionPrefix_def HasPrefix_def)

subsection \<open>What a reconcile may change\<close>

lemma writes_adm [writes_intros]:
  "R (AdmReload n f) \<Longrightarrow> writes_only Q R (c_reload e n f)"
  "R (AdmDiscard n) \<Longrightarrow> writes_only Q R (c_discard e n)"
  "writes_only Q R (c_list e)" "writes_only Q R (c_active e)" "writes_only Q R (set_compilation_error b)"
  "writes_only Q R (watch_backends e be)"
  by (auto simp: writes_only_def c_reload_def c_discard_def c_list_def c_active_def at_world_def set_compilation_error_def
      watch_backends_def split: prod.split)

lemma writes_fun [writes_intros]:
  "writes_only Q R (list_pods e nss' sel nss ps)"
  "writes_only Q R (scan_containers e pod port cs infos n f)"
  "writes_only Q R (scan_backends e vc port ready pods infos n)"
  "writes_only Q R (read_files e dir ns out)"
  "writes_only Q R (apply_diff e dir old new fs t)"
  "writes_only Q R (resolve_loop e data ts ns out)"
  "writes_only Q R (merge_loop vc cmName out' fs new)"
proof -
  show "writes_only Q R (list_pods e nss' sel nss ps)"
    by (induction nss arbitrary: ps) (auto intro!: writes_intros simp: list_namespace_def)
  have node: "writes_only Q R (getNodeLabels e n)" for n
    unfolding getNodeLabels_def by (intro writes_intros)
  show sc: "writes_only Q R (scan_containers e pod port cs infos n f)" for pod cs infos n f
    by (induction cs arbitrary: infos n f) (auto intro!: writes_intros node)
  show "writes_only Q R (scan_backends e vc port ready pods infos n)"
    by (induction pods arbitrary: infos n) (auto intro!: writes_intros sc)
  show "writes_only Q R (read_files e dir ns out)"
    by (induction ns arbitrary: out) (auto intro!: writes_intros)
  show "writes_only Q R (apply_diff e dir old new fs t)"
    by (induction fs arbitrary: t) (auto intro!: writes_intros simp: Let_def)
  show "writes_only Q R (resolve_loop e data ts ns out)"
    by (induction ns arbitrary: out) (auto intro!: writes_intros simp: resolve_template_def)
  show "writes_only Q R (merge_loop vc cmName out' fs new)"
    by (induction fs arbitrary: new) (auto intro!: writes_intros)
qed

lemma writes_reads [writes_intros]:
  "writes_only Q R (getNodeLabels e n)"
  "writes_only Q R (getPodsInfo e vc nss sel port ready)"
  "writes_only Q R (getBackendEndpoints e vc)"
  "writes_only Q R (getVarnishEndpoints e vc)"
  "writes_only Q R (getConfigMap e ns name)"
  "writes_only Q R (verifyEntrypointExists fs ts f)"
  "writes_only Q R (resolveTemplates e ts tp vp bks nodes)"
  "writes_only Q R (merge_templates e vc cmName out new)"
  "writes_only Q R (getCurrentFiles e dir)"
  "writes_only Q R (reconcileFiles e dir old new)"
  unfolding getNodeLabels_def getPodsInfo_def getBackendEndpoints_def getVarnishEndpoints_def getConfigMap_def
    verifyEntrypointExists_def resolveTemplates_def merge_templates_def getCurrentFiles_def reconcileFiles_def Let_def
  by (intro writes_intros)+

text \<open>The writes of a pod: itself, and only its five annotations.\<close>

definition reported_keys :: "string set" where
  "reported_keys = {annotationConfigMapVersion, annotation_VCLVersion, annotationActiveVCLConfigName,
     annotationLocalBackendsWeight, annotationRemoteBackendsWeight}"

definition own_pod_update :: "'w node_env \<Rightarrow> string \<Rightarrow> request \<Rightarrow> bool" where
  "own_pod_update e ns q \<longleftrightarrow> (\<exists>p a. q = Update (ObjPod (p\<lparr>pod_Meta := (pod_Meta p)\<lparr>om_Annotations := a\<rparr>\<rparr>)) \<and>
     om_Name (pod_Meta p) = cc_PodName (k_config e) \<and> om_Namespace (pod_Meta p) = ns \<and>
     (\<exists>w w'. r_get (k_Pods e) ns (cc_PodName (k_config e)) w = (Ret p, w')) \<and>
     (\<forall>k. k \<notin> reported_keys \<longrightarrow> a k = om_Annotations (pod_Meta p) k))"

fun own_config :: "adm_change \<Rightarrow> bool" where
  "own_config (AdmReload n f) = HasPrefix n VCLVersionPrefix"
| "own_config (AdmDiscard n) = HasPrefix n VCLVersionPrefix"

lemma createVCLConfigName_prefix [simp]: "HasPrefix (createVCLConfigName v t) VCLVersionPrefix"
  by (simp add: createVCLConfigName_def)

lemma writes_reconcileVarnish: "writes_only Q own_config (reconcileVarnish e vc p cm)"
  unfolding reconcileVarnish_def compilation_warnings_def reload_warnings_def cleanup_config_def unused_config_def
  by (intro writes_intros) simp_all

lemma pod_annotations_other:
  "k \<notin> reported_keys \<Longrightarrow> pod_annotations changed cm l r active a k = a k"
  by (auto simp: pod_annotations_def version_annotations_def reported_keys_def Let_def)

lemma writes_reconcilePod:
  assumes "r_get (k_Pods e) ns (cc_PodName (k_config e)) w = (Ret p, w')"
    and "om_Name (pod_Meta p) = cc_PodName (k_config e)" "om_Namespace (pod_Meta p) = ns"
  shows "writes_only (own_pod_update e ns) R (reconcilePod e changed p cm l r)"
  unfolding reconcilePod_def Let_def
  by (intro writes_intros) (use assms pod_annotations_other in \<open>unfold own_pod_update_def, blast\<close>)

lemma writes_get:
  assumes "\<And>p w w'. r_get res ns n w = (Ret p, w') \<Longrightarrow> writes_only Q R (f p)"
  shows "writes_only Q R (bnd (c_get res ns n) f)"
  unfolding writes_only_def
proof
  fix s
  show "\<exists>qs cs. cs_requests (snd (bnd (c_get res ns n) f s)) = cs_requests s @ qs \<and>
      cs_changes (snd (bnd (c_get res ns n) f s)) = cs_changes s @ cs \<and> list_all Q qs \<and> list_all R cs"
  proof (cases "r_get res ns n (cs_world s)")
    case (Pair r w)
    show ?thesis
    proof (cases r)
      case (Ret p)
      then obtain qs cs where "cs_requests (snd (f p (s\<lparr>cs_world := w\<rparr>))) = cs_requests s @ qs"
        "cs_changes (snd (f p (s\<lparr>cs_world := w\<rparr>))) = cs_changes s @ cs" "list_all Q qs" "list_all R cs"
        using writes_onlyD [of Q R "f p" "s\<lparr>cs_world := w\<rparr>", OF _ prod.collapse [symmetric]] assms [of "cs_world s" p w] Pair
        by auto
      then show ?thesis using Pair Ret by (auto simp: bnd_apply c_get_def at_world_apply)
    qed (use Pair in \<open>auto simp: bnd_apply c_get_def at_world_apply\<close>)
  qed
qed


subsection \<open>What a program leaves as it is\<close>

text \<open>\<open>keeps v m\<close>: the part \<open>v\<close> of the world is the same after \<open>m\<close> as before, whatever its result.\<close>

definition keeps :: "('w \<Rightarrow> 'v) \<Rightarrow> ('w, 'a) controller \<Rightarrow> bool" where
  "keeps v m \<longleftrightarrow> (\<forall>s. v (cs_world (snd (m s))) = v (cs_world s))"

named_theorems keeps_intros

lemma keepsD: "keeps v m \<Longrightarrow> m s = (r, s') \<Longrightarrow> v (cs_world s') = v (cs_world s)"
  unfolding keeps_def by (metis snd_conv)

lemma keeps_basic [keeps_intros]:
  "keeps v (ret a)" "keeps v (fail err)" "keeps v (lift r)" "keeps v (deref x)" "keeps v (c_warning ob rs msg)"
  "keeps v (set_compilation_error b)"
  by (simp_all add: keeps_def deref_def set_compilation_error_def)

lemma keeps_at_world [keeps_intros]: "(\<And>w. v (snd (g w)) = v w) \<Longrightarrow> keeps v (at_world g)"
  by (simp add: keeps_def at_world_def split: prod.split) (metis snd_conv)

lemma keeps_attempt [keeps_intros]: "keeps v m \<Longrightarrow> (\<And>r. keeps v (f r)) \<Longrightarrow> keeps v (attempt m f)"
  unfolding keeps_def attempt_apply by (auto split: prod.split outcome.split) (metis snd_conv)+

lemma keeps_bnd [keeps_intros]: "keeps v m \<Longrightarrow> (\<And>a. keeps v (f a)) \<Longrightarrow> keeps v (bnd m f)"
  unfolding keeps_def bnd_apply by (auto split: prod.split outcome.split) (metis snd_conv)+

lemma keeps_seq [keeps_intros]: "keeps v m \<Longrightarrow> keeps v k \<Longrightarrow> keeps v (seq m k)"
  by (simp add: seq_def keeps_bnd)

lemma keeps_wrap [keeps_intros]: "keeps v m \<Longrightarrow> keeps v (wrap msg m)"
  unfolding wrap_def by (rule keeps_attempt) (auto intro: keeps_basic split: sum.split)

lemma keeps_cases [keeps_intros]:
  "(b \<Longrightarrow> keeps v m) \<Longrightarrow> (\<not> b \<Longrightarrow> keeps v k) \<Longrightarrow> keeps v (if b then m else k)"
  "(x = None \<Longrightarrow> keeps v m) \<Longrightarrow> (\<And>a. x = Some a \<Longrightarrow> keeps v (f a)) \<Longrightarrow> keeps v (case x of None \<Rightarrow> m | Some a \<Rightarrow> f a)"
  "(\<And>a b. z = (a, b) \<Longrightarrow> keeps v (p a b)) \<Longrightarrow> keeps v (case z of (a, b) \<Rightarrow> p a b)"
  by (auto split: option.split prod.split)

lemma keeps_for_each [keeps_intros]: "(\<And>x. x \<in> set xs \<Longrightarrow> keeps v (f x)) \<Longrightarrow> keeps v (for_each xs f)"
  by (induction xs) (auto intro: keeps_seq keeps_basic)

subsection \<open>A pod's node: its directory and its varnishd\<close>

text \<open>
  \<open>files\<close> is the content of the VCL directory and \<open>loaded\<close> the configurations of varnishd. The file
  operations keep to the directory and varnishadm to varnishd; reading the clock, ranging over a map
  and the update of the pod change neither.
\<close>

definition separate :: "'w node_env \<Rightarrow> ('w \<Rightarrow> strmap) \<Rightarrow> ('w \<Rightarrow> VCLConfig list) \<Rightarrow> bool" where
  "separate e files loaded \<longleftrightarrow>
     (\<forall>b args w. files (snd (va_execute (k_varnish e) b args w)) = files w) \<and>
     (\<forall>d w. loaded (snd (k_ReadDir e d w)) = loaded w) \<and>
     (\<forall>f w. loaded (snd (k_ReadFile e f w)) = loaded w) \<and>
     (\<forall>f c w. loaded (snd (k_WriteFile e f c w)) = loaded w) \<and>
     (\<forall>f w. loaded (snd (k_Remove e f w)) = loaded w) \<and>
     (\<forall>m w. loaded (snd (k_Range e m w)) = loaded w) \<and>
     (\<forall>w. loaded (snd (k_Now e w)) = loaded w \<and> files (snd (k_Now e w)) = files w) \<and>
     (\<forall>p w. loaded (snd (r_update (k_Pods e) p w)) = loaded w \<and> files (snd (r_update (k_Pods e) p w)) = files w)"

definition node_view ::
  "'w node_env \<Rightarrow> (float64 \<Rightarrow> string) \<Rightarrow> ('w \<Rightarrow> strmap) \<Rightarrow> ('w \<Rightarrow> VCLConfig list) \<Rightarrow> bool" where
  "node_view e num files loaded \<longleftrightarrow>
     directory e VCLConfigDir files \<and> ranges_once e \<and> varnishd_protocol (k_varnish e) num loaded \<and> separate e files loaded"

lemma node_viewD:
  assumes "node_view e num files loaded"
  shows "directory e VCLConfigDir files" "ranges_once e" "varnishd_protocol (k_varnish e) num loaded" "separate e files loaded"
  using assms by (simp_all add: node_view_def)

lemma separateD:
  assumes "separate e files loaded"
  shows "files (snd (adm_run (k_varnish e) args w)) = files w" "loaded (snd (k_ReadDir e d w)) = loaded w"
    "loaded (snd (k_ReadFile e f w)) = loaded w" "loaded (snd (k_WriteFile e f c w)) = loaded w"
    "loaded (snd (k_Remove e f w)) = loaded w" "loaded (snd (k_Range e m w)) = loaded w"
    "loaded (snd (k_Now e w)) = loaded w" "files (snd (k_Now e w)) = files w"
    "loaded (snd (r_update (k_Pods e) p w)) = loaded w" "files (snd (r_update (k_Pods e) p w)) = files w"
  using assms by (simp_all add: separate_def adm_run_def)

lemma keeps_loaded:
  assumes "separate e files loaded"
  shows "keeps loaded (getCurrentFiles e dir)" "keeps loaded (reconcileFiles e dir old new)"
proof -
  note sep = separateD [OF assms]
  have rf: "keeps loaded (read_files e dir ns out)" for ns out
    by (induction ns arbitrary: out) (auto intro!: keeps_intros simp: sep)
  show "keeps loaded (getCurrentFiles e dir)"
    unfolding getCurrentFiles_def by (intro keeps_intros rf sep)
  have ad: "keeps loaded (apply_diff e dir old new fs t)" for fs t
    by (induction fs arbitrary: t) (auto intro!: keeps_intros simp: sep Let_def)
  show "keeps loaded (reconcileFiles e dir old new)"
    unfolding reconcileFiles_def c_range_def by (intro keeps_intros ad) (simp add: sep split: prod.split, metis sep(6) snd_conv)
qed

lemma keeps_files_adm:
  assumes "separate e files loaded"
  shows "files (snd (Reload (k_varnish e) n f w)) = files w" "files (snd (Discard (k_varnish e) n w)) = files w"
    "files (snd (List (k_varnish e) w)) = files w" "files (snd (GetActiveConfigurationName (k_varnish e) w)) = files w"
proof -
  have run: "files w' = files w" if "adm_run (k_varnish e) args w = (r, w')" for args r w w'
    using separateD(1) [OF assms, of args w] that by simp
  show "files (snd (Reload (k_varnish e) n f w)) = files w"
    by (auto simp: Reload_def adm_load_def adm_use_def separateD(1) [OF assms] split: prod.split option.split dest!: run)
  show "files (snd (Discard (k_varnish e) n w)) = files w"
    by (auto simp: Discard_def split: prod.split option.split dest!: run)
  show lst: "files (snd (List (k_varnish e) w)) = files w" for w
    by (auto simp: List_def split: prod.split option.split dest!: run)
  show "files (snd (GetActiveConfigurationName (k_varnish e) w)) = files w"
    using lst [of w]
    by (auto simp: GetActiveConfigurationName_def getActiveVCLConfig_def bnd_apply split: prod.split outcome.split option.split)
qed

lemma keeps_files:
  assumes "separate e files loaded"
  shows "keeps files (c_active e)" "keeps files (reconcileVarnish e vc p cm)" "keeps files (reconcilePod e t p cm l r)"
proof -
  note adm = keeps_files_adm [OF assms] and sep = separateD [OF assms]
  have c: "keeps files (c_reload e n f)" "keeps files (c_discard e n)" "keeps files (c_now e)" "keeps files (c_update_pod e q)"
    for n f q
    using adm sep(8,10) unfolding keeps_def c_reload_def c_discard_def c_now_def c_update_pod_def at_world_def
    by (auto split: prod.split) (metis snd_conv)+
  show act: "keeps files (c_active e)" unfolding c_active_def by (intro keeps_intros adm)
  show "keeps files (reconcileVarnish e vc p cm)"
    unfolding reconcileVarnish_def compilation_warnings_def reload_warnings_def cleanup_config_def c_list_def
    by (intro keeps_intros c adm)
  show "keeps files (reconcilePod e t p cm l r)"
    unfolding reconcilePod_def Let_def by (intro keeps_intros act c)
qed

subsection \<open>Loading the VCL\<close>

lemma active_name_filter:
  "(\<And>c. c \<in> set cs \<Longrightarrow> is_active c \<Longrightarrow> P c) \<Longrightarrow> active_name (filter P cs) = active_name cs"
  by (induction cs) (auto simp: active_name_def)

lemma cleanup_result:
  assumes "varnishd_protocol (k_varnish e) num loaded"
  shows "\<exists>s' D. for_each cs (cleanup_config e) s = (Ret (), s') \<and> D \<subseteq> vcfg_Name ` {c \<in> set cs. unused_config c} \<and>
    loaded (cs_world s') = filter (\<lambda>c. vcfg_Name c \<notin> D) (loaded (cs_world s)) \<and>
    cs_changes s' = cs_changes s @ map (AdmDiscard \<circ> vcfg_Name) (filter unused_config cs) \<and>
    cs_requests s' = cs_requests s \<and> cs_VCLCompilationError s' = cs_VCLCompilationError s \<and> cs_events s' = cs_events s"
proof (induction cs arbitrary: s)
  case Nil
  then show ?case by (intro exI [of _ s] exI [of _ "{}"]) simp
next
  case (Cons c cs)
  obtain s1 where s1: "cleanup_config e c s = (Ret (), s1)"
    "\<exists>D \<subseteq> (if unused_config c then {vcfg_Name c} else {}). loaded (cs_world s1) = filter (\<lambda>c. vcfg_Name c \<notin> D) (loaded (cs_world s))"
    "cs_changes s1 = cs_changes s @ (if unused_config c then [AdmDiscard (vcfg_Name c)] else [])"
    "cs_requests s1 = cs_requests s" "cs_VCLCompilationError s1 = cs_VCLCompilationError s" "cs_events s1 = cs_events s"
  proof (cases "unused_config c")
    case True
    obtain r w where d: "Discard (k_varnish e) (vcfg_Name c) (cs_world s) = (r, w)" by (metis prod.exhaust)
    define D where "D = (if r = Ret () then {vcfg_Name c} else {})"
    have "loaded w = filter (\<lambda>c. vcfg_Name c \<notin> D) (loaded (cs_world s))"
      using Discard_loaded(1) [OF assms d] by (simp add: D_def discard_config_def)
    moreover have "D \<subseteq> {vcfg_Name c}" by (simp add: D_def)
    ultimately show ?thesis
      using that [of "s\<lparr>cs_world := w, cs_changes := cs_changes s @ [AdmDiscard (vcfg_Name c)]\<rparr>"] True d
        Discard_loaded(2) [OF assms d]
      by (cases r) (auto simp: cleanup_config_def c_discard_def attempt_apply)
  next
    case False
    then show ?thesis using that [of s] by (auto simp: cleanup_config_def intro: exI [of _ "{}"])
  qed
  obtain s' D where s': "for_each cs (cleanup_config e) s1 = (Ret (), s')" "D \<subseteq> vcfg_Name ` {c \<in> set cs. unused_config c}"
    "loaded (cs_world s') = filter (\<lambda>c. vcfg_Name c \<notin> D) (loaded (cs_world s1))"
    "cs_changes s' = cs_changes s1 @ map (AdmDiscard \<circ> vcfg_Name) (filter unused_config cs)"
    "cs_requests s' = cs_requests s1" "cs_VCLCompilationError s' = cs_VCLCompilationError s1" "cs_events s' = cs_events s1"
    using Cons.IH by blast
  obtain D1 where "D1 \<subseteq> (if unused_config c then {vcfg_Name c} else {})"
    "loaded (cs_world s1) = filter (\<lambda>c. vcfg_Name c \<notin> D1) (loaded (cs_world s))"
    using s1(2) by blast
  then have "loaded (cs_world s') = filter (\<lambda>c. vcfg_Name c \<notin> D1 \<union> D) (loaded (cs_world s))"
    "D1 \<union> D \<subseteq> vcfg_Name ` {d \<in> set (c # cs). unused_config d}"
    using s'(2,3) by (auto simp: conj_commute split: if_splits)
  then show ?case using s1 s' by (intro exI [of _ s'] exI [of _ "D1 \<union> D"]) (simp add: seq_apply)
qed

text \<open>What \<open>activate\<close> makes of the configurations: those of the name are the active ones.\<close>

lemma activate_active: "c \<in> set (activate n cs) \<Longrightarrow> is_active c \<longleftrightarrow> vcfg_Name c = n"
  by (auto simp: activate_def)

lemma unused_not_active: "unused_config c \<Longrightarrow> \<not> is_active c"
  by (simp add: unused_config_def is_active_def VCLStatusActive_def VCLStatusAvailable_def)

lemma unused_in_activated:
  assumes "d \<in> set (activate n cs)" "vcfg_Name d \<in> vcfg_Name ` {x \<in> set (activate n cs). unused_config x}"
  shows "\<not> is_active d" "HasPrefix (vcfg_Name d) VCLVersionPrefix"
proof -
  obtain d' where d': "d' \<in> set (activate n cs)" "unused_config d'" "vcfg_Name d = vcfg_Name d'" using assms(2) by blast
  have "vcfg_Name d' \<noteq> n" using activate_active [OF d'(1)] unused_not_active [OF d'(2)] by blast
  then show "\<not> is_active d" using activate_active [OF assms(1)] d'(3) by simp
  show "HasPrefix (vcfg_Name d) VCLVersionPrefix" using d'(2,3) by (simp add: unused_config_def)
qed

lemma active_after_cleanup:
  assumes "vcfg_Name c = n" "D \<subseteq> vcfg_Name ` {d \<in> set (activate n (cs @ [c])). unused_config d}"
  shows "active_name (filter (\<lambda>c. vcfg_Name c \<notin> D) (activate n (cs @ [c]))) = Some n"
proof -
  have "active_name (filter (\<lambda>c. vcfg_Name c \<notin> D) (activate n (cs @ [c]))) = active_name (activate n (cs @ [c]))"
    by (rule active_name_filter) (use unused_in_activated(1) assms(2) in blast)
  then show ?thesis using assms(1) active_name_activate [of n "cs @ [c]"] by simp
qed

definition load_failed :: "string \<Rightarrow> VarnishCluster \<Rightarrow> pod \<Rightarrow> string \<Rightarrow> gerr \<Rightarrow> unit outcome \<times> controller_event list" where
  "load_failed name vc p out er =
     (if Contains out compilation_failed
      then (Ret (), [CWarning (ObjPod p) EventReasonVCLCompilationError ''VarnishClusterVCL compilation failed. See logs for details'',
             CWarning (ObjVarnishCluster vc) EventReasonVCLCompilationError
               (''VarnishClusterVCL compilation failed for pod '' @ om_Name (pod_Meta p) @ ''. See pod logs for details'')])
      else (Err (Wrapped out er), [CWarning (ObjPod p) EventReasonReloadError
               (''VarnishClusterVarnish reload failed for pod '' @ om_Name (pod_Meta p) @ ''. See pod logs for details''),
             CWarning (ObjVarnishCluster vc) EventReasonReloadError
               ''VarnishClusterVarnish reload failed. See logs for details'']))"

lemma reconcileVarnish_result:
  assumes "varnishd_protocol (k_varnish e) num loaded" "separate e files loaded"
    and "sp_VCL (vc_Spec vc) = Some vcl" "vcl_EntrypointFileName vcl = Some f"
    and "reconcileVarnish e vc p cm s = (r, s')"
    and n: "n = createVCLConfigName (om_ResourceVersion (cm_Meta cm)) (fst (k_Now e (cs_world s)))"
  shows "cs_requests s' = cs_requests s \<and>
    ((\<exists>c D. r = Ret () \<and> \<not> cs_VCLCompilationError s' \<and> cs_events s' = cs_events s \<and> vcfg_Name c = n \<and>
        D \<subseteq> vcfg_Name ` {d \<in> set (activate n (loaded (cs_world s) @ [c])). unused_config d} \<and>
        loaded (cs_world s') = filter (\<lambda>c. vcfg_Name c \<notin> D) (activate n (loaded (cs_world s) @ [c])) \<and>
        cs_changes s' = cs_changes s @ AdmReload n f #
          map (AdmDiscard \<circ> vcfg_Name) (filter unused_config (activate n (loaded (cs_world s) @ [c])))) \<or>
     (\<exists>out er. (r, cs_events s') = (fst (load_failed n vc p out er), cs_events s @ snd (load_failed n vc p out er)) \<and>
        (r = Ret () \<longrightarrow> cs_VCLCompilationError s') \<and>
        active_name (loaded (cs_world s')) = active_name (loaded (cs_world s)) \<and>
        cs_changes s' = cs_changes s @ [AdmReload n f]))"
proof -
  obtain t w1 where now: "k_Now e (cs_world s) = (t, w1)" by (metis prod.exhaust)
  then have l1: "loaded w1 = loaded (cs_world s)" using separateD(7) [OF assms(2), of "cs_world s"] by simp
  obtain out err w2 where rl: "Reload (k_varnish e) n f w1 = ((out, err), w2)" by (metis prod.exhaust)
  define s2 where "s2 = s\<lparr>cs_world := w2, cs_changes := cs_changes s @ [AdmReload n f]\<rparr>"
  have run: "reconcileVarnish e vc p cm s =
      (case err of
         Some er \<Rightarrow> if Contains out compilation_failed
           then seq (set_compilation_error True) (compilation_warnings vc p) s2
           else seq (reload_warnings vc p) (fail (Wrapped out er)) s2
       | None \<Rightarrow> seq (set_compilation_error False)
             (bnd (c_list e) (\<lambda>configsList. for_each configsList (cleanup_config e))) s2)"
    using assms(3,4) rl
    by (simp add: reconcileVarnish_def bnd_apply c_now_def at_world_apply now c_reload_def n s2_def split: option.split)
  show ?thesis
  proof (cases err)
    case (Some er)
    then have "active_name (loaded w2) = active_name (loaded (cs_world s))"
      using Reload_loaded [OF assms(1) rl] l1 by simp
    then show ?thesis
      using assms(5) Some
      by (intro conjI disjI2 exI [of _ out] exI [of _ er])
        (auto simp: run s2_def load_failed_def seq_apply set_compilation_error_def compilation_warnings_def reload_warnings_def
          split: if_splits)
  next
    case None
    then obtain c where c: "vcfg_Name c = n" "loaded w2 = activate n (loaded (cs_world s) @ [c])"
      using Reload_loaded [OF assms(1) rl] l1 by auto
    have "c_list e (s2\<lparr>cs_VCLCompilationError := False\<rparr>) = (Ret (loaded w2), s2\<lparr>cs_VCLCompilationError := False\<rparr>)"
      by (simp add: c_list_def at_world_apply List_loaded [OF assms(1)] s2_def)
    moreover obtain s3 D where s3: "for_each (loaded w2) (cleanup_config e) (s2\<lparr>cs_VCLCompilationError := False\<rparr>) = (Ret (), s3)"
      "D \<subseteq> vcfg_Name ` {c \<in> set (loaded w2). unused_config c}"
      "loaded (cs_world s3) = filter (\<lambda>c. vcfg_Name c \<notin> D) (loaded w2)"
      "cs_changes s3 = cs_changes s @ AdmReload n f # map (AdmDiscard \<circ> vcfg_Name) (filter unused_config (loaded w2))"
      "cs_requests s3 = cs_requests s" "\<not> cs_VCLCompilationError s3" "cs_events s3 = cs_events s"
      using cleanup_result [OF assms(1), of "loaded w2" "s2\<lparr>cs_VCLCompilationError := False\<rparr>"] by (auto simp: s2_def)
    ultimately have "(r, s') = (Ret (), s3)"
      using assms(5) None by (simp add: run seq_apply bnd_apply set_compilation_error_def)
    then show ?thesis
      using s3 c by (intro conjI disjI1 exI [of _ c] exI [of _ D]) simp_all
  qed
qed

text \<open>
  C12: when varnishd accepts the VCL, the configuration named after the version of the config map and
  the time is loaded and is the active one, and the clean-up that follows has removed nothing but
  available configurations the controller itself made before: the active one and those of other
  origin stay.
\<close>

theorem reload_activates_and_cleans_up:
  assumes "node_view e num files loaded" "sp_VCL (vc_Spec vc) = Some vcl" "vcl_EntrypointFileName vcl = Some f"
    and "reconcileVarnish e vc p cm s = (Ret (), s')" "\<not> cs_VCLCompilationError s'"
  shows "\<exists>c. vcfg_Name c = createVCLConfigName (om_ResourceVersion (cm_Meta cm)) (fst (k_Now e (cs_world s))) \<and>
    active_name (loaded (cs_world s')) = Some (vcfg_Name c) \<and>
    (\<exists>P. loaded (cs_world s') = filter P (activate (vcfg_Name c) (loaded (cs_world s) @ [c])) \<and>
       (\<forall>d \<in> set (activate (vcfg_Name c) (loaded (cs_world s) @ [c])). \<not> P d \<longrightarrow>
          \<not> is_active d \<and> HasPrefix (vcfg_Name d) VCLVersionPrefix))"
proof -
  define n where "n = createVCLConfigName (om_ResourceVersion (cm_Meta cm)) (fst (k_Now e (cs_world s)))"
  obtain c D where c: "vcfg_Name c = n"
    and D: "D \<subseteq> vcfg_Name ` {d \<in> set (activate n (loaded (cs_world s) @ [c])). unused_config d}"
    and L: "loaded (cs_world s') = filter (\<lambda>c. vcfg_Name c \<notin> D) (activate n (loaded (cs_world s) @ [c]))"
    using reconcileVarnish_result [OF node_viewD(3,4) [OF assms(1)] assms(2-4) n_def] assms(5) by auto
  let ?L = "activate n (loaded (cs_world s) @ [c])"
  have "active_name (loaded (cs_world s')) = Some n"
    unfolding L by (rule active_after_cleanup [OF c D])
  then show ?thesis
    using c L unused_in_activated [OF _ subsetD [OF D]] unfolding n_def [symmetric] by (intro exI [of _ c]) auto
qed


subsection \<open>From one reconcile to the next\<close>

lemma quiet_same:
  assumes "quiet m" "m s = (r, s')"
  shows "cs_changes s' = cs_changes s" "cs_requests s' = cs_requests s"
  using writes_onlyD [OF assms] by (auto simp: list_all_iff)

lemmas quiet_steps =
  quiet_same [OF writes_reads(9)] quiet_same [OF writes_reads(10)] quiet_same [OF writes_adm(4)]

definition reported_pod :: "bool \<Rightarrow> config_map \<Rightarrow> float64 \<Rightarrow> float64 \<Rightarrow> string \<Rightarrow> pod \<Rightarrow> pod" where
  "reported_pod touched cm l r active p = p\<lparr>pod_Meta := (pod_Meta p)\<lparr>om_Annotations :=
     pod_annotations touched cm l r active (om_Annotations (pod_Meta p))\<rparr>\<rparr>"

definition pod_updates :: "pod \<Rightarrow> pod \<Rightarrow> request list" where
  "pod_updates p p' = (if om_Annotations (pod_Meta p') = om_Annotations (pod_Meta p) then [] else [Update (ObjPod p')])"

lemma reported_pod_version:
  "\<not> touched \<or> extractConfigMapVersion active = om_ResourceVersion (cm_Meta cm) \<Longrightarrow>
     pod_version (reported_pod touched cm l r active p) = om_ResourceVersion (cm_Meta cm)"
  "om_Annotations (pod_Meta (reported_pod touched cm l r active p)) annotationActiveVCLConfigName = Some active"
  by (auto simp: reported_pod_def pod_version_def pod_annotations_def version_annotations_def Let_def lookup_def
      configMapVersion_annotation_def annotationConfigMapVersion_def annotationActiveVCLConfigName_def
      annotationLocalBackendsWeight_def annotationRemoteBackendsWeight_def)

lemma c_active_loaded:
  assumes "varnishd_protocol (k_varnish e) num loaded" "active_name (loaded (cs_world s)) = Some a"
  shows "c_active e s = (Ret a, s)"
  using va.active_first [OF List_loaded [OF assms(1)] assms(2)] by (simp add: c_active_def at_world_apply)

lemma c_active_world:
  assumes "varnishd_protocol (k_varnish e) num loaded" "c_active e s = (r, s')"
  shows "s' = s"
  using GetActive_loaded [OF assms(1), of "cs_world s"] assms(2) by (simp add: c_active_def at_world_apply)

lemma reconcilePod_result:
  assumes "varnishd_protocol (k_varnish e) num loaded" "separate e files loaded" "active_name (loaded (cs_world s)) = Some a"
    and "reconcilePod e touched p cm l r s = (Ret (), s')"
  shows "cs_requests s' = cs_requests s @ pod_updates p (reported_pod touched cm l r a p) \<and> cs_changes s' = cs_changes s \<and>
    loaded (cs_world s') = loaded (cs_world s) \<and> cs_VCLCompilationError s' = cs_VCLCompilationError s"
  using assms(4) separateD(9) [OF assms(2)]
  by (auto simp: reconcilePod_def bnd_apply c_active_loaded [OF assms(1,3)] Let_def pod_updates_def reported_pod_def
      wrap_apply c_update_pod_def at_world_apply split: if_splits prod.splits outcome.splits) (metis snd_conv)+

lemma apply_files_reloads:
  assumes "node_view e num files loaded" "apply_files e vc p cm new l r s = (res, s')" "cs_changes s' \<noteq> cs_changes s"
  shows "\<exists>cur s1 touched s2 res1 s3. getCurrentFiles e VCLConfigDir s = (Ret cur, s1) \<and>
    reconcileFiles e VCLConfigDir cur new s1 = (Ret touched, s2) \<and> loaded (cs_world s2) = loaded (cs_world s) \<and>
    cs_changes s2 = cs_changes s \<and> cs_requests s2 = cs_requests s \<and>
    reconcileVarnish e vc p cm s2 = (res1, s3) \<and>
    (if res1 = Ret () then reconcilePod e touched p cm l r s3 = (res, s') else s' = s3 \<and> res = res1)"
proof -
  note kl = keeps_loaded [OF node_viewD(4) [OF assms(1)]]
  obtain rc s1 where g: "getCurrentFiles e VCLConfigDir s = (rc, s1)" by (metis prod.exhaust)
  have "\<exists>cur. rc = Ret cur"
    using assms(2,3) quiet_steps(1) [OF g] by (cases rc) (auto simp: apply_files_def bnd_apply g)
  then obtain cur where cur: "getCurrentFiles e VCLConfigDir s = (Ret cur, s1)" using g by blast
  obtain rf s2 where f: "reconcileFiles e VCLConfigDir cur new s1 = (rf, s2)" by (metis prod.exhaust)
  have "\<exists>touched. rf = Ret touched"
    using assms(2,3) quiet_steps(1) [OF cur] quiet_steps(3) [OF f] by (cases rf) (auto simp: apply_files_def bnd_apply cur f)
  then obtain touched where t: "reconcileFiles e VCLConfigDir cur new s1 = (Ret touched, s2)" using f by blast
  obtain ra s2' where a0: "c_active e s2 = (ra, s2')" by (metis prod.exhaust)
  then have a: "c_active e s2 = (ra, s2)" using c_active_world [OF node_viewD(3) [OF assms(1)] a0] by simp
  have ch: "cs_changes s2 = cs_changes s" "cs_requests s2 = cs_requests s"
    using quiet_steps(1,2) [OF cur] quiet_steps(3,4) [OF t] by simp_all
  have quiet_pod: "cs_changes (snd (reconcilePod e t p cm l r q)) = cs_changes q" for t q
    using writes_onlyD [of "\<lambda>_. True" "\<lambda>_. False" "reconcilePod e t p cm l r", OF _ prod.collapse [symmetric], of q]
    by (fastforce simp: reconcilePod_def Let_def list_all_iff intro!: writes_intros)
  obtain name where name: "ra = Ret name" "touched \<or> name = ''boot''"
    using assms(2,3) ch quiet_pod [of touched s2] by (cases ra) (auto simp: apply_files_def bnd_apply cur t a seq_apply split: if_splits)
  obtain res1 s3 where v: "reconcileVarnish e vc p cm s2 = (res1, s3)" by (metis prod.exhaust)
  have "if res1 = Ret () then reconcilePod e touched p cm l r s3 = (res, s') else s' = s3 \<and> res = res1"
    using assms(2) name by (cases res1) (auto simp: apply_files_def bnd_apply cur t a seq_apply v)
  then show ?thesis
    using cur t ch v keepsD [OF kl(1) cur] keepsD [OF kl(2) t] by auto
qed

lemma reload_leaves_files:
  assumes "node_view e num files loaded" "finite (dom new)" "\<forall>n \<in> dom new. plain_name n"
    and "apply_files e vc p cm new l r s = (res, s')" "cs_changes s' \<noteq> cs_changes s"
  shows "files (cs_world s') = synced new (files (cs_world s))"
proof -
  note nv = node_viewD [OF assms(1)]
  note kf = keeps_files [OF nv(4)]
  obtain cur s1 touched s2 res1 s3 where x: "getCurrentFiles e VCLConfigDir s = (Ret cur, s1)"
    "reconcileFiles e VCLConfigDir cur new s1 = (Ret touched, s2)" "reconcileVarnish e vc p cm s2 = (res1, s3)"
    "if res1 = Ret () then reconcilePod e touched p cm l r s3 = (res, s') else s' = s3 \<and> res = res1"
    using apply_files_reloads [OF assms(1,4,5)] by blast
  have "files (cs_world s') = files (cs_world s3)"
    using x(4) keepsD [OF kf(3), of touched p cm l r s3 res s'] by (auto split: if_splits)
  then show ?thesis
    using reconcileFiles_result(1) [OF nv(1,2) assms(2,3) x(1,2)] keepsD [OF kf(2) x(3)] by simp
qed

text \<open>
  C1: a reconcile that had varnishd load the VCL and met no failure leaves the pod up to date: the files
  in the directory are those of the config map, the active configuration was made for its version, and
  the update sent for the pod names that configuration and that version, so that the operator counts
  the pod as a latest one.
\<close>

theorem reload_takes_effect:
  assumes "node_view e num files loaded" "finite (dom new)" "\<forall>n \<in> dom new. plain_name n"
    and "sp_VCL (vc_Spec vc) = Some vcl" "vcl_EntrypointFileName vcl = Some f"
    and "apply_files e vc p cm new l r s = (Ret (), s')" "cs_changes s' \<noteq> cs_changes s" "\<not> cs_VCLCompilationError s'"
    and "CHR ''-'' \<notin> set (om_ResourceVersion (cm_Meta cm))" "\<forall>w. 0 \<le> fst (k_Now e w)"
  shows "\<exists>t touched. let n = createVCLConfigName (om_ResourceVersion (cm_Meta cm)) t; p' = reported_pod touched cm l r n p in
    files (cs_world s') = synced new (files (cs_world s)) \<and> active_name (loaded (cs_world s')) = Some n \<and>
    pod_version p' = om_ResourceVersion (cm_Meta cm) \<and>
    om_Annotations (pod_Meta p') annotationActiveVCLConfigName = Some n \<and>
    cs_requests s' = cs_requests s @ pod_updates p p'"
proof -
  note nv = node_viewD [OF assms(1)]
  obtain cur s1 touched s2 res1 s3 where x: "cs_requests s2 = cs_requests s" "reconcileVarnish e vc p cm s2 = (res1, s3)"
    "if res1 = Ret () then reconcilePod e touched p cm l r s3 = (Ret (), s') else s' = s3 \<and> Ret () = res1"
    using apply_files_reloads [OF assms(1,6,7)] by blast
  define n where "n = createVCLConfigName (om_ResourceVersion (cm_Meta cm)) (fst (k_Now e (cs_world s2)))"
  have res1: "res1 = Ret ()" and pod: "reconcilePod e touched p cm l r s3 = (Ret (), s')" using x(3) by (auto split: if_splits)
  have gauge: "cs_VCLCompilationError s' = cs_VCLCompilationError s3"
    using pod by (auto simp: reconcilePod_def bnd_apply Let_def c_active_def wrap_apply c_update_pod_def at_world_apply
        split: if_splits prod.splits outcome.splits)
  have act: "active_name (loaded (cs_world s3)) = Some n"
  proof -
    obtain c D where c: "vcfg_Name c = n"
      and D: "D \<subseteq> vcfg_Name ` {d \<in> set (activate n (loaded (cs_world s2) @ [c])). unused_config d}"
      and L: "loaded (cs_world s3) = filter (\<lambda>c. vcfg_Name c \<notin> D) (activate n (loaded (cs_world s2) @ [c]))"
      using reconcileVarnish_result [OF nv(3,4) assms(4,5) x(2) n_def] gauge assms(8) res1 by auto
    show ?thesis unfolding L by (rule active_after_cleanup [OF c D])
  qed
  have req: "cs_requests s3 = cs_requests s2"
    using reconcileVarnish_result [OF nv(3,4) assms(4,5) x(2) n_def] by blast
  have v: "extractConfigMapVersion n = om_ResourceVersion (cm_Meta cm)"
    unfolding n_def using version_read_back_lemma [OF assms(9)] assms(10) by blast
  show ?thesis
    using reconcilePod_result [OF nv(3,4) act pod] act req x(1) reload_leaves_files [OF assms(1-3,6,7)]
      reported_pod_version(1) [of touched n cm l r p] reported_pod_version(2) [of touched cm l r n p] v
    by (intro exI [of _ "fst (k_Now e (cs_world s2))"] exI [of _ touched]) (simp add: n_def [symmetric] Let_def)
qed


end
