(* ===== verification/ControllerStartup.thy ===== *)
theory ControllerStartup
  imports Startup ControllerConfig VarnishReconcile
begin

text \<open>
  How the controller starts: \<open>main\<close> of \<open>cmd/varnish-controller\<close> and \<open>SetupVarnishReconciler\<close> of
  \<open>pkg/varnishcontroller/controller/controller.go\<close>. It waits for varnishd before the manager runs. The
  requests its watches make are followed into the reconcile.
\<close>

subsection \<open>Watches\<close>

datatype controller_watch =
    ForCluster string  \<comment> \<open>clusters, filtered by UID\<close>
  | BackendPods  \<comment> \<open>pods, by the predicates a reconcile rewrites\<close>
  | VarnishPods "string list" strmap

definition controller_watches :: "controller_config \<Rightarrow> controller_watch list" where
  "controller_watches cfg =
     [ForCluster (cc_VarnishClusterUID cfg), BackendPods, VarnishPods [cc_Namespace cfg] (varnishPodsSelector cfg)]"

text \<open>The gauge of \<open>metrics.go\<close>, which starts at 0.\<close>

record gauge =
  ga_Name :: string
  ga_Help :: string
  ga_Value :: int

definition vclCompilationErrorMetricName :: string where
  "vclCompilationErrorMetricName = ''varnish_vcl_compilation_error''"

definition NewVarnishControllerMetrics :: gauge where
  "NewVarnishControllerMetrics = \<lparr>ga_Name = vclCompilationErrorMetricName,
     ga_Help = ''Indicates if the VCL compilation failed. 0 - successfully compiled, 1 - failed.'', ga_Value = 0\<rparr>"

text \<open>The predicates of the backends before the first reconcile: the own namespace, every label.\<close>

definition initial_cstate :: "controller_config \<Rightarrow> 'w \<Rightarrow> 'w cstate" where
  "initial_cstate cfg w =
     \<lparr>cs_world = w, cs_backendNamespaces = [cc_Namespace cfg], cs_backendSelector = Map.empty,
      cs_VCLCompilationError = (ga_Value NewVarnishControllerMetrics = 1), cs_requests = [], cs_events = [], cs_changes = []\<rparr>"

fun event_object :: "kube_event \<Rightarrow> kobj" where
  "event_object (CreateEvent x) = x"
| "event_object (DeleteEvent x) = x"
| "event_object (UpdateEvent old new) = new"
| "event_object (GenericEvent x) = x"

fun controller_requests :: "controller_config \<Rightarrow> 'w cstate \<Rightarrow> kube_event \<Rightarrow> controller_watch \<Rightarrow> (string \<times> string) list" where
  "controller_requests cfg s ev (ForCluster uid) =
     (if kind_of (event_object ev) = KVarnishCluster \<and> cluster_filter uid ev = Some True
      then [(om_Namespace (kobj_meta (event_object ev)), om_Name (kobj_meta (event_object ev)))] else [])"
| "controller_requests cfg s ev BackendPods =
     (if kind_of (event_object ev) = KPod \<and> backend_watch s ev then podMapFunc cfg (event_object ev) else [])"
| "controller_requests cfg s ev (VarnishPods nss selector) =
     (if kind_of (event_object ev) = KPod \<and> namespace_filter nss ev \<and> label_filter selector ev
      then podMapFunc cfg (event_object ev) else [])"

definition controller_woken :: "controller_config \<Rightarrow> 'w cstate \<Rightarrow> kube_event \<Rightarrow> (string \<times> string) list" where
  "controller_woken cfg s ev = concat (map (controller_requests cfg s ev) (controller_watches cfg))"

subsection \<open>Starting\<close>

definition controller_options :: manager_options where
  "controller_options =
     \<lparr>mo_MetricsBindAddress = bind_address VarnishControllerMetricsPort,
      mo_HealthProbeBindAddress = bind_address HealthCheckPort,
      mo_LeaderElection = False, mo_LeaderElectionID = [], mo_LeaderElectionNamespace = []\<rparr>"

definition controller_adm :: "controller_config \<Rightarrow> 'w executor \<Rightarrow> 'w varnish_adm" where
  "controller_adm cfg execute =
     NewVarnishAdministartor (cc_VarnishPingTimeout cfg) (cc_VarnishPingDelay cfg) VCLConfigDir (cc_VarnishAdmArgs cfg) execute"

text \<open>\<open>ping\<close> is what \<open>Ping\<close> returned.\<close>

definition controller_main ::
  "controller_config_libs \<Rightarrow> controller_watch boot_libs \<Rightarrow> (controller_config \<Rightarrow> unit outcome) \<Rightarrow> (controller_watch, unit) boot" where
  "controller_main h b ping =
     bnd (wrap ''could not load varnish-controller config'' (lift (LoadControllerConfig h))) (\<lambda>cfg.
     seq (start_logger b (cc_LogFormat cfg) (cc_LogLevel cfg)) (
     seq (wrap ''unable to set up standard schemes config'' (lift (b_AddStandardScheme b))) (
     seq (wrap ''unable to set up varnish operator schemes config'' (lift (AddToScheme b))) (
     seq (wrap ''could not load rest client config'' (lift (b_GetConfig b))) (
     seq (must (ask b (RegisterMetric (ga_Name NewVarnishControllerMetrics)))) (
     seq (wrap ''could not initialize manager'' (ask b (CreateManager controller_options))) (
     seq (wrap ''unable to set readiness check'' (ask b (AddReadyzCheck ''ping''))) (
     seq (wrap ''could not setup controller'' (ask b (RegisterReconciler (controller_watches cfg)))) (
     seq (wrap ''Varnish is unreachable'' (lift (ping cfg)))
       (wrap ''Failed to start manager'' (ask b StartManager)))))))))))"

definition controller_steps :: "controller_config \<Rightarrow> controller_watch boot_step list" where
  "controller_steps cfg =
     [RegisterMetric (ga_Name NewVarnishControllerMetrics), CreateManager controller_options, AddReadyzCheck ''ping'',
      RegisterReconciler (controller_watches cfg)]"

text \<open>
  C21: the controller only serves a varnishd that is there: its manager runs only when the reconciler and the
  readiness check are registered and \<open>Ping\<close> succeeded, for which one of the attempts on varnishd
  succeeded within the timeout of the configuration.
\<close>

theorem controller_waits_for_varnish:
  assumes "\<forall>cfg. LoadControllerConfig h = Ret cfg \<longrightarrow> Ping (controller_adm cfg execute) tie attempts = Some (ping cfg)"
    and "StartManager \<in> set (snd (controller_main h b ping []))"
  shows "\<exists>cfg i. LoadControllerConfig h = Ret cfg \<and> i < length attempts \<and> snd (attempts ! i) \<and>
    ends_at (cc_VarnishPingDelay cfg) attempts i \<le> cc_VarnishPingTimeout cfg \<and>
    snd (controller_main h b ping []) = controller_steps cfg @ [StartManager] \<and>
    list_all (\<lambda>st. b_answer b st = Ret ()) (controller_steps cfg)"
proof -
  obtain cfg where cfg: "LoadControllerConfig h = Ret cfg" "ping cfg = Ret ()"
    "logger_built b (cc_LogFormat cfg) (cc_LogLevel cfg)"
    "b_AddStandardScheme b = Ret ()" "AddToScheme b = Ret ()" "b_GetConfig b = Ret ()"
    and steps: "list_all (\<lambda>st. b_answer b st = Ret ()) (controller_steps cfg)"
    using assms(2) unfolding controller_main_def started_config by (auto simp: started_iff controller_steps_def)
  have "snd (controller_main h b ping []) = controller_steps cfg @ [StartManager]"
    using cfg steps by (simp add: controller_main_def config_passed lift_passed logger_passed ask_passed last_step controller_steps_def)
  moreover have "ping_loop (cc_VarnishPingTimeout cfg) (cc_VarnishPingDelay cfg) tie attempts 0 = Some True"
    using assms(1) cfg(1,2)
    by (auto simp: Ping_def controller_adm_def NewVarnishAdministartor_def split: if_splits)
  then have "\<exists>i < length attempts. snd (attempts ! i) \<and> ends_at (cc_VarnishPingDelay cfg) attempts i \<le> cc_VarnishPingTimeout cfg"
    using ping_loop_True by fastforce
  ultimately show ?thesis using cfg(1) steps by blast
qed

text \<open>
  The container the operator gives the controller fits what the controller serves: the readiness probe asks for
  \<open>/readyz\<close> at the port of the manager's health probes, where a check is registered, and the only
  port of the container, which the service monitor scrapes by name, is that of the manager's metrics.
\<close>

theorem controller_probes_answered:
  assumes "desired_statefulset e vc args = Ret d"
  shows "\<exists>probe p m. ct_ReadinessProbe (controller_of d) = Some probe \<and>
    pr_Handler probe = HTTPGetProbe (IntPort p) ''/readyz'' ''HTTP'' \<and>
    mo_HealthProbeBindAddress controller_options = bind_address p \<and>
    ct_Ports (controller_of d) = [named_port VarnishControllerMetricsPortName m] \<and>
    mo_MetricsBindAddress controller_options = bind_address m \<and>
    VarnishControllerMetricsPortName \<in> set (map fst (sms_Endpoints (sm_Spec (service_monitor_object vc spec))))"
proof -
  obtain img c where "controller_of d = controller_container img vc (e_GroupVersionKind e vc) c"
    by (rule desired_statefulset_containers [OF assms]) (simp add: controller_of_def)
  then show ?thesis
    by (intro exI [of _ "readiness (HTTPGetProbe (IntPort HealthCheckPort) ''/readyz'' ''HTTP'') 10 3"]
          exI [of _ HealthCheckPort] exI [of _ VarnishControllerMetricsPort])
      (simp add: controller_container_def readiness_def controller_options_def service_monitor_object_def
        VarnishControllerMetricsPortName_def)
qed

subsection \<open>Where the requests lead\<close>

text \<open>A reconcile reads the name of the cluster from the configuration and only the namespace from the request.\<close>

lemma reconcile_by_namespace: "fst request = fst request' \<Longrightarrow> varnish_Reconcile e request = varnish_Reconcile e request'"
  by (simp only: varnish_Reconcile_def varnish_reconcileWithContext_def)

definition foreign_deletion :: "controller_config \<Rightarrow> kube_event \<Rightarrow> bool" where
  "foreign_deletion cfg ev \<longleftrightarrow> (\<exists>vc. ev = DeleteEvent (ObjVarnishCluster vc) \<and> vc_UID vc \<noteq> cc_VarnishClusterUID cfg)"

text \<open>
  C20: whatever event wakes a controller, its reconcile is that of its own cluster, in its own namespace: a UID is
  the UID of one cluster, so every request of a watch runs the same reconcile. The one exception is
  the deletion of another cluster.
\<close>

theorem requests_reconcile_own_cluster:
  assumes "\<forall>vc. event_object ev = ObjVarnishCluster vc \<longrightarrow> vc_UID vc = cc_VarnishClusterUID (k_config e) \<longrightarrow>
      vc_Namespace vc = cc_Namespace (k_config e)"
    and "\<not> foreign_deletion (k_config e) ev" "request \<in> set (controller_woken (k_config e) s ev)"
  shows "varnish_Reconcile e request = varnish_Reconcile e (cc_Namespace (k_config e), cc_VarnishClusterName (k_config e))"
proof (rule reconcile_by_namespace)
  let ?cfg = "k_config e"
  consider "request = (cc_Namespace ?cfg, cc_PodName ?cfg)"
    | vc where "event_object ev = ObjVarnishCluster vc" "cluster_filter (cc_VarnishClusterUID ?cfg) ev = Some True"
      "request = (vc_Namespace vc, vc_Name vc)"
    using assms(3)
    by (cases "event_object ev") (auto simp: controller_woken_def controller_watches_def podMapFunc_def split: if_splits)
  then show "fst request = fst (cc_Namespace ?cfg, cc_VarnishClusterName ?cfg)"
  proof cases
    case 2
    then have "vc_UID vc = cc_VarnishClusterUID ?cfg"
      using assms(2)
      by (cases ev) (auto simp: own_cluster_def cluster_filter_Update_def foreign_deletion_def split: option.splits if_splits)
    then show ?thesis using assms(1) 2 by auto
  qed simp
qed

text \<open>
  The filter lets the deletion of any cluster through, and the request is in that cluster's namespace. When another
  cluster there has the same name as the controller's own, the controller goes on with that one: it
  watches the backends of the other cluster from then on, and misses the changes of its own.
\<close>

theorem foreign_deletion_misdirects:
  assumes "vc_Namespace gone = ns" "r_get (k_VarnishClusters e) ns (cc_VarnishClusterName (k_config e)) (cs_world s) = (Ret vc, w)"
    and "sp_Backend (vc_Spec vc) = Some backend" "sp_Service (vc_Spec vc) \<noteq> None"
    and "r_get (k_Pods e) ns (cc_PodName (k_config e)) w = (Err err, w')"
  shows "(ns, vc_Name gone) \<in> set (controller_woken (k_config e) s (DeleteEvent (ObjVarnishCluster gone))) \<and>
    cs_backendSelector (snd (varnish_Reconcile e (ns, vc_Name gone) s)) = be_Selector backend"
proof
  have "cluster_filter uid (DeleteEvent (ObjVarnishCluster gone)) = Some True" for uid by simp
  then show "(ns, vc_Name gone) \<in> set (controller_woken (k_config e) s (DeleteEvent (ObjVarnishCluster gone)))"
    using assms(1) by (simp add: controller_woken_def controller_watches_def)
  obtain vc' b' where d: "defaultVarnishCluster vc = Ret vc'" "sp_Backend (vc_Spec vc') = Some b'" "be_Selector b' = be_Selector backend"
    using assms(3,4)
    by (auto simp: defaultVarnishCluster_def defaultVarnishClusterSpec_def default_backend_def Let_def)
  have "cs_backendSelector (snd (reconcile_cluster e ns vc' (s\<lparr>cs_world := w\<rparr>))) = be_Selector backend"
    using d(2,3) assms(5)
    by (auto simp: reconcile_cluster_def bnd_apply seq_apply watch_backends_def deref_apply c_get_def at_world_apply split: option.split)
  then show "cs_backendSelector (snd (varnish_Reconcile e (ns, vc_Name gone) s)) = be_Selector backend"
    using d(1) assms(2)
    by (simp add: varnish_Reconcile_def varnish_reconcileWithContext_def attempt_apply bnd_apply c_get_def at_world_apply lift_def
        split: prod.split outcome.split) (auto simp: ret_def fail_def)
qed

end
