(* ===== verification/MemCluster.thy ===== *)
theory MemCluster
  imports OperatorReconcile
begin

text \<open>
  An instance of the operator's environment: an API server that keeps its objects in a list, with
  the client library's functions as documented. It shows that the assumptions the properties make
  of the server and of the libraries can hold, and the examples run on it.
\<close>

record mem =
  mem_objs :: "kobj list"
  mem_clock :: time

definition has_key :: "string \<Rightarrow> string \<Rightarrow> objmeta \<Rightarrow> bool" where
  "has_key ns n m \<longleftrightarrow> om_Namespace m = ns \<and> om_Name m = n"

definition is_obj :: "(kobj \<Rightarrow> 'o option) \<Rightarrow> ('o \<Rightarrow> objmeta) \<Rightarrow> string \<Rightarrow> string \<Rightarrow> kobj \<Rightarrow> bool" where
  "is_obj prj meta ns n x \<longleftrightarrow> (case prj x of None \<Rightarrow> False | Some y \<Rightarrow> has_key ns n (meta y))"

definition mem_get :: "(kobj \<Rightarrow> 'o option) \<Rightarrow> ('o \<Rightarrow> objmeta) \<Rightarrow> string \<Rightarrow> string \<Rightarrow> (mem, 'o) prog" where
  "mem_get prj meta ns n w =
     (case find (is_obj prj meta ns n) (mem_objs w) of
        Some x \<Rightarrow> (Ret (the (prj x)), w)
      | None \<Rightarrow> (Err (StatusErr NotFound), w))"

definition mem_resource :: "('o \<Rightarrow> kobj) \<Rightarrow> (kobj \<Rightarrow> 'o option) \<Rightarrow> ('o \<Rightarrow> objmeta) \<Rightarrow> (mem, 'o) resource" where
  "mem_resource mk prj meta =
     \<lparr>r_get = mem_get prj meta,
      r_list = (\<lambda>sel w. (Ret (filter (\<lambda>y. label_match sel (om_Labels (meta y))) (List.map_filter prj (mem_objs w))), w)),
      r_create = (\<lambda>x w.
        if find (is_obj prj meta (om_Namespace (meta x)) (om_Name (meta x))) (mem_objs w) = None
        then (Ret x, w\<lparr>mem_objs := mem_objs w @ [mk x]\<rparr>)
        else (Err (StatusErr (OtherReason ''AlreadyExists'')), w)),
      r_update = (\<lambda>x w.
        if find (is_obj prj meta (om_Namespace (meta x)) (om_Name (meta x))) (mem_objs w) = None
        then (Err (StatusErr NotFound), w)
        else (Ret x, w\<lparr>mem_objs := map (\<lambda>o'. if is_obj prj meta (om_Namespace (meta x)) (om_Name (meta x)) o'
                                           then mk x else o') (mem_objs w)\<rparr>)),
      r_delete = (\<lambda>x w. (Ret (), w\<lparr>mem_objs :=
        filter (\<lambda>o'. \<not> is_obj prj meta (om_Namespace (meta x)) (om_Name (meta x)) o') (mem_objs w)\<rparr>))\<rparr>"

fun prj_sa where "prj_sa (ObjServiceAccount x) = Some x" | "prj_sa _ = None"
fun prj_role where "prj_role (ObjRole x) = Some x" | "prj_role _ = None"
fun prj_cr where "prj_cr (ObjClusterRole x) = Some x" | "prj_cr _ = None"
fun prj_rb where "prj_rb (ObjRoleBinding x) = Some x" | "prj_rb _ = None"
fun prj_crb where "prj_crb (ObjClusterRoleBinding x) = Some x" | "prj_crb _ = None"
fun prj_svc where "prj_svc (ObjService x) = Some x" | "prj_svc _ = None"
fun prj_sec where "prj_sec (ObjSecret x) = Some x" | "prj_sec _ = None"
fun prj_sts where "prj_sts (ObjStatefulSet x) = Some x" | "prj_sts _ = None"
fun prj_cm where "prj_cm (ObjConfigMap x) = Some x" | "prj_cm _ = None"
fun prj_pdb where "prj_pdb (ObjPDB x) = Some x" | "prj_pdb _ = None"
fun prj_pod where "prj_pod (ObjPod x) = Some x" | "prj_pod _ = None"
fun prj_sm where "prj_sm (ObjServiceMonitor x) = Some x" | "prj_sm _ = None"
fun prj_vc where "prj_vc (ObjVarnishCluster x) = Some x" | "prj_vc _ = None"

text \<open>The controller reference: an object another owner controls is refused.\<close>

definition owner_of :: "VarnishCluster \<Rightarrow> owner_ref" where
  "owner_of vc = \<lparr>or_Kind = vc_Kind vc, or_Name = vc_Name vc, or_UID = vc_UID vc, or_Controller = True\<rparr>"

definition mem_set_controller :: "VarnishCluster \<Rightarrow> objmeta \<Rightarrow> objmeta outcome" where
  "mem_set_controller vc m =
     (if list_ex (\<lambda>r. or_Controller r \<and> or_UID r \<noteq> vc_UID vc) (om_OwnerReferences m)
      then Err (Plain ''already owned by another controller'')
      else if list_ex (\<lambda>r. or_UID r = vc_UID vc) (om_OwnerReferences m) then Ret m
      else Ret (m\<lparr>om_OwnerReferences := om_OwnerReferences m @ [owner_of vc]\<rparr>))"

definition mem_env :: "mem operator_env" where
  "mem_env =
     \<lparr>e_ServiceAccounts = mem_resource ObjServiceAccount prj_sa sa_Meta,
      e_Roles = mem_resource ObjRole prj_role role_Meta,
      e_ClusterRoles = mem_resource ObjClusterRole prj_cr role_Meta,
      e_RoleBindings = mem_resource ObjRoleBinding prj_rb rb_Meta,
      e_ClusterRoleBindings = mem_resource ObjClusterRoleBinding prj_crb rb_Meta,
      e_Services = mem_resource ObjService prj_svc svc_Meta,
      e_Secrets = mem_resource ObjSecret prj_sec sec_Meta,
      e_StatefulSets = mem_resource ObjStatefulSet prj_sts sts_Meta,
      e_ConfigMaps = mem_resource ObjConfigMap prj_cm cm_Meta,
      e_PDBs = mem_resource ObjPDB prj_pdb pdb_Meta,
      e_Pods = mem_resource ObjPod prj_pod pod_Meta,
      e_Namespaces = \<lparr>r_get = (\<lambda>ns n w. (Ret \<lparr>ns_Meta = new_meta n [] Map.empty Map.empty\<rparr>, w)),
        r_list = (\<lambda>sel w. (Ret [], w)), r_create = (\<lambda>x w. (Ret x, w)), r_update = (\<lambda>x w. (Ret x, w)),
        r_delete = (\<lambda>x w. (Ret (), w))\<rparr>,
      e_ServiceMonitors = mem_resource ObjServiceMonitor prj_sm sm_Meta,
      e_VarnishClusters = mem_resource ObjVarnishCluster prj_vc vc_Meta,
      e_StatusUpdate = (\<lambda>vc w. (Ret vc, w)),
      e_SetControllerReference = mem_set_controller,
      e_AddFinalizer = (\<lambda>fs f. if f \<in> set fs then fs else fs @ [f]),
      e_RemoveFinalizer = (\<lambda>fs f. filter (\<lambda>g. g \<noteq> f) fs),
      e_SchemeDefaultService = id,
      e_SchemeDefaultStatefulSet = id,
      e_FormatLabels = (\<lambda>l. lookup l LabelVarnishOwner),
      e_GroupVersionKind = (\<lambda>vc. (''caching.ibm.com'', ''v1alpha1'', ''VarnishCluster'')),
      e_RandRead = (\<lambda>n w. (Ret (replicate n (CHR ''r'')), w)),
      e_Now = (\<lambda>w. (mem_clock w, w)),
      e_CoupledVarnishImage = ''ibmcom/varnish:0.30.0''\<rparr>"

lemma mem_env_sel [simp]:
  "e_ServiceAccounts mem_env = mem_resource ObjServiceAccount prj_sa sa_Meta"
  "e_Roles mem_env = mem_resource ObjRole prj_role role_Meta"
  "e_ClusterRoles mem_env = mem_resource ObjClusterRole prj_cr role_Meta"
  "e_RoleBindings mem_env = mem_resource ObjRoleBinding prj_rb rb_Meta"
  "e_ClusterRoleBindings mem_env = mem_resource ObjClusterRoleBinding prj_crb rb_Meta"
  "e_Services mem_env = mem_resource ObjService prj_svc svc_Meta"
  "e_Secrets mem_env = mem_resource ObjSecret prj_sec sec_Meta"
  "e_StatefulSets mem_env = mem_resource ObjStatefulSet prj_sts sts_Meta"
  "e_ConfigMaps mem_env = mem_resource ObjConfigMap prj_cm cm_Meta"
  "e_PDBs mem_env = mem_resource ObjPDB prj_pdb pdb_Meta"
  "e_Pods mem_env = mem_resource ObjPod prj_pod pod_Meta"
  "e_ServiceMonitors mem_env = mem_resource ObjServiceMonitor prj_sm sm_Meta"
  "e_VarnishClusters mem_env = mem_resource ObjVarnishCluster prj_vc vc_Meta"
  "e_AddFinalizer mem_env fs f = (if f \<in> set fs then fs else fs @ [f])"
  "e_RemoveFinalizer mem_env fs f = filter (\<lambda>g. g \<noteq> f) fs"
  "e_SchemeDefaultService mem_env = id" "e_SchemeDefaultStatefulSet mem_env = id"
  "e_SetControllerReference mem_env = mem_set_controller"
  "e_Now mem_env w = (mem_clock w, w)"
  by (simp_all add: mem_env_def)

lemma mem_resource_sel [simp]:
  "r_get (mem_resource mk prj meta) = mem_get prj meta"
  "r_list (mem_resource mk prj meta) sel w =
     (Ret (filter (\<lambda>y. label_match sel (om_Labels (meta y))) (List.map_filter prj (mem_objs w))), w)"
  "r_create (mem_resource mk prj meta) x w =
     (if find (is_obj prj meta (om_Namespace (meta x)) (om_Name (meta x))) (mem_objs w) = None
      then (Ret x, w\<lparr>mem_objs := mem_objs w @ [mk x]\<rparr>)
      else (Err (StatusErr (OtherReason ''AlreadyExists'')), w))"
  "r_update (mem_resource mk prj meta) x w =
     (if find (is_obj prj meta (om_Namespace (meta x)) (om_Name (meta x))) (mem_objs w) = None
      then (Err (StatusErr NotFound), w)
      else (Ret x, w\<lparr>mem_objs := map (\<lambda>o'. if is_obj prj meta (om_Namespace (meta x)) (om_Name (meta x)) o'
                                         then mk x else o') (mem_objs w)\<rparr>))"
  "r_delete (mem_resource mk prj meta) x w = (Ret (), w\<lparr>mem_objs :=
      filter (\<lambda>o'. \<not> is_obj prj meta (om_Namespace (meta x)) (om_Name (meta x)) o') (mem_objs w)\<rparr>)"
  by (simp_all add: mem_resource_def)

definition start :: "kobj list \<Rightarrow> mem ostate" where
  "start objs = \<lparr>os_world = \<lparr>mem_objs = objs, mem_clock = 0\<rparr>, os_timers = NewReconcileTriggerer,
     os_requests = [], os_events = []\<rparr>"

subsection \<open>Its laws\<close>

definition faithful_obj :: "('o \<Rightarrow> kobj) \<Rightarrow> (kobj \<Rightarrow> 'o option) \<Rightarrow> bool" where
  "faithful_obj mk prj \<longleftrightarrow> (\<forall>x. prj (mk x) = Some x)"

lemma faithful_objs [simp]:
  "faithful_obj ObjServiceAccount prj_sa" "faithful_obj ObjRole prj_role" "faithful_obj ObjClusterRole prj_cr"
  "faithful_obj ObjRoleBinding prj_rb" "faithful_obj ObjClusterRoleBinding prj_crb" "faithful_obj ObjService prj_svc"
  "faithful_obj ObjSecret prj_sec" "faithful_obj ObjStatefulSet prj_sts" "faithful_obj ObjConfigMap prj_cm"
  "faithful_obj ObjPDB prj_pdb" "faithful_obj ObjPod prj_pod" "faithful_obj ObjServiceMonitor prj_sm"
  "faithful_obj ObjVarnishCluster prj_vc"
  by (simp_all add: faithful_obj_def)

lemma mem_get_Ret:
  assumes "mem_get prj meta ns n w = (Ret z, w')"
  shows "has_key ns n (meta z) \<and> w' = w"
proof -
  obtain x where f: "find (is_obj prj meta ns n) (mem_objs w) = Some x" "z = the (prj x)" "w' = w"
    using assms by (auto simp: mem_get_def split: option.splits)
  then have "is_obj prj meta ns n x" by (auto simp: find_Some_iff)
  with f show ?thesis by (auto simp: is_obj_def split: option.splits)
qed

lemma mem_gets_by_name: "gets_by_name meta (mem_resource mk prj meta)"
  by (auto simp: gets_by_name_def mem_resource_def has_key_def dest: mem_get_Ret)

lemma mem_lists_by_label: "lists_by_label meta (mem_resource mk prj meta)"
  by (auto simp: lists_by_label_def mem_resource_def)

lemma mem_get_stored:
  assumes "faithful_obj mk prj" "find (is_obj prj meta ns n) xs = None" "has_key ns n (meta x)"
  shows "mem_get prj meta ns n (w\<lparr>mem_objs := xs @ [mk x]\<rparr>) = (Ret x, w\<lparr>mem_objs := xs @ [mk x]\<rparr>)"
proof -
  have "find (is_obj prj meta ns n) (xs @ [mk x]) = Some (mk x)"
    using assms by (induction xs) (auto simp: is_obj_def faithful_obj_def split: if_splits)
  then show ?thesis using assms(1) by (simp add: mem_get_def faithful_obj_def)
qed

lemma mem_get_replaced:
  assumes "faithful_obj mk prj" "find (is_obj prj meta ns n) xs \<noteq> None" "has_key ns n (meta x)"
  shows "fst (mem_get prj meta ns n
     (w\<lparr>mem_objs := map (\<lambda>o'. if is_obj prj meta ns n o' then mk x else o') xs\<rparr>)) = Ret x"
proof -
  have "find (is_obj prj meta ns n) (map (\<lambda>o'. if is_obj prj meta ns n o' then mk x else o') xs) = Some (mk x)"
    using assms by (induction xs) (auto simp: is_obj_def faithful_obj_def split: if_splits)
  then show ?thesis using assms(1) by (simp add: mem_get_def faithful_obj_def)
qed

lemma mem_reads_back:
  assumes "faithful_obj mk prj"
  shows "reads_back meta equal (mem_resource mk prj meta) d"
proof -
  let ?ns = "om_Namespace (meta d)" and ?n = "om_Name (meta d)"
  have store: "fst (mem_get prj meta ?ns ?n w') = Ret x"
    if "om_Name (meta x) = ?n" "om_Namespace (meta x) = ?ns"
      "r_create (mem_resource mk prj meta) x w = (Ret y, w') \<or> r_update (mem_resource mk prj meta) x w = (Ret y, w')"
    for x y w w'
    using that mem_get_stored [OF assms, of meta ?ns ?n "mem_objs w" x w]
      mem_get_replaced [OF assms, of meta ?ns ?n "mem_objs w" x w]
    by (auto simp: mem_resource_def has_key_def split: if_splits)
  show ?thesis
    unfolding reads_back_def
  proof (intro conjI allI impI)
    fix x y w w'
    assume "om_Name (meta x) = ?n" "om_Namespace (meta x) = ?ns"
      "r_create (mem_resource mk prj meta) x w = (Ret y, w') \<or> r_update (mem_resource mk prj meta) x w = (Ret y, w')"
    from store [OF this] show "\<exists>z. fst (r_get (mem_resource mk prj meta) ?ns ?n w') = Ret z \<and> equal z d = equal x d"
      by (simp add: mem_resource_def)
  next
    fix z w w'
    assume g: "r_get (mem_resource mk prj meta) ?ns ?n w = (Ret z, w')"
    then have g': "mem_get prj meta ?ns ?n w = (Ret z, w')" by (simp add: mem_resource_def)
    show "om_Name (meta z) = ?n" "om_Namespace (meta z) = ?ns"
      "fst (r_get (mem_resource mk prj meta) ?ns ?n w') = Ret z"
      using mem_get_Ret [OF g'] g by (auto simp: has_key_def)
  qed
qed

lemma mem_env_lawful: "lawful_env mem_env"
  unfolding lawful_env_def
proof (intro conjI)
  show "sets_only_owner mem_env"
    by (auto simp: sets_only_owner_def mem_env_def mem_set_controller_def split: if_splits)
  show "updates_keep_cluster mem_env"
    by (auto simp: updates_keep_cluster_def mem_env_def mem_resource_def split: if_splits)
qed (simp_all add: mem_env_def keeps_meta_def mem_gets_by_name mem_lists_by_label)

end
