(* ===== verification/PanicFree.thy ===== *)
theory PanicFree
  imports Permissions Webhook
begin

text \<open>
  The operator dereferences the pointers of a \<open>VarnishCluster\<close> without testing them. The API server
  checks an object against the schema, and the defaulting fills in what is optional; what both leave
  behind is a cluster every pointer of which the reconcile follows is set. This theory states that
  well-formedness (\<open>reconcilable\<close>) and shows that no reconcile panics on it.
\<close>

named_theorems calm_intros \<open>how a program does not panic, by its structure\<close>

definition calm :: "('s, 'a) prog \<Rightarrow> bool" where
  "calm m \<longleftrightarrow> (\<forall>s p. fst (m s) \<noteq> Panic p)"

lemma calmD: "calm m \<Longrightarrow> fst (m s) \<noteq> Panic p"
  by (simp add: calm_def)

lemma calm_pure [calm_intros]:
  "calm (ret a)" "calm (fail e)" "calm (now env)" "calm (with_timers f)" "calm (read_timers g)" "calm (event_warning rs msg)"
  by (simp_all add: calm_def now_def with_timers_def read_timers_def event_warning_def split: prod.split)

lemma calm_lift [calm_intros]: "(\<And>p. r \<noteq> Panic p) \<Longrightarrow> calm (lift r)"
  by (simp add: calm_def)

lemma calm_deref [calm_intros]: "x \<noteq> None \<Longrightarrow> calm (deref x)"
  by (auto simp: calm_def deref_apply)

lemma calm_in_world: "calm m \<Longrightarrow> calm (in_world m)"
  by (simp add: calm_def in_world_def split: prod.split) (metis fst_conv)

lemma calm_attempt [calm_intros]:
  assumes "calm m" "\<And>e. calm (f (Inl e))" "\<And>a s s'. m s = (Ret a, s') \<Longrightarrow> calm (f (Inr a))"
  shows "calm (attempt m f)"
  unfolding calm_def
proof (intro allI notI)
  fix s p assume x: "fst (attempt m f s) = Panic p"
  obtain r s' where ms: "m s = (r, s')" by (cases "m s")
  show False
  proof (cases r)
    case (Ret a)
    then show False using x ms assms(3) [of s a s'] by (simp add: attempt_apply calm_def)
  next
    case (Err e)
    then show False using x ms assms(2) [of e] by (simp add: attempt_apply calm_def)
  next
    case (Panic q)
    then show False using calmD [OF assms(1), of s q] ms by simp
  qed
qed

lemma calm_bnd [calm_intros]:
  "calm m \<Longrightarrow> (\<And>a s s'. m s = (Ret a, s') \<Longrightarrow> calm (f a)) \<Longrightarrow> calm (bnd m f)"
  unfolding bnd_attempt by (rule calm_attempt) (auto intro: calm_pure)

lemma calm_seq [calm_intros]: "calm m \<Longrightarrow> calm k \<Longrightarrow> calm (seq m k)"
  unfolding seq_def by (rule calm_bnd)

lemma calm_wrap [calm_intros]: "calm m \<Longrightarrow> calm (wrap msg m)"
  unfolding wrap_def by (rule calm_attempt) (auto intro: calm_pure)

lemma calm_for_each [calm_intros]: "(\<And>x. x \<in> set xs \<Longrightarrow> calm (f x)) \<Longrightarrow> calm (for_each xs f)"
  by (induction xs) (auto intro: calm_intros)

lemma calm_cases [calm_intros]:
  "(b \<Longrightarrow> calm m) \<Longrightarrow> (\<not> b \<Longrightarrow> calm k) \<Longrightarrow> calm (if b then m else k)"
  "(z = None \<Longrightarrow> calm m) \<Longrightarrow> (\<And>a. z = Some a \<Longrightarrow> calm (f a)) \<Longrightarrow> calm (case z of None \<Rightarrow> m | Some a \<Rightarrow> f a)"
  "(\<And>a b. y = (a, b) \<Longrightarrow> calm (g a b)) \<Longrightarrow> calm (case y of (a, b) \<Rightarrow> g a b)"
  "(\<And>a. x = Inl a \<Longrightarrow> calm (h a)) \<Longrightarrow> (\<And>b. x = Inr b \<Longrightarrow> calm (h' b)) \<Longrightarrow> calm (case x of Inl a \<Rightarrow> h a | Inr b \<Rightarrow> h' b)"
  by (auto split: option.split prod.split sum.split)

subsection \<open>The environment\<close>

definition calm_resource :: "('w, 'o) resource \<Rightarrow> bool" where
  "calm_resource r \<longleftrightarrow> (\<forall>ns n. calm (r_get r ns n)) \<and> (\<forall>sel. calm (r_list r sel)) \<and> (\<forall>x. calm (r_create r x)) \<and>
     (\<forall>x. calm (r_update r x)) \<and> (\<forall>x. calm (r_delete r x))"

definition calm_env :: "'w operator_env \<Rightarrow> bool" where
  "calm_env e \<longleftrightarrow>
     calm_resource (e_ServiceAccounts e) \<and> calm_resource (e_Roles e) \<and> calm_resource (e_ClusterRoles e) \<and>
     calm_resource (e_RoleBindings e) \<and> calm_resource (e_ClusterRoleBindings e) \<and> calm_resource (e_Services e) \<and>
     calm_resource (e_Secrets e) \<and> calm_resource (e_StatefulSets e) \<and> calm_resource (e_ConfigMaps e) \<and>
     calm_resource (e_PDBs e) \<and> calm_resource (e_Pods e) \<and> calm_resource (e_Namespaces e) \<and>
     calm_resource (e_ServiceMonitors e) \<and> calm_resource (e_VarnishClusters e) \<and>
     (\<forall>vc. calm (e_StatusUpdate e vc)) \<and> (\<forall>vc m p. e_SetControllerReference e vc m \<noteq> Panic p) \<and>
     (\<forall>n. calm (e_RandRead e n))"

lemma calm_log [simp]: "calm m \<Longrightarrow> calm (log_request q m)"
  by (simp add: calm_def log_request_def)

lemma calm_api:
  assumes "calm_resource res"
  shows "calm (api_get res ns n)" "calm (api_list res sel)" "calm (api_create mk res x)" "calm (api_update mk res x)"
    "calm (api_delete mk res x)"
  using assms by (simp_all add: calm_resource_def api_defs calm_in_world)

text \<open>Every call of the environment, for \<open>intro\<close>.\<close>

lemma calm_env_steps:
  assumes "calm_env e"
  shows "calm_resource (e_ServiceAccounts e)" "calm_resource (e_Roles e)" "calm_resource (e_ClusterRoles e)"
    "calm_resource (e_RoleBindings e)" "calm_resource (e_ClusterRoleBindings e)" "calm_resource (e_Services e)"
    "calm_resource (e_Secrets e)" "calm_resource (e_StatefulSets e)" "calm_resource (e_ConfigMaps e)"
    "calm_resource (e_PDBs e)" "calm_resource (e_Pods e)" "calm_resource (e_Namespaces e)"
    "calm_resource (e_ServiceMonitors e)" "calm_resource (e_VarnishClusters e)"
    "calm (api_update_status e vc)" "calm (lift (e_SetControllerReference e vc m))" "calm (in_world (e_RandRead e n))"
    "calm (set_controller e msg vc m)"
  using assms
  by (simp_all add: calm_env_def api_update_status_def calm_in_world set_controller_def calm_lift calm_wrap)

subsection \<open>Well-formed clusters\<close>

text \<open>The fields the CRD's schema makes mandatory; \<open>schema_required\<close> of \<open>Webhook\<close> has those of the specification proper.\<close>

definition schema_valid :: "VarnishCluster \<Rightarrow> bool" where
  "schema_valid vc \<longleftrightarrow> schema_required (vc_Spec vc) \<and>
     (\<forall>m g. sp_Monitoring (vc_Spec vc) = Some m \<longrightarrow> mon_GrafanaDashboard m = Some g \<longrightarrow> gd_DatasourceName g \<noteq> None)"

text \<open>The pointers a reconcile follows.\<close>

definition reconcilable :: "VarnishCluster \<Rightarrow> bool" where
  "reconcilable vc \<longleftrightarrow>
     (\<exists>v. sp_Varnish (vc_Spec vc) = Some v \<and> vv_Controller v \<noteq> None \<and> vv_MetricsExporter v \<noteq> None \<and> vv_Resources v \<noteq> None) \<and>
     (\<exists>u. sp_UpdateStrategy (vc_Spec vc) = Some u \<and>
        (us_Type u = DelayedRollingUpdateStrategy \<longrightarrow> us_DelayedRollingUpdate u \<noteq> None)) \<and>
     (\<exists>f. sp_VCL (vc_Spec vc) = Some f \<and> vcl_ConfigMapName f \<noteq> None \<and> vcl_EntrypointFileName f \<noteq> None) \<and>
     (\<exists>b. sp_Backend (vc_Spec vc) = Some b \<and> be_Port b \<noteq> None) \<and>
     (\<exists>s. sp_Service (vc_Spec vc) = Some s \<and> sv_Port s \<noteq> None \<and> sv_MetricsPort s \<noteq> None) \<and>
     (\<exists>m. sp_Monitoring (vc_Spec vc) = Some m \<and> mon_PrometheusServiceMonitor m \<noteq> None \<and>
        (\<forall>g. mon_GrafanaDashboard m = Some g \<longrightarrow> gd_DatasourceName g \<noteq> None))"

lemma reconcilable_spec: "vc_Spec a = vc_Spec b \<Longrightarrow> reconcilable a = reconcilable b"
  by (simp add: reconcilable_def)

lemma defaulted_reconcilable:
  assumes "schema_valid vc"
  obtains vc' where "defaultVarnishCluster vc = Ret vc'" "reconcilable vc'"
proof -
  have "sp_Service (vc_Spec vc) \<noteq> None" "sp_Backend (vc_Spec vc) \<noteq> None"
    using assms by (auto simp: schema_valid_def schema_required_def)
  then obtain vc' where vc': "defaultVarnishCluster vc = Ret vc'"
    by (auto simp: defaultVarnishCluster_def defaultVarnishClusterSpec_def)
  moreover have "reconcilable vc'"
    using assms vc'
    by (cases "sp_UpdateStrategy (vc_Spec vc)"; cases "sp_Monitoring (vc_Spec vc)")
      (auto simp: defaultVarnishCluster_Ret schema_valid_def schema_required_def reconcilable_def defaultVarnish_def
        default_monitoring_def default_service_def default_backend_def default_update_strategy_def Let_def
        OnDeleteStrategy_def DelayedRollingUpdateStrategy_def)
  ultimately show ?thesis using that by blast
qed

subsection \<open>The components\<close>

lemma pure_parts_no_panic:
  assumes "reconcilable vc"
  shows "desired_nocache_service vc \<noteq> Panic p" "desired_service vc \<noteq> Panic p" "namesForInstanceSecret vc \<noteq> Panic p"
    "getSanitizedVarnishArgs (vc_Spec vc) \<noteq> Panic p" "desired_statefulset e vc args \<noteq> Panic p"
    "service_monitor_elsewhere vc \<noteq> Panic p" "dashboard_elsewhere vc \<noteq> Panic p" "wanted_finalizers e vc \<noteq> Panic p"
    "prometheus_spec vc \<noteq> Panic p"
  using assms
  by (auto simp: reconcilable_def desired_nocache_service_def desired_service_def namesForInstanceSecret_def
      getSanitizedVarnishArgs_def desired_statefulset_def pod_containers_def service_monitor_elsewhere_def
      dashboard_elsewhere_def wanted_finalizers_def prometheus_spec_def Let_def)

lemma scan_pods_no_panic:
  "\<forall>q \<in> set pods. pod_StartTime q \<noteq> None \<Longrightarrow> newest = None \<or> pod_StartTime (the newest) \<noteq> None \<Longrightarrow>
   scan_pods rv pods (newest, c) \<noteq> Panic p"
proof (induction pods arbitrary: newest c)
  case (Cons q qs)
  then show ?case by (cases newest) (auto simp: obind_eq_Panic scan_pods.simps split: if_splits)
qed simp

lemma upsert_calm [calm_intros]: "calm_resource res \<Longrightarrow> calm (upsert_object mk meta res equal merge msgs d)"
  unfolding upsert_object_def by (intro calm_intros calm_api)

lemma create_or_update_calm [calm_intros]:
  "calm_resource res \<Longrightarrow> calm (create_or_update mk meta res equal merge msgs d)"
  unfolding create_or_update_def by (intro calm_intros)

lemma rbac_calm:
  assumes "calm_env e"
  shows "calm (reconcileServiceAccount e vc)" "calm (reconcileRole e vc)" "calm (reconcileRoleBinding e vc)"
    "calm (reconcileClusterRole e vc)" "calm (reconcileClusterRoleBinding e vc)"
  unfolding rbac_steps Let_def by (intro calm_intros calm_env_steps [OF assms])+

lemma service_calm:
  assumes "calm_env e" "reconcilable vc"
  shows "calm (reconcileServiceNoCache e vc)" "calm (reconcileService e vc st)" "calm (reconcileHeadlessService e vc)"
  unfolding service_steps Let_def
  by (intro calm_intros calm_env_steps [OF assms(1)] pure_parts_no_panic [OF assms(2)])+

lemma secret_calm:
  assumes "calm_env e" "reconcilable vc"
  shows "calm (reconcileVarnishSecret e vc)"
  unfolding secret_steps
  by (intro calm_intros calm_api calm_env_steps [OF assms(1)] pure_parts_no_panic [OF assms(2)])

lemma vcl_fields: "reconcilable vc \<Longrightarrow> sp_VCL (vc_Spec vc) = Some v \<Longrightarrow> vcl_ConfigMapName v \<noteq> None \<and> vcl_EntrypointFileName v \<noteq> None"
  by (auto simp: reconcilable_def)

lemma workload_calm:
  assumes "calm_env e" "reconcilable vc"
  shows "calm (reconcileStatefulSet e vc st)" "calm (reconcileConfigMap e sel vc st)"
    "calm (reconcilePodDisruptionBudget e vc sel)"
proof -
  show "calm (reconcileStatefulSet e vc st)" "calm (reconcilePodDisruptionBudget e vc sel)"
    unfolding workload_steps Let_def
    by (intro calm_intros calm_api calm_env_steps [OF assms(1)] pure_parts_no_panic [OF assms(2)])+
  obtain v where v: "sp_VCL (vc_Spec vc) = Some v" "vcl_ConfigMapName v \<noteq> None" "vcl_EntrypointFileName v \<noteq> None"
    using assms(2) by (auto simp: reconcilable_def)
  show "calm (reconcileConfigMap e sel vc st)"
    unfolding workload_steps Let_def v(1)
    by (intro calm_intros calm_api calm_env_steps [OF assms(1)]) (use v in \<open>auto simp: deref_apply\<close>)
qed

lemma monitoring_calm:
  assumes "calm_env e" "reconcilable vc"
  shows "calm (reconcileServiceMonitor e vc)" "calm (reconcileGrafanaDashboard e vc)"
proof -
  show "calm (reconcileServiceMonitor e vc)"
    unfolding monitoring_steps Let_def
    by (intro calm_intros calm_api calm_env_steps [OF assms(1)] pure_parts_no_panic [OF assms(2)])
  obtain m where m: "sp_Monitoring (vc_Spec vc) = Some m" "\<forall>g. mon_GrafanaDashboard m = Some g \<longrightarrow> gd_DatasourceName g \<noteq> None"
    using assms(2) by (auto simp: reconcilable_def)
  have d: "generateGrafanaDashboardData vc (dashboard_title vc g) \<noteq> Panic p" if "mon_GrafanaDashboard m = Some g" for g p
    using that m(2) assms(1)
    by (auto simp: generateGrafanaDashboardData_def dashboard_title_def template_execute_def obind_eq_Panic split: option.splits)
  show "calm (reconcileGrafanaDashboard e vc)"
    unfolding monitoring_steps Let_def m(1)
    by (intro calm_intros calm_api calm_env_steps [OF assms(1)] d) (use m in \<open>auto simp: deref_apply\<close>)
qed

text \<open>
  A pod that runs has its start time set by the kubelet. The rolling update reads it of the pods of
  the update revision.
\<close>

definition pods_started :: "'w operator_env \<Rightarrow> bool" where
  "pods_started e \<longleftrightarrow> (\<forall>sel w ps w'. r_list (e_Pods e) sel w = (Ret ps, w') \<longrightarrow> (\<forall>p \<in> set ps. pod_StartTime p \<noteq> None))"

lemma scan_pods_newest_listed:
  "scan_pods rv ps (n0, c0) = Ret (Some n, c) \<Longrightarrow> n0 = Some n \<or> n \<in> set ps"
  by (induction ps arbitrary: n0 c0) (fastforce split: if_splits option.splits)+

lemma rolling_calm:
  assumes "calm_env e" "reconcilable vc" "pods_started e"
  shows "calm (reconcileDelayedRollingUpdate e vc sts)"
proof -
  obtain u where u: "sp_UpdateStrategy (vc_Spec vc) = Some u"
    "us_Type u = DelayedRollingUpdateStrategy \<Longrightarrow> us_DelayedRollingUpdate u \<noteq> None"
    using assms(2) by (auto simp: reconcilable_def)
  have st: "\<forall>p \<in> set ps. pod_StartTime p \<noteq> None" if l: "api_list (e_Pods e) sel s = (Ret ps, s')" for ps sel s s'
  proof -
    obtain w' where "r_list (e_Pods e) sel (os_world s) = (Ret ps, w')"
      using l by (cases "r_list (e_Pods e) sel (os_world s)") (auto simp: api_list_def in_world_def)
    then show ?thesis using assms(3) unfolding pods_started_def by blast
  qed
  have upd: "calm (update_pod e vc d p)" for d p
    unfolding update_pod_def trigger_after_def by (intro calm_intros calm_api calm_env_steps [OF assms(1)])
  have due: "calm (update_when_due e vc d n c)" if "pod_StartTime n \<noteq> None" for d n c
    unfolding update_when_due_def trigger_after_def Let_def by (intro calm_intros upd that)
  show ?thesis
    unfolding reconcileDelayedRollingUpdate_def Let_def u(1) deref_Some
    by (intro calm_intros calm_api calm_env_steps [OF assms(1)] scan_pods_no_panic upd due)
      (use u(2) in \<open>auto dest: st scan_pods_newest_listed\<close>)
qed

text \<open>An accepted update of the finalizers leaves the specification as it is.\<close>

lemma same_cluster_reconcilable: "same_cluster a b \<Longrightarrow> reconcilable a = reconcilable b"
  by (rule reconcilable_spec) (simp add: same_cluster_def)

lemma delete_if_found_calm [calm_intros]: "calm_resource res \<Longrightarrow> calm (delete_if_found mk res msg ns n)"
  unfolding delete_if_found_def by (intro calm_intros calm_api)

lemma cleanup_calm:
  assumes "calm_env e"
  shows "calm (deleteCR e n)" "calm (deleteCRB e n)" "calm (deleteServiceMonitor e ns n)"
    "calm (deleteGrafanaDashboard e ns n)" "calm (removeFinalizer e f vc)"
    "reconcilable vc \<Longrightarrow> calm (reconcileFinalizers e vc)"
  unfolding deleteCR_def deleteCRB_def deleteServiceMonitor_def deleteGrafanaDashboard_def removeFinalizer_def
    reconcileFinalizers_def
  by (intro calm_intros calm_api calm_env_steps [OF assms] pure_parts_no_panic; assumption?)+

lemma finalizerCleanUp_calm:
  assumes "calm_env e" "reconcilable vc" "updates_keep_cluster e"
  shows "calm (finalizerCleanUp e vc)"
proof -
  have r: "reconcilable y" if "removeFinalizer e f x s = (Ret y, s')" "reconcilable x" for f x y s s'
    using removeFinalizer_same [OF assms(3) that(1)] same_cluster_reconcilable that(2) by blast
  show ?thesis
    unfolding finalizerCleanUp_def
    by (intro calm_intros cleanup_calm [OF assms(1)] pure_parts_no_panic) (use assms(2) in \<open>auto dest: r\<close>)
qed

subsection \<open>The reconcile\<close>

lemma reconcile_components_calm:
  assumes "calm_env e" "reconcilable vc" "pods_started e"
  shows "calm (reconcile_components e vc)"
  unfolding reconcile_components_def update_status_def
  by (intro calm_intros rbac_calm service_calm secret_calm workload_calm monitoring_calm rolling_calm
      calm_env_steps [OF assms(1)] assms)

lemma reconcile_instance_calm:
  assumes "calm_env e" "reconcilable vc" "pods_started e" "updates_keep_cluster e"
  shows "calm (reconcile_instance e vc)"
proof -
  have "reconcilable vc'" if "reconcileFinalizers e vc s = (Ret vc', s')" for vc' s s'
  proof -
    have "vc_Spec vc' = vc_Spec vc"
      using that updates_same [OF assms(4)]
      by (auto simp: reconcileFinalizers_def prog_Ret_iff api_update_apply same_cluster_def split: if_splits prod.splits)
    then show ?thesis using reconcilable_spec assms(2) by blast
  qed
  then show ?thesis
    unfolding reconcile_instance_def
    by (intro calm_intros finalizerCleanUp_calm cleanup_calm reconcile_components_calm assms)
qed

text \<open>
  C5: the operator never panics on an object the API server admits: when every \<open>VarnishCluster\<close> it is given satisfies
  the schema, and the pods it lists have been started, a reconcile ends in a result or an error whatever
  else the server answers. The defaulting makes such a cluster well-formed, and the well-formedness is kept until
  the last component has run.
\<close>

theorem reconcile_never_panics:
  assumes "calm_env e" "updates_keep_cluster e" "pods_started e"
    and "\<forall>ns n w vc w'. r_get (e_VarnishClusters e) ns n w = (Ret vc, w') \<longrightarrow> schema_valid vc"
  shows "fst (Reconcile e request s) \<noteq> Panic p"
proof -
  have valid: "schema_valid vc" if g: "api_get (e_VarnishClusters e) ns n s = (Ret vc, s')" for ns n vc s s'
  proof -
    obtain w' where "r_get (e_VarnishClusters e) ns n (os_world s) = (Ret vc, w')"
      using g by (cases "r_get (e_VarnishClusters e) ns n (os_world s)") (auto simp: api_get_def in_world_def)
    then show ?thesis using assms(4) by blast
  qed
  have defaulted: "defaultVarnishCluster vc \<noteq> Panic q" "\<And>x. defaultVarnishCluster vc = Ret x \<Longrightarrow> reconcilable (set_type_meta x)"
    if v: "schema_valid vc" for vc q
  proof -
    obtain x where x: "defaultVarnishCluster vc = Ret x" "reconcilable x" using defaulted_reconcilable [OF v] .
    show "defaultVarnishCluster vc \<noteq> Panic q" using x(1) by simp
    fix y assume "defaultVarnishCluster vc = Ret y"
    then show "reconcilable (set_type_meta y)" using x reconcilable_spec [of "set_type_meta y" y] by (simp add: set_type_meta_def)
  qed
  have "calm (Reconcile e request)"
    unfolding Reconcile_def reconcileWithContext_def
    by (intro calm_intros calm_api calm_env_steps [OF assms(1)] cleanup_calm [OF assms(1)] reconcile_instance_calm assms)
      (auto dest!: valid dest: defaulted)
  then show ?thesis by (rule calmD)
qed

text \<open>
  A pod of the update revision without a start time, which is what a pod that waits for a node is, does
  panic the rolling update. The status of the stateful set is read
  before the pods are listed, so it does not exclude that.
\<close>

theorem unstarted_pod_panics:
  assumes "pod_revision p = rv" "pod_revision q = rv" "pod_StartTime q = None"
  shows "scan_pods rv [p, q] (None, None) = Panic NilDeref"
  using assms by (cases "pod_StartTime p") (simp_all add: scan_pods.simps)

end
