(* ===== verification/Examples.thy ===== *)
theory Examples
  imports MemCluster PanicFree
begin

text \<open>
  A cluster and its environment, and the properties of the operator applied to them: each example
  discharges the assumptions of the property it is named after on concrete objects.
\<close>

definition ex_varnish :: VarnishClusterVarnish where
  "ex_varnish = zero_varnish\<lparr>vv_ImagePullPolicy := ''Always'', vv_Resources := Some emptyResources,
     vv_Args := [''-s'', ''malloc''],
     vv_Controller := Some (zero_controller\<lparr>ctl_ImagePullPolicy := ''Always''\<rparr>),
     vv_MetricsExporter := Some (zero_exporter\<lparr>me_ImagePullPolicy := ''Always''\<rparr>)\<rparr>"

definition ex_strategy :: VarnishClusterUpdateStrategy where
  "ex_strategy = \<lparr>us_Type = DelayedRollingUpdateStrategy, us_RollingUpdate = None,
     us_DelayedRollingUpdate = Some \<lparr>dru_DelaySeconds = 60\<rparr>\<rparr>"

definition ex_service :: VarnishClusterService where
  "ex_service = \<lparr>sv_Port = Some 80, sv_NodePort = 0, sv_MetricsPort = Some 9131, sv_MetricsNodePort = 0,
     sv_ControllerMetricsNodePort = 0, sv_Type = ''NodePort'', sv_Annotations = Map.empty\<rparr>"

definition ex_backend :: VarnishClusterBackend where
  "ex_backend = \<lparr>be_Selector = [''app'' \<mapsto> ''web''], be_Port = Some (IntPort 8080), be_Namespaces = [],
     be_OnlyReady = False, be_ZoneBalancing = Some \<lparr>zb_Type = ZoneBalancingDisabled, zb_Thresholds = []\<rparr>\<rparr>"

definition ex_prometheus :: PrometheusServiceMonitorSpec where
  "ex_prometheus = \<lparr>psm_Enabled = True, psm_Namespace = [], psm_Labels = [LabelVarnishUID \<mapsto> ''mine''],
     psm_ScrapeInterval = ''30s''\<rparr>"

definition ex_pdb_spec :: PodDisruptionBudgetSpec where
  "ex_pdb_spec = \<lparr>pdbs_Selector = None, pdbs_Rest = Opaque ''minAvailable: 1''\<rparr>"

definition ex_spec :: VarnishClusterSpec where
  "ex_spec = \<lparr>sp_Replicas = Some 2, sp_UpdateStrategy = Some ex_strategy, sp_Varnish = Some ex_varnish,
     sp_VCL = Some \<lparr>vcl_ConfigMapName = Some ''vcl-files'', vcl_EntrypointFileName = Some ''entrypoint.vcl''\<rparr>,
     sp_Backend = Some ex_backend, sp_Service = Some ex_service, sp_PodDisruptionBudget = Some ex_pdb_spec,
     sp_NodeSelector = Map.empty, sp_Affinity = None, sp_Tolerations = [],
     sp_Monitoring = Some \<lparr>mon_PrometheusServiceMonitor = Some ex_prometheus, mon_GrafanaDashboard = None\<rparr>,
     sp_LogLevel = ''info'', sp_LogFormat = ''json'', sp_PriorityClassName = []\<rparr>"

definition ex_vc :: VarnishCluster where
  "ex_vc = \<lparr>vc_APIVersion = ''caching.ibm.com/v1alpha1'', vc_Kind = ''VarnishCluster'',
     vc_Meta = (new_meta ''cache'' ''prod'' Map.empty Map.empty)\<lparr>om_UID := ''uid-1''\<rparr>,
     vc_Spec = ex_spec,
     vc_Status = \<lparr>st_VCL = \<lparr>vst_Version = None, vst_ConfigMapVersion = ''1'', vst_Availability = []\<rparr>,
       st_VarnishArgs = [], st_Replicas = 0, st_VarnishPodsSelector = []\<rparr>\<rparr>"

lemma ex_vc_simps [simp]:
  "vc_Meta ex_vc = (new_meta ''cache'' ''prod'' Map.empty Map.empty)\<lparr>om_UID := ''uid-1''\<rparr>"
  "vc_Spec ex_vc = ex_spec"
  by (simp_all add: ex_vc_def)

lemma ex_spec_simps [simp]:
  "sp_UpdateStrategy ex_spec = Some ex_strategy" "sp_Varnish ex_spec = Some ex_varnish"
  "sp_Backend ex_spec = Some ex_backend" "sp_Service ex_spec = Some ex_service"
  "sp_PodDisruptionBudget ex_spec = Some ex_pdb_spec"
  "sp_VCL ex_spec = Some \<lparr>vcl_ConfigMapName = Some ''vcl-files'', vcl_EntrypointFileName = Some ''entrypoint.vcl''\<rparr>"
  "sp_Monitoring ex_spec = Some \<lparr>mon_PrometheusServiceMonitor = Some ex_prometheus, mon_GrafanaDashboard = None\<rparr>"
  by (simp_all add: ex_spec_def)

definition owned :: "objmeta \<Rightarrow> objmeta" where
  "owned m = m\<lparr>om_OwnerReferences := [owner_of ex_vc]\<rparr>"

lemma mem_controller [simp]: "om_OwnerReferences m = [] \<Longrightarrow> mem_set_controller ex_vc m = Ret (owned m)"
  by (simp add: mem_set_controller_def owned_def)

lemma owned_simps [simp]:
  "om_Name (owned m) = om_Name m" "om_Namespace (owned m) = om_Namespace m" "om_Labels (owned m) = om_Labels m"
  "om_Annotations (owned m) = om_Annotations m"
  by (simp_all add: owned_def)

lemmas run_simps = set_controller_def bnd_apply wrap_apply create_or_update_def upsert_object_def seq_apply
  attempt_apply api_apply mem_get_def

lemma start_simps [simp]:
  "os_requests (start objs) = []" "os_events (start objs) = []" "os_timers (start objs) = NewReconcileTriggerer"
  "mem_objs (os_world (start objs)) = objs"
  by (simp_all add: start_def)

subsection \<open>Names, defaults, webhook\<close>

lemma component_selector_exact_witness:
  "VarnishComponentRole = VarnishComponentRole \<and> vc_Name ex_vc = ''cache''"
  using component_selector_exact [of ex_vc VarnishComponentRole ex_vc VarnishComponentRole]
  by (simp add: label_match_def)


lemma webhook_args_language_witness:
  "\<exists>segs. [''-s'', ''malloc''] = concat segs \<and> (\<forall>seg \<in> set segs. arg_segment seg)"
  using webhook_args_language [of "[]" "[''-s'', ''malloc'']"]
  by (simp add: word_char_def disallowedVarnishArgs_def)

lemma webhook_no_panic_witness: "validateCreateUpdate [] ex_vc \<noteq> Panic NilDeref"
  using webhook_no_panic [of ex_vc "[]" NilDeref]
  by (simp add: schema_required_def ex_service_def ex_backend_def)

lemma sanitized_args_order_irrelevant_witness:
  "sanitized_segments [''-s'', ''malloc'', ''-p'', ''x''] = sanitized_segments [''-p'', ''x'', ''-s'', ''malloc'']"
  using sanitized_args_order_irrelevant [of "[''-s'', ''malloc'', ''-p'', ''x'']" "[''-p'', ''x'', ''-s'', ''malloc'']"]
  by (simp add: argsKeyRegexp_match_def HasPrefix_def)

subsection \<open>Timers\<close>

definition ex_timer_state :: trig_system where
  "ex_timer_state = (init_trig_system 0)\<lparr>ts_q := TriggerAfter ''k'' 5 ex_vc 0 NewReconcileTriggerer\<rparr>"

lemma ex_timer_reachable: "trig_reachable True ex_timer_state"
proof -
  let ?s0 = "init_trig_system 0"
  let ?q = "snd (afterFunc 5 (namespacedName ex_vc) (ts_q ?s0))"
  let ?s1 = "?s0\<lparr>ts_q := ?q, ts_pending := Some (''k'', namespacedName ex_vc, 0)\<rparr>"
  have "trig_step True ?s0 ?s1"
    by (rule trig_step.trigger_create [where d = 5]) (simp_all add: init_trig_system_def afterFunc_def NewReconcileTriggerer_def)
  then have "trig_reachable True ?s1" by (rule trig_reachable.step [OF trig_reachable.start])
  moreover have "trig_step True ?s1 (?s1\<lparr>ts_q := register ''k'' (namespacedName ex_vc) 0 (ts_q ?s1), ts_pending := None\<rparr>)"
    by (rule trig_step.trigger_register) simp
  moreover have "?s1\<lparr>ts_q := register ''k'' (namespacedName ex_vc) 0 (ts_q ?s1), ts_pending := None\<rparr> = ex_timer_state"
    by (simp add: ex_timer_state_def init_trig_system_def TriggerAfter_def afterFunc_def NewReconcileTriggerer_def)
  ultimately show ?thesis using trig_reachable.step by metis
qed

lemma ex_timer_exists: "TimerExists ''k'' ex_vc (ts_q ex_timer_state)"
  by (simp add: ex_timer_state_def rt.exists_after_trigger)

lemma timer_exists_means_pending_witness:
  "\<exists>i. entry (ts_q ex_timer_state) (namespacedName ex_vc) ''k'' i \<and> live (ts_q ex_timer_state) (namespacedName ex_vc) i"
  by (rule timer_exists_means_pending [OF ex_timer_reachable ex_timer_exists])

lemma existing_timer_can_trigger_witness:
  "\<exists>s'. trig_reachable True s' \<and> tr_chan (ts_q s') = tr_chan (ts_q ex_timer_state) @ [namespacedName ex_vc] \<and>
     \<not> TimerExists ''k'' ex_vc (ts_q s')"
  by (rule existing_timer_can_trigger [OF ex_timer_reachable ex_timer_exists])
    (simp add: ex_timer_state_def init_trig_system_def)

subsection \<open>Objects\<close>

lemma role_settles_iff_witness:
  "os_requests (snd (reconcileRole mem_env ex_vc (snd (reconcileRole mem_env ex_vc (start []))))) =
   os_requests (snd (reconcileRole mem_env ex_vc (start [])))"
proof -
  let ?m = "owned (role_Meta (desired_role ex_vc))"
  have c: "e_SetControllerReference mem_env ex_vc (role_Meta (desired_role ex_vc)) = Ret ?m"
    by (simp add: desired_role_def)
  have b: "reads_back role_Meta EqualRole (e_Roles mem_env) ((desired_role ex_vc)\<lparr>role_Meta := ?m\<rparr>)"
    by (simp add: mem_reads_back)
  have run: "reconcileRole mem_env ex_vc (start []) = (Ret (), snd (reconcileRole mem_env ex_vc (start [])))"
    using c by (simp add: reconcileRole_def Let_def run_simps)
  show ?thesis
    using role_settles_iff [OF c b run] by (simp add: mem_get_def)
qed


definition ex_headless :: service where
  "ex_headless = (desired_headless_service ex_vc)\<lparr>svc_Meta := (svc_Meta (desired_headless_service ex_vc))
     \<lparr>om_Annotations := [''drift'' \<mapsto> ''1'']\<rparr>\<rparr>"

lemma headless_drift_not_repaired_witness:
  "os_requests (snd (reconcileHeadlessService mem_env ex_vc (start [ObjService ex_headless]))) =
     [Update (ObjService ex_headless)]"
proof -
  let ?m = "owned (svc_Meta (desired_headless_service ex_vc))"
  let ?d = "(desired_headless_service ex_vc)\<lparr>svc_Meta := ?m\<rparr>"
  let ?s = "start [ObjService ex_headless]"
  have c: "e_SetControllerReference mem_env ex_vc (svc_Meta (desired_headless_service ex_vc)) = Ret ?m"
    by (simp add: desired_headless_service_def)
  have b: "reads_back svc_Meta same_headless (e_Services mem_env) ?d" by (simp add: mem_reads_back)
  have key: "is_obj prj_svc svc_Meta (om_Namespace ?m) (om_Name ?m) (ObjService ex_headless)"
    by (simp add: is_obj_def has_key_def ex_headless_def)
  have g: "r_get (e_Services mem_env) (om_Namespace ?m) (om_Name ?m) (os_world ?s) = (Ret ex_headless, os_world ?s)"
    using key by (simp add: mem_get_def)
  have d: "\<not> same_headless ex_headless ?d"
    by (simp add: same_headless_def EqualService_def ignore_metadata_eq ex_headless_def desired_headless_service_def
        inherit_headless_def fun_eq_iff)
  have run: "reconcileHeadlessService mem_env ex_vc ?s = (Ret (), snd (reconcileHeadlessService mem_env ex_vc ?s))"
    using c g d by (simp add: reconcileHeadlessService_def Let_def run_simps merge_headless_def is_obj_def has_key_def)
  show ?thesis using headless_drift_not_repaired [OF c refl b g d run] by simp
qed

definition ex_secret :: secret where
  "ex_secret = \<lparr>sec_Meta = new_meta ''cache-varnish-secret'' ''prod'' Map.empty Map.empty, sec_Data = [''secret'' \<mapsto> ''x'']\<rparr>"

lemma secret_value_never_overwritten_witness:
  "reconcileVarnishSecret mem_env ex_vc (start [ObjSecret ex_secret]) = (Ret (), start [ObjSecret ex_secret])"
proof -
  have n: "namesForInstanceSecret ex_vc = Ret (''cache-varnish-secret'', ''secret'')"
    by (simp add: namesForInstanceSecret_def secret_names_def ex_varnish_def zero_varnish_def name_defs
        varnishDefaultSecretKeyName_def)
  show ?thesis
    using secret_value_never_overwritten [OF mem_env_lawful n]
    by (simp add: mem_get_def is_obj_def has_key_def ex_secret_def lookup_def)
qed

definition ex_sts :: statefulset where
  "ex_sts = empty_statefulset\<lparr>sts_Spec := (sts_Spec empty_statefulset)\<lparr>sts_Replicas := Some 3\<rparr>\<rparr>"

lemma sts_update_keeps_selector_witness:
  "\<exists>f w. r_get (e_StatefulSets mem_env) [] [] (os_world (start [ObjStatefulSet empty_statefulset])) = (Ret f, w) \<and>
     sts_Selector (sts_Spec (merge_sts empty_statefulset ex_sts)) = sts_Selector (sts_Spec f)"
proof -
  let ?s = "start [ObjStatefulSet empty_statefulset]"
  have "os_requests (snd (apply_statefulset mem_env ex_sts ?s)) =
      os_requests ?s @ [Update (ObjStatefulSet (merge_sts empty_statefulset ex_sts))]"
    by (simp add: apply_statefulset_def run_simps is_obj_def has_key_def ex_sts_def empty_statefulset_def merge_sts_def
        same_sts_def EqualStatefulSet_def inherit_sts_def ignore_sts_fields_def)
  then obtain r s' where run: "apply_statefulset mem_env ex_sts ?s = (r, s')"
    "os_requests s' = os_requests ?s @ [Update (ObjStatefulSet (merge_sts empty_statefulset ex_sts))]"
    by (metis prod.collapse)
  have k: "om_Namespace (sts_Meta ex_sts) = []" "om_Name (sts_Meta ex_sts) = []"
    by (simp_all add: ex_sts_def empty_statefulset_def)
  show ?thesis using sts_update_keeps_selector [OF run] unfolding k by blast
qed

lemma desired_pods_fit_cluster_witness:
  "\<exists>d. desired_statefulset mem_env ex_vc [''-F''] = Ret d \<and>
     ct_Args (hd (ps_Containers (pt_Spec (sts_Template (sts_Spec d))))) = [''-F'']"
proof -
  obtain d where "desired_statefulset mem_env ex_vc [''-F''] = Ret d"
    by (simp add: desired_statefulset_def Let_def pod_containers_def ex_varnish_def)
  then show ?thesis using desired_pods_fit_cluster by blast
qed

subsection \<open>The VCL config map\<close>

definition ex_cm :: config_map where
  "ex_cm = \<lparr>cm_Meta = (new_meta ''vcl-files'' ''prod'' (CombinedComponentLabels ex_vc VarnishComponentVCLFileConfigMap) Map.empty)
       \<lparr>om_ResourceVersion := ''2'', om_OwnerReferences := [owner_of ex_vc]\<rparr>,
     cm_Data = [''entrypoint.vcl'' \<mapsto> ''vcl 4.0;'']\<rparr>"

lemma ex_cm_adopted: "mem_set_controller ex_vc (cm_Meta ex_cm) = Ret (cm_Meta ex_cm)"
  by (simp add: mem_set_controller_def ex_cm_def owner_of_def)

lemma ex_cm_labels:
  "ex_cm\<lparr>cm_Meta := (cm_Meta ex_cm)\<lparr>om_Labels := om_Labels (cm_Meta ex_cm) ++
     CombinedComponentLabels ex_vc VarnishComponentVCLFileConfigMap\<rparr>\<rparr> = ex_cm"
  by (simp add: ex_cm_def map_add_absorb new_meta_def)

lemma vcl_files_untouched_witness: "adopt_config_map mem_env ex_vc ex_cm (start []) = (Ret ex_cm, start [])"
  using vcl_files_untouched [of mem_env ex_vc ex_cm "start []"] mem_env_lawful ex_cm_adopted
  by (simp add: lawful_env_def ex_cm_def)

lemma availability_lags_behind_version_witness:
  "\<exists>st' s'. reconcileConfigMap mem_env Map.empty ex_vc (status_copy ex_vc) (start [ObjConfigMap ex_cm]) = (Ret st', s') \<and>
     (\<exists>pods. vst_Availability (st_VCL (vc_Status st')) = availability_text (count_versions ''1'' pods))"
proof -
  let ?s = "start [ObjConfigMap ex_cm]"
  let ?r = "reconcileConfigMap mem_env Map.empty ex_vc (status_copy ex_vc) ?s"
  have g: "mem_get prj_cm cm_Meta ''prod'' ''vcl-files'' (os_world ?s) = (Ret ex_cm, os_world ?s)"
    by (simp add: mem_get_def is_obj_def has_key_def ex_cm_def)
  have a: "adopt_config_map mem_env ex_vc ex_cm ?s = (Ret ex_cm, ?s)"
    using ex_cm_adopted by (simp add: adopt_config_map_def Let_def run_simps ex_cm_labels)
  obtain st' s' where run: "?r = (Ret st', s')" "vst_ConfigMapVersion (st_VCL (vc_Status st')) = ''2''"
    using g a by (simp add: reconcileConfigMap_def run_simps api_list_def in_world_def set_vcl_status_def ex_cm_def)
  moreover have "vst_ConfigMapVersion (st_VCL (vc_Status ex_vc)) = ''1''" by (simp add: ex_vc_def)
  ultimately show ?thesis using availability_lags_behind_version [OF run(1)] by auto
qed

subsection \<open>Disruption budget\<close>

definition ex_pdb :: pod_disruption_budget where
  "ex_pdb = (desired_pdb ex_vc ex_pdb_spec Map.empty)\<lparr>pdb_Status := Opaque ''s''\<rparr>"

lemma pdb_replaced_not_patched_witness:
  "os_requests (snd (reconcilePodDisruptionBudget mem_env ex_vc Map.empty (start [ObjPDB ex_pdb]))) =
     [Delete (ObjPDB ex_pdb),
      Create (ObjPDB ((desired_pdb ex_vc ex_pdb_spec Map.empty)\<lparr>pdb_Meta := owned (pdb_Meta ex_pdb)\<rparr>))]"
proof -
  let ?s = "start [ObjPDB ex_pdb]"
  have g: "r_get (e_PDBs mem_env) (vc_Namespace ex_vc) (PodDisruptionBudgetName (vc_Name ex_vc)) (os_world ?s) =
      (Ret ex_pdb, os_world ?s)"
    by (simp add: mem_get_def is_obj_def has_key_def ex_pdb_def desired_pdb_def)
  have c: "e_SetControllerReference mem_env ex_vc (pdb_Meta (desired_pdb ex_vc ex_pdb_spec Map.empty)) = Ret (owned (pdb_Meta ex_pdb))"
    by (simp add: ex_pdb_def desired_pdb_def)
  have d: "\<not> EqualPodDisruptionBudget ex_pdb ((desired_pdb ex_vc ex_pdb_spec Map.empty)\<lparr>pdb_Meta := owned (pdb_Meta ex_pdb)\<rparr>)"
    by (simp add: EqualPodDisruptionBudget_def ignore_metadata_eq fixed_meta_def owned_def ex_pdb_def desired_pdb_def)
  obtain r s' where run: "reconcilePodDisruptionBudget mem_env ex_vc Map.empty ?s = (r, s')"
    by (cases "reconcilePodDisruptionBudget mem_env ex_vc Map.empty ?s")
  show ?thesis using pdb_replaced_not_patched [OF g c run refl] d run by simp
qed

subsection \<open>Finalizers\<close>

definition ex_deleted :: VarnishCluster where
  "ex_deleted = set_finalizers [finalizerClusterRole] ex_vc"

definition ex_cr :: rbac_role where "ex_cr = desired_cluster_role ex_vc"

definition refusing_updates_env :: "mem operator_env" where
  "refusing_updates_env = mem_env\<lparr>e_VarnishClusters := (e_VarnishClusters mem_env)
     \<lparr>r_update := (\<lambda>x w. (Err (StatusErr Conflict), w))\<rparr>\<rparr>"

lemma role_gone_before_finalizer_witness:
  "hd (new_requests (start [ObjClusterRole ex_cr]) (snd (finalizerCleanUp refusing_updates_env ex_deleted (start [ObjClusterRole ex_cr])))) =
   Delete (ObjClusterRole ex_cr)"
proof -
  let ?s = "start [ObjClusterRole ex_cr]"
  let ?e = refusing_updates_env
  obtain r s' where run: "finalizerCleanUp ?e ex_deleted ?s = (r, s')"
    by (cases "finalizerCleanUp ?e ex_deleted ?s")
  have names: "vc_Name ex_deleted = ''cache''" "vc_Namespace ex_deleted = ''prod''"
    by (simp_all add: ex_deleted_def)
  have key: "om_Namespace (role_Meta ex_cr) = []" "om_Name (role_Meta ex_cr) = ClusterRoleName ''cache'' ''prod''"
    by (simp_all add: ex_cr_def desired_cluster_role_def)
  have g: "r_get (e_ClusterRoles ?e) [] (ClusterRoleName ''cache'' ''prod'') (os_world ?s) = (Ret ex_cr, os_world ?s)"
    by (simp add: refusing_updates_env_def mem_get_def is_obj_def has_key_def key)
  obtain s1 where del: "deleteCR ?e (ClusterRoleName ''cache'' ''prod'') ?s = (Ret (), s1)"
    "os_requests s1 = [Delete (ObjClusterRole ex_cr)]"
    using g by (simp add: deleteCR_def delete_if_found_cases refusing_updates_env_def)
  have "removeFinalizer ?e finalizerClusterRole ex_deleted s1 = (Err (StatusErr Conflict), s1\<lparr>os_requests :=
      os_requests s1 @ [Update (ObjVarnishCluster (set_finalizers [] ex_deleted))]\<rparr>)"
    by (simp add: removeFinalizer_def containsString_def api_update_apply refusing_updates_env_def ex_deleted_def)
  then have "s' = s1\<lparr>os_requests := os_requests s1 @ [Update (ObjVarnishCluster (set_finalizers [] ex_deleted))]\<rparr>"
    using run unfolding finalizerCleanUp_def names seq_apply [of "deleteCR _ _"] del(1) by (simp add: bnd_apply)
  then have "Update (ObjVarnishCluster (set_finalizers [] ex_deleted)) \<in> set (new_requests ?s s')"
    by (simp add: new_requests_def del)
  from role_gone_before_finalizer [OF run this refl] g run show ?thesis by (auto simp: names)
qed

lemma dashboard_finalizer_never_added_witness:
  "\<exists>fs. wanted_finalizers mem_env ex_vc = Ret fs \<and> finalizerGrafanaDashboard \<notin> set fs"
proof -
  obtain fs where "wanted_finalizers mem_env ex_vc = Ret fs"
    by (simp add: wanted_finalizers_def service_monitor_elsewhere_def dashboard_elsewhere_def Let_def)
  then show ?thesis
    using dashboard_finalizer_never_added [of mem_env ex_vc fs] by (auto simp: insert_absorb)
qed

text \<open>A server without the ServiceMonitor kind, and one that refuses updates of clusters.\<close>

definition no_kind_env :: "mem operator_env" where
  "no_kind_env = mem_env\<lparr>e_ServiceMonitors := (e_ServiceMonitors mem_env)
     \<lparr>r_get := (\<lambda>ns n w. (Err NoKindMatchErr, w)), r_list := (\<lambda>sel w. (Err NoKindMatchErr, w))\<rparr>\<rparr>"

definition refusing_env :: "mem operator_env" where
  "refusing_env = mem_env\<lparr>e_VarnishClusters := (e_VarnishClusters mem_env)
     \<lparr>r_update := (\<lambda>x w. (Err (StatusErr Conflict), w))\<rparr>,
     e_ClusterRoles := (e_ClusterRoles mem_env)\<lparr>r_get := (\<lambda>ns n w. (Err (StatusErr NotFound), w))\<rparr>,
     e_ClusterRoleBindings := (e_ClusterRoleBindings mem_env)\<lparr>r_get := (\<lambda>ns n w. (Err (StatusErr NotFound), w))\<rparr>\<rparr>"

definition ex_elsewhere :: VarnishCluster where
  "ex_elsewhere = ex_vc\<lparr>vc_Spec := ex_spec\<lparr>sp_Monitoring := Some \<lparr>mon_PrometheusServiceMonitor =
     Some (ex_prometheus\<lparr>psm_Namespace := ''monitoring''\<rparr>), mon_GrafanaDashboard = None\<rparr>\<rparr>\<rparr>"

lemma missing_kind_blocks_cleanup_witness: "fst (finalizerCleanUp no_kind_env ex_elsewhere (start [])) \<noteq> Ret ()"
proof (rule missing_kind_blocks_cleanup)
  have "e_VarnishClusters no_kind_env = e_VarnishClusters mem_env" by (simp add: no_kind_env_def)
  then have "updates_keep_cluster no_kind_env = updates_keep_cluster mem_env" unfolding updates_keep_cluster_def by (rule arg_cong)
  then show "updates_keep_cluster no_kind_env" using mem_env_lawful unfolding lawful_env_def by blast
  show "service_monitor_elsewhere ex_elsewhere = Ret (Some ''monitoring'')"
    by (simp add: service_monitor_elsewhere_def ex_elsewhere_def ex_prometheus_def)
qed (simp add: no_kind_env_def)

lemma finalizer_error_dropped_witness:
  "fst (finalizerCleanUp refusing_env (set_finalizers [finalizerServiceMonitor] ex_vc) (start [])) = Ret ()"
  using finalizer_error_dropped [of "set_finalizers [finalizerServiceMonitor] ex_vc" refusing_env "StatusErr Conflict" "start []"]
  by (simp add: service_monitor_elsewhere_def ex_prometheus_def refusing_env_def)

subsection \<open>Monitoring\<close>

lemma monitor_labels_hide_from_cleanup_witness:
  "\<not> label_match (CombinedComponentLabels ex_vc VarnishComponentPrometheusServiceMonitor)
      (om_Labels (sm_Meta (service_monitor_object ex_vc ex_prometheus)))"
  by (rule monitor_labels_hide_from_cleanup [where k = LabelVarnishUID and v = "''mine''"])
    (simp_all add: ex_prometheus_def)

definition no_owner_env :: "mem operator_env" where
  "no_owner_env = no_kind_env\<lparr>e_SetControllerReference := (\<lambda>vc m. Ret m)\<rparr>"

lemma missing_kind_tolerated_witness:
  "fst (reconcileServiceMonitor no_owner_env ex_vc (start [])) = Ret ()"
proof -
  have p: "prometheus_spec ex_vc = Ret ex_prometheus" by (simp add: prometheus_spec_def)
  have n: "psm_Namespace ex_prometheus = []" by (simp add: ex_prometheus_def)
  show ?thesis
    using missing_kind_tolerated [OF p n, of no_owner_env "start []"] by (simp add: no_owner_env_def no_kind_env_def)
qed

subsection \<open>Rolling update\<close>

definition ex_old_pod :: pod where
  "ex_old_pod = \<lparr>pod_Meta = new_meta ''cache-varnish-0'' ''prod''
       ((CombinedComponentLabels ex_vc VarnishComponentVarnish)(''controller-revision-hash'' \<mapsto> ''r1'')) Map.empty,
     pod_NodeName = [], pod_Containers = [], pod_PodIP = [], pod_StartTime = None, pod_ContainerReady = []\<rparr>"

definition ex_outdated :: statefulset where
  "ex_outdated = empty_statefulset\<lparr>sts_Status := \<lparr>stss_Replicas = 1, stss_ReadyReplicas = 1, stss_UpdatedReplicas = 0,
     stss_UpdateRevision = ''r2''\<rparr>\<rparr>"

lemma ex_old_pod_listed:
  assumes "r_list pods = r_list (mem_resource ObjPod prj_pod pod_Meta)"
  shows "api_list pods (CombinedComponentLabels ex_vc VarnishComponentVarnish) (start [ObjPod ex_old_pod]) =
     (Ret [ex_old_pod], start [ObjPod ex_old_pod])"
proof -
  have "CombinedComponentLabels ex_vc VarnishComponentVarnish \<subseteq>\<^sub>m om_Labels (pod_Meta ex_old_pod)"
    by (auto simp: ex_old_pod_def map_le_def CombinedComponentLabels_inherited LabelVarnishOwner_def
        LabelVarnishComponent_def LabelVarnishUID_def)
  then show ?thesis using assms by (simp add: api_list_def in_world_def List.map_filter_simps label_match_def)
qed

lemma ex_old_pod_revision: "pod_revision ex_old_pod = ''r1''"
  by (simp add: pod_revision_def ex_old_pod_def lookup_def)

lemmas rolling_run = reconcileDelayedRollingUpdate_def bnd_apply [of _ _ "start _"] ex_strategy_def ex_outdated_def
  NewReconcileTriggerer_def TimerExists_def timer_exists_def scan_pods.simps(2) Let_def ex_old_pod_listed ex_old_pod_revision

lemma rolling_update_one_outdated_pod_witness:
  "\<exists>p. pod_revision p \<noteq> ''r2'' \<and>
     os_requests (snd (reconcileDelayedRollingUpdate mem_env ex_vc ex_outdated (start [ObjPod ex_old_pod]))) = [Delete (ObjPod p)]"
proof -
  let ?s = "start [ObjPod ex_old_pod]"
  obtain r s' where run: "reconcileDelayedRollingUpdate mem_env ex_vc ex_outdated ?s = (r, s')"
    by (cases "reconcileDelayedRollingUpdate mem_env ex_vc ex_outdated ?s")
  have "os_requests s' \<noteq> os_requests ?s"
    using run update_pod_requests [of mem_env ex_vc "60 * second" ex_old_pod ?s r s'] by (auto simp: rolling_run)
  from rolling_update_one_outdated_pod [OF run this] run show ?thesis by (auto simp: ex_outdated_def)
qed

text \<open>Under the operator's own rules the same rolling update is refused.\<close>

lemma rolling_update_refused:
  "fst (reconcileDelayedRollingUpdate (enforce operator_rules mem_env) ex_vc ex_outdated (start [ObjPod ex_old_pod])) =
     Err (StatusErr (OtherReason ''Forbidden''))"
  by (simp add: rolling_run update_pod_def seq_apply api_delete_apply enforced_environment forbidden_def)

subsection \<open>Reconcile\<close>

lemma watches_lead_back_witness:
  "clusterRoleEventHandler (ObjClusterRole (desired_cluster_role ex_vc)) = [(''prod'', ''cache'')]"
  using watches_lead_back [of ex_vc] by simp

lemma reconcile_stays_in_scope_witness:
  "emits (\<lambda>q. touches (named ObjClusterRole [] (ClusterRoleName ''cache'' ''prod'')) q \<or>
       touches (named ObjClusterRoleBinding [] (ClusterRoleBindingName ''cache'' ''prod'')) q \<or>
       (\<exists>vc. vc_Name vc = ''cache'' \<and> vc_Namespace vc = ''prod'' \<and> operator_scope vc q)) (Reconcile mem_env (''prod'', ''cache''))"
  by (rule reconcile_stays_in_scope [OF mem_env_lawful])

subsection \<open>Panics and permissions\<close>

text \<open>A server that admits the clusters of the schema, and lists the pods that have been started.\<close>

definition admitting_env :: "mem operator_env" where
  "admitting_env = mem_env\<lparr>
     e_VarnishClusters := (e_VarnishClusters mem_env)\<lparr>r_get := (\<lambda>ns n w.
       case mem_get prj_vc vc_Meta ns n w of
         (Ret vc, w') \<Rightarrow> if schema_valid vc then (Ret vc, w') else (Err (StatusErr NotFound), w')
       | other \<Rightarrow> other)\<rparr>,
     e_Pods := (e_Pods mem_env)\<lparr>r_list := (\<lambda>sel w.
       (Ret (filter (\<lambda>p. pod_StartTime p \<noteq> None \<and> label_match sel (om_Labels (pod_Meta p)))
          (List.map_filter prj_pod (mem_objs w))), w))\<rparr>\<rparr>"

lemma mem_get_calm: "fst (mem_get prj meta ns n w) \<noteq> Panic p"
  by (simp add: mem_get_def split: option.split)

lemma mem_resource_calm: "calm_resource (mem_resource mk prj meta)"
  by (simp add: calm_resource_def calm_def mem_get_calm)

lemma admitting_env_calm: "calm_env admitting_env"
proof -
  have vc: "fst (case mem_get prj_vc vc_Meta ns n w of (Ret vc, w') \<Rightarrow> if schema_valid vc then (Ret vc, w') else (Err (StatusErr NotFound), w')
      | other \<Rightarrow> other) \<noteq> Panic p" for ns n w p
    using mem_get_calm [of prj_vc vc_Meta ns n w p]
    by (cases "mem_get prj_vc vc_Meta ns n w"; cases "fst (mem_get prj_vc vc_Meta ns n w)") auto
  show ?thesis
    unfolding calm_env_def
    by (intro conjI) (simp_all add: admitting_env_def mem_resource_calm,
      simp_all add: mem_env_def calm_resource_def calm_def vc mem_get_calm mem_set_controller_def)
qed

lemma reconcile_never_panics_witness:
  "fst (Reconcile admitting_env (''prod'', ''cache'') (start [ObjVarnishCluster ex_vc])) \<noteq> Panic NilDeref"
proof (rule reconcile_never_panics [OF admitting_env_calm])
  show "updates_keep_cluster admitting_env"
    by (auto simp: updates_keep_cluster_def admitting_env_def split: if_splits)
  show "pods_started admitting_env" by (auto simp: pods_started_def admitting_env_def)
  show "\<forall>ns n w vc w'. r_get (e_VarnishClusters admitting_env) ns n w = (Ret vc, w') \<longrightarrow> schema_valid vc"
    by (auto simp: admitting_env_def split: prod.splits outcome.splits if_splits)
qed

end
