(* ===== verification/ControllerExamples.thy ===== *)
theory ControllerExamples
  imports VarnishReconcile ControllerConfig Examples
begin

text \<open>
  A pod of the cluster of \<open>Examples\<close> with its node, and the properties of the controller applied to it.
  The world has the files of the VCL directory and the varnishd simulated in \<open>VarnishAdm\<close>; the
  API server always gives the same pods and nodes, and the clock stands still.
\<close>

type_synonym node_world = "(string \<times> string) list \<times> string list \<times> string"

definition ex_files :: "node_world \<Rightarrow> strmap" where
  "ex_files w = map_of (filter (\<lambda>f. plain_name (fst f)) (fst w))"

definition ex_loaded :: "node_world \<Rightarrow> VCLConfig list" where
  "ex_loaded w = sim_loaded (snd w)"

definition ex_adm :: "node_world varnish_adm" where
  "ex_adm = NewVarnishAdministartor 10 3 VCLConfigDir []
     (\<lambda>b args (fs, v). case sim_execute b args v of (r, v') \<Rightarrow> (r, (fs, v')))"

definition zone_of :: "string \<Rightarrow> strmap" where
  "zone_of n = [LabelTopologyZone \<mapsto> (if n = ''n1'' then ''a'' else ''b'')]"

definition ex_pod_ports :: "container_port list" where
  "ex_pod_ports = [\<lparr>cp_Name = ''web'', cp_ContainerPort = 8080, cp_Protocol = ''TCP''\<rparr>]"

definition ex_container :: container where
  "ex_container = \<lparr>ct_Name = ''web'', ct_Image = [], ct_Args = [], ct_Ports = ex_pod_ports, ct_Env = [], ct_EnvFrom = [],
     ct_Resources = emptyResources, ct_VolumeMounts = [], ct_ReadinessProbe = None, ct_TerminationMessagePath = [],
     ct_TerminationMessagePolicy = [], ct_ImagePullPolicy = []\<rparr>"

definition ex_pod :: "string \<Rightarrow> string \<Rightarrow> string \<Rightarrow> pod" where
  "ex_pod name ip nodeName = \<lparr>pod_Meta = new_meta name ''prod'' [''app'' \<mapsto> ''web''] Map.empty, pod_NodeName = nodeName,
     pod_Containers = [ex_container], pod_PodIP = ip, pod_StartTime = None, pod_ContainerReady = [True]\<rparr>"

lemma ex_pod_simps [simp]:
  "pod_PodIP (ex_pod n ip node) = ip" "pod_NodeName (ex_pod n ip node) = node" "pod_Containers (ex_pod n ip node) = [ex_container]"
  "pod_ContainerReady (ex_pod n ip node) = [True]" "om_Name (pod_Meta (ex_pod n ip node)) = n"
  "om_Namespace (pod_Meta (ex_pod n ip node)) = ''prod''" "om_Labels (pod_Meta (ex_pod n ip node)) = [''app'' \<mapsto> ''web'']"
  by (simp_all add: ex_pod_def new_meta_def)

definition ex_backends :: "string \<Rightarrow> pod list" where
  "ex_backends ns = (if ns = ''prod'' then [ex_pod ''b2'' ''10.0.0.2'' ''n2'', ex_pod ''b1'' ''10.0.0.1'' ''n1''] else [])"

definition ex_name_in_dir :: "string \<Rightarrow> string" where
  "ex_name_in_dir f = drop 13 f"

definition ex_config_map :: config_map where
  "ex_config_map = \<lparr>cm_Meta = (new_meta ''vcl-files'' ''prod'' Map.empty Map.empty)\<lparr>om_ResourceVersion := ''7''\<rparr>,
     cm_Data = [''entrypoint.vcl'' \<mapsto> ''vcl 4.0;'']\<rparr>"

definition ex_kenv :: "node_world node_env" where
  "ex_kenv = \<lparr>k_config = \<lparr>cc_Namespace = ''prod'', cc_PodName = ''cache-0'', cc_NodeName = ''n1'', cc_VarnishClusterName = ''cache'',
       cc_VarnishClusterUID = ''uid-1'', cc_VarnishClusterGroup = ''caching.ibm.com'', cc_VarnishClusterVersion = ''v1alpha1'',
       cc_VarnishClusterKind = ''VarnishCluster'', cc_VarnishAdmArgs = [], cc_VarnishPingTimeout = 10, cc_VarnishPingDelay = 3,
       cc_LogFormat = ''json'', cc_LogLevel = 0\<rparr>,
     k_VarnishClusters = \<lparr>r_get = (\<lambda>ns n w. (Ret ex_vc, w)), r_list = (\<lambda>s w. (Ret [], w)), r_create = (\<lambda>x w. (Ret x, w)),
       r_update = (\<lambda>x w. (Ret x, w)), r_delete = (\<lambda>x w. (Ret (), w))\<rparr>,
     k_Pods = \<lparr>r_get = (\<lambda>ns n w. (Ret (ex_pod n ''10.0.0.9'' ''n1''\<lparr>pod_Meta := new_meta n ns Map.empty Map.empty\<rparr>), w)), r_list = (\<lambda>s w. (Ret [], w)),
       r_create = (\<lambda>x w. (Ret x, w)), r_update = (\<lambda>x w. (Ret x, w)), r_delete = (\<lambda>x w. (Ret (), w))\<rparr>,
     k_ListPods = (\<lambda>ns selector w. (Ret (ex_backends ns), w)),
     k_ConfigMaps = \<lparr>r_get = (\<lambda>ns n w. (Ret ex_config_map, w)), r_list = (\<lambda>s w. (Ret [], w)), r_create = (\<lambda>x w. (Ret x, w)),
       r_update = (\<lambda>x w. (Ret x, w)), r_delete = (\<lambda>x w. (Ret (), w))\<rparr>,
     k_Nodes = \<lparr>r_get = (\<lambda>ns n w. (Ret \<lparr>node_Meta = new_meta n [] (zone_of n) Map.empty\<rparr>, w)), r_list = (\<lambda>s w. (Ret [], w)),
       r_create = (\<lambda>x w. (Ret x, w)), r_update = (\<lambda>x w. (Ret x, w)), r_delete = (\<lambda>x w. (Ret (), w))\<rparr>,
     k_FormatSelector = (\<lambda>s. []), k_varnish = ex_adm,
     k_ReadDir = (\<lambda>d w. (Ret (map fst (filter (\<lambda>f. plain_name (fst f)) (fst w))), w)),
     k_ReadFile = (\<lambda>f w. (case ex_files w (ex_name_in_dir f) of Some c \<Rightarrow> Ret c | None \<Rightarrow> Err (Plain ''no such file''), w)),
     k_WriteFile = (\<lambda>f c w. (Ret (), ((ex_name_in_dir f, c) # fst w, snd w))),
     k_Remove = (\<lambda>f w. (Ret (), (filter (\<lambda>x. fst x \<noteq> ex_name_in_dir f) (fst w), snd w))),
     k_ParseTemplate = (\<lambda>n t. Ret (\<lambda>data. Ret t)),
     k_Now = (\<lambda>w. (100 * 10 ^ 9, w)),
     k_Range = (\<lambda>m w. (sorted_list_of_set (dom m), w)),
     k_SortThresholds = (\<lambda>ts. List.rev (sort_key percent_of ts))\<rparr>"

definition ex_cstate :: "node_world \<Rightarrow> node_world cstate" where
  "ex_cstate w = \<lparr>cs_world = w, cs_backendNamespaces = [], cs_backendSelector = Map.empty, cs_VCLCompilationError = False,
     cs_requests = [], cs_events = [], cs_changes = []\<rparr>"

lemma ex_cstate_simps [simp]:
  "cs_world (ex_cstate w) = w" "cs_VCLCompilationError (ex_cstate w) = False"
  "cs_requests (ex_cstate w) = []" "cs_events (ex_cstate w) = []" "cs_changes (ex_cstate w) = []"
  by (simp_all add: ex_cstate_def)

lemma path_join_plain:
  assumes "plain_name n"
  shows "path_join VCLConfigDir n = ''/etc/varnish/'' @ n"
proof -
  have "Split (''/etc/varnish/'' @ n) CHR ''/'' = [[], ''etc'', ''varnish'', n]"
    using assms by (simp add: plain_name_def Split_no_sep)
  then show ?thesis
    using assms by (simp add: path_join_def VCLConfigDir_def Clean_def plain_name_def)
qed

lemma ex_name_in_dir_join [simp]: "plain_name n \<Longrightarrow> ex_name_in_dir (path_join VCLConfigDir n) = n"
  by (simp add: path_join_plain ex_name_in_dir_def)

lemma map_of_filter_plain:
  "map_of (filter (\<lambda>x. fst x \<noteq> n \<and> P x) fs) = (map_of (filter P fs))(n := None)"
  by (induction fs) (auto simp: fun_eq_iff)

lemma ex_files_simps [simp]:
  "plain_name n \<Longrightarrow> ex_files ((n, c) # fs, v) = (ex_files (fs, v))(n \<mapsto> c)"
  "ex_files (filter (\<lambda>x. fst x \<noteq> n) fs, v) = (ex_files (fs, v))(n := None)"
  "ex_files ([], v) = Map.empty"
  by (simp_all add: ex_files_def map_of_filter_plain)

lemma ex_directory: "directory ex_kenv VCLConfigDir ex_files"
  unfolding directory_def reads_dir_def writes_dir_def
proof (intro conjI allI)
  fix w
  show "finite (dom (ex_files w))" by (simp add: ex_files_def finite_dom_map_of)
  show "\<forall>n \<in> dom (ex_files w). plain_name n" by (auto simp: ex_files_def dest: map_of_SomeD)
  fix r w'
  have "dom (ex_files w) = set (map fst (filter (\<lambda>f. plain_name (fst f)) (fst w)))"
    unfolding ex_files_def dom_map_of_conv_image_fst set_map ..
  moreover have "k_ReadDir ex_kenv VCLConfigDir w = (Ret (map fst (filter (\<lambda>f. plain_name (fst f)) (fst w))), w)"
    by (simp add: ex_kenv_def)
  ultimately show "k_ReadDir ex_kenv VCLConfigDir w = (r, w') \<longrightarrow>
      ex_files w' = ex_files w \<and> (\<forall>ns. r = Ret ns \<longrightarrow> set ns = dom (ex_files w))"
    by (simp only: prod.inject outcome.inject) blast
qed (auto simp: ex_kenv_def ex_files_def map_of_filter_plain split: option.splits)

lemma ex_ranges: "ranges_once ex_kenv"
  by (simp add: ranges_once_def ex_kenv_def)

lemma ex_adm_run [simp]:
  "adm_run ex_adm args w = (case sim_execute VarninshAdmBinary args (snd w) of (r, v') \<Rightarrow> (r, (fst w, v')))"
  "va_varnishAdmArgs ex_adm = []" "va_vclBase ex_adm = VCLConfigDir"
  by (simp_all add: ex_adm_def adm_run_def NewVarnishAdministartor_def sanitizeVarnishArgs_def split: prod.split)

lemma ex_protocol: "varnishd_protocol ex_adm ex_num ex_loaded"
  unfolding varnishd_protocol_def
proof (intro conjI)
  have "config_ok ex_num (sim_config act n)" if "list_all plain_char n" for act n
    using that num_ok_ex_num
    by (simp add: config_ok_def sim_config_def zero_config_def VCLStatusActive_def VCLStatusAvailable_def)
  then show "lists_loaded ex_adm ex_num ex_loaded"
    using num_ok_ex_num unfolding lists_loaded_def
    by (intro allI exI [of _ 2] exI [of _ 900]) (auto simp: sim_execute_def sim_loaded_def ex_loaded_def split: prod.split)
next
  show "loads_config ex_adm ex_loaded"
    by (auto simp: loads_config_def adm_load_def sim_execute_def sim_loaded_def ex_loaded_def sim_config_def is_active_def
        VCLStatusActive_def VCLStatusAvailable_def zero_config_def split: if_splits)
next
  show "uses_config ex_adm ex_loaded"
    by (auto simp: uses_config_def adm_use_def sim_execute_def sim_loaded_def ex_loaded_def sim_config_def is_active_def activate_def
        VCLStatusActive_def VCLStatusAvailable_def zero_config_def image_iff split: if_splits)
next
  show "discards_config ex_adm ex_loaded"
    by (auto simp: discards_config_def sim_execute_def sim_loaded_def ex_loaded_def sim_config_def discard_config_def filter_map comp_def
        zero_config_def conj_commute split: if_splits)
qed

lemma ex_view: "node_view ex_kenv ex_num ex_files ex_loaded"
  unfolding node_view_def
proof (intro conjI)
  show "varnishd_protocol (k_varnish ex_kenv) ex_num ex_loaded" using ex_protocol by (simp add: ex_kenv_def)
  have "fst (snd (va_execute ex_adm b args w)) = fst w" for b args w
    by (simp add: ex_adm_def NewVarnishAdministartor_def split: prod.split)
  then show "separate ex_kenv ex_files ex_loaded"
    by (simp add: separate_def ex_kenv_def ex_files_def ex_loaded_def)
qed (rule ex_directory, rule ex_ranges)

subsection \<open>Watches and backends\<close>

lemma varnish_pods_watched_witness:
  "\<not> varnish_pods_watch (k_config ex_kenv) (CreateEvent (ObjPod (ex_pod ''b1'' ''10.0.0.1'' ''n1'')))"
  using varnish_pods_watched [of "k_config ex_kenv" ex_vc "ex_pod ''b1'' ''10.0.0.1'' ''n1''"]
  by (simp add: ex_kenv_def ex_pod_def new_meta_def ComponentLabels_def map_le_def LabelVarnishOwner_def)

lemma relabelled_pod_missed_witness:
  "\<not> label_filter [''app'' \<mapsto> ''web''] (UpdateEvent
     (ObjPod (ex_pod ''b1'' ''10.0.0.1'' ''n1''\<lparr>pod_Meta := new_meta ''b1'' ''prod'' Map.empty Map.empty\<rparr>))
     (ObjPod (ex_pod ''b1'' ''10.0.0.1'' ''n1'')))"
  by (rule relabelled_pod_missed [THEN conjunct1]) simp_all

lemma ex_reads: "reads_cluster ex_kenv selector ex_backends zone_of w"
  by (auto simp: reads_cluster_def ex_kenv_def new_meta_def)

lemma ex_port_matches [simp]: "find (port_matches (IntPort 8080)) ex_pod_ports = Some \<lparr>cp_Name = ''web'', cp_ContainerPort = 8080, cp_Protocol = ''TCP''\<rparr>"
  by (simp add: ex_pod_ports_def port_matches_def)

lemma ex_serving [simp]:
  "serving (IntPort 8080) (ex_pod n ip node) = [\<lparr>cp_Name = ''web'', cp_ContainerPort = 8080, cp_Protocol = ''TCP''\<rparr>]"
  by (simp add: serving_def ex_pod_def ex_container_def List.map_filter_def)


definition ex_infos :: "PodInfo list" where
  "ex_infos = [pod_entry zone_of (ex_pod ''b1'' ''10.0.0.1'' ''n1''), pod_entry zone_of (ex_pod ''b2'' ''10.0.0.2'' ''n2'')]"

lemma ex_multizone: "checkMultizone ex_infos LabelTopologyZone ''a''"
  by (simp add: checkMultizone_def ex_infos_def pod_entry_def ex_pod_def has_zone_def in_zone_def zone_of_def)

lemma backend_ratio_documented_witness:
  "\<exists>x. calculateBackendRatio ex_infos ''a'' LabelTopologyZone = Finite x \<and> \<bar>x - 1\<bar> \<le> 1 / 2 ^ 51"
proof -
  have "zones_of LabelTopologyZone ex_infos = {''a'', ''b''}"
    by (simp add: ex_infos_def pod_entry_def ex_pod_def has_zone_def zone_of_def)
  then have "documented_ratio LabelTopologyZone ''a'' ex_infos = 1"
    by (simp add: documented_ratio_def n_local_def n_remote_def remote_zones_def)
      (simp add: ex_infos_def pod_entry_def ex_pod_def has_zone_def in_zone_def zone_of_def)
  then show ?thesis
    using backend_ratio_documented [OF ex_multizone] by (auto simp: ex_infos_def)
qed

definition ex_thresholds :: "Threshold list" where
  "ex_thresholds = [\<lparr>th_Local = Some 9, th_Remote = Some 1, th_Threshold = Some 50\<rparr>,
     \<lparr>th_Local = Some 5, th_Remote = Some 5, th_Threshold = Some 100\<rparr>]"


lemma backend_change_wakes_witness:
  "label_filter [''app'' \<mapsto> ''web''] (UpdateEvent (ObjPod (ex_pod ''b1'' [] ''n1'')) (ObjPod (ex_pod ''b1'' ''10.0.0.1'' ''n1'')))"
  by (rule backend_change_wakes [where nodes = zone_of and port = "IntPort 8080" and onlyReady = True])
    (simp_all add: pod_entries_def scanned_def PodReady_def label_match_def)


lemma ex_getNodeLabels [simp]: "getNodeLabels ex_kenv n s = (Ret (zone_of n), s)"
  by (simp add: getNodeLabels_def attempt_apply c_get_def at_world_apply) (simp add: ex_kenv_def new_meta_def)

lemma ex_getBackendEndpoints: "\<exists>bks n s'. getBackendEndpoints ex_kenv ex_vc (ex_cstate w) = (Ret (bks, n, float_of_int 1, float_of_int 1), s')"
proof -
  obtain infos n s' where i: "getPodsInfo ex_kenv ex_vc [cc_Namespace (k_config ex_kenv)] [''app'' \<mapsto> ''web''] (IntPort 8080) False (ex_cstate w) = (Ret (infos, n), s')"
    using getPodsInfo_result [OF ex_reads refl, where s = "ex_cstate w" and vc = ex_vc and selector = "[''app'' \<mapsto> ''web'']"] by blast
  show ?thesis
    by (cases "checkMultizone infos (zone_label (zone_of (cc_NodeName (k_config ex_kenv))))
          (lookup (zone_of (cc_NodeName (k_config ex_kenv))) (zone_label (zone_of (cc_NodeName (k_config ex_kenv)))))")
      (simp_all add: getBackendEndpoints_def bnd_apply ex_backend_def backend_namespaces_def i balance_def
        ZoneBalancingDisabled_def ZoneBalancingAuto_def ZoneBalancingThresholds_def Let_def)
qed

lemma weights_reported_witness:
  "\<exists>bks n s' labels bs. getBackendEndpoints ex_kenv ex_vc (ex_cstate ([], [], [])) = (Ret (bks, n, float_of_int 1, float_of_int 1), s') \<and>
     (let zl = zone_label labels; cz = lookup labels zl in
        bks = map (\<lambda>b. b\<lparr>pi_Weight := if in_zone zl cz b then float_of_int 1 else float_of_int 1\<rparr>) bs)"
proof -
  obtain bks n s' where e: "getBackendEndpoints ex_kenv ex_vc (ex_cstate ([], [], [])) = (Ret (bks, n, float_of_int 1, float_of_int 1), s')"
    using ex_getBackendEndpoints by blast
  show ?thesis using weights_reported [OF e] e unfolding Let_def by blast
qed

subsection \<open>Files\<close>

lemma ex_names [simp]: "plain_name ''entrypoint.vcl''" "Ext ''entrypoint.vcl'' = ''.vcl''"
  by (simp_all add: plain_name_def Ext_def)

abbreviation ex_new :: strmap where "ex_new \<equiv> [''entrypoint.vcl'' \<mapsto> ''vcl 4.0;'']"

lemma ex_kenv_fs [simp]:
  "k_ReadDir ex_kenv d w = (Ret (map fst (filter (\<lambda>f. plain_name (fst f)) (fst w))), w)"
  "k_ReadFile ex_kenv f w = (case ex_files w (ex_name_in_dir f) of Some c \<Rightarrow> Ret c | None \<Rightarrow> Err (Plain ''no such file''), w)"
  "k_WriteFile ex_kenv f c w = (Ret (), ((ex_name_in_dir f, c) # fst w, snd w))"
  "k_Range ex_kenv m w = (sorted_list_of_set (dom m), w)"
  "k_ParseTemplate ex_kenv n t = Ret (\<lambda>data. Ret t)"
  "k_varnish ex_kenv = ex_adm"
  "k_Now ex_kenv w = (100000000000, w)"
  "r_update (k_Pods ex_kenv) p w = (Ret p, w)"
  by (simp_all add: ex_kenv_def)

lemma ex_current_empty [simp]: "getCurrentFiles ex_kenv VCLConfigDir (ex_cstate ([], v)) = (Ret Map.empty, ex_cstate ([], v))"
  by (simp add: getCurrentFiles_def bnd_apply wrap_apply at_world_apply ex_cstate_def)

lemma ex_reconcile_new [simp]:
  "reconcileFiles ex_kenv VCLConfigDir Map.empty ex_new (ex_cstate ([], v)) = (Ret True, ex_cstate ([(''entrypoint.vcl'', ''vcl 4.0;'')], v))"
proof -
  have "dom (diffFiles Map.empty ex_new) = {''entrypoint.vcl''}" by (simp add: dom_diffFiles)
  then show ?thesis
    by (simp add: reconcileFiles_def bnd_apply c_range_def at_world_apply diffFiles_def wrap_apply Let_def ex_cstate_def)
qed

lemma files_synced_witness:
  "\<forall>n. ex_files (cs_world (ex_cstate ([(''entrypoint.vcl'', ''vcl 4.0;'')], [''boot''], ''boot''))) n =
     (if n \<in> dom ex_new then ex_new n
      else if Ext n = ''.vcl'' then None else ex_files (cs_world (ex_cstate ([], [''boot''], ''boot''))) n)"
  using files_synced [OF ex_directory ex_ranges _ _ ex_current_empty ex_reconcile_new] by simp


subsection \<open>Reloads\<close>

lemma version_read_back_witness: "extractConfigMapVersion (createVCLConfigName ''7'' 100) = ''7''"
  using version_read_back [of "''7''" 100] by simp


text \<open>A varnishd with the configurations \<open>ns\<close>, of which \<open>act\<close> is active.\<close>

definition ex_own_pod :: pod where
  "ex_own_pod = ex_pod ''cache-0'' ''10.0.0.9'' ''n1''"

abbreviation ex_dir :: "(string \<times> string) list" where "ex_dir \<equiv> [(''entrypoint.vcl'', ''vcl 4.0;'')]"

lemma ex_cstate_world [simp]: "(ex_cstate w)\<lparr>cs_world := w'\<rparr> = ex_cstate w'"
  by (simp add: ex_cstate_def)

lemma ex_config_name [simp]: "createVCLConfigName ''7'' 100000000000 = ''v-7-100''"
proof -
  have "show_int 100 = ''100''" by code_simp
  then show ?thesis by (simp add: createVCLConfigName_def VCLVersionPrefix_def Unix_def)
qed

lemma ex_version [simp]: "om_ResourceVersion (cm_Meta ex_config_map) = ''7''"
  by (simp add: ex_config_map_def)

lemma ex_active_name: "active_name (ex_loaded (fs, [''boot''], ''boot'')) = Some ''boot''"
  "active_name (ex_loaded (fs, [''v-6-1'', ''v-7-100''], ''v-6-1'')) = Some ''v-6-1''"
  "active_name (ex_loaded (fs, [''boot'', ''v-7-100''], ''v-7-100'')) = Some ''v-7-100''"
  by (simp_all add: active_name_def ex_loaded_def sim_loaded_def sim_config_def is_active_def plain_char_def VCLStatusAvailable_def VCLStatusActive_def)

lemma ex_c_active:
  "active_name (ex_loaded (cs_world s)) = Some a \<Longrightarrow> c_active ex_kenv s = (Ret a, s)"
  by (rule c_active_loaded [of ex_kenv ex_num ex_loaded]) (simp_all add: ex_protocol)

lemma ex_reload_ok:
  "Reload ex_adm ''v-7-100'' f (fs, [''boot''], ''boot'') = (([], None), (fs, [''boot'', ''v-7-100''], ''v-7-100''))"
  by (simp add: Reload_def adm_load_def adm_use_def sim_execute_def plain_char_def)

lemma ex_reload_fails:
  "Reload ex_adm ''v-7-100'' f (fs, [''v-6-1'', ''v-7-100''], ''v-6-1'') =
     ((''Command failed'', Some (Plain ''exit status 1'')), (fs, [''v-6-1'', ''v-7-100''], ''v-6-1''))"
  by (simp add: Reload_def adm_load_def sim_execute_def plain_char_def)

lemma ex_list_new:
  "c_list ex_kenv s = (Ret (ex_loaded (cs_world s)), s)"
  by (simp add: c_list_def at_world_apply List_loaded [OF ex_protocol])

lemma ex_cleanup_none:
  "for_each (ex_loaded (fs, [''boot'', ''v-7-100''], ''v-7-100'')) (cleanup_config ex_kenv) s = (Ret (), s)"
  by (simp add: ex_loaded_def sim_loaded_def sim_config_def plain_char_def cleanup_config_def unused_config_def
      VCLStatusAvailable_def VCLStatusActive_def HasPrefix_def VCLVersionPrefix_def seq_apply)

lemma ex_varnish_ok:
  "reconcileVarnish ex_kenv ex_vc p ex_config_map (ex_cstate (fs, [''boot''], ''boot'')) =
     (Ret (), (ex_cstate (fs, [''boot'', ''v-7-100''], ''v-7-100''))\<lparr>cs_changes := [AdmReload ''v-7-100'' ''entrypoint.vcl'']\<rparr>)"
  by (simp add: reconcileVarnish_def bnd_apply c_now_def at_world_apply c_reload_def ex_reload_ok seq_apply set_compilation_error_def
      ex_list_new ex_cleanup_none ex_cstate_def)

lemma ex_varnish_fails:
  "reconcileVarnish ex_kenv ex_vc p ex_config_map (ex_cstate (fs, [''v-6-1'', ''v-7-100''], ''v-6-1'')) =
     (Err (Wrapped ''Command failed'' (Plain ''exit status 1'')),
      snd (reload_warnings ex_vc p ((ex_cstate (fs, [''v-6-1'', ''v-7-100''], ''v-6-1''))
        \<lparr>cs_changes := [AdmReload ''v-7-100'' ''entrypoint.vcl'']\<rparr>)))"
proof -
  have "\<not> Contains ''Command failed'' compilation_failed" by code_simp
  then show ?thesis
    by (simp add: reconcileVarnish_def bnd_apply c_now_def at_world_apply c_reload_def ex_reload_fails seq_apply reload_warnings_def ex_cstate_def)
qed

lemma reload_activates_and_cleans_up_witness:
  "\<exists>s'. reconcileVarnish ex_kenv ex_vc ex_own_pod ex_config_map (ex_cstate (ex_dir, [''boot''], ''boot'')) = (Ret (), s') \<and>
     active_name (ex_loaded (cs_world s')) = Some ''v-7-100''"
proof -
  let ?s = "ex_cstate (ex_dir, [''boot''], ''boot'')"
  obtain s' where s': "reconcileVarnish ex_kenv ex_vc ex_own_pod ex_config_map ?s = (Ret (), s')" "\<not> cs_VCLCompilationError s'"
    using ex_varnish_ok [of ex_own_pod ex_dir] by simp
  have "active_name (ex_loaded (cs_world s')) = Some ''v-7-100''"
    using reload_activates_and_cleans_up [OF ex_view _ _ s', of _ "''entrypoint.vcl''"] by auto
  then show ?thesis using s' by blast
qed


lemma ex_pod_written:
  assumes "active_name (ex_loaded (cs_world s)) = Some a"
  shows "\<exists>s'. reconcilePod ex_kenv t p cm l r s = (Ret (), s') \<and> cs_world s' = cs_world s \<and> cs_changes s' = cs_changes s \<and>
    cs_VCLCompilationError s' = cs_VCLCompilationError s"
  by (simp add: reconcilePod_def bnd_apply ex_c_active [OF assms] Let_def wrap_apply c_update_pod_def at_world_apply)

lemma ex_apply_ok:
  "\<exists>s'. apply_files ex_kenv ex_vc ex_own_pod ex_config_map ex_new (float_of_int 1) (float_of_int 1) (ex_cstate ([], [''boot''], ''boot'')) = (Ret (), s') \<and>
     cs_changes s' = [AdmReload ''v-7-100'' ''entrypoint.vcl''] \<and> \<not> cs_VCLCompilationError s'"
  using ex_pod_written [of "(ex_cstate (ex_dir, [''boot'', ''v-7-100''], ''v-7-100''))\<lparr>cs_changes := [AdmReload ''v-7-100'' ''entrypoint.vcl'']\<rparr>"
      "''v-7-100''" True ex_own_pod ex_config_map "float_of_int 1" "float_of_int 1"]
  by (auto simp: apply_files_def bnd_apply ex_c_active ex_active_name seq_apply ex_varnish_ok)

lemma reload_takes_effect_witness:
  "\<exists>s'. apply_files ex_kenv ex_vc ex_own_pod ex_config_map ex_new (float_of_int 1) (float_of_int 1) (ex_cstate ([], [''boot''], ''boot'')) = (Ret (), s') \<and>
     ex_files (cs_world s') = synced ex_new (ex_files ([], [''boot''], ''boot''))"
proof -
  obtain s' where s': "apply_files ex_kenv ex_vc ex_own_pod ex_config_map ex_new (float_of_int 1) (float_of_int 1)
      (ex_cstate ([], [''boot''], ''boot'')) = (Ret (), s')" "cs_changes s' \<noteq> []" "\<not> cs_VCLCompilationError s'"
    using ex_apply_ok by auto
  show ?thesis
    using reload_takes_effect [OF ex_view _ _ _ _ s'(1) _ s'(3), of _ "''entrypoint.vcl''"] s'(1,2) by (auto simp: Let_def)
qed

lemma ex_apply_fails:
  "\<exists>s'. apply_files ex_kenv ex_vc ex_own_pod ex_config_map ex_new (float_of_int 1) (float_of_int 1)
      (ex_cstate ([], [''v-6-1'', ''v-7-100''], ''v-6-1'')) = (Err (Wrapped ''Command failed'' (Plain ''exit status 1'')), s') \<and>
     cs_changes s' = [AdmReload ''v-7-100'' ''entrypoint.vcl''] \<and> cs_world s' = (ex_dir, [''v-6-1'', ''v-7-100''], ''v-6-1'')"
  by (simp add: apply_files_def bnd_apply ex_c_active ex_active_name seq_apply ex_varnish_fails) (simp add: reload_warnings_def seq_apply)

lemma ex_current_new:
  "getCurrentFiles ex_kenv VCLConfigDir (ex_cstate (ex_dir, v)) = (Ret ex_new, ex_cstate (ex_dir, v))"
  by (simp add: getCurrentFiles_def bnd_apply wrap_apply at_world_apply)

lemma ex_reconcile_same:
  "reconcileFiles ex_kenv VCLConfigDir ex_new ex_new (ex_cstate (ex_dir, v)) = (Ret False, ex_cstate (ex_dir, v))"
proof -
  have "dom (diffFiles ex_new ex_new) = {''entrypoint.vcl''}" by (simp add: dom_diffFiles)
  then show ?thesis
    by (simp add: reconcileFiles_def bnd_apply c_range_def at_world_apply diffFiles_def Let_def)
qed


subsection \<open>The container of the controller\<close>

lemma ex_desired: "\<exists>d. desired_statefulset mem_env ex_vc args = Ret d"
  by (simp add: desired_statefulset_def Let_def pod_containers_def ex_varnish_def)

lemma controller_environment_complete_witness:
  "\<exists>d. desired_statefulset mem_env ex_vc [''-F''] = Ret d \<and>
     map_of (ct_Env (controller_of d)) ''NAMESPACE'' = Some (EnvValue ''prod'')"
proof -
  obtain d where d: "desired_statefulset mem_env ex_vc [''-F''] = Ret d" using ex_desired by blast
  then have "om_Namespace (sts_Meta d) = ''prod''"
    by (auto simp: desired_statefulset_def Let_def obind_eq_Ret new_meta_def)
  then show ?thesis using controller_environment_complete [OF d] d by (intro exI [of _ d]) simp
qed


end
