(* ===== verification/DashboardChecks.thy ===== *)
theory DashboardChecks
  imports Monitoring "HOL-Library.Sublist"
begin

text \<open>
  What is looked up in the dashboard, and checked of every panel by evaluation: that its strings are safe
  to write, that it reads from the dashboard's data source, and that its queries are restricted to the
  service and the namespace of the cluster.
\<close>

subsection \<open>Queries\<close>

text \<open>
  The queries of a JSON text: the strings that are called \<open>expr\<close> in a panel, and \<open>definition\<close> or
  \<open>query\<close> in a variable of the dashboard.
\<close>

definition query_keys :: "string list" where
  "query_keys = [''expr'', ''definition'', ''query'']"

fun queries :: "json \<Rightarrow> string list" where
  "queries (JArray vs) = concat (map queries vs)"
| "queries (JObject ms) =
     concat (map (\<lambda>(k, v). (case v of JString q \<Rightarrow> if k \<in> set query_keys then [q] else [] | _ \<Rightarrow> []) @ queries v) ms)"
| "queries v = []"

text \<open>
  A query is restricted to some conditions when the name of every metric in it is followed by a selector, in
  braces, that has them all.
\<close>

definition metric_char :: "char \<Rightarrow> bool" where
  "metric_char c \<longleftrightarrow> ident_char c \<or> c = CHR ''_''"

function query_restricted :: "string list \<Rightarrow> string \<Rightarrow> bool" where
  "query_restricted conds [] = True"
| "query_restricted conds (c # s) =
     (if prefix ''varnish_'' (c # s) then
        (case dropWhile metric_char s of
           [] \<Rightarrow> False
         | x # t \<Rightarrow> x = CHR ''{'' \<and> list_all (\<lambda>m. sublist m (takeWhile (\<lambda>y. y \<noteq> CHR ''}'') t)) conds \<and>
             query_restricted conds (dropWhile (\<lambda>y. y \<noteq> CHR ''}'') t))
      else query_restricted conds s)"
  by pat_completeness auto
termination
proof (relation "measure (length \<circ> snd)", goal_cases)
  case (2 conds c s x t)
  then have "length (x # t) \<le> length s" by (metis length_dropWhile_le)
  then show ?case using length_dropWhile_le [of "\<lambda>y. y \<noteq> CHR ''}''" t] by (simp add: less_Suc_eq_le)
qed simp_all

definition label_is :: "string \<Rightarrow> string \<Rightarrow> string" where
  "label_is label v = label @ CHR ''='' # CHR 0x22 # v @ [CHR 0x22]"

subsection \<open>The template's queries\<close>

text \<open>The same of a template, where a field stands for text without a closing brace.\<close>

datatype token = Ch char | Fd string

fun tokens :: "piece \<Rightarrow> token list" where
  "tokens (Txt s) = map Ch s"
| "tokens EscN = [Ch (CHR 0x0A)]"
| "tokens EscQ = [Ch (CHR 0x22)]"
| "tokens (FieldOf f) = [Fd f]"
| "tokens (Constant q) = map Ch q"

fun spell :: "(string \<Rightarrow> string option) \<Rightarrow> token \<Rightarrow> string" where
  "spell data (Ch c) = [c]"
| "spell data (Fd f) = piece_output data (FieldOf f)"

abbreviation spelled :: "(string \<Rightarrow> string option) \<Rightarrow> token list \<Rightarrow> string" where
  "spelled data ts \<equiv> concat (map (spell data) ts)"

fun template_queries :: "tjson \<Rightarrow> token list list" where
  "template_queries (TArr vs) = concat (map template_queries vs)"
| "template_queries (TObj ms) =
     concat (map (\<lambda>(k, v). (case v of TStr ps \<Rightarrow> if k \<in> set query_keys then [concat (map tokens ps)] else [] | _ \<Rightarrow> []) @
       template_queries v) ms)"
| "template_queries v = []"

fun is_char :: "token \<Rightarrow> bool" where
  "is_char (Ch c) \<longleftrightarrow> True"
| "is_char (Fd f) \<longleftrightarrow> False"

fun metric_token :: "token \<Rightarrow> bool" where
  "metric_token (Ch c) \<longleftrightarrow> metric_char c"
| "metric_token (Fd f) \<longleftrightarrow> False"

definition closes :: "token \<Rightarrow> bool" where
  "closes t \<longleftrightarrow> t = Ch (CHR ''}'')"

function restricted_tokens :: "token list list \<Rightarrow> token list \<Rightarrow> bool" where
  "restricted_tokens conds [] = True"
| "restricted_tokens conds (c # s) =
     (if prefix (map Ch ''varnish_'') (c # s) then
        (case dropWhile metric_token s of
           [] \<Rightarrow> False
         | x # t \<Rightarrow> x = Ch (CHR ''{'') \<and> list_all (\<lambda>m. sublist m (takeWhile (\<lambda>y. \<not> closes y) t)) conds \<and>
             restricted_tokens conds (dropWhile (\<lambda>y. \<not> closes y) t))
      else list_all is_char (take 8 (c # s)) \<and> restricted_tokens conds s)"
  by pat_completeness auto
termination
proof (relation "measure (length \<circ> snd)", goal_cases)
  case (2 conds c s x t)
  then have "length (x # t) \<le> length s" by (metis length_dropWhile_le)
  then show ?case using length_dropWhile_le [of "\<lambda>y. \<not> closes y" t] by (simp add: less_Suc_eq_le)
qed simp_all

definition own_labels :: "token list list" where
  "own_labels =
     [map Ch ''service='' @ [Ch (CHR 0x22), Fd ''ServiceName'', Ch (CHR 0x22)],
      map Ch ''namespace='' @ [Ch (CHR 0x22), Fd ''Namespace'', Ch (CHR 0x22)]]"

subsection \<open>Checking the template\<close>

text \<open>A panel that is not a row reads from the data source of the dashboard.\<close>

definition reads_source :: "tjson \<Rightarrow> bool" where
  "reads_source p =
     (case p of
        TObj ms \<Rightarrow> map_of (rev ms) ''datasource'' = Some (TStr [FieldOf ''DatasourceName'']) \<or>
          map_of (rev ms) ''type'' = Some (jstr ''row'')
      | _ \<Rightarrow> False)"

definition panel_checked :: "tjson \<Rightarrow> bool" where
  "panel_checked p \<longleftrightarrow> tjson_ok p \<and> reads_source p \<and> list_all (restricted_tokens own_labels) (template_queries p) \<and>
     list_all (\<lambda>f. f \<noteq> ''Title'') (used_fields p)"

lemma real_time_checked:
  "panel_checked row_real_time_metrics" "panel_checked stat_cache_hit_rate"
    "panel_checked stat_frontend_requests" "panel_checked stat_sessions" "panel_checked stat_cache_hit"
    "panel_checked stat_loaded_vmods" "panel_checked stat_uptime" "panel_checked stat_version"
  by code_simp+

lemma requests_checked:
  "panel_checked row_varnish_requests" "panel_checked graph_varnish_overall_req_sec"
    "panel_checked graph_cache_hit_miss_reqs_sec" "panel_checked graph_queued_requests_sec"
    "panel_checked graph_cache_hit_rate" "panel_checked graph_cache_pass_reqs_sec"
    "panel_checked graph_dropped_requests_sec"
  by code_simp+

lemma memory_checked:
  "panel_checked row_varnish_memory" "panel_checked graph_memory" "panel_checked graph_cache"
    "panel_checked graph_expired_objects_sec" "panel_checked graph_network"
    "panel_checked graph_nuked_objects_sec"
  by code_simp+

lemma internals_checked:
  "panel_checked row_varnish_internals_metrics" "panel_checked graph_requests_sent_to_sleep_per_seconds"
    "panel_checked graph_backend_retries_per_second" "panel_checked graph_threads_limited_per_second"
    "panel_checked graph_number_of_sessions" "panel_checked graph_length_of_session_queue"
    "panel_checked graph_number_of_fetches_per_second"
  by code_simp+

lemma frame_checked:
  "tjson_ok (TObj dashboard_head)" "tjson_ok (TObj dashboard_tail)"
  "list_all (restricted_tokens own_labels) (template_queries (TObj dashboard_tail))"
  "template_queries (TObj dashboard_head) = []"
  by code_simp+

lemma panels_checked: "list_all panel_checked dashboard_panels"
  by (simp only: dashboard_panels_def list.pred_inject real_time_checked requests_checked memory_checked
      internals_checked simp_thms)

end
