(* ===== verification/Dashboard.thy ===== *)
theory Dashboard
  imports DashboardChecks Services
begin

text \<open>
  The text of the Grafana dashboard: for which clusters it is JSON, what a reader of that JSON finds,
  and that its queries only ask for the metrics of the cluster the dashboard belongs to.
\<close>

subsection \<open>Fields of a query\<close>

lemma spelled_chars [simp]: "concat (map (spell data \<circ> Ch) s) = s"
  by (induction s) simp_all

lemma spell_piece: "concat (map (spell data) (tokens p)) = piece_value data p"
  by (cases p) simp_all

lemma spell_pieces: "spelled data (concat (map tokens ps)) = concat (map (piece_value data) ps)"
  by (induction ps) (simp_all add: spell_piece)

lemma queries_instantiate: "queries (instantiate data v) = map (spelled data) (template_queries v)"
proof (induction v)
  case (TArr vs)
  then show ?case by (induction vs) simp_all
next
  case (TObj ms)
  have "\<forall>kv \<in> set ms. queries (instantiate data (snd kv)) = map (spelled data) (template_queries (snd kv))"
    using TObj by (auto simp: snds.simps)
  then show ?case
  proof (induction ms)
    case (Cons kv ms)
    obtain k v where kv: "kv = (k, v)" by (cases kv)
    have "queries (instantiate data (TObj ms)) = map (spelled data) (template_queries (TObj ms))"
      using Cons by simp
    then show ?case using Cons.prems by (cases v) (simp_all add: kv spell_pieces)
  qed simp
qed simp_all

definition brace_free :: "(string \<Rightarrow> string option) \<Rightarrow> bool" where
  "brace_free data \<longleftrightarrow> (\<forall>f v. data f = Some v \<longrightarrow> CHR ''}'' \<notin> set v)"

lemma spell_closes: "brace_free data \<Longrightarrow> \<not> closes t \<Longrightarrow> CHR ''}'' \<notin> set (spell data t)"
  by (cases t) (auto simp: closes_def brace_free_def split: option.split)

lemma spell_until_brace:
  assumes "brace_free data"
  shows "takeWhile (\<lambda>y. y \<noteq> CHR ''}'') (spelled data ts) = spelled data (takeWhile (\<lambda>y. \<not> closes y) ts)"
    "dropWhile (\<lambda>y. y \<noteq> CHR ''}'') (spelled data ts) = spelled data (dropWhile (\<lambda>y. \<not> closes y) ts)"
proof (induction ts)
  case (Cons t ts)
  have "\<not> closes t \<Longrightarrow> \<forall>y \<in> set (spell data t). y \<noteq> CHR ''}''" using spell_closes [OF assms] by blast
  moreover have "closes t \<Longrightarrow> spell data t = ''}''" by (simp add: closes_def)
  ultimately show "takeWhile (\<lambda>y. y \<noteq> CHR ''}'') (spelled data (t # ts)) = spelled data (takeWhile (\<lambda>y. \<not> closes y) (t # ts))"
    "dropWhile (\<lambda>y. y \<noteq> CHR ''}'') (spelled data (t # ts)) = spelled data (dropWhile (\<lambda>y. \<not> closes y) (t # ts))"
    using Cons by (cases "closes t"; simp add: takeWhile_append2 dropWhile_append2)+
qed simp_all

lemma spell_metric:
  "dropWhile metric_token ts = Ch c # us \<Longrightarrow> \<not> metric_char c \<Longrightarrow> dropWhile metric_char (spelled data ts) = c # spelled data us"
proof (induction ts)
  case (Cons t ts)
  then show ?case by (cases t) (auto split: if_splits)
qed simp

lemma spell_sublist: "sublist m ts \<Longrightarrow> sublist (spelled data m) (spelled data ts)"
  unfolding sublist_def by (metis concat_append map_append)

lemma spell_prefix: "prefix (map Ch p) ts \<Longrightarrow> prefix p (spelled data ts)"
  by (auto simp: prefix_def)

lemma spell_no_prefix:
  assumes "list_all is_char (take (length p) ts)" "prefix p (spelled data ts)"
  shows "prefix (map Ch p) ts"
  using assms
proof (induction p arbitrary: ts)
  case (Cons c p)
  then obtain t us where ts: "ts = t # us" by (cases ts) auto
  then obtain x where "t = Ch x" using Cons.prems by (cases t) auto
  then show ?case using Cons ts by auto
qed simp

lemma restricted_spelled:
  assumes "brace_free data"
  shows "restricted_tokens conds ts \<Longrightarrow> query_restricted (map (spelled data) conds) (spelled data ts)"
proof (induction conds ts rule: restricted_tokens.induct)
  case (2 conds c s)
  show ?case
  proof (cases "prefix (map Ch ''varnish_'') (c # s)")
    case True
    obtain t where t: "dropWhile metric_token s = Ch (CHR ''{'') # t"
      "list_all (\<lambda>m. sublist m (takeWhile (\<lambda>y. \<not> closes y) t)) conds"
      "restricted_tokens conds (dropWhile (\<lambda>y. \<not> closes y) t)"
      using 2(3) True by (auto split: list.splits)
    have c: "c = Ch (CHR ''v'')" using True by simp
    have "\<not> metric_char (CHR ''{'')" by code_simp
    then have d: "dropWhile metric_char (spelled data s) = CHR ''{'' # spelled data t" by (rule spell_metric [OF t(1)])
    have "query_restricted (map (spelled data) conds) (spelled data (dropWhile (\<lambda>y. \<not> closes y) t))"
      using 2(1) [OF True t(1) t(3)] .
    moreover have "list_all (\<lambda>m. sublist m (spelled data (takeWhile (\<lambda>y. \<not> closes y) t))) (map (spelled data) conds)"
      using t(2) by (auto simp: list_all_iff intro: spell_sublist)
    moreover have "prefix ''varnish_'' (CHR ''v'' # spelled data s)"
      using spell_prefix [OF True, of data] c by simp
    ultimately show ?thesis using d spell_until_brace [OF assms, of t] c by simp
  next
    case False
    then have s: "list_all is_char (take 8 (c # s))" "restricted_tokens conds s" using 2(3) by auto
    then obtain x where c: "c = Ch x" by (cases c) auto
    have l: "length ''varnish_'' = 8" by simp
    have "\<not> prefix ''varnish_'' (spelled data (c # s))"
      using spell_no_prefix [of "''varnish_''" "c # s" data, unfolded l] s(1) False by blast
    moreover have "query_restricted (map (spelled data) conds) (spelled data s)" using 2(2) False s(2) by blast
    ultimately show ?thesis using c by auto
  qed
qed simp

subsection \<open>The dashboard\<close>

lemma dashboard_ok: "tjson_ok dashboard"
proof -
  have "list_all tjson_ok dashboard_panels" using panels_checked by (auto simp: list_all_iff panel_checked_def)
  moreover have "inert ''panels'' \<and> list_all plain_char ''panels''" by code_simp
  ultimately show ?thesis using frame_checked by (simp add: dashboard_def)
qed

definition dashboard_data :: "string \<Rightarrow> VarnishCluster \<Rightarrow> GrafanaDashboardSpec \<Rightarrow> strmap" where
  "dashboard_data datasource instance gd =
     [''DatasourceName'' \<mapsto> datasource, ''Title'' \<mapsto> gd_Title gd,
      ''ServiceName'' \<mapsto> vc_Name instance, ''Namespace'' \<mapsto> vc_Namespace instance]"

definition dashboard_text :: "(string \<Rightarrow> string option) \<Rightarrow> string" where
  "dashboard_text data = CHR 0x0A # layout (piece_output data) 0 dashboard"

text \<open>Executing the template never fails.\<close>

lemma generated_dashboard:
  "generateGrafanaDashboardData vc gd =
     (case gd_DatasourceName gd of
        None \<Rightarrow> Panic NilDeref
      | Some ds \<Rightarrow> Ret [GrafanaDashboardFileName (vc_Name vc) \<mapsto> dashboard_text (dashboard_data ds vc gd)])"
  using layout_executed [OF dashboard_ok]
  by (simp add: generateGrafanaDashboardData_def template_execute_def grafanaDashboardTemplate_def dashboard_text_def
      dashboard_data_def split: option.split)

lemma member_instantiate:
  "member (map (\<lambda>(k, v). (k, instantiate data v)) ms) key = map_option (instantiate data) (map_of (rev ms) key)"
  unfolding member_def by (simp add: rev_map map_of_map)

lemma dashboard_members:
  "map_of (rev (dashboard_head @ (''panels'', TArr dashboard_panels) # dashboard_tail)) ''title'' = Some (TStr [FieldOf ''Title''])"
  "map_of (rev (dashboard_head @ (''panels'', TArr dashboard_panels) # dashboard_tail)) ''panels'' = Some (TArr dashboard_panels)"
proof -
  have "map_of (rev dashboard_tail) ''title'' = Some (TStr [FieldOf ''Title''])" "map_of (rev dashboard_tail) ''panels'' = None"
    by code_simp+
  then show "map_of (rev (dashboard_head @ (''panels'', TArr dashboard_panels) # dashboard_tail)) ''title'' = Some (TStr [FieldOf ''Title''])"
    "map_of (rev (dashboard_head @ (''panels'', TArr dashboard_panels) # dashboard_tail)) ''panels'' = Some (TArr dashboard_panels)"
    by (simp_all add: map_add_def)
qed

definition plain_cluster :: "string \<Rightarrow> VarnishCluster \<Rightarrow> bool" where
  "plain_cluster ds vc \<longleftrightarrow> list_all plain_char ds \<and> list_all plain_char (vc_Name vc) \<and> list_all plain_char (vc_Namespace vc)"

lemma dashboard_data_plain:
  "plain_cluster ds vc \<Longrightarrow> list_all plain_char (gd_Title gd) \<Longrightarrow> plain_data (dashboard_data ds vc gd)"
  by (auto simp: plain_cluster_def plain_data_def dashboard_data_def)

definition panel_of :: "string \<Rightarrow> json \<Rightarrow> bool" where
  "panel_of ds p =
     (case p of
        JObject ms \<Rightarrow> member ms ''datasource'' = Some (JString ds) \<or> member ms ''type'' = Some (JString ''row'')
      | _ \<Rightarrow> False)"

lemma reads_source_panel:
  "reads_source p \<Longrightarrow> data ''DatasourceName'' = Some ds \<Longrightarrow> panel_of ds (instantiate data p)"
  by (auto simp: reads_source_def panel_of_def member_instantiate split: tjson.splits)

text \<open>
  C29: the dashboard is JSON whenever the names, the data source and the title have no quotes, backslashes or
  control characters: Grafana finds the title, and twenty-eight panels, each a row or one that reads
  from the data source of the spec.
\<close>

theorem dashboard_is_json:
  assumes "gd_DatasourceName gd = Some ds" "plain_cluster ds vc" "list_all plain_char (gd_Title gd)"
  shows "\<exists>content ms ps. generateGrafanaDashboardData vc gd = Ret [GrafanaDashboardFileName (vc_Name vc) \<mapsto> content] \<and>
    json_parse content = Some (JObject ms) \<and> member ms ''title'' = Some (JString (gd_Title gd)) \<and>
    member ms ''panels'' = Some (JArray ps) \<and> length ps = 28 \<and> list_all (panel_of ds) ps"
proof -
  let ?data = "dashboard_data ds vc gd"
  have parsed: "json_parse (dashboard_text ?data) = Some (instantiate ?data dashboard)"
    unfolding dashboard_text_def by (rule layout_parsed [OF dashboard_data_plain [OF assms(2,3)] dashboard_ok])
  let ?ms = "map (\<lambda>(k, v). (k, instantiate ?data v)) (dashboard_head @ (''panels'', TArr dashboard_panels) # dashboard_tail)"
  have "list_all (panel_of ds) (map (instantiate ?data) dashboard_panels)"
    using panels_checked
    by (auto simp: list_all_iff panel_checked_def dashboard_data_def intro!: reads_source_panel)
  moreover have "length dashboard_panels = 28" by (simp add: dashboard_panels_def)
  moreover have "member ?ms ''title'' = Some (JString (gd_Title gd))" "member ?ms ''panels'' = Some (JArray (map (instantiate ?data) dashboard_panels))"
    unfolding member_instantiate dashboard_members by (simp_all add: dashboard_data_def)
  ultimately show ?thesis
    using parsed assms(1) by (intro exI conjI) (simp_all add: generated_dashboard dashboard_def)
qed

text \<open>
  C40: a title or any name with a quote in it is written as it is: a title such as \<open>The "hot" cache\<close> ends the JSON
  string early, and the dashboard cannot be read.
\<close>

theorem quoted_title_breaks_dashboard:
  assumes "gd_DatasourceName gd = Some ds" "plain_cluster ds vc"
    and "gd_Title gd = a @ CHR 0x22 # c # b" "list_all plain_char a" "\<not> json_space c" "c \<notin> {CHR '','', CHR ''}''}"
  shows "\<exists>content. generateGrafanaDashboardData vc gd = Ret [GrafanaDashboardFileName (vc_Name vc) \<mapsto> content] \<and>
    json_parse content = None"
proof -
  let ?data = "dashboard_data ds vc gd"
  define i where "i = length (takeWhile (\<lambda>(k, v). k \<noteq> ''title'') dashboard_tail)"
  have tail: "dashboard_tail = take i dashboard_tail @ (''title'', TStr [FieldOf ''Title'']) # drop (Suc i) dashboard_tail"
    unfolding i_def by code_simp
  let ?front = "dashboard_head @ (''panels'', TArr dashboard_panels) # take i dashboard_tail"
  have "''Title'' \<notin> set (used_fields (TObj dashboard_head))" "''Title'' \<notin> set (used_fields (TObj (take i dashboard_tail)))"
    unfolding i_def by code_simp+
  moreover have "''Title'' \<notin> set (used_fields (TArr dashboard_panels))"
    using panels_checked by (auto simp: list_all_iff panel_checked_def)
  ultimately have fresh: "''Title'' \<notin> set (used_fields (TObj ?front))" by simp
  have split: "dashboard = TObj (?front @ (''title'', TStr [FieldOf ''Title'']) # drop (Suc i) dashboard_tail)"
    unfolding dashboard_def using tail by simp
  have "json_parse (dashboard_text ?data) = None"
    unfolding dashboard_text_def split
  proof (rule cut_string_breaks [OF _ _ _ fresh])
    show "tjson_ok (TObj ?front)" using dashboard_ok unfolding split by simp
    show "list_all plain_char ''title''" by code_simp
    show "?data ''Title'' = Some (a @ CHR 0x22 # c # b)" using assms(3) by (simp add: dashboard_data_def)
    show "list_all plain_char v" if "g \<noteq> ''Title''" "?data g = Some v" for g v
      using that assms(2) by (auto simp: dashboard_data_def plain_cluster_def split: if_splits)
  qed (use assms in simp_all)
  then show ?thesis using assms(1) by (intro exI [of _ "dashboard_text ?data"]) (simp add: generated_dashboard)
qed

subsection \<open>What the dashboard shows\<close>

definition dns_name :: "string \<Rightarrow> bool" where
  "dns_name s \<longleftrightarrow> list_all (\<lambda>c. plain_char c \<and> c \<noteq> CHR ''}'') s"

lemma dns_name_plain: "dns_name s \<Longrightarrow> list_all plain_char s \<and> CHR ''}'' \<notin> set s"
  by (auto simp: dns_name_def list_all_iff)

lemma spelled_labels:
  "map (spelled (dashboard_data ds vc gd)) own_labels =
     [label_is ''service'' (vc_Name vc), label_is ''namespace'' (vc_Namespace vc)]"
  by (simp add: own_labels_def label_is_def dashboard_data_def)

lemma dashboard_restricted:
  assumes "brace_free (dashboard_data ds vc gd)" "q \<in> set (queries (instantiate (dashboard_data ds vc gd) dashboard))"
  shows "query_restricted [label_is ''service'' (vc_Name vc), label_is ''namespace'' (vc_Namespace vc)] q"
proof -
  have "\<forall>ts \<in> set (template_queries dashboard). restricted_tokens own_labels ts"
    using panels_checked frame_checked(3,4)
    by (auto simp: dashboard_def list_all_iff panel_checked_def query_keys_def)
  then show ?thesis
    using assms restricted_spelled [OF assms(1), of own_labels]
    by (auto simp: queries_instantiate spelled_labels)
qed

lemma dashboard_query_count: "length (template_queries dashboard) = 33"
proof -
  have "map (length \<circ> template_queries) dashboard_panels = [0,1,1,1,1,1,1,1,0,1,2,1,2,1,1,0,1,4,1,3,1,0,1,1,1,1,1,1]"
    unfolding dashboard_panels_def by code_simp
  then have "length (template_queries (TArr dashboard_panels)) = 31" by (simp add: length_concat comp_def)
  moreover have "length (template_queries (TObj dashboard_head)) = 0" "length (template_queries (TObj dashboard_tail)) = 2"
    by code_simp+
  moreover have "template_queries dashboard =
      template_queries (TObj dashboard_head) @ template_queries (TArr dashboard_panels) @ template_queries (TObj dashboard_tail)"
    by (simp add: dashboard_def)
  ultimately show ?thesis by (simp only: length_append)
qed

text \<open>
  C10: every query of the dashboard only counts the metrics of its own cluster: it has thirty-three queries,
  and in each of them every metric of Varnish is restricted to the cluster's service and namespace.
\<close>

theorem dashboard_shows_own_cluster:
  assumes "gd_DatasourceName gd = Some ds" "dns_name (vc_Name vc)" "dns_name (vc_Namespace vc)"
    "dns_name ds" "dns_name (gd_Title gd)"
  shows "\<exists>content j. generateGrafanaDashboardData vc gd = Ret [GrafanaDashboardFileName (vc_Name vc) \<mapsto> content] \<and>
    json_parse content = Some j \<and> length (queries j) = 33 \<and>
    list_all (query_restricted [label_is ''service'' (vc_Name vc), label_is ''namespace'' (vc_Namespace vc)]) (queries j)"
proof -
  let ?data = "dashboard_data ds vc gd"
  have plain: "plain_data ?data" "brace_free ?data"
    using assms(2-5) [THEN dns_name_plain] by (auto simp: plain_data_def brace_free_def dashboard_data_def split: if_splits)
  have "json_parse (dashboard_text ?data) = Some (instantiate ?data dashboard)"
    unfolding dashboard_text_def by (rule layout_parsed [OF plain(1) dashboard_ok])
  moreover have "length (queries (instantiate ?data dashboard)) = 33"
    by (simp only: queries_instantiate length_map dashboard_query_count)
  ultimately show ?thesis
    using assms(1) dashboard_restricted [OF plain(2)]
    by (intro exI [of _ "dashboard_text ?data"] exI [of _ "instantiate ?data dashboard"])
      (simp add: generated_dashboard list_all_iff)
qed

lemma other_component_unmatched:
  "L LabelVarnishComponent = Some (component_string c') \<Longrightarrow> c \<noteq> c' \<Longrightarrow> \<not> label_match (ComponentLabels vc c) L"
  unfolding label_match_def map_le_def by (metis ComponentLabels_lookup(2) component_string_inj domI option.inject)

text \<open>
  C30: and those are the metrics that are scraped: of the three services of a cluster the service monitor
  selects the one the queries name, in the cluster's own namespace, and every endpoint it scrapes is a
  port of that service.
\<close>

theorem monitor_scrapes_dashboard_service:
  assumes "desired_service vc = Ret svc" "desired_nocache_service vc = Ret nocache"
  shows "om_Name (svc_Meta svc) = vc_Name vc \<and> om_Namespace (svc_Meta svc) = vc_Namespace vc \<and>
    sms_MatchNames (sm_Spec (service_monitor_object vc spec)) = [vc_Namespace vc] \<and>
    label_match (sms_MatchLabels (sm_Spec (service_monitor_object vc spec))) (om_Labels (svc_Meta svc)) \<and>
    \<not> label_match (sms_MatchLabels (sm_Spec (service_monitor_object vc spec))) (om_Labels (svc_Meta nocache)) \<and>
    \<not> label_match (sms_MatchLabels (sm_Spec (service_monitor_object vc spec))) (om_Labels (svc_Meta (desired_headless_service vc))) \<and>
    map fst (sms_Endpoints (sm_Spec (service_monitor_object vc spec))) = tl (map spt_Name (ss_Ports (svc_Spec svc)))"
proof -
  have svc: "om_Name (svc_Meta svc) = vc_Name vc" "om_Namespace (svc_Meta svc) = vc_Namespace vc"
    "om_Labels (svc_Meta svc) = CombinedComponentLabels vc VarnishComponentCacheService"
    "map spt_Name (ss_Ports (svc_Spec svc)) = [VarnishPortName, VarnishMetricsPortName, VarnishControllerMetricsPortName]"
    using assms(1) by (auto simp: desired_service_def obind_eq_Ret tcp_port_def new_service_spec_def new_meta_def)
  have "om_Labels (svc_Meta nocache) LabelVarnishComponent = Some (component_string VarnishComponentNoCacheService)"
    using assms(2) by (auto simp: desired_nocache_service_def obind_eq_Ret new_meta_def)
  then have "\<not> label_match (ComponentLabels vc VarnishComponentCacheService) (om_Labels (svc_Meta nocache))"
    by (rule other_component_unmatched) simp
  moreover have "om_Labels (svc_Meta (desired_headless_service vc)) LabelVarnishComponent =
      Some (component_string VarnishComponentHeadlessService)"
    by (simp add: desired_headless_service_def new_meta_def)
  then have "\<not> label_match (ComponentLabels vc VarnishComponentCacheService) (om_Labels (svc_Meta (desired_headless_service vc)))"
    by (rule other_component_unmatched) simp
  ultimately show ?thesis
    by (simp add: service_monitor_object_def svc label_match_def CombinedComponentLabels_map_le VarnishMetricsPortName_def
        VarnishControllerMetricsPortName_def)
qed

end
