(* ===== verification/StartupExamples.thy ===== *)
theory StartupExamples
  imports ControllerStartup ControllerExamples Dashboard
begin

text \<open>
  The two executables started on libraries that refuse nothing, the watches of the cluster of \<open>Examples\<close>, and
  its dashboard.
\<close>

subsection \<open>The operator starts\<close>

definition ex_libs :: "'r boot_libs" where
  "ex_libs = \<lparr>b_BuildLogger = (\<lambda>c. Ret ()), b_AddStandardScheme = Ret (), b_AddKnownTypes = (\<lambda>gv ts. Ret ()), b_GetConfig = Ret (),
     b_answer = (\<lambda>st. Ret ())\<rparr>"

definition ex_operator_config :: operator_config where
  "ex_operator_config = \<lparr>oc_Namespace = ''varnish'', oc_LeaderElectionEnabled = True,
     oc_ContainerImage = ''ibmcom/varnish-operator:0.30.0'', oc_LogLevel = 0, oc_LogFormat = ''json'', oc_WebhooksPort = 9443,
     oc_MetricsPort = 8329, oc_WebhooksEnabled = True, oc_CoupledVarnishImage = []\<rparr>"

definition ex_config_libs :: config_libs where
  "ex_config_libs = \<lparr>g_UnmarshalLevel = (\<lambda>s. Some 0), g_ParseEnv = (\<lambda>p l. Ret ex_operator_config),
     g_ParseRef = (\<lambda>r. Ret (NamedTagged ''ibmcom/varnish-operator'' ''0.30.0'')),
     g_WithName = Ret, g_WithTag = (\<lambda>n t. Ret (n @ '':'' @ t))\<rparr>"

lemma ex_libs_simps [simp]: "logger_built ex_libs format level" "b_answer ex_libs st = Ret ()"
  "b_AddStandardScheme ex_libs = Ret ()" "AddToScheme ex_libs = Ret ()" "b_GetConfig ex_libs = Ret ()"
  by (simp_all add: ex_libs_def logger_built_def NewLogger_def panic_err_def AddToScheme_eq Let_def)

lemma operator_starts_complete_witness:
  "\<exists>cfg. LoadConfig ex_config_libs = Ret cfg \<and>
     snd (operator_main ex_config_libs ex_libs (Inl NoKindMatchErr) []) =
       [CreateManager (operator_options cfg), AddReadyzCheck ''ping'',
        RegisterReconciler (operator_watches (Inl NoKindMatchErr)), RegisterWebhook 9443, StartManager]"
proof -
  let ?cfg = "ex_operator_config\<lparr>oc_CoupledVarnishImage := ''ibmcom/varnish:0.30.0''\<rparr>"
  have chop: "chop_image_name ''ibmcom/varnish-operator'' = ''ibmcom''"
    using chop_image_name_simps(1) [of "''varnish-operator''" "''ibmcom''"] by simp
  have cfg: "LoadConfig ex_config_libs = Ret ?cfg"
    by (simp add: LoadConfig_def ex_config_libs_def wrap_err_def chop)
  have "StartManager \<in> set (snd (operator_main ex_config_libs ex_libs (Inl NoKindMatchErr) []))"
    using cfg operator_starts_complete [THEN conjunct1, of ex_config_libs ex_libs "Inl NoKindMatchErr"]
    by (simp add: list_all_iff)
  then obtain c where "LoadConfig ex_config_libs = Ret c"
    "snd (operator_main ex_config_libs ex_libs (Inl NoKindMatchErr) []) = operator_steps c (Inl NoKindMatchErr) @ [StartManager]"
    using operator_starts_complete [THEN conjunct2, of ex_config_libs ex_libs "Inl NoKindMatchErr"] by blast
  then show ?thesis using cfg by (auto simp: operator_steps_def ex_operator_config_def)
qed

subsection \<open>Created objects\<close>

text \<open>\<open>SetControllerReference\<close> as documented: it replaces a reference to the same owner, and refuses a second controller.\<close>

definition lib_set_controller :: "VarnishCluster \<Rightarrow> objmeta \<Rightarrow> objmeta outcome" where
  "lib_set_controller vc m =
     (if list_ex (\<lambda>r. or_Controller r \<and> or_Name r \<noteq> vc_Name vc) (om_OwnerReferences m)
      then Err (Plain ''already owned by another controller'')
      else Ret (m\<lparr>om_OwnerReferences := filter (\<lambda>r. or_Name r \<noteq> vc_Name vc) (om_OwnerReferences m) @ [owner_of vc]\<rparr>))"

definition lib_owner_requests :: "objmeta \<Rightarrow> cluster_key list" where
  "lib_owner_requests m = map (\<lambda>r. (om_Namespace m, or_Name r)) (filter or_Controller (om_OwnerReferences m))"

definition referring_env :: "mem operator_env" where
  "referring_env = mem_env\<lparr>e_SetControllerReference := lib_set_controller\<rparr>"

lemma lib_owner_found: "owner_found referring_env lib_owner_requests"
  by (auto simp: owner_found_def referring_env_def lib_set_controller_def lib_owner_requests_def owner_of_def list_ex_iff
      filter_empty_conv split: if_splits)


subsection \<open>The controller starts\<close>

definition ex_controller_libs :: controller_config_libs where
  "ex_controller_libs = \<lparr>h_UnmarshalLevel = (\<lambda>s. Ret 0), h_ParseEnv = (\<lambda>tags p l. Ret (k_config ex_kenv))\<rparr>"

definition ex_ping :: "controller_config \<Rightarrow> unit outcome" where
  "ex_ping cfg = the (Ping (controller_adm cfg (\<lambda>b args w :: unit. (([], None), w))) False [(1, False), (2, True)])"

lemma controller_waits_for_varnish_witness:
  "snd (controller_main ex_controller_libs ex_libs ex_ping []) = controller_steps (k_config ex_kenv) @ [StartManager]"
proof -
  let ?exec = "\<lambda>b args w :: unit. (([], None), w)"
  have cfg: "LoadControllerConfig ex_controller_libs = Ret (k_config ex_kenv)"
    by (simp add: LoadControllerConfig_def ex_controller_libs_def)
  have ping: "Ping (controller_adm (k_config ex_kenv) ?exec) False [(1, False), (2, True)] = Some (Ret ())"
    by (simp add: Ping_def controller_adm_def NewVarnishAdministartor_def ex_kenv_def)
  have "StartManager \<in> set (snd (controller_main ex_controller_libs ex_libs ex_ping []))"
    unfolding controller_main_def started_config
    by (auto simp: started_iff cfg ex_ping_def ping)
  then show ?thesis
    using controller_waits_for_varnish [of ex_controller_libs ?exec False "[(1, False), (2, True)]" ex_ping ex_libs] cfg ping
    by (auto simp: ex_ping_def)
qed

lemma controller_probes_answered_witness:
  "\<exists>d probe. desired_statefulset mem_env ex_vc [''-F''] = Ret d \<and> ct_ReadinessProbe (controller_of d) = Some probe"
proof -
  obtain d where d: "desired_statefulset mem_env ex_vc [''-F''] = Ret d" using ex_desired by blast
  then show ?thesis using controller_probes_answered [OF d] by blast
qed

lemma requests_reconcile_own_cluster_witness:
  "varnish_Reconcile ex_kenv (''prod'', ''cache'') = varnish_Reconcile ex_kenv (cc_Namespace (k_config ex_kenv), cc_VarnishClusterName (k_config ex_kenv))"
proof (rule requests_reconcile_own_cluster [where ev = "UpdateEvent (ObjVarnishCluster ex_vc) (ObjVarnishCluster ex_vc)"])
  show "(''prod'', ''cache'') \<in> set (controller_woken (k_config ex_kenv) (ex_cstate ([], [], []))
      (UpdateEvent (ObjVarnishCluster ex_vc) (ObjVarnishCluster ex_vc)))"
    by (simp add: controller_woken_def controller_watches_def cluster_filter_Update_def own_cluster_def ex_kenv_def)
qed (simp_all add: ex_kenv_def foreign_deletion_def)

subsection \<open>The dashboard\<close>

definition ex_dashboard :: "string \<Rightarrow> GrafanaDashboardSpec" where
  "ex_dashboard title = \<lparr>gd_Enabled = True, gd_Title = title, gd_Namespace = [], gd_Labels = Map.empty, gd_DatasourceName = Some ''prom''\<rparr>"

lemma ex_dashboard_simps [simp]:
  "gd_DatasourceName (ex_dashboard t) = Some ''prom''" "gd_Title (ex_dashboard t) = t"
  by (simp_all add: ex_dashboard_def)

lemma ex_dns: "dns_name ''cache''" "dns_name ''prod''" "dns_name ''prom''" "plain_cluster ''prom'' ex_vc"
  "list_all plain_char ''The ''"
  by (simp_all add: dns_name_def plain_cluster_def) code_simp+

lemma dashboard_is_json_witness:
  "\<exists>content ms. generateGrafanaDashboardData ex_vc (ex_dashboard ''cache'') = Ret [GrafanaDashboardFileName (vc_Name ex_vc) \<mapsto> content] \<and>
     json_parse content = Some (JObject ms) \<and> member ms ''title'' = Some (JString ''cache'')"
  using dashboard_is_json [of "ex_dashboard ''cache''" "''prom''" ex_vc] ex_dns dns_name_plain [of "''cache''"] by auto

lemma quoted_title_breaks_dashboard_witness:
  "\<exists>content. generateGrafanaDashboardData ex_vc (ex_dashboard (''The '' @ CHR 0x22 # ''hot'' @ CHR 0x22 # '' cache'')) =
     Ret [GrafanaDashboardFileName (vc_Name ex_vc) \<mapsto> content] \<and> json_parse content = None"
  using quoted_title_breaks_dashboard [of "ex_dashboard (''The '' @ CHR 0x22 # ''hot'' @ CHR 0x22 # '' cache'')" "''prom''" ex_vc
      "''The ''" "CHR ''h''" "''ot'' @ CHR 0x22 # '' cache''"] ex_dns
  by (simp add: json_space_def)

lemma dashboard_shows_own_cluster_witness:
  "\<exists>content j. generateGrafanaDashboardData ex_vc (ex_dashboard ''cache'') = Ret [GrafanaDashboardFileName (vc_Name ex_vc) \<mapsto> content] \<and>
     json_parse content = Some j \<and> length (queries j) = 33"
  using dashboard_shows_own_cluster [of "ex_dashboard ''cache''" "''prom''" ex_vc] ex_dns by auto

lemma monitor_scrapes_dashboard_service_witness:
  "\<exists>svc nocache. desired_service ex_vc = Ret svc \<and> desired_nocache_service ex_vc = Ret nocache \<and> om_Name (svc_Meta svc) = ''cache''"
proof -
  obtain svc nocache where d: "desired_service ex_vc = Ret svc" "desired_nocache_service ex_vc = Ret nocache"
    by (simp add: desired_service_def desired_nocache_service_def ex_service_def ex_backend_def)
  then show ?thesis using monitor_scrapes_dashboard_service [OF d] by auto
qed

end
