(* ===== verification/ControllerPermissions.thy ===== *)
theory ControllerPermissions
  imports Permissions VarnishReconcile
begin

text \<open>
  The rights of the controller: those of the cluster role the operator makes for the service account
  of the pods (\<open>desired_cluster_role\<close> of \<open>Rbac\<close>), against what a reconcile of a pod asks of the API
  server. The environment of the controller is put behind the same checks as the operator's in
  \<open>Permissions\<close>; the functions of a reconcile are then shown, one by one, not to notice.
\<close>

definition controller_rules :: "VarnishCluster \<Rightarrow> policy_rule list" where
  "controller_rules vc = role_Rules (desired_cluster_role vc)"

definition enforce_node :: "policy_rule list \<Rightarrow> 'w node_env \<Rightarrow> 'w node_env" where
  "enforce_node rules k = k\<lparr>
     k_VarnishClusters := enforce_resource rules (''caching.ibm.com'', ''varnishclusters'') (k_VarnishClusters k),
     k_Pods := enforce_resource rules ([], ''pods'') (k_Pods k),
     k_ListPods := (\<lambda>ns sel. guarded rules ([], ''pods'') ''list'' (guarded rules ([], ''pods'') ''watch'' (k_ListPods k ns sel))),
     k_ConfigMaps := enforce_resource rules ([], ''configmaps'') (k_ConfigMaps k),
     k_Nodes := enforce_resource rules ([], ''nodes'') (k_Nodes k)\<rparr>"

definition read_only_resource :: "('w, 'o) resource \<Rightarrow> ('w, 'o) resource" where
  "read_only_resource r = r\<lparr>r_create := \<lambda>x. forbidden, r_update := \<lambda>x. forbidden, r_delete := \<lambda>x. forbidden\<rparr>"

text \<open>What is left of the environment: everything can be read, and pods can be updated.\<close>

definition restricted :: "'w node_env \<Rightarrow> 'w node_env" where
  "restricted k = k\<lparr>
     k_VarnishClusters := read_only_resource (k_VarnishClusters k),
     k_Pods := (k_Pods k)\<lparr>r_create := \<lambda>x. forbidden, r_delete := \<lambda>x. forbidden\<rparr>,
     k_ConfigMaps := read_only_resource (k_ConfigMaps k),
     k_Nodes := read_only_resource (k_Nodes k)\<rparr>"

definition without_resource :: "string \<Rightarrow> policy_rule list \<Rightarrow> policy_rule list" where
  "without_resource x rules = map (\<lambda>r. r\<lparr>rule_Resources := removeAll x (rule_Resources r)\<rparr>) rules"

lemma enforce_node_restricted:
  "enforce_node (controller_rules vc) k = restricted k"
  "enforce_node (without_resource ''secrets'' (controller_rules vc)) k = restricted k"
  by (simp_all add: without_resource_def enforce_node_def restricted_def read_only_resource_def enforce_resource_def guarded_def
      controller_rules_def desired_cluster_role_def rule_def allows_def names_or_all_def)

lemma restricted_simps [simp]:
  "k_config (restricted k) = k_config k" "k_ListPods (restricted k) = k_ListPods k"
  "k_FormatSelector (restricted k) = k_FormatSelector k" "k_varnish (restricted k) = k_varnish k"
  "k_ReadDir (restricted k) = k_ReadDir k" "k_ReadFile (restricted k) = k_ReadFile k"
  "k_WriteFile (restricted k) = k_WriteFile k" "k_Remove (restricted k) = k_Remove k"
  "k_ParseTemplate (restricted k) = k_ParseTemplate k" "k_SortThresholds (restricted k) = k_SortThresholds k"
  "c_range (restricted k) = c_range k" "c_now (restricted k) = c_now k"
  "c_get (k_VarnishClusters (restricted k)) = c_get (k_VarnishClusters k)"
  "c_get (k_Pods (restricted k)) = c_get (k_Pods k)"
  "c_get (k_ConfigMaps (restricted k)) = c_get (k_ConfigMaps k)"
  "c_get (k_Nodes (restricted k)) = c_get (k_Nodes k)"
  "c_update_pod (restricted k) = c_update_pod k"
  by (simp_all add: restricted_def read_only_resource_def c_range_def c_now_def c_get_def c_update_pod_def fun_eq_iff)

subsection \<open>The functions of a reconcile\<close>

lemma endpoints_restricted [simp]:
  "getNodeLabels (restricted k) = getNodeLabels k" "list_namespace (restricted k) = list_namespace k"
  "backend_namespaces (restricted k) = backend_namespaces k" "threshold_weights (restricted k) = threshold_weights k"
  by (simp_all add: fun_eq_iff getNodeLabels_def list_namespace_def backend_namespaces_def threshold_weights_def cong: if_cong)

lemma list_pods_restricted [simp]: "list_pods (restricted k) nss sel ns pods = list_pods k nss sel ns pods"
  by (induction ns arbitrary: pods) simp_all

lemma scan_containers_restricted [simp]:
  "scan_containers (restricted k) pod port cs infos n found = scan_containers k pod port cs infos n found"
  by (induction cs arbitrary: infos n found) (simp_all cong: option.case_cong)

lemma scan_backends_restricted [simp]:
  "scan_backends (restricted k) vc port ready pods infos n = scan_backends k vc port ready pods infos n"
  by (induction pods arbitrary: infos n) simp_all

lemma backends_restricted [simp]:
  "balance (restricted k) = balance k" "getPodsInfo (restricted k) = getPodsInfo k"
  "getVarnishEndpoints (restricted k) = getVarnishEndpoints k" "getBackendEndpoints (restricted k) = getBackendEndpoints k"
  by (simp_all add: fun_eq_iff balance_def getPodsInfo_def getVarnishEndpoints_def getBackendEndpoints_def Let_def cong: if_cong)

lemma read_files_restricted [simp]: "read_files (restricted k) dir ns fs = read_files k dir ns fs"
  by (induction ns arbitrary: fs) (simp_all cong: if_cong)

lemma apply_diff_restricted [simp]: "apply_diff (restricted k) dir cur new ns t = apply_diff k dir cur new ns t"
  by (induction k dir cur new ns t rule: apply_diff.induct) (simp_all add: Let_def)

lemma resolve_template_restricted [simp]: "resolve_template (restricted k) = resolve_template k"
  by (simp add: fun_eq_iff resolve_template_def)

lemma resolve_loop_restricted [simp]: "resolve_loop (restricted k) d ts ns fs = resolve_loop k d ts ns fs"
  by (induction ns arbitrary: fs) simp_all

lemma files_restricted [simp]:
  "getCurrentFiles (restricted k) = getCurrentFiles k" "reconcileFiles (restricted k) = reconcileFiles k"
  "resolveTemplates (restricted k) = resolveTemplates k" "merge_templates (restricted k) = merge_templates k"
  by (simp_all add: fun_eq_iff getCurrentFiles_def reconcileFiles_def resolveTemplates_def merge_templates_def cong: if_cong)

lemma varnish_restricted [simp]:
  "c_reload (restricted k) = c_reload k" "c_discard (restricted k) = c_discard k" "c_list (restricted k) = c_list k"
  "c_active (restricted k) = c_active k" "watch_backends (restricted k) = watch_backends k"
  "getConfigMap (restricted k) = getConfigMap k"
  by (simp_all add: fun_eq_iff c_reload_def c_discard_def c_list_def c_active_def watch_backends_def getConfigMap_def)

lemma cleanup_restricted [simp]: "cleanup_config (restricted k) = cleanup_config k"
  by (simp add: fun_eq_iff cleanup_config_def cong: if_cong)

lemma reconcile_restricted [simp]:
  "reconcileVarnish (restricted k) = reconcileVarnish k" "reconcilePod (restricted k) = reconcilePod k"
  by (simp_all add: fun_eq_iff reconcileVarnish_def reconcilePod_def Let_def cong: if_cong option.case_cong)

lemma apply_files_restricted [simp]: "apply_files (restricted k) = apply_files k"
  by (simp add: fun_eq_iff apply_files_def cong: if_cong)

lemma reconcile_cluster_restricted [simp]: "reconcile_cluster (restricted k) = reconcile_cluster k"
  by (simp add: fun_eq_iff reconcile_cluster_def)

text \<open>
  C15: the rights the operator gives the pods of a cluster are enough for their controller: behind a server that
  enforces the rules of the cluster role, a reconcile runs exactly as behind one that allows everything,
  with the same result, state, writes and events. The right to read every secret of the Kubernetes cluster,
  which the role grants too, is not needed for that.
\<close>

theorem controller_rights_suffice:
  "varnish_Reconcile (enforce_node (controller_rules vc) k) request = varnish_Reconcile k request \<and>
   varnish_Reconcile (enforce_node (without_resource ''secrets'' (controller_rules vc)) k) request = varnish_Reconcile k request \<and>
   allows (controller_rules vc) ([], ''secrets'') ''get''"
  by (simp add: enforce_node_restricted varnish_Reconcile_def varnish_reconcileWithContext_def cong: sum.case_cong)
    (simp add: controller_rules_def desired_cluster_role_def rule_def allows_def names_or_all_def)

end
