(* ===== verification/GoHeap.thy ===== *)
theory GoHeap
  imports Prelude
begin

text \<open>
  Go values with references: pointers, slices and maps are addresses of cells of a heap, a struct holds its fields.
  A \<open>copier\<close> is what a \<open>DeepCopyInto\<close> does to a value; the combinators are the steps the generated ones consist
  of, and \<open>copies\<close> is their contract: what is read from the copy is what was read from the original, and everything
  the copy refers to is new.
\<close>

subsection \<open>Types, values, heaps\<close>

datatype gotype = Basic | PtrTo gotype | SliceOf gotype | StrMap | StructOf "(string \<times> gotype) list"

datatype goval = Scalar string | Ref "nat option" | Struct "(string \<times> goval) list"

datatype cell = Pointee goval | Elements "goval list" | Entries "(string \<times> string) list"

record goheap =
  h_cells :: "nat \<Rightarrow> cell option"
  h_next :: nat

text \<open>What a reader of the type finds behind a value, and the addresses on the way.\<close>

datatype content =
    CBasic string | CNil | CPtr content | CSlice "content list" | CMap "(string \<times> string) list"
  | CStruct "(string \<times> content) list"

fun view :: "gotype \<Rightarrow> goval \<Rightarrow> goheap \<Rightarrow> content option"
  and view_fields :: "(string \<times> gotype) list \<Rightarrow> (string \<times> goval) list \<Rightarrow> goheap \<Rightarrow> (string \<times> content) list option" where
  "view Basic (Scalar s) h = Some (CBasic s)"
| "view (PtrTo t) (Ref None) h = Some CNil"
| "view (PtrTo t) (Ref (Some a)) h =
     (case h_cells h a of Some (Pointee v) \<Rightarrow> map_option CPtr (view t v h) | _ \<Rightarrow> None)"
| "view (SliceOf t) (Ref None) h = Some CNil"
| "view (SliceOf t) (Ref (Some a)) h =
     (case h_cells h a of Some (Elements vs) \<Rightarrow> map_option CSlice (those (map (\<lambda>v. view t v h) vs)) | _ \<Rightarrow> None)"
| "view StrMap (Ref None) h = Some CNil"
| "view StrMap (Ref (Some a)) h = (case h_cells h a of Some (Entries es) \<Rightarrow> Some (CMap es) | _ \<Rightarrow> None)"
| "view (StructOf ts) (Struct fs) h = map_option CStruct (view_fields ts fs h)"
| "view _ _ h = None"
| "view_fields [] [] h = Some []"
| "view_fields ((n, t) # ts) ((m, v) # fs) h =
     (if n = m
      then (case view t v h of None \<Rightarrow> None | Some c \<Rightarrow> map_option ((#) (n, c)) (view_fields ts fs h))
      else None)"
| "view_fields _ _ h = None"

fun reach :: "gotype \<Rightarrow> goval \<Rightarrow> goheap \<Rightarrow> nat list"
  and reach_fields :: "(string \<times> gotype) list \<Rightarrow> (string \<times> goval) list \<Rightarrow> goheap \<Rightarrow> nat list" where
  "reach (PtrTo t) (Ref (Some a)) h = a # (case h_cells h a of Some (Pointee v) \<Rightarrow> reach t v h | _ \<Rightarrow> [])"
| "reach (SliceOf t) (Ref (Some a)) h =
     a # (case h_cells h a of Some (Elements vs) \<Rightarrow> concat (map (\<lambda>v. reach t v h) vs) | _ \<Rightarrow> [])"
| "reach StrMap (Ref (Some a)) h = [a]"
| "reach (StructOf ts) (Struct fs) h = reach_fields ts fs h"
| "reach _ _ h = []"
| "reach_fields ((n, t) # ts) ((m, v) # fs) h = reach t v h @ reach_fields ts fs h"
| "reach_fields _ _ h = []"

text \<open>\<open>new(T)\<close> without the address.\<close>

fun zero_value :: "gotype \<Rightarrow> goval" and zero_fields :: "(string \<times> gotype) list \<Rightarrow> (string \<times> goval) list" where
  "zero_value Basic = Scalar []"
| "zero_value (PtrTo t) = Ref None"
| "zero_value (SliceOf t) = Ref None"
| "zero_value StrMap = Ref None"
| "zero_value (StructOf ts) = Struct (zero_fields ts)"
| "zero_fields [] = []"
| "zero_fields ((n, t) # ts) = (n, zero_value t) # zero_fields ts"

subsection \<open>Only what is reached is read\<close>

definition agree_on :: "nat set \<Rightarrow> goheap \<Rightarrow> goheap \<Rightarrow> bool" where
  "agree_on A h h' \<longleftrightarrow> (\<forall>a \<in> A. h_cells h' a = h_cells h a)"

lemma agree_on_Un: "agree_on (A \<union> B) h h' \<longleftrightarrow> agree_on A h h' \<and> agree_on B h h'"
  by (auto simp: agree_on_def)

lemma agree_on_insert: "agree_on (insert a A) h h' \<longleftrightarrow> h_cells h' a = h_cells h a \<and> agree_on A h h'"
  by (auto simp: agree_on_def)

lemma view_flat:
  "view Basic v h' = view Basic v h" "view t (Scalar s) h' = view t (Scalar s) h" "view t (Ref None) h' = view t (Ref None) h"
  "view_fields [] fs h' = view_fields [] fs h" "view_fields ts [] h' = view_fields ts [] h"
proof -
  show "view Basic v h' = view Basic v h" by (cases v) simp_all
  show "view t (Scalar s) h' = view t (Scalar s) h" "view t (Ref None) h' = view t (Ref None) h" by (cases t; simp)+
  show "view_fields [] fs h' = view_fields [] fs h" by (cases fs) simp_all
  show "view_fields ts [] h' = view_fields ts [] h" by (cases ts) simp_all
qed

lemma read_local:
  "agree_on (set (reach t v h)) h h' \<Longrightarrow> view t v h' = view t v h \<and> reach t v h' = reach t v h"
  "agree_on (set (reach_fields ts fs h)) h h' \<Longrightarrow>
     view_fields ts fs h' = view_fields ts fs h \<and> reach_fields ts fs h' = reach_fields ts fs h"
proof (induction t v h and ts fs h rule: reach_reach_fields.induct)
  case (2 t a h)
  have "view t v h' = view t v h \<and> reach t v h' = reach t v h" if "h_cells h a = Some (Elements vs)" "v \<in> set vs" for vs v
    using that 2 by (fastforce simp: agree_on_def)
  then show ?case using 2(2) by (auto simp: agree_on_insert split: option.split cell.split cong: map_cong)
qed (auto simp: agree_on_insert agree_on_Un split: option.split cell.split intro: view_flat)

subsection \<open>Copiers\<close>

type_synonym copier = "goval \<Rightarrow> goheap \<Rightarrow> goval \<times> goheap"

definition copies :: "gotype \<Rightarrow> copier \<Rightarrow> bool" where
  "copies t c \<longleftrightarrow>
     (\<forall>v h x v' h'. view t v h = Some x \<longrightarrow> (\<forall>a \<in> set (reach t v h). a < h_next h) \<longrightarrow> c v h = (v', h') \<longrightarrow>
        view t v' h' = Some x \<and> (\<forall>a \<in> set (reach t v' h'). h_next h \<le> a \<and> a < h_next h') \<and>
        h_next h \<le> h_next h' \<and> agree_on {..<h_next h} h h')"

text \<open>\<open>*out = *in\<close>, \<open>*out = new(T)\<close> and what follows, \<open>make([]T, len( *in))\<close> and the copies of the elements.\<close>

definition shallow :: copier where "shallow v h = (v, h)"

definition store_new :: "(goheap \<Rightarrow> cell \<times> goheap) \<Rightarrow> goheap \<Rightarrow> goval \<times> goheap" where
  "store_new f h =
     (let b = h_next h; (w, h') = f (h\<lparr>h_next := Suc b\<rparr>)
      in (Ref (Some b), h'\<lparr>h_cells := (h_cells h')(b \<mapsto> w)\<rparr>))"

fun copy_elements :: "copier \<Rightarrow> goval list \<Rightarrow> goheap \<Rightarrow> goval list \<times> goheap" where
  "copy_elements c [] h = ([], h)"
| "copy_elements c (v # vs) h =
     (let (v', h1) = c v h; (vs', h2) = copy_elements c vs h1 in (v' # vs', h2))"

fun copy_ptr :: "copier \<Rightarrow> copier" where
  "copy_ptr c (Ref (Some a)) h =
     (case h_cells h a of
        Some (Pointee v) \<Rightarrow> store_new (\<lambda>h. case c v h of (v', h') \<Rightarrow> (Pointee v', h')) h
      | _ \<Rightarrow> (Ref (Some a), h))"
| "copy_ptr c v h = (v, h)"

fun copy_slice :: "copier \<Rightarrow> copier" where
  "copy_slice c (Ref (Some a)) h =
     (case h_cells h a of
        Some (Elements vs) \<Rightarrow> store_new (\<lambda>h. case copy_elements c vs h of (vs', h') \<Rightarrow> (Elements vs', h')) h
      | _ \<Rightarrow> (Ref (Some a), h))"
| "copy_slice c v h = (v, h)"

fun copy_map :: copier where
  "copy_map (Ref (Some a)) h =
     (case h_cells h a of Some (Entries es) \<Rightarrow> store_new (\<lambda>h. (Entries es, h)) h | _ \<Rightarrow> (Ref (Some a), h))"
| "copy_map v h = (v, h)"

text \<open>A struct is assigned as a whole, then the fields that are named are copied, in their order.\<close>

fun copy_fields :: "(string \<rightharpoonup> copier) \<Rightarrow> (string \<times> goval) list \<Rightarrow> goheap \<Rightarrow> (string \<times> goval) list \<times> goheap" where
  "copy_fields p [] h = ([], h)"
| "copy_fields p ((n, v) # fs) h =
     (let (v', h1) = (case p n of None \<Rightarrow> shallow v h | Some c \<Rightarrow> c v h); (fs', h2) = copy_fields p fs h1
      in ((n, v') # fs', h2))"

fun copy_struct :: "(string \<times> copier) list \<Rightarrow> copier" where
  "copy_struct p (Struct fs) h = (case copy_fields (map_of p) fs h of (fs', h') \<Rightarrow> (Struct fs', h'))"
| "copy_struct p v h = (v, h)"


subsection \<open>The combinators copy\<close>

lemma copiesD:
  assumes "copies t c" "view t v h = Some x" "\<forall>a \<in> set (reach t v h). a < h_next h" "c v h = (v', h')"
  shows "view t v' h' = Some x" "\<forall>a \<in> set (reach t v' h'). h_next h \<le> a \<and> a < h_next h'"
    "h_next h \<le> h_next h'" "agree_on {..<h_next h} h h'"
  using assms unfolding copies_def by blast+

lemma agree_on_mono: "agree_on A h h' \<Longrightarrow> B \<subseteq> A \<Longrightarrow> agree_on B h h'"
  by (auto simp: agree_on_def)

lemma agree_on_trans: "agree_on A h h1 \<Longrightarrow> agree_on A h1 h2 \<Longrightarrow> agree_on A h h2"
  by (auto simp: agree_on_def)

lemma read_below:
  assumes "agree_on {..<n} h h'" "\<forall>a \<in> set (reach t v h). a < n"
  shows "view t v h' = view t v h" "reach t v h' = reach t v h"
  using read_local(1) [of t v h h'] agree_on_mono [OF assms(1)] assms(2) by auto

text \<open>Storing something new leaves the old cells alone, and the new cell is reached by nothing else.\<close>

abbreviation reserve :: "goheap \<Rightarrow> goheap" where
  "reserve h \<equiv> h\<lparr>h_next := Suc (h_next h)\<rparr>"

lemma reserved:
  "view t v (reserve h) = view t v h" "reach t v (reserve h) = reach t v h"
  "\<forall>a \<in> set (reach t v h). a < h_next h \<Longrightarrow> \<forall>a \<in> set (reach t v (reserve h)). a < h_next (reserve h)"
  using read_local(1) [of t v h "reserve h"] by (auto simp: agree_on_def)

lemma store_new_result:
  assumes "store_new f h = (v', h')" "f (reserve h) = (w, h1)"
    and "h_next (reserve h) \<le> h_next h1" "agree_on {..<h_next (reserve h)} (reserve h) h1"
  shows "v' = Ref (Some (h_next h))" "h_cells h' (h_next h) = Some w" "h_next h < h_next h'" "h_next h' = h_next h1"
    "agree_on {..<h_next h} h h'"
    "\<forall>a \<in> set (reach t u h1). Suc (h_next h) \<le> a \<and> a < h_next h1 \<Longrightarrow> view t u h' = view t u h1 \<and> reach t u h' = reach t u h1"
proof -
  have r: "v' = Ref (Some (h_next h))" "h' = h1\<lparr>h_cells := (h_cells h1)(h_next h \<mapsto> w)\<rparr>"
    using assms(1,2) by (auto simp: store_new_def Let_def)
  then show "v' = Ref (Some (h_next h))" "h_cells h' (h_next h) = Some w" "h_next h < h_next h'" "h_next h' = h_next h1"
    "agree_on {..<h_next h} h h'"
    using assms(3,4) by (auto simp: agree_on_def)
  assume "\<forall>a \<in> set (reach t u h1). Suc (h_next h) \<le> a \<and> a < h_next h1"
  then have "agree_on (set (reach t u h1)) h1 h'" unfolding r by (auto simp: agree_on_def)
  then show "view t u h' = view t u h1 \<and> reach t u h' = reach t u h1" by (rule read_local)
qed

lemma copies_ptr:
  assumes "copies t c"
  shows "copies (PtrTo t) (copy_ptr c)"
  unfolding copies_def
proof (intro allI impI)
  fix v h x v' h'
  assume v: "view (PtrTo t) v h = Some x" "\<forall>a \<in> set (reach (PtrTo t) v h). a < h_next h" and c: "copy_ptr c v h = (v', h')"
  show "view (PtrTo t) v' h' = Some x \<and> (\<forall>a \<in> set (reach (PtrTo t) v' h'). h_next h \<le> a \<and> a < h_next h') \<and>
      h_next h \<le> h_next h' \<and> agree_on {..<h_next h} h h'"
  proof (cases "v = Ref None")
    case False
    then obtain a w y where a: "v = Ref (Some a)" "h_cells h a = Some (Pointee w)" "view t w h = Some y" "x = CPtr y"
      using v(1) by (cases v) (auto split: option.splits cell.splits)
    obtain w' h1 where w: "c w (reserve h) = (w', h1)" by (cases "c w (reserve h)")
    have "\<forall>a \<in> set (reach t w h). a < h_next h" using v(2) a by simp
    note w' = copiesD [OF assms _ reserved(3) [OF this] w, of y, unfolded reserved, OF a(3)]
    have "store_new (\<lambda>h. case c w h of (v', h') \<Rightarrow> (Pointee v', h')) h = (v', h')" using c a by simp
    note st = store_new_result [OF this, of "Pointee w'" h1]
    show ?thesis using st(1-5) st(6) [of t w'] w w' a(4) by (auto simp: agree_on_def)
  qed (use c v in \<open>auto simp: agree_on_def\<close>)
qed

lemma copy_elements_copies:
  assumes "copies t c"
  shows "those (map (\<lambda>v. view t v h) vs) = Some xs \<Longrightarrow> \<forall>v \<in> set vs. \<forall>a \<in> set (reach t v h). a < h_next h \<Longrightarrow>
    copy_elements c vs h = (vs', h') \<Longrightarrow>
    those (map (\<lambda>v. view t v h') vs') = Some xs \<and>
    (\<forall>v \<in> set vs'. \<forall>a \<in> set (reach t v h'). h_next h \<le> a \<and> a < h_next h') \<and>
    h_next h \<le> h_next h' \<and> agree_on {..<h_next h} h h'"
proof (induction vs arbitrary: h xs vs')
  case (Cons v vs)
  obtain y ys where xs: "view t v h = Some y" "those (map (\<lambda>v. view t v h) vs) = Some ys" "xs = y # ys"
    using Cons.prems(1) by (auto split: option.splits)
  obtain v' h1 where v: "c v h = (v', h1)" by (cases "c v h")
  obtain us where us: "copy_elements c vs h1 = (us, h')" "vs' = v' # us"
    using Cons.prems(3) v by (auto split: prod.splits)
  note v' = copiesD [OF assms xs(1) _ v]
  have b: "\<forall>a \<in> set (reach t v h). a < h_next h" using Cons.prems(2) by simp
  have old: "view t u h1 = view t u h" "reach t u h1 = reach t u h" if "u \<in> set vs" for u
    using read_below [OF v'(4) [OF b], of t u] Cons.prems(2) that by auto
  have "map (\<lambda>v. view t v h1) vs = map (\<lambda>v. view t v h) vs" using old(1) by simp
  then have th: "those (map (\<lambda>v. view t v h1) vs) = Some ys" using xs(2) by (simp only:)
  have "\<forall>u \<in> set vs. \<forall>a \<in> set (reach t u h1). a < h_next h1"
    using old(2) Cons.prems(2) v'(3) [OF b] by fastforce
  note tl = Cons.IH [OF th this us(1)]
  have "view t v' h' = Some y" "reach t v' h' = reach t v' h1"
    using read_below [of "h_next h1" h1 h' t v'] tl v'(1,2) [OF b] by auto
  then show ?case
    using tl v'(2,3,4) [OF b] us(2) xs(3) by (fastforce simp: agree_on_def)
qed (auto simp: agree_on_def)

lemma copies_slice:
  assumes "copies t c"
  shows "copies (SliceOf t) (copy_slice c)"
  unfolding copies_def
proof (intro allI impI)
  fix v h x v' h'
  assume v: "view (SliceOf t) v h = Some x" "\<forall>a \<in> set (reach (SliceOf t) v h). a < h_next h" and c: "copy_slice c v h = (v', h')"
  show "view (SliceOf t) v' h' = Some x \<and> (\<forall>a \<in> set (reach (SliceOf t) v' h'). h_next h \<le> a \<and> a < h_next h') \<and>
      h_next h \<le> h_next h' \<and> agree_on {..<h_next h} h h'"
  proof (cases "v = Ref None")
    case False
    then obtain a ws ys where a: "v = Ref (Some a)" "h_cells h a = Some (Elements ws)"
      "those (map (\<lambda>v. view t v h) ws) = Some ys" "x = CSlice ys"
      using v(1) by (cases v) (auto split: option.splits cell.splits)
    obtain ws' h1 where w: "copy_elements c ws (reserve h) = (ws', h1)" by (cases "copy_elements c ws (reserve h)")
    have "\<forall>v \<in> set ws. \<forall>a \<in> set (reach t v (reserve h)). a < h_next (reserve h)"
      using v(2) a by (fastforce simp: reserved intro: less_SucI)
    note w' = copy_elements_copies [OF assms _ this w, of ys, unfolded reserved, OF a(3)]
    have "store_new (\<lambda>h. case copy_elements c ws h of (vs', h') \<Rightarrow> (Elements vs', h')) h = (v', h')" using c a by simp
    note st = store_new_result(1-5) [OF this, of "Elements ws'" h1] and st' = store_new_result(6) [OF this, of "Elements ws'" h1]
    have st: "v' = Ref (Some (h_next h))" "h_cells h' (h_next h) = Some (Elements ws')" "h_next h < h_next h'"
        "h_next h' = h_next h1" "agree_on {..<h_next h} h h'"
      using st(1-5) w w' by auto
    have e: "view t u h' = view t u h1" "reach t u h' = reach t u h1" if "u \<in> set ws'" for u
      using st' [of t u] w w' that by auto
    have "map (\<lambda>v. view t v h') ws' = map (\<lambda>v. view t v h1) ws'" using e(1) by simp
    then have "those (map (\<lambda>v. view t v h') ws') = Some ys" using w' by (simp only:)
    moreover have "concat (map (\<lambda>v. reach t v h') ws') = concat (map (\<lambda>v. reach t v h1) ws')" using e(2) by (simp cong: map_cong)
    moreover have "\<forall>u \<in> set (concat (map (\<lambda>v. reach t v h1) ws')). h_next h \<le> u \<and> u < h_next h1" using w' by fastforce
    ultimately show ?thesis using st a(4) by simp
  qed (use c v in \<open>auto simp: agree_on_def\<close>)
qed

lemma copies_map: "copies StrMap copy_map"
  unfolding copies_def
proof (intro allI impI)
  fix v h x v' h'
  assume v: "view StrMap v h = Some x" "\<forall>a \<in> set (reach StrMap v h). a < h_next h" and c: "copy_map v h = (v', h')"
  show "view StrMap v' h' = Some x \<and> (\<forall>a \<in> set (reach StrMap v' h'). h_next h \<le> a \<and> a < h_next h') \<and>
      h_next h \<le> h_next h' \<and> agree_on {..<h_next h} h h'"
    using v c by (cases "(v, h)" rule: copy_map.cases) (auto simp: store_new_def Let_def agree_on_def split: option.splits cell.splits)
qed

text \<open>A type without references needs no copying, and fields of such types need not be named.\<close>

fun flat :: "gotype \<Rightarrow> bool" where
  "flat Basic = True"
| "flat (StructOf ts) = list_all (\<lambda>(n, t). flat t) ts"
| "flat _ = False"

lemma flat_reach:
  "flat t \<Longrightarrow> reach t v h = []"
  "list_all (\<lambda>(n, t). flat t) ts \<Longrightarrow> reach_fields ts fs h = []"
  by (induction t v h and ts fs h rule: reach_reach_fields.induct) auto

lemma copies_flat: "flat t \<Longrightarrow> copies t shallow"
  by (simp add: copies_def shallow_def flat_reach agree_on_def)

lemma copies_struct:
  assumes "list_all (\<lambda>(n, t). copies t (case map_of p n of None \<Rightarrow> shallow | Some c \<Rightarrow> c)) ts"
  shows "copies (StructOf ts) (copy_struct p)"
proof -
  have "view_fields ts fs' h' = Some xs \<and> (\<forall>a \<in> set (reach_fields ts fs' h'). h_next h \<le> a \<and> a < h_next h') \<and>
      h_next h \<le> h_next h' \<and> agree_on {..<h_next h} h h'"
    if "view_fields ts fs h = Some xs" "\<forall>a \<in> set (reach_fields ts fs h). a < h_next h"
      "copy_fields (map_of p) fs h = (fs', h')" for fs h xs fs' h'
    using assms that
  proof (induction ts arbitrary: fs h xs fs')
    case Nil
    then show ?case by (cases fs) (auto simp: agree_on_def)
  next
    case (Cons nt ts)
    obtain n t where nt: "nt = (n, t)" by (cases nt)
    obtain v gs y ys where fs: "fs = (n, v) # gs" "view t v h = Some y" "view_fields ts gs h = Some ys" "xs = (n, y) # ys"
      using Cons.prems(2) nt by (cases fs) (auto split: if_splits option.splits)
    define c where "c = (case map_of p n of None \<Rightarrow> shallow | Some c \<Rightarrow> c)"
    have cp: "copies t c" using Cons.prems(1) nt by (simp add: c_def)
    obtain v' h1 where v: "c v h = (v', h1)" by (cases "c v h")
    obtain gs' where gs: "copy_fields (map_of p) gs h1 = (gs', h')" "fs' = (n, v') # gs'"
      using Cons.prems(4) fs(1) v by (cases "map_of p n") (auto simp: c_def Let_def split: prod.splits)
    have b: "\<forall>a \<in> set (reach t v h). a < h_next h" "\<forall>a \<in> set (reach_fields ts gs h). a < h_next h"
      using Cons.prems(3) nt fs(1) by auto
    note v' = copiesD [OF cp fs(2) b(1) v]
    have "agree_on (set (reach_fields ts gs h)) h h1" using agree_on_mono [OF v'(4)] b(2) by auto
    note old = read_local(2) [OF this]
    have "list_all (\<lambda>(n, t). copies t (case map_of p n of None \<Rightarrow> shallow | Some c \<Rightarrow> c)) ts" using Cons.prems(1) by simp
    note tl = Cons.IH [OF this _ _ gs(1), of ys]
    have bnd: "\<forall>a \<in> set (reach_fields ts gs h). a < h_next h1" using b(2) v'(3) by (auto intro: less_le_trans)
    have tl: "view_fields ts gs' h' = Some ys" "\<forall>a \<in> set (reach_fields ts gs' h'). h_next h1 \<le> a \<and> a < h_next h'"
        "h_next h1 \<le> h_next h'" "agree_on {..<h_next h1} h1 h'"
      using tl bnd by (simp_all add: old fs(3))
    have "view t v' h' = Some y" "reach t v' h' = reach t v' h1"
      using read_below [OF tl(4), of t v'] v'(1,2) by auto
    then show ?case
      using tl v'(2,3,4) nt gs(2) fs(4) by (fastforce simp: agree_on_def)
  qed
  note fields = this
  show ?thesis
    unfolding copies_def
  proof (intro allI impI)
    fix v h x v' h'
    assume v: "view (StructOf ts) v h = Some x" "\<forall>a \<in> set (reach (StructOf ts) v h). a < h_next h" and c: "copy_struct p v h = (v', h')"
    then obtain fs xs where fs: "v = Struct fs" "view_fields ts fs h = Some xs" "x = CStruct xs" by (cases v) auto
    obtain fs' where r: "copy_fields (map_of p) fs h = (fs', h')" "v' = Struct fs'"
      using c fs(1) by (auto split: prod.splits)
    show "view (StructOf ts) v' h' = Some x \<and> (\<forall>a \<in> set (reach (StructOf ts) v' h'). h_next h \<le> a \<and> a < h_next h') \<and>
        h_next h \<le> h_next h' \<and> agree_on {..<h_next h} h h'"
      using fields [OF fs(2) _ r(1)] v(2) fs(1,3) r(2) by simp
  qed
qed

lemma view_zero: "\<exists>x. view t (zero_value t) h = Some x" "\<exists>xs. view_fields ts (zero_fields ts) h = Some xs"
  by (induction t and ts rule: zero_value_zero_fields.induct) auto

end
