(* ===== verification/DeepCopy.thy ===== *)
theory DeepCopy
  imports GoHeap
begin

text \<open>
  \<open>zz_generated.deepcopy.go\<close>: the generated copies of the types of \<open>varnishcluster_types.go\<close>, on the heap of
  \<open>GoHeap\<close>. The struct types list their fields as they are declared; a copy names the fields it does more for
  than assign them. Types of other packages, and their copies, are parameters, by name.
\<close>

record external =
  x_type :: "string \<Rightarrow> gotype"
  x_copy :: "string \<Rightarrow> copier"

definition TypeMeta_type :: gotype where
  "TypeMeta_type = StructOf [(''Kind'', Basic), (''APIVersion'', Basic)]"

definition IntOrString_type :: gotype where
  "IntOrString_type = StructOf [(''Type'', Basic), (''IntVal'', Basic), (''StrVal'', Basic)]"

subsection \<open>The types and their copies\<close>

definition struct_ObjectMetadata :: "external \<Rightarrow> gotype" where
  "struct_ObjectMetadata x = StructOf
     [(''Name'', Basic), (''Labels'', StrMap), (''Annotations'', StrMap)]"

definition DeepCopyInto_ObjectMetadata :: "external \<Rightarrow> copier" where
  "DeepCopyInto_ObjectMetadata x = copy_struct
     [(''Labels'', copy_map), (''Annotations'', copy_map)]"

definition struct_PVC :: "external \<Rightarrow> gotype" where
  "struct_PVC x = StructOf
     [(''Metadata'', struct_ObjectMetadata x), (''Spec'', x_type x ''PersistentVolumeClaimSpec'')]"

definition DeepCopyInto_PVC :: "external \<Rightarrow> copier" where
  "DeepCopyInto_PVC x = copy_struct
     [(''Metadata'', DeepCopyInto_ObjectMetadata x), (''Spec'', x_copy x ''PersistentVolumeClaimSpec'')]"

definition struct_UpdateStrategyDelayedRollingUpdate :: "external \<Rightarrow> gotype" where
  "struct_UpdateStrategyDelayedRollingUpdate x = StructOf
     [(''DelaySeconds'', Basic)]"

definition DeepCopyInto_UpdateStrategyDelayedRollingUpdate :: "external \<Rightarrow> copier" where
  "DeepCopyInto_UpdateStrategyDelayedRollingUpdate x = copy_struct
     []"

definition struct_VCLStatus :: "external \<Rightarrow> gotype" where
  "struct_VCLStatus x = StructOf
     [(''Version'', PtrTo Basic), (''ConfigMapVersion'', Basic), (''Availability'', Basic)]"

definition DeepCopyInto_VCLStatus :: "external \<Rightarrow> copier" where
  "DeepCopyInto_VCLStatus x = copy_struct
     [(''Version'', copy_ptr shallow)]"

definition struct_VarnishClusterUpdateStrategy :: "external \<Rightarrow> gotype" where
  "struct_VarnishClusterUpdateStrategy x = StructOf
     [(''Type'', Basic), (''RollingUpdate'', PtrTo (x_type x ''RollingUpdateStatefulSetStrategy'')),
      (''DelayedRollingUpdate'', PtrTo (struct_UpdateStrategyDelayedRollingUpdate x))]"

definition DeepCopyInto_VarnishClusterUpdateStrategy :: "external \<Rightarrow> copier" where
  "DeepCopyInto_VarnishClusterUpdateStrategy x = copy_struct
     [(''RollingUpdate'', copy_ptr (x_copy x ''RollingUpdateStatefulSetStrategy'')),
      (''DelayedRollingUpdate'', copy_ptr shallow)]"

definition struct_VarnishClusterVarnishController :: "external \<Rightarrow> gotype" where
  "struct_VarnishClusterVarnishController x = StructOf
     [(''Image'', Basic), (''ImagePullPolicy'', Basic), (''Resources'', x_type x ''ResourceRequirements'')]"

definition DeepCopyInto_VarnishClusterVarnishController :: "external \<Rightarrow> copier" where
  "DeepCopyInto_VarnishClusterVarnishController x = copy_struct
     [(''Resources'', x_copy x ''ResourceRequirements'')]"

definition struct_VarnishClusterVarnishMetricsExporter :: "external \<Rightarrow> gotype" where
  "struct_VarnishClusterVarnishMetricsExporter x = StructOf
     [(''Image'', Basic), (''ImagePullPolicy'', Basic), (''Resources'', x_type x ''ResourceRequirements'')]"

definition DeepCopyInto_VarnishClusterVarnishMetricsExporter :: "external \<Rightarrow> copier" where
  "DeepCopyInto_VarnishClusterVarnishMetricsExporter x = copy_struct
     [(''Resources'', x_copy x ''ResourceRequirements'')]"

definition struct_VarnishClusterVarnishSecret :: "external \<Rightarrow> gotype" where
  "struct_VarnishClusterVarnishSecret x = StructOf
     [(''SecretName'', PtrTo Basic), (''Key'', PtrTo Basic)]"

definition DeepCopyInto_VarnishClusterVarnishSecret :: "external \<Rightarrow> copier" where
  "DeepCopyInto_VarnishClusterVarnishSecret x = copy_struct
     [(''SecretName'', copy_ptr shallow), (''Key'', copy_ptr shallow)]"

definition struct_VarnishClusterVarnish :: "external \<Rightarrow> gotype" where
  "struct_VarnishClusterVarnish x = StructOf
     [(''Image'', Basic), (''ImagePullPolicy'', Basic), (''ImagePullSecret'', Basic),
      (''Resources'', PtrTo (x_type x ''ResourceRequirements'')), (''Args'', SliceOf Basic),
      (''Controller'', PtrTo (struct_VarnishClusterVarnishController x)),
      (''MetricsExporter'', PtrTo (struct_VarnishClusterVarnishMetricsExporter x)),
      (''Secret'', PtrTo (struct_VarnishClusterVarnishSecret x)),
      (''EnvFrom'', SliceOf (x_type x ''EnvFromSource'')),
      (''ExtraInitContainers'', SliceOf (x_type x ''Container'')),
      (''ExtraVolumeClaimTemplates'', SliceOf (struct_PVC x)), (''ExtraVolumes'', SliceOf (x_type x ''Volume'')),
      (''ExtraVolumeMounts'', SliceOf (x_type x ''VolumeMount''))]"

definition DeepCopyInto_VarnishClusterVarnish :: "external \<Rightarrow> copier" where
  "DeepCopyInto_VarnishClusterVarnish x = copy_struct
     [(''Resources'', copy_ptr (x_copy x ''ResourceRequirements'')), (''Args'', copy_slice shallow),
      (''Controller'', copy_ptr (DeepCopyInto_VarnishClusterVarnishController x)),
      (''MetricsExporter'', copy_ptr (DeepCopyInto_VarnishClusterVarnishMetricsExporter x)),
      (''Secret'', copy_ptr (DeepCopyInto_VarnishClusterVarnishSecret x)),
      (''EnvFrom'', copy_slice (x_copy x ''EnvFromSource'')),
      (''ExtraInitContainers'', copy_slice (x_copy x ''Container'')),
      (''ExtraVolumeClaimTemplates'', copy_slice (DeepCopyInto_PVC x)),
      (''ExtraVolumes'', copy_slice (x_copy x ''Volume'')),
      (''ExtraVolumeMounts'', copy_slice (x_copy x ''VolumeMount''))]"

definition struct_VarnishClusterVCL :: "external \<Rightarrow> gotype" where
  "struct_VarnishClusterVCL x = StructOf
     [(''ConfigMapName'', PtrTo Basic), (''EntrypointFileName'', PtrTo Basic)]"

definition DeepCopyInto_VarnishClusterVCL :: "external \<Rightarrow> copier" where
  "DeepCopyInto_VarnishClusterVCL x = copy_struct
     [(''ConfigMapName'', copy_ptr shallow), (''EntrypointFileName'', copy_ptr shallow)]"

definition struct_VarnishClusterBackendZoneBalancingThreshold :: "external \<Rightarrow> gotype" where
  "struct_VarnishClusterBackendZoneBalancingThreshold x = StructOf
     [(''Local'', PtrTo Basic), (''Remote'', PtrTo Basic), (''Threshold'', PtrTo Basic)]"

definition DeepCopyInto_VarnishClusterBackendZoneBalancingThreshold :: "external \<Rightarrow> copier" where
  "DeepCopyInto_VarnishClusterBackendZoneBalancingThreshold x = copy_struct
     [(''Local'', copy_ptr shallow), (''Remote'', copy_ptr shallow), (''Threshold'', copy_ptr shallow)]"

definition struct_VarnishClusterBackendZoneBalancing :: "external \<Rightarrow> gotype" where
  "struct_VarnishClusterBackendZoneBalancing x = StructOf
     [(''Type'', Basic), (''Thresholds'', SliceOf (struct_VarnishClusterBackendZoneBalancingThreshold x))]"

definition DeepCopyInto_VarnishClusterBackendZoneBalancing :: "external \<Rightarrow> copier" where
  "DeepCopyInto_VarnishClusterBackendZoneBalancing x = copy_struct
     [(''Thresholds'', copy_slice (DeepCopyInto_VarnishClusterBackendZoneBalancingThreshold x))]"

definition struct_VarnishClusterBackend :: "external \<Rightarrow> gotype" where
  "struct_VarnishClusterBackend x = StructOf
     [(''Selector'', StrMap), (''Port'', PtrTo IntOrString_type), (''Namespaces'', SliceOf Basic),
      (''OnlyReady'', Basic), (''ZoneBalancing'', PtrTo (struct_VarnishClusterBackendZoneBalancing x))]"

definition DeepCopyInto_VarnishClusterBackend :: "external \<Rightarrow> copier" where
  "DeepCopyInto_VarnishClusterBackend x = copy_struct
     [(''Selector'', copy_map), (''Port'', copy_ptr shallow), (''Namespaces'', copy_slice shallow),
      (''ZoneBalancing'', copy_ptr (DeepCopyInto_VarnishClusterBackendZoneBalancing x))]"

definition struct_VarnishClusterService :: "external \<Rightarrow> gotype" where
  "struct_VarnishClusterService x = StructOf
     [(''Port'', PtrTo Basic), (''NodePort'', Basic), (''MetricsPort'', PtrTo Basic), (''MetricsNodePort'', Basic),
      (''ControllerMetricsNodePort'', Basic), (''Type'', Basic), (''Annotations'', StrMap)]"

definition DeepCopyInto_VarnishClusterService :: "external \<Rightarrow> copier" where
  "DeepCopyInto_VarnishClusterService x = copy_struct
     [(''Port'', copy_ptr shallow), (''MetricsPort'', copy_ptr shallow), (''Annotations'', copy_map)]"

definition struct_VarnishClusterMonitoringPrometheusServiceMonitor :: "external \<Rightarrow> gotype" where
  "struct_VarnishClusterMonitoringPrometheusServiceMonitor x = StructOf
     [(''Enabled'', Basic), (''Namespace'', Basic), (''Labels'', StrMap), (''ScrapeInterval'', Basic)]"

definition DeepCopyInto_VarnishClusterMonitoringPrometheusServiceMonitor :: "external \<Rightarrow> copier" where
  "DeepCopyInto_VarnishClusterMonitoringPrometheusServiceMonitor x = copy_struct
     [(''Labels'', copy_map)]"

definition struct_VarnishClusterMonitoringGrafanaDashboard :: "external \<Rightarrow> gotype" where
  "struct_VarnishClusterMonitoringGrafanaDashboard x = StructOf
     [(''Enabled'', Basic), (''Title'', Basic), (''Namespace'', Basic), (''Labels'', StrMap),
      (''DatasourceName'', PtrTo Basic)]"

definition DeepCopyInto_VarnishClusterMonitoringGrafanaDashboard :: "external \<Rightarrow> copier" where
  "DeepCopyInto_VarnishClusterMonitoringGrafanaDashboard x = copy_struct
     [(''Labels'', copy_map), (''DatasourceName'', copy_ptr shallow)]"

definition struct_VarnishClusterMonitoring :: "external \<Rightarrow> gotype" where
  "struct_VarnishClusterMonitoring x = StructOf
     [(''PrometheusServiceMonitor'', PtrTo (struct_VarnishClusterMonitoringPrometheusServiceMonitor x)),
      (''GrafanaDashboard'', PtrTo (struct_VarnishClusterMonitoringGrafanaDashboard x))]"

definition DeepCopyInto_VarnishClusterMonitoring :: "external \<Rightarrow> copier" where
  "DeepCopyInto_VarnishClusterMonitoring x = copy_struct
     [(''PrometheusServiceMonitor'', copy_ptr (DeepCopyInto_VarnishClusterMonitoringPrometheusServiceMonitor x)),
      (''GrafanaDashboard'', copy_ptr (DeepCopyInto_VarnishClusterMonitoringGrafanaDashboard x))]"

definition struct_VarnishClusterSpec :: "external \<Rightarrow> gotype" where
  "struct_VarnishClusterSpec x = StructOf
     [(''Replicas'', PtrTo Basic), (''UpdateStrategy'', PtrTo (struct_VarnishClusterUpdateStrategy x)),
      (''Varnish'', PtrTo (struct_VarnishClusterVarnish x)), (''VCL'', PtrTo (struct_VarnishClusterVCL x)),
      (''Backend'', PtrTo (struct_VarnishClusterBackend x)), (''Service'', PtrTo (struct_VarnishClusterService x)),
      (''PodDisruptionBudget'', PtrTo (x_type x ''PodDisruptionBudgetSpec'')), (''NodeSelector'', StrMap),
      (''Affinity'', PtrTo (x_type x ''Affinity'')), (''Tolerations'', SliceOf (x_type x ''Toleration'')),
      (''Monitoring'', PtrTo (struct_VarnishClusterMonitoring x)), (''LogLevel'', Basic), (''LogFormat'', Basic),
      (''PriorityClassName'', Basic)]"

definition DeepCopyInto_VarnishClusterSpec :: "external \<Rightarrow> copier" where
  "DeepCopyInto_VarnishClusterSpec x = copy_struct
     [(''Replicas'', copy_ptr shallow), (''UpdateStrategy'', copy_ptr (DeepCopyInto_VarnishClusterUpdateStrategy x)),
      (''Varnish'', copy_ptr (DeepCopyInto_VarnishClusterVarnish x)),
      (''VCL'', copy_ptr (DeepCopyInto_VarnishClusterVCL x)),
      (''Backend'', copy_ptr (DeepCopyInto_VarnishClusterBackend x)),
      (''Service'', copy_ptr (DeepCopyInto_VarnishClusterService x)),
      (''PodDisruptionBudget'', copy_ptr (x_copy x ''PodDisruptionBudgetSpec'')), (''NodeSelector'', copy_map),
      (''Affinity'', copy_ptr (x_copy x ''Affinity'')), (''Tolerations'', copy_slice (x_copy x ''Toleration'')),
      (''Monitoring'', copy_ptr (DeepCopyInto_VarnishClusterMonitoring x))]"

definition struct_VarnishClusterStatus :: "external \<Rightarrow> gotype" where
  "struct_VarnishClusterStatus x = StructOf
     [(''VCL'', struct_VCLStatus x), (''VarnishArgs'', Basic), (''Replicas'', Basic), (''VarnishPodsSelector'', Basic)]"

definition DeepCopyInto_VarnishClusterStatus :: "external \<Rightarrow> copier" where
  "DeepCopyInto_VarnishClusterStatus x = copy_struct
     [(''VCL'', DeepCopyInto_VCLStatus x)]"

definition struct_VarnishCluster :: "external \<Rightarrow> gotype" where
  "struct_VarnishCluster x = StructOf
     [(''TypeMeta'', TypeMeta_type), (''ObjectMeta'', x_type x ''ObjectMeta''),
      (''Spec'', struct_VarnishClusterSpec x), (''Status'', struct_VarnishClusterStatus x)]"

definition DeepCopyInto_VarnishCluster :: "external \<Rightarrow> copier" where
  "DeepCopyInto_VarnishCluster x = copy_struct
     [(''TypeMeta'', shallow), (''ObjectMeta'', x_copy x ''ObjectMeta''),
      (''Spec'', DeepCopyInto_VarnishClusterSpec x), (''Status'', DeepCopyInto_VarnishClusterStatus x)]"

definition struct_VarnishClusterList :: "external \<Rightarrow> gotype" where
  "struct_VarnishClusterList x = StructOf
     [(''TypeMeta'', TypeMeta_type), (''ListMeta'', x_type x ''ListMeta''),
      (''Items'', SliceOf (struct_VarnishCluster x))]"

definition DeepCopyInto_VarnishClusterList :: "external \<Rightarrow> copier" where
  "DeepCopyInto_VarnishClusterList x = copy_struct
     [(''TypeMeta'', shallow), (''ListMeta'', x_copy x ''ListMeta''),
      (''Items'', copy_slice (DeepCopyInto_VarnishCluster x))]"

text \<open>\<open>DeepCopy\<close> of a pointer: nil, or a new object.\<close>

definition DeepCopy_ObjectMetadata :: "external \<Rightarrow> copier" where
  "DeepCopy_ObjectMetadata x = copy_ptr (DeepCopyInto_ObjectMetadata x)"

definition DeepCopy_PVC :: "external \<Rightarrow> copier" where
  "DeepCopy_PVC x = copy_ptr (DeepCopyInto_PVC x)"

definition DeepCopy_UpdateStrategyDelayedRollingUpdate :: "external \<Rightarrow> copier" where
  "DeepCopy_UpdateStrategyDelayedRollingUpdate x = copy_ptr (DeepCopyInto_UpdateStrategyDelayedRollingUpdate x)"

definition DeepCopy_VCLStatus :: "external \<Rightarrow> copier" where
  "DeepCopy_VCLStatus x = copy_ptr (DeepCopyInto_VCLStatus x)"

definition DeepCopy_VarnishClusterUpdateStrategy :: "external \<Rightarrow> copier" where
  "DeepCopy_VarnishClusterUpdateStrategy x = copy_ptr (DeepCopyInto_VarnishClusterUpdateStrategy x)"

definition DeepCopy_VarnishClusterVarnishController :: "external \<Rightarrow> copier" where
  "DeepCopy_VarnishClusterVarnishController x = copy_ptr (DeepCopyInto_VarnishClusterVarnishController x)"

definition DeepCopy_VarnishClusterVarnishMetricsExporter :: "external \<Rightarrow> copier" where
  "DeepCopy_VarnishClusterVarnishMetricsExporter x = copy_ptr (DeepCopyInto_VarnishClusterVarnishMetricsExporter x)"

definition DeepCopy_VarnishClusterVarnishSecret :: "external \<Rightarrow> copier" where
  "DeepCopy_VarnishClusterVarnishSecret x = copy_ptr (DeepCopyInto_VarnishClusterVarnishSecret x)"

definition DeepCopy_VarnishClusterVarnish :: "external \<Rightarrow> copier" where
  "DeepCopy_VarnishClusterVarnish x = copy_ptr (DeepCopyInto_VarnishClusterVarnish x)"

definition DeepCopy_VarnishClusterVCL :: "external \<Rightarrow> copier" where
  "DeepCopy_VarnishClusterVCL x = copy_ptr (DeepCopyInto_VarnishClusterVCL x)"

definition DeepCopy_VarnishClusterBackendZoneBalancingThreshold :: "external \<Rightarrow> copier" where
  "DeepCopy_VarnishClusterBackendZoneBalancingThreshold x = copy_ptr (DeepCopyInto_VarnishClusterBackendZoneBalancingThreshold x)"

definition DeepCopy_VarnishClusterBackendZoneBalancing :: "external \<Rightarrow> copier" where
  "DeepCopy_VarnishClusterBackendZoneBalancing x = copy_ptr (DeepCopyInto_VarnishClusterBackendZoneBalancing x)"

definition DeepCopy_VarnishClusterBackend :: "external \<Rightarrow> copier" where
  "DeepCopy_VarnishClusterBackend x = copy_ptr (DeepCopyInto_VarnishClusterBackend x)"

definition DeepCopy_VarnishClusterService :: "external \<Rightarrow> copier" where
  "DeepCopy_VarnishClusterService x = copy_ptr (DeepCopyInto_VarnishClusterService x)"

definition DeepCopy_VarnishClusterMonitoringPrometheusServiceMonitor :: "external \<Rightarrow> copier" where
  "DeepCopy_VarnishClusterMonitoringPrometheusServiceMonitor x = copy_ptr (DeepCopyInto_VarnishClusterMonitoringPrometheusServiceMonitor x)"

definition DeepCopy_VarnishClusterMonitoringGrafanaDashboard :: "external \<Rightarrow> copier" where
  "DeepCopy_VarnishClusterMonitoringGrafanaDashboard x = copy_ptr (DeepCopyInto_VarnishClusterMonitoringGrafanaDashboard x)"

definition DeepCopy_VarnishClusterMonitoring :: "external \<Rightarrow> copier" where
  "DeepCopy_VarnishClusterMonitoring x = copy_ptr (DeepCopyInto_VarnishClusterMonitoring x)"

definition DeepCopy_VarnishClusterSpec :: "external \<Rightarrow> copier" where
  "DeepCopy_VarnishClusterSpec x = copy_ptr (DeepCopyInto_VarnishClusterSpec x)"

definition DeepCopy_VarnishClusterStatus :: "external \<Rightarrow> copier" where
  "DeepCopy_VarnishClusterStatus x = copy_ptr (DeepCopyInto_VarnishClusterStatus x)"

definition DeepCopy_VarnishCluster :: "external \<Rightarrow> copier" where
  "DeepCopy_VarnishCluster x = copy_ptr (DeepCopyInto_VarnishCluster x)"

definition DeepCopy_VarnishClusterList :: "external \<Rightarrow> copier" where
  "DeepCopy_VarnishClusterList x = copy_ptr (DeepCopyInto_VarnishClusterList x)"

text \<open>An interface of a nil pointer would not be nil.\<close>

definition as_object :: "goval \<times> goheap \<Rightarrow> goval option \<times> goheap" where
  "as_object c = (if fst c = Ref None then None else Some (fst c), snd c)"

definition DeepCopyObject_VarnishCluster :: "external \<Rightarrow> goval \<Rightarrow> goheap \<Rightarrow> goval option \<times> goheap" where
  "DeepCopyObject_VarnishCluster x v h = as_object (DeepCopy_VarnishCluster x v h)"

definition DeepCopyObject_VarnishClusterList :: "external \<Rightarrow> goval \<Rightarrow> goheap \<Rightarrow> goval option \<times> goheap" where
  "DeepCopyObject_VarnishClusterList x v h = as_object (DeepCopy_VarnishClusterList x v h)"

definition generated_copies :: "external \<Rightarrow> (gotype \<times> copier) list" where
  "generated_copies x =
     [(struct_ObjectMetadata x, DeepCopy_ObjectMetadata x),
      (struct_PVC x, DeepCopy_PVC x),
      (struct_UpdateStrategyDelayedRollingUpdate x, DeepCopy_UpdateStrategyDelayedRollingUpdate x),
      (struct_VCLStatus x, DeepCopy_VCLStatus x),
      (struct_VarnishClusterUpdateStrategy x, DeepCopy_VarnishClusterUpdateStrategy x),
      (struct_VarnishClusterVarnishController x, DeepCopy_VarnishClusterVarnishController x),
      (struct_VarnishClusterVarnishMetricsExporter x, DeepCopy_VarnishClusterVarnishMetricsExporter x),
      (struct_VarnishClusterVarnishSecret x, DeepCopy_VarnishClusterVarnishSecret x),
      (struct_VarnishClusterVarnish x, DeepCopy_VarnishClusterVarnish x),
      (struct_VarnishClusterVCL x, DeepCopy_VarnishClusterVCL x),
      (struct_VarnishClusterBackendZoneBalancingThreshold x, DeepCopy_VarnishClusterBackendZoneBalancingThreshold x),
      (struct_VarnishClusterBackendZoneBalancing x, DeepCopy_VarnishClusterBackendZoneBalancing x),
      (struct_VarnishClusterBackend x, DeepCopy_VarnishClusterBackend x),
      (struct_VarnishClusterService x, DeepCopy_VarnishClusterService x),
      (struct_VarnishClusterMonitoringPrometheusServiceMonitor x, DeepCopy_VarnishClusterMonitoringPrometheusServiceMonitor x),
      (struct_VarnishClusterMonitoringGrafanaDashboard x, DeepCopy_VarnishClusterMonitoringGrafanaDashboard x),
      (struct_VarnishClusterMonitoring x, DeepCopy_VarnishClusterMonitoring x),
      (struct_VarnishClusterSpec x, DeepCopy_VarnishClusterSpec x),
      (struct_VarnishClusterStatus x, DeepCopy_VarnishClusterStatus x),
      (struct_VarnishCluster x, DeepCopy_VarnishCluster x),
      (struct_VarnishClusterList x, DeepCopy_VarnishClusterList x)]"

subsection \<open>Copies are independent\<close>

definition lawful_external :: "external \<Rightarrow> bool" where
  "lawful_external x \<longleftrightarrow> (\<forall>n. copies (x_type x n) (x_copy x n))"

named_theorems copies_intros \<open>the copies of the types\<close>

lemma copies_external [copies_intros]: "lawful_external x \<Longrightarrow> copies (x_type x n) (x_copy x n)"
  by (simp add: lawful_external_def)

lemmas copy_rules = copies_struct copies_ptr copies_slice copies_map copies_flat TypeMeta_type_def IntOrString_type_def

lemma flat_delay [simp]: "flat (struct_UpdateStrategyDelayedRollingUpdate x)"
  by (simp add: struct_UpdateStrategyDelayedRollingUpdate_def)

lemma copies_ObjectMetadata [copies_intros]: "lawful_external x \<Longrightarrow> copies (struct_ObjectMetadata x) (DeepCopyInto_ObjectMetadata x)"
  by (simp add: struct_ObjectMetadata_def DeepCopyInto_ObjectMetadata_def copy_rules copies_intros)

lemma copies_PVC [copies_intros]: "lawful_external x \<Longrightarrow> copies (struct_PVC x) (DeepCopyInto_PVC x)"
  by (simp add: struct_PVC_def DeepCopyInto_PVC_def copy_rules copies_intros)

lemma copies_UpdateStrategyDelayedRollingUpdate [copies_intros]: "lawful_external x \<Longrightarrow> copies (struct_UpdateStrategyDelayedRollingUpdate x) (DeepCopyInto_UpdateStrategyDelayedRollingUpdate x)"
  by (simp add: struct_UpdateStrategyDelayedRollingUpdate_def DeepCopyInto_UpdateStrategyDelayedRollingUpdate_def copy_rules copies_intros)

lemma copies_VCLStatus [copies_intros]: "lawful_external x \<Longrightarrow> copies (struct_VCLStatus x) (DeepCopyInto_VCLStatus x)"
  by (simp add: struct_VCLStatus_def DeepCopyInto_VCLStatus_def copy_rules copies_intros)

lemma copies_VarnishClusterUpdateStrategy [copies_intros]: "lawful_external x \<Longrightarrow> copies (struct_VarnishClusterUpdateStrategy x) (DeepCopyInto_VarnishClusterUpdateStrategy x)"
  by (simp add: struct_VarnishClusterUpdateStrategy_def DeepCopyInto_VarnishClusterUpdateStrategy_def copy_rules copies_intros)

lemma copies_VarnishClusterVarnishController [copies_intros]: "lawful_external x \<Longrightarrow> copies (struct_VarnishClusterVarnishController x) (DeepCopyInto_VarnishClusterVarnishController x)"
  by (simp add: struct_VarnishClusterVarnishController_def DeepCopyInto_VarnishClusterVarnishController_def copy_rules copies_intros)

lemma copies_VarnishClusterVarnishMetricsExporter [copies_intros]: "lawful_external x \<Longrightarrow> copies (struct_VarnishClusterVarnishMetricsExporter x) (DeepCopyInto_VarnishClusterVarnishMetricsExporter x)"
  by (simp add: struct_VarnishClusterVarnishMetricsExporter_def DeepCopyInto_VarnishClusterVarnishMetricsExporter_def copy_rules copies_intros)

lemma copies_VarnishClusterVarnishSecret [copies_intros]: "lawful_external x \<Longrightarrow> copies (struct_VarnishClusterVarnishSecret x) (DeepCopyInto_VarnishClusterVarnishSecret x)"
  by (simp add: struct_VarnishClusterVarnishSecret_def DeepCopyInto_VarnishClusterVarnishSecret_def copy_rules copies_intros)

lemma copies_VarnishClusterVarnish [copies_intros]: "lawful_external x \<Longrightarrow> copies (struct_VarnishClusterVarnish x) (DeepCopyInto_VarnishClusterVarnish x)"
  by (simp add: struct_VarnishClusterVarnish_def DeepCopyInto_VarnishClusterVarnish_def copy_rules copies_intros)

lemma copies_VarnishClusterVCL [copies_intros]: "lawful_external x \<Longrightarrow> copies (struct_VarnishClusterVCL x) (DeepCopyInto_VarnishClusterVCL x)"
  by (simp add: struct_VarnishClusterVCL_def DeepCopyInto_VarnishClusterVCL_def copy_rules copies_intros)

lemma copies_VarnishClusterBackendZoneBalancingThreshold [copies_intros]: "lawful_external x \<Longrightarrow> copies (struct_VarnishClusterBackendZoneBalancingThreshold x) (DeepCopyInto_VarnishClusterBackendZoneBalancingThreshold x)"
  by (simp add: struct_VarnishClusterBackendZoneBalancingThreshold_def DeepCopyInto_VarnishClusterBackendZoneBalancingThreshold_def copy_rules copies_intros)

lemma copies_VarnishClusterBackendZoneBalancing [copies_intros]: "lawful_external x \<Longrightarrow> copies (struct_VarnishClusterBackendZoneBalancing x) (DeepCopyInto_VarnishClusterBackendZoneBalancing x)"
  by (simp add: struct_VarnishClusterBackendZoneBalancing_def DeepCopyInto_VarnishClusterBackendZoneBalancing_def copy_rules copies_intros)

lemma copies_VarnishClusterBackend [copies_intros]: "lawful_external x \<Longrightarrow> copies (struct_VarnishClusterBackend x) (DeepCopyInto_VarnishClusterBackend x)"
  by (simp add: struct_VarnishClusterBackend_def DeepCopyInto_VarnishClusterBackend_def copy_rules copies_intros)

lemma copies_VarnishClusterService [copies_intros]: "lawful_external x \<Longrightarrow> copies (struct_VarnishClusterService x) (DeepCopyInto_VarnishClusterService x)"
  by (simp add: struct_VarnishClusterService_def DeepCopyInto_VarnishClusterService_def copy_rules copies_intros)

lemma copies_VarnishClusterMonitoringPrometheusServiceMonitor [copies_intros]: "lawful_external x \<Longrightarrow> copies (struct_VarnishClusterMonitoringPrometheusServiceMonitor x) (DeepCopyInto_VarnishClusterMonitoringPrometheusServiceMonitor x)"
  by (simp add: struct_VarnishClusterMonitoringPrometheusServiceMonitor_def DeepCopyInto_VarnishClusterMonitoringPrometheusServiceMonitor_def copy_rules copies_intros)

lemma copies_VarnishClusterMonitoringGrafanaDashboard [copies_intros]: "lawful_external x \<Longrightarrow> copies (struct_VarnishClusterMonitoringGrafanaDashboard x) (DeepCopyInto_VarnishClusterMonitoringGrafanaDashboard x)"
  by (simp add: struct_VarnishClusterMonitoringGrafanaDashboard_def DeepCopyInto_VarnishClusterMonitoringGrafanaDashboard_def copy_rules copies_intros)

lemma copies_VarnishClusterMonitoring [copies_intros]: "lawful_external x \<Longrightarrow> copies (struct_VarnishClusterMonitoring x) (DeepCopyInto_VarnishClusterMonitoring x)"
  by (simp add: struct_VarnishClusterMonitoring_def DeepCopyInto_VarnishClusterMonitoring_def copy_rules copies_intros)

lemma copies_VarnishClusterSpec [copies_intros]: "lawful_external x \<Longrightarrow> copies (struct_VarnishClusterSpec x) (DeepCopyInto_VarnishClusterSpec x)"
  by (simp add: struct_VarnishClusterSpec_def DeepCopyInto_VarnishClusterSpec_def copy_rules copies_intros)

lemma copies_VarnishClusterStatus [copies_intros]: "lawful_external x \<Longrightarrow> copies (struct_VarnishClusterStatus x) (DeepCopyInto_VarnishClusterStatus x)"
  by (simp add: struct_VarnishClusterStatus_def DeepCopyInto_VarnishClusterStatus_def copy_rules copies_intros)

lemma copies_VarnishCluster [copies_intros]: "lawful_external x \<Longrightarrow> copies (struct_VarnishCluster x) (DeepCopyInto_VarnishCluster x)"
  by (simp add: struct_VarnishCluster_def DeepCopyInto_VarnishCluster_def copy_rules copies_intros)

lemma copies_VarnishClusterList [copies_intros]: "lawful_external x \<Longrightarrow> copies (struct_VarnishClusterList x) (DeepCopyInto_VarnishClusterList x)"
  by (simp add: struct_VarnishClusterList_def DeepCopyInto_VarnishClusterList_def copy_rules copies_intros)

lemmas deep_copy_defs =
  DeepCopy_ObjectMetadata_def
  DeepCopy_PVC_def
  DeepCopy_UpdateStrategyDelayedRollingUpdate_def
  DeepCopy_VCLStatus_def
  DeepCopy_VarnishClusterUpdateStrategy_def
  DeepCopy_VarnishClusterVarnishController_def
  DeepCopy_VarnishClusterVarnishMetricsExporter_def
  DeepCopy_VarnishClusterVarnishSecret_def
  DeepCopy_VarnishClusterVarnish_def
  DeepCopy_VarnishClusterVCL_def
  DeepCopy_VarnishClusterBackendZoneBalancingThreshold_def
  DeepCopy_VarnishClusterBackendZoneBalancing_def
  DeepCopy_VarnishClusterBackend_def
  DeepCopy_VarnishClusterService_def
  DeepCopy_VarnishClusterMonitoringPrometheusServiceMonitor_def
  DeepCopy_VarnishClusterMonitoringGrafanaDashboard_def
  DeepCopy_VarnishClusterMonitoring_def
  DeepCopy_VarnishClusterSpec_def
  DeepCopy_VarnishClusterStatus_def
  DeepCopy_VarnishCluster_def
  DeepCopy_VarnishClusterList_def

lemma generated_copies_copy:
  assumes "lawful_external x" "(t, c) \<in> set (generated_copies x)"
  shows "copies (PtrTo t) c"
proof -
  have "list_all (\<lambda>(t, c). copies (PtrTo t) c) (generated_copies x)"
    using assms(1) by (simp add: generated_copies_def deep_copy_defs copies_ptr copies_intros)
  then show ?thesis using assms(2) by (auto simp: list_all_iff)
qed

text \<open>
  C35: every generated \<open>DeepCopy\<close> makes a copy that says the same and shares nothing: what is read from it is what
  was read from the original, no cell behind it is one behind the original, and whatever is then written to the
  cells of the one leaves the other as it is. So no field that holds a reference was forgotten when the code was
  last generated.
\<close>

theorem deep_copies_independent:
  assumes "lawful_external x" "(t, DeepCopy) \<in> set (generated_copies x)"
    and "view (PtrTo t) v h = Some c" "\<forall>a \<in> set (reach (PtrTo t) v h). a < h_next h" "DeepCopy v h = (v', h')"
  shows "view (PtrTo t) v' h' = Some c \<and> view (PtrTo t) v h' = Some c \<and>
    set (reach (PtrTo t) v' h') \<inter> set (reach (PtrTo t) v h') = {} \<and>
    (\<forall>ws. set (map fst ws) \<subseteq> set (reach (PtrTo t) v' h') \<longrightarrow>
       view (PtrTo t) v (h'\<lparr>h_cells := h_cells h' ++ map_of ws\<rparr>) = Some c) \<and>
    (\<forall>ws. set (map fst ws) \<subseteq> set (reach (PtrTo t) v h') \<longrightarrow>
       view (PtrTo t) v' (h'\<lparr>h_cells := h_cells h' ++ map_of ws\<rparr>) = Some c)"
proof -
  note cp = copiesD [OF generated_copies_copy [OF assms(1,2)] assms(3-5)]
  have old: "view (PtrTo t) v h' = Some c" "reach (PtrTo t) v h' = reach (PtrTo t) v h"
    using read_below [OF cp(4) assms(4)] assms(3) by simp_all
  have disjoint: "set (reach (PtrTo t) v' h') \<inter> set (reach (PtrTo t) v h') = {}"
    using cp(2) assms(4) unfolding old(2) by force
  have untouched: "view (PtrTo t) u (h'\<lparr>h_cells := h_cells h' ++ map_of ws\<rparr>) = view (PtrTo t) u h'"
    if "set (map fst ws) \<inter> set (reach (PtrTo t) u h') = {}" for u ws
  proof -
    have "map_of ws a = None" if "a \<in> set (reach (PtrTo t) u h')" for a
      using that \<open>set (map fst ws) \<inter> _ = {}\<close> by (auto simp: map_of_eq_None_iff)
    then have "agree_on (set (reach (PtrTo t) u h')) h' (h'\<lparr>h_cells := h_cells h' ++ map_of ws\<rparr>)"
      by (simp add: agree_on_def map_add_def)
    then show ?thesis using read_local(1) by blast
  qed
  have apart: "A \<subseteq> B \<Longrightarrow> B \<inter> C = {} \<Longrightarrow> A \<inter> C = {}" for A B C :: "nat set" by blast
  show ?thesis
    using cp(1) old(1) disjoint untouched apart [OF _ disjoint] apart [OF _ disjoint [unfolded Int_commute [of _ "set (reach _ v _)"]]]
    by simp
qed

text \<open>A backend with a selector, a port and a namespace behind its references.\<close>

definition ex_external :: external where
  "ex_external = \<lparr>x_type = (\<lambda>n. StrMap), x_copy = (\<lambda>n. copy_map)\<rparr>"

definition ex_heap :: goheap where
  "ex_heap = \<lparr>h_cells =
     [0 \<mapsto> Pointee (Struct [(''Selector'', Ref (Some 1)), (''Port'', Ref (Some 2)), (''Namespaces'', Ref (Some 3)),
                            (''OnlyReady'', Scalar ''true''), (''ZoneBalancing'', Ref None)]),
      1 \<mapsto> Entries [(''app'', ''web'')],
      2 \<mapsto> Pointee (Struct [(''Type'', Scalar ''0''), (''IntVal'', Scalar ''8080''), (''StrVal'', Scalar [])]),
      3 \<mapsto> Elements [Scalar ''prod'']], h_next = 4\<rparr>"

lemma deep_copies_independent_witness:
  "\<exists>v' h'. DeepCopy_VarnishClusterBackend ex_external (Ref (Some 0)) ex_heap = (v', h') \<and>
     view (PtrTo (struct_VarnishClusterBackend ex_external)) v' h' =
       view (PtrTo (struct_VarnishClusterBackend ex_external)) (Ref (Some 0)) ex_heap \<and>
     set (reach (PtrTo (struct_VarnishClusterBackend ex_external)) v' h') \<inter> {0, 1, 2, 3} = {}"
proof -
  let ?t = "struct_VarnishClusterBackend ex_external"
  obtain v' h' where c: "DeepCopy_VarnishClusterBackend ex_external (Ref (Some 0)) ex_heap = (v', h')"
    by (cases "DeepCopy_VarnishClusterBackend ex_external (Ref (Some 0)) ex_heap")
  have x: "lawful_external ex_external" by (simp add: lawful_external_def ex_external_def copies_map)
  have m: "(?t, DeepCopy_VarnishClusterBackend ex_external) \<in> set (generated_copies ex_external)"
    by (simp add: generated_copies_def)
  obtain y where y: "view (PtrTo ?t) (Ref (Some 0)) ex_heap = Some y"
    by (simp add: struct_VarnishClusterBackend_def IntOrString_type_def ex_heap_def)
  have r: "set (reach (PtrTo ?t) (Ref (Some 0)) ex_heap) = {0, 1, 2, 3}"
    by (simp add: struct_VarnishClusterBackend_def IntOrString_type_def ex_heap_def)
  have b: "\<forall>a \<in> set (reach (PtrTo ?t) (Ref (Some 0)) ex_heap). a < h_next ex_heap"
    unfolding r by (simp add: ex_heap_def)
  have e: "reach (PtrTo ?t) (Ref (Some 0)) h' = reach (PtrTo ?t) (Ref (Some 0)) ex_heap"
    by (rule read_below(2) [OF copiesD(4) [OF generated_copies_copy [OF x m] y b c] b])
  note i = deep_copies_independent [OF x m y b c]
  have "view (PtrTo ?t) v' h' = Some y" by (rule i [THEN conjunct1])
  moreover have "set (reach (PtrTo ?t) v' h') \<inter> {0, 1, 2, 3} = {}"
    using i [THEN conjunct2, THEN conjunct2, THEN conjunct1] unfolding e r .
  ultimately show ?thesis using c y by metis
qed

end
