(* ===== verification/Spec2Isabelle.thy ===== *)
theory Spec2Isabelle
  imports StartupExamples ControllerPermissions DeepCopy
begin

text \<open>
  A model of the Varnish operator (Go), and what holds of it.

  \<^bold>\<open>The program.\<close> A \<open>VarnishCluster\<close> resource describes a set of Varnish pods. Two executables serve it. The
  \<^emph>\<open>operator\<close> (\<open>pkg/varnishcluster\<close>, with the types, defaulting and webhooks of \<open>api/v1alpha1\<close>) reconciles
  the Kubernetes objects of a cluster: stateful set, services, secret, config map of the VCL, roles, disruption
  budget, monitoring. The \<^emph>\<open>controller\<close> (\<open>pkg/varnishcontroller\<close>) runs beside varnishd in each pod: it
  writes the VCL files of the config map and the templates rendered from the backends, has varnishd load them
  through \<open>varnishadm\<close>, and reports on its own pod's annotations what is in use. They meet in the labels, names,
  ports and environment of the pod template, in the config map, and in those annotations, which the operator reads
  into the status of the cluster.

  \<^bold>\<open>The state.\<close> A program that returns \<open>(T, error)\<close> is a function \<open>'s \<Rightarrow> 'a outcome \<times> 's\<close> of \<open>Prelude\<close>,
  where \<open>'a outcome\<close> is a result, an error, or a panic. The operator's state \<open>ostate\<close> (\<open>OperatorEnv\<close>) has the
  world its clients act on, the triggerer's timetable, and logs of the requests and events it sends; the controller's
  \<open>cstate\<close> (\<open>ControllerEnv\<close>) has the world, the backends' watch, the gauge of the compilation, and logs of the
  requests, the events and the changes asked of varnishd. The world is a type variable: nothing is known of it but
  what a theorem assumes. The API client, \<open>varnishadm\<close>, the file system, the template engine, the clock and the
  library functions are fields of \<open>operator_env\<close> and \<open>node_env\<close>, arguments of the functions that call them. The two
  executables act on a log of what they ask of the controller runtime (\<open>boot_step\<close>), each of which it may refuse.

  \<^bold>\<open>The theories\<close>, in the order they build on each other.
  \<^item> Shared: \<open>Prelude\<close> (errors, outcomes, sequencing, lemma collections), \<open>GoStrings\<close>, \<open>GoTime\<close>
    (\<open>time.ParseDuration\<close>), \<open>Float64\<close> (double precision), \<open>GoJson\<close> (decoding of JSON,
    with the grammar of the texts it reads), \<open>GoTemplate\<close> (the actions of \<open>text/template\<close>): what the program uses of Go's library.
  \<^item> Data: \<open>ApiTypes\<close>, \<open>VarnishClusterTypes\<close> (\<open>varnishcluster_types.go\<close>), \<open>KubeObjects\<close> (the objects of the API
    server and the comparers of \<open>pkg/varnishcluster/compare\<close>), \<open>NamesLabels\<close> (\<open>pkg/names\<close>, \<open>pkg/labels\<close>).
  \<^item> Deep copies (\<open>zz_generated.deepcopy.go\<close>): \<open>GoHeap\<close> (Go values with references on a heap, and the steps a generated
    copy consists of), \<open>DeepCopy\<close>.
  \<^item> Admission: \<open>Defaults\<close> (\<open>defaults.go\<close>), \<open>Webhook\<close> (\<open>varnishcluster_webhook.go\<close>).
  \<^item> Operator, one theory per file of \<open>pkg/varnishcluster/controller\<close>: \<open>VarnishArgs\<close>, \<open>DelayedRollingUpdate\<close>,
    \<open>Rbac\<close> (five files), \<open>Services\<close>, \<open>VarnishSecret\<close>, \<open>StatefulSet\<close>, \<open>DefaultVcl\<close>, \<open>VclConfigMap\<close>, \<open>Pdb\<close>,
    \<open>Finalizers\<close>, \<open>Monitoring\<close>, and \<open>OperatorReconcile\<close> for the reconcile loop that runs them and the event
    handlers. \<open>Upsert\<close> is the create-or-update pattern most of them follow, \<open>ReconcileTriggerer\<close> the timers,
    \<open>OperatorConfig\<close> the configuration.
  \<^item> Dashboard (\<open>varnishcluster_grafana_dashboard_template.go\<close>): \<open>DashboardPanels\<close> and \<open>DashboardGraphs\<close> are its text,
    one definition per panel, written as the layout of a JSON value whose strings hold the actions of the template;
    \<open>DashboardJson\<close> is how such a layout is printed, executed and read, \<open>DashboardChecks\<close> what is evaluated of
    the panels, \<open>Dashboard\<close> what follows for the dashboard of a cluster.
  \<^item> Around the reconcile: \<open>Permissions\<close> (the rules of the operator's own role, and a server that enforces them),
    \<open>PanicFree\<close>, \<open>Logger\<close> (\<open>pkg/logger\<close>), \<open>Startup\<close> (\<open>cmd/varnish-operator\<close> and the watches of the operator).
  \<^item> Controller: \<open>VclList\<close> and \<open>VarnishAdm\<close> (\<open>varnishadm\<close>), \<open>Predicates\<close> (the filters of the watches), \<open>Endpoints\<close>
    (backends, zones and weights), \<open>VclFiles\<close> (files and templates), \<open>VarnishReconcile\<close> (the reconcile of a pod),
    \<open>ControllerConfig\<close> (the configuration, and the container the operator gives it), \<open>ControllerPermissions\<close> (the
    reconcile under the rules of its role), \<open>ControllerStartup\<close> (\<open>cmd/varnish-controller\<close>, its watches, the gauge).
  \<^item> Instances: \<open>MemCluster\<close> (an API server that keeps its objects in a list), \<open>Examples\<close>, \<open>ControllerExamples\<close>
    and \<open>StartupExamples\<close> (the properties applied to concrete clusters, the second with a varnishd that is simulated
    in \<open>VarnishAdm\<close>).

  \<^bold>\<open>What is shown.\<close>
  \<^item> Scope: whatever the environment answers, a reconcile of the operator writes only the objects of its cluster
    (\<open>reconcile_stays_in_scope\<close>, by the \<open>emits\<close> rules), and one of the controller only its pod's five annotations
    and the configurations it made (\<open>controller_stays_in_scope\<close>, by the \<open>writes_only\<close> rules).
  \<^item> Rights: of all a reconcile asks for, the operator's own rules refuse exactly the deletion of a pod
    (\<open>rules_refuse_only_pod_deletion\<close>), so that the delayed rolling update ends the reconcile instead
    (\<open>rolling_update_forbidden\<close>, by the \<open>stops_at\<close> rules); the rights of the pods are enough for the controller, and
    more than enough (\<open>controller_rights_suffice\<close>).
  \<^item> Panics: on clusters of the schema no reconcile of the operator panics (\<open>reconcile_never_panics\<close>, by the \<open>calm\<close>
    rules); a pod without a start time, which is excluded there, does panic it (\<open>unstarted_pod_panics\<close>).
  \<^item> Effect of a reload: the files, the active configuration and the report on the pod agree after a reload that
    worked (\<open>reload_takes_effect\<close>); a load that failed keeps the old configuration in use, and is not tried again
    (\<open>failed_reload_keeps_vcl\<close>, \<open>failed_reload_not_retried\<close>); the clean-up takes only what the controller made
    (\<open>reload_activates_and_cleans_up\<close>). They rest on a refinement: over any varnishd that keeps its protocol, the
    commands do to the list of loaded configurations what an abstract machine does
    (\<open>administrator_refines_varnishd\<close>, locale \<open>varnish_administrator\<close>), and the directory is a map from names to
    contents (\<open>files_synced\<close>).
  \<^item> Create or update: for each kind of object, what is created, what is written over a found object, when a
    second reconcile sends nothing (locale \<open>upsert\<close> with one interpretation per kind; \<open>service_settles_iff\<close>,
    \<open>role_settles_iff\<close>, \<open>secret_value_never_overwritten\<close>, \<open>vcl_files_untouched\<close>, \<open>sts_update_keeps_selector\<close>).
  \<^item> Timers: the triggerer is a step relation over its locked sections and the callbacks of its timers, with an
    invariant (\<open>timer_exists_means_pending\<close>) and the race in which it fails (\<open>trigger_after_race\<close>); the rolling
    update deletes one outdated pod at a time (\<open>rolling_update_one_outdated_pod\<close>).
  \<^item> Watches: an event on what a reconcile created leads back to the cluster (\<open>created_objects_lead_back\<close>), and
    every request of the controller's watches runs the reconcile of its own cluster
    (\<open>requests_reconcile_own_cluster\<close>) but for the deletion of another one (\<open>foreign_deletion_misdirects\<close>).
  \<^item> Start: the managers run when everything is registered and, of the controller, varnishd answers
    (\<open>operator_starts_complete\<close>, \<open>controller_waits_for_varnish\<close>).
  \<^item> Dashboard: it is JSON for every plain name and title, its queries only count the metrics of its own cluster, and
    those are the metrics that are scraped (\<open>dashboard_is_json\<close>, \<open>dashboard_shows_own_cluster\<close>,
    \<open>monitor_scrapes_dashboard_service\<close>); a quote in the title breaks it (\<open>quoted_title_breaks_dashboard\<close>).
  \<^item> Admission: the webhook accepts exactly the specified objects, defaulting is total and idempotent.
  \<^item> Backends: which pods are found, in which order, what is reported, with which weights, and how far the ratio in
    double precision is from the documented quotient (\<open>backend_ratio_documented\<close>: one part in \<open>2 ^ 51\<close>).
  \<^item> Texts: both listings of \<open>vcl.list\<close> are read back as they are printed.
  \<^item> Composition, below and in \<open>ControllerConfig\<close>: the pods of the operator's template are found by the controller,
    know their cluster, and reach their varnishd.

  \<^bold>\<open>Bounds.\<close> The recursions are structural but for \<open>show_nat\<close>, \<open>ParseDuration\<close>, the execution of a template, the reading
  of a query and the rounding of floats, which terminate by a measure. The JSON decoder has fuel, one unit more than twice the length of its input: each level of
  nesting and each member reads a character, and \<open>json_roundtrip\<close> shows that what is printed is decoded. \<open>Ping\<close> is
  given the attempts its goroutine makes, and \<open>ping_terminates\<close> shows that it returns by the timeout. The bound of the
  ratio asks for fewer than \<open>2 ^ 53\<close> backends, up to which a count is a double.

  \<^bold>\<open>What is identified.\<close> A nil and an empty map or slice; a Go string is its bytes; a time is an unbounded number of
  nanoseconds; a deep copy is the value, for which \<open>deep_copies_independent\<close> is the reason: no write to a copy is seen
  through the original, or the other way round; the stack that \<open>errors.WithStack\<close> adds is dropped. A map is ranged over
  in an order the environment gives, and \<open>sort.Slice\<close> leaves equal thresholds in an order the environment gives.
  Log messages are left out, and so are the differences the comparers print into them.

  \<^bold>\<open>What is not modelled.\<close> The texts of log messages, and the flags of the executables; of \<open>text/template\<close> everything
  but the actions the dashboard uses (the templates of the VCL are the user's, their engine is a parameter); the types of
  other packages, which are opaque where the program only passes them on; and the work queue of
  \<open>controller-runtime\<close>, which serializes the reconciles of one cluster.
\<close>

section \<open>From the stateful set to the backends of the shard director\<close>

text \<open>
  The operator writes the template of the pods (\<open>StatefulSet\<close>), the controller in each of these pods
  lists them by label and looks for the port of varnishd by its name (\<open>Endpoints\<close>).
\<close>

lemma template_ports:
  assumes "desired_statefulset oe vc args = Ret d"
  shows "map ct_Ports (ps_Containers (pt_Spec (sts_Template (sts_Spec d)))) =
    [[named_port VarnishPortName VarnishPort], [named_port VarnishMetricsPortName VarnishPrometheusExporterPort],
     [named_port VarnishControllerMetricsPortName VarnishControllerMetricsPort]]"
  by (rule desired_statefulset_containers [OF assms])
    (simp add: varnish_container_def metrics_container_def controller_container_def)

lemma serving_ports:
  "serving port pod = List.map_filter (find (port_matches port)) (map ct_Ports (pod_Containers pod))"
  by (simp add: serving_def List.map_filter_def filter_map comp_def)

text \<open>The port of varnishd is found by its name in exactly one container of such a pod.\<close>

lemma serving_template:
  assumes "desired_statefulset oe vc args = Ret d"
    and "map ct_Ports (pod_Containers p) = map ct_Ports (ps_Containers (pt_Spec (sts_Template (sts_Spec d))))"
  shows "serving (StrPort VarnishPortName) p = [named_port VarnishPortName VarnishPort]"
  unfolding serving_ports assms(2) template_ports [OF assms(1)]
  by (simp add: List.map_filter_def port_matches_def named_port_def VarnishPort_def VarnishPrometheusExporterPort_def
      VarnishControllerMetricsPort_def VarnishPortName_def VarnishMetricsPortName_def VarnishControllerMetricsPortName_def)

text \<open>
  C3: in a cluster made by the operator the controller finds its own cluster: of the pods with the labels
  of the stateful set's template and its ports, it takes each one that has an address and a node, once,
  in the order of the addresses, whatever the user's labels are; no pod is reported as lacking the port.
\<close>

theorem controller_finds_its_cluster:
  assumes "desired_statefulset oe vc args = Ret d"
    and "reads_cluster e (pt_Labels (sts_Template (sts_Spec d))) pods nodes (cs_world s)"
    and "ps = pods (cc_Namespace (k_config e))"
    and "\<forall>p \<in> set ps. map ct_Ports (pod_Containers p) = map ct_Ports (ps_Containers (pt_Spec (sts_Template (sts_Spec d))))"
  shows "\<exists>infos. getVarnishEndpoints e vc s = (Ret infos, s) \<and> sorted (map pi_IP infos) \<and>
    mset infos = mset (map (pod_entry nodes) (filter (\<lambda>p. pod_PodIP p \<noteq> [] \<and> pod_NodeName p \<noteq> []) ps))"
proof -
  have l: "pt_Labels (sts_Template (sts_Spec d)) = CombinedComponentLabels vc VarnishComponentVarnish"
    using assms(1) by (auto simp: desired_statefulset_def Let_def obind_eq_Ret)
  have sv: "serving (StrPort VarnishPortName) p = [named_port VarnishPortName VarnishPort]" if "p \<in> set ps" for p
    using serving_template [OF assms(1)] assms(4) that by simp
  have "concat (map (pod_entries nodes (StrPort VarnishPortName) False) ps) =
      map (pod_entry nodes) (filter (\<lambda>p. pod_PodIP p \<noteq> [] \<and> pod_NodeName p \<noteq> []) ps)"
    using sv by (induction ps) (auto simp: pod_entries_def scanned_def)
  moreover have "ignored_warnings vc (StrPort VarnishPortName) False ps = []"
    using sv by (auto simp: ignored_warnings_def filter_empty_conv)
  ultimately show ?thesis
    using getPodsInfo_result [OF assms(2) refl, where nss = "[cc_Namespace (k_config e)]" and vc = vc and port = "StrPort VarnishPortName" and onlyReady = False]
    by (simp add: getVarnishEndpoints_def bnd_apply l assms(3) [symmetric])
qed

definition ex_cache_pod :: "string \<Rightarrow> string \<Rightarrow> statefulset \<Rightarrow> pod" where
  "ex_cache_pod name ip d = (ex_pod name ip ''n1'')\<lparr>pod_Containers := ps_Containers (pt_Spec (sts_Template (sts_Spec d)))\<rparr>"

definition ex_cache_env :: "statefulset \<Rightarrow> node_world node_env" where
  "ex_cache_env d = ex_kenv\<lparr>k_ListPods :=
     (\<lambda>ns selector w. (Ret [ex_cache_pod ''cache-1'' ''10.0.0.8'' d, ex_cache_pod ''cache-0'' ''10.0.0.7'' d], w))\<rparr>"

lemma controller_finds_its_cluster_witness:
  "\<exists>d infos. desired_statefulset mem_env ex_vc [''-F''] = Ret d \<and>
     getVarnishEndpoints (ex_cache_env d) ex_vc (ex_cstate ([], [''boot''], ''boot'')) = (Ret infos, ex_cstate ([], [''boot''], ''boot'')) \<and>
     map pi_IP infos = [''10.0.0.7'', ''10.0.0.8'']"
proof -
  obtain d where d: "desired_statefulset mem_env ex_vc [''-F''] = Ret d" using ex_desired by blast
  let ?ps = "[ex_cache_pod ''cache-1'' ''10.0.0.8'' d, ex_cache_pod ''cache-0'' ''10.0.0.7'' d]"
  have r: "reads_cluster (ex_cache_env d) (pt_Labels (sts_Template (sts_Spec d))) (\<lambda>_. ?ps) zone_of (cs_world (ex_cstate ([], [''boot''], ''boot'')))"
    by (simp add: reads_cluster_def ex_cache_env_def ex_kenv_def ex_cache_pod_def new_meta_def)
  obtain infos where i: "getVarnishEndpoints (ex_cache_env d) ex_vc (ex_cstate ([], [''boot''], ''boot'')) = (Ret infos, ex_cstate ([], [''boot''], ''boot''))"
    "sorted (map pi_IP infos)"
    "mset infos = mset (map (pod_entry zone_of) (filter (\<lambda>p. pod_PodIP p \<noteq> [] \<and> pod_NodeName p \<noteq> []) ?ps))"
    using controller_finds_its_cluster [OF d r refl] by (auto simp: ex_cache_pod_def)
  have "mset (map pi_IP infos) = image_mset pi_IP (mset infos)" by simp
  also have "\<dots> = mset [''10.0.0.7'', ''10.0.0.8'']"
    unfolding i(3) by (simp add: ex_cache_pod_def pod_entry_def)
  finally have "map pi_IP infos = sort [''10.0.0.7'', ''10.0.0.8'']"
    using i(2) by (intro properties_for_sort [symmetric]) auto
  moreover have "sort [''10.0.0.7'', ''10.0.0.8''] = [''10.0.0.7'', ''10.0.0.8'']" by code_simp
  ultimately show ?thesis using d i(1) by auto
qed

end
